(* ===== verification/Prelude.thy ===== *)
theory Prelude
  imports Main "HOL-Library.Multiset" "HOL-Library.List_Lexorder" "HOL-Library.Char_ord"
begin

text \<open>
  Shared vocabulary of the development: the exception result of a C++ call, the
  state-and-exception monad in which code with side effects is written, decimal text, and
  the model of \<open>std::sort\<close> with the contract its comparison function has to meet.
\<close>

named_theorems result_simps \<open>equations of the exception results\<close>
named_theorems run_simps \<open>equations of the state-and-exception monad\<close>
named_theorems run_intros \<open>Hoare rules of the state-and-exception monad\<close>

section \<open>Results of calls that may throw\<close>

text \<open>
  A call that may throw returns \<open>Inl e\<close> for the exception \<open>e\<close> and \<open>Inr v\<close> for its value.
\<close>

definition bindE :: "'e + 'a \<Rightarrow> ('a \<Rightarrow> 'e + 'b) \<Rightarrow> 'e + 'b" where
  "bindE m f = (case m of Inl e \<Rightarrow> Inl e | Inr x \<Rightarrow> f x)"

definition requireE :: "bool \<Rightarrow> 'e \<Rightarrow> 'e + unit" where
  "requireE b e = (if b then Inr () else Inl e)"

fun mapE :: "('a \<Rightarrow> 'e + 'b) \<Rightarrow> 'a list \<Rightarrow> 'e + 'b list" where
  "mapE f [] = Inr []"
| "mapE f (x # xs) = bindE (f x) (\<lambda>y. bindE (mapE f xs) (\<lambda>ys. Inr (y # ys)))"

lemma bindE_Inl [simp, result_simps]: "bindE (Inl e) f = Inl e"
  by (simp add: bindE_def)

lemma bindE_Inr [simp, result_simps]: "bindE (Inr x) f = f x"
  by (simp add: bindE_def)

lemma bindE_eq_Inr_iff [result_simps]:
  "bindE m f = Inr y \<longleftrightarrow> (\<exists>x. m = Inr x \<and> f x = Inr y)"
  by (cases m) auto

lemma bindE_eq_Inl_iff [result_simps]:
  "bindE m f = Inl e \<longleftrightarrow> m = Inl e \<or> (\<exists>x. m = Inr x \<and> f x = Inl e)"
  by (cases m) auto

lemma requireE_eq_Inr_iff [simp, result_simps]: "requireE b e = Inr u \<longleftrightarrow> b"
  by (simp add: requireE_def)

lemma requireE_eq_Inl_iff [simp, result_simps]: "requireE b e = Inl e' \<longleftrightarrow> \<not> b \<and> e' = e"
  by (auto simp: requireE_def)

lemma requireE_True [simp]: "requireE True e = Inr ()"
  by (simp add: requireE_def)

lemma requireE_False [simp]: "requireE False e = Inl e"
  by (simp add: requireE_def)

lemma mapE_eq_Inr_length: "mapE f xs = Inr ys \<Longrightarrow> length ys = length xs"
  by (induction xs arbitrary: ys) (auto simp: result_simps)

lemma mapE_eq_Inr_nth:
  "mapE f xs = Inr ys \<Longrightarrow> i < length xs \<Longrightarrow> f (xs ! i) = Inr (ys ! i)"
  by (induction xs arbitrary: ys i) (auto simp: result_simps nth_Cons split: nat.splits)

lemma mapE_check_iff: "(\<exists>us. mapE f xs = Inr us) \<longleftrightarrow> (\<forall>x \<in> set xs. \<exists>u. f x = Inr u)"
  by (induction xs) (auto simp: bindE_eq_Inr_iff)

lemma find_Some_iff_member: "find P xs = Some x \<Longrightarrow> x \<in> set xs \<and> P x"
  by (induction xs) (auto split: if_splits)

section \<open>Code with side effects\<close>

text \<open>
  A step over a state \<open>'s\<close> returns its result or the exception it throws together with the
  state it leaves behind.
\<close>

type_synonym ('s, 'e, 'a) run = "'s \<Rightarrow> ('e + 'a) \<times> 's"

definition returnS :: "'a \<Rightarrow> ('s, 'e, 'a) run" where
  "returnS x s = (Inr x, s)"

definition throwS :: "'e \<Rightarrow> ('s, 'e, 'a) run" where
  "throwS e s = (Inl e, s)"

definition bindS :: "('s, 'e, 'a) run \<Rightarrow> ('a \<Rightarrow> ('s, 'e, 'b) run) \<Rightarrow> ('s, 'e, 'b) run" where
  "bindS m f s = (case m s of (Inl e, s') \<Rightarrow> (Inl e, s') | (Inr x, s') \<Rightarrow> f x s')"

definition catchS :: "('s, 'e, 'a) run \<Rightarrow> ('e \<Rightarrow> ('s, 'e, 'a) run) \<Rightarrow> ('s, 'e, 'a) run" where
  "catchS m h s = (case m s of (Inl e, s') \<Rightarrow> h e s' | (Inr x, s') \<Rightarrow> (Inr x, s'))"

definition liftE :: "'e + 'a \<Rightarrow> ('s, 'e, 'a) run" where
  "liftE r s = (r, s)"

definition modifyS :: "('s \<Rightarrow> 's) \<Rightarrow> ('s, 'e, unit) run" where
  "modifyS f s = (Inr (), f s)"

definition getsS :: "('s \<Rightarrow> 'a) \<Rightarrow> ('s, 'e, 'a) run" where
  "getsS f s = (Inr (f s), s)"

fun iterS :: "('a \<Rightarrow> ('s, 'e, unit) run) \<Rightarrow> 'a list \<Rightarrow> ('s, 'e, unit) run" where
  "iterS f [] = returnS ()"
| "iterS f (x # xs) = bindS (f x) (\<lambda>_. iterS f xs)"

lemmas run_defs = returnS_def throwS_def bindS_def catchS_def liftE_def modifyS_def getsS_def

lemma returnS_apply [run_simps]: "returnS x s = (Inr x, s)"
  by (simp add: returnS_def)

lemma throwS_apply [run_simps]: "throwS e s = (Inl e, s)"
  by (simp add: throwS_def)

lemma liftE_apply [run_simps]: "liftE r s = (r, s)"
  by (simp add: liftE_def)

lemma modifyS_apply [run_simps]: "modifyS f s = (Inr (), f s)"
  by (simp add: modifyS_def)

lemma getsS_apply [run_simps]: "getsS f s = (Inr (f s), s)"
  by (simp add: getsS_def)

lemma bindS_eq_Inr_iff [run_simps]:
  "bindS m f s = (Inr y, t) \<longleftrightarrow> (\<exists>x s'. m s = (Inr x, s') \<and> f x s' = (Inr y, t))"
  by (cases "m s") (auto simp: bindS_def split: sum.splits)

lemma bindS_eq_Inl_iff [run_simps]:
  "bindS m f s = (Inl e, t) \<longleftrightarrow>
     m s = (Inl e, t) \<or> (\<exists>x s'. m s = (Inr x, s') \<and> f x s' = (Inl e, t))"
  by (cases "m s") (auto simp: bindS_def split: sum.splits)

lemma bindS_return_left [simp]: "bindS (returnS x) f = f x"
  by (rule ext) (simp add: bindS_def run_simps)

lemma bindS_throw_left [simp]: "bindS (throwS e) f = throwS e"
  by (rule ext) (simp add: bindS_def run_simps)

lemma bindS_assoc: "bindS (bindS m f) g = bindS m (\<lambda>x. bindS (f x) g)"
  by (rule ext) (auto simp: bindS_def split: prod.splits sum.splits)

lemma iterS_append: "iterS f (xs @ ys) = bindS (iterS f xs) (\<lambda>_. iterS f ys)"
  by (induction xs) (simp_all add: bindS_assoc)

text \<open>
  Partial correctness of such a step: from a state with \<open>P\<close>, a normal return leaves \<open>Q\<close> and
  an exception leaves \<open>E\<close>. Every step returns or throws, so this is also total correctness.
\<close>

definition hoareS ::
  "('s \<Rightarrow> bool) \<Rightarrow> ('s, 'e, 'a) run \<Rightarrow> ('a \<Rightarrow> 's \<Rightarrow> bool) \<Rightarrow> ('e \<Rightarrow> 's \<Rightarrow> bool) \<Rightarrow> bool" where
  "hoareS P m Q E \<longleftrightarrow> (\<forall>s. P s \<longrightarrow> (case m s of (Inl e, s') \<Rightarrow> E e s' | (Inr x, s') \<Rightarrow> Q x s'))"

lemma hoareS_I:
  assumes "\<And>s x t. P s \<Longrightarrow> m s = (Inr x, t) \<Longrightarrow> Q x t"
    and "\<And>s e t. P s \<Longrightarrow> m s = (Inl e, t) \<Longrightarrow> E e t"
  shows "hoareS P m Q E"
  unfolding hoareS_def by (auto split: prod.splits sum.splits intro: assms)

lemma hoareS_Inr: "hoareS P m Q E \<Longrightarrow> P s \<Longrightarrow> m s = (Inr x, t) \<Longrightarrow> Q x t"
  by (force simp: hoareS_def)

lemma hoareS_Inl: "hoareS P m Q E \<Longrightarrow> P s \<Longrightarrow> m s = (Inl e, t) \<Longrightarrow> E e t"
  by (force simp: hoareS_def)

lemma hoareS_return [run_intros]: "hoareS (Q x) (returnS x) Q E"
  by (simp add: hoareS_def run_simps)

lemma hoareS_throw [run_intros]: "hoareS (E e) (throwS e) Q E"
  by (simp add: hoareS_def run_simps)

lemma hoareS_modify [run_intros]: "hoareS (\<lambda>s. Q () (f s)) (modifyS f) Q E"
  by (simp add: hoareS_def run_simps)

lemma hoareS_gets [run_intros]: "hoareS (\<lambda>s. Q (f s) s) (getsS f) Q E"
  by (simp add: hoareS_def run_simps)

lemma hoareS_bind:
  assumes "hoareS P m R E" and "\<And>x. hoareS (R x) (f x) Q E"
  shows "hoareS P (bindS m f) Q E"
  using assms unfolding hoareS_def bindS_def
  by (fastforce split: prod.splits sum.splits)

lemma hoareS_catch:
  assumes "hoareS P m Q R" and "\<And>e. hoareS (R e) (h e) Q E"
  shows "hoareS P (catchS m h) Q E"
  using assms unfolding hoareS_def catchS_def
  by (fastforce split: prod.splits sum.splits)

lemma hoareS_weaken:
  assumes "hoareS P' m Q' E'" and "\<And>s. P s \<Longrightarrow> P' s"
    and "\<And>x s. Q' x s \<Longrightarrow> Q x s" and "\<And>e s. E' e s \<Longrightarrow> E e s"
  shows "hoareS P m Q E"
  using assms unfolding hoareS_def by (fastforce split: prod.splits sum.splits)

text \<open>The weakest precondition of a step, computed along its structure by simplification.\<close>

definition wpS :: "('s, 'e, 'a) run \<Rightarrow> ('a \<Rightarrow> 's \<Rightarrow> bool) \<Rightarrow> ('e \<Rightarrow> 's \<Rightarrow> bool) \<Rightarrow> 's \<Rightarrow> bool" where
  "wpS m Q E s \<longleftrightarrow> (case m s of (Inr x, t) \<Rightarrow> Q x t | (Inl e, t) \<Rightarrow> E e t)"

lemma wpS_return [simp]: "wpS (returnS x) Q E s \<longleftrightarrow> Q x s"
  by (auto simp: wpS_def run_simps split: prod.split sum.split)

lemma wpS_throw [simp]: "wpS (throwS e) Q E s \<longleftrightarrow> E e s"
  by (auto simp: wpS_def run_simps split: prod.split sum.split)

lemma wpS_modify [simp]: "wpS (modifyS f) Q E s \<longleftrightarrow> Q () (f s)"
  by (auto simp: wpS_def run_simps split: prod.split sum.split)

lemma wpS_gets [simp]: "wpS (getsS g) Q E s \<longleftrightarrow> Q (g s) s"
  by (auto simp: wpS_def run_simps split: prod.split sum.split)

lemma wpS_bind [simp]: "wpS (bindS m f) Q E s \<longleftrightarrow> wpS m (\<lambda>x. wpS (f x) Q E) E s"
  by (auto simp: wpS_def bindS_def split: prod.split sum.split)

lemma wpS_catch [simp]: "wpS (catchS m h) Q E s \<longleftrightarrow> wpS m Q (\<lambda>e. wpS (h e) Q E) s"
  by (auto simp: wpS_def catchS_def split: prod.split sum.split)

lemma wpS_mono: "wpS m Q E s \<Longrightarrow> (\<And>x t. Q x t \<Longrightarrow> Q' x t) \<Longrightarrow> (\<And>e t. E e t \<Longrightarrow> E' e t) \<Longrightarrow> wpS m Q' E' s"
  by (auto simp: wpS_def split: prod.splits sum.splits)

section \<open>Decimal text\<close>

definition digit_char :: "nat \<Rightarrow> char" where
  "digit_char d = char_of (48 + d)"

definition is_digit :: "char \<Rightarrow> bool" where
  "is_digit c \<longleftrightarrow> 48 \<le> (of_char c :: nat) \<and> (of_char c :: nat) \<le> 57"

definition digit_val :: "char \<Rightarrow> nat" where
  "digit_val c = of_char c - 48"

fun nat_text :: "nat \<Rightarrow> string" where
  "nat_text n = (if n < 10 then [digit_char n] else nat_text (n div 10) @ [digit_char (n mod 10)])"

definition int_text :: "int \<Rightarrow> string" where
  "int_text i = (if i < 0 then CHR ''-'' # nat_text (nat (- i)) else nat_text (nat i))"

definition setw_fill0 :: "nat \<Rightarrow> string \<Rightarrow> string" where
  \<comment> \<open>\<open>std::setw (w)\<close> with \<open>std::setfill ('0')\<close> and the default right adjustment\<close>
  "setw_fill0 w s = replicate (w - length s) CHR ''0'' @ s"

declare nat_text.simps [simp del]

lemma of_char_digit_char: "d < 10 \<Longrightarrow> (of_char (digit_char d) :: nat) = 48 + d"
  by (simp add: digit_char_def)

lemma is_digit_digit_char [simp]: "d < 10 \<Longrightarrow> is_digit (digit_char d)"
  by (simp add: is_digit_def of_char_digit_char)

lemma digit_val_digit_char [simp]: "d < 10 \<Longrightarrow> digit_val (digit_char d) = d"
  by (simp add: digit_val_def of_char_digit_char)

lemma nat_text_digits: "list_all is_digit (nat_text n)"
proof (induction n rule: nat_text.induct)
  case (1 n)
  then show ?case by (cases "n < 10") (simp_all add: nat_text.simps [of n])
qed

section \<open>Sorting with a comparison function\<close>

text \<open>
  \<open>std::sort\<close> as a stable insertion sort. The C++ function leaves the order of elements that
  compare equal open; lemma \<open>std_sort_unique\<close> below shows that the result is the only sorted
  arrangement as soon as no two different elements compare equal.
\<close>

fun insert_by :: "('a \<Rightarrow> 'a \<Rightarrow> bool) \<Rightarrow> 'a \<Rightarrow> 'a list \<Rightarrow> 'a list" where
  "insert_by lt x [] = [x]"
| "insert_by lt x (y # ys) = (if lt y x then y # insert_by lt x ys else x # y # ys)"

fun std_sort :: "('a \<Rightarrow> 'a \<Rightarrow> bool) \<Rightarrow> 'a list \<Rightarrow> 'a list" where
  "std_sort lt [] = []"
| "std_sort lt (x # xs) = insert_by lt x (std_sort lt xs)"

lemma mset_insert_by [simp]: "mset (insert_by lt x xs) = add_mset x (mset xs)"
  by (induction xs) auto

lemma mset_std_sort [simp]: "mset (std_sort lt xs) = mset xs"
  by (induction xs) auto

lemma set_insert_by [simp]: "set (insert_by lt x xs) = insert x (set xs)"
  by (induction xs) auto

lemma set_std_sort [simp]: "set (std_sort lt xs) = set xs"
  by (induction xs) auto

lemma length_std_sort [simp]: "length (std_sort lt xs) = length xs"
  by (metis mset_std_sort size_mset)

lemma distinct_std_sort [simp]: "distinct (std_sort lt xs) = distinct xs"
  by (metis mset_std_sort mset_eq_imp_distinct_iff)

text \<open>
  The requirement \<open>std::sort\<close> puts on its comparison function, a strict weak order, in the
  form the proofs use: asymmetry and transitivity of the negation.
\<close>

locale strict_weak_order =
  fixes lt :: "'a \<Rightarrow> 'a \<Rightarrow> bool"
  assumes less_asym: "lt x y \<Longrightarrow> \<not> lt y x"
    and not_less_trans: "\<not> lt x y \<Longrightarrow> \<not> lt y z \<Longrightarrow> \<not> lt x z"
begin

lemma less_irrefl: "\<not> lt x x"
  using less_asym by blast

lemma less_trans: "lt x y \<Longrightarrow> lt y z \<Longrightarrow> lt x z"
  using less_asym not_less_trans by blast

lemma sorted_insert_by:
  "sorted_wrt (\<lambda>x y. \<not> lt y x) xs \<Longrightarrow> sorted_wrt (\<lambda>x y. \<not> lt y x) (insert_by lt x xs)"
proof (induction xs)
  case Nil
  then show ?case by simp
next
  case (Cons y ys)
  then show ?case
    by (auto dest: less_asym) (use not_less_trans in blast)
qed

lemma sorted_std_sort: "sorted_wrt (\<lambda>x y. \<not> lt y x) (std_sort lt xs)"
  by (induction xs) (auto intro: sorted_insert_by)

lemma std_sort_take_before_drop:
  assumes "x \<in> set (take n (std_sort lt xs))" and "y \<in> set (drop n (std_sort lt xs))"
  shows "\<not> lt y x"
  using sorted_std_sort [of xs] assms
  by (metis append_take_drop_id sorted_wrt_append)

lemma sorted_wrt_unique:
  assumes "sorted_wrt (\<lambda>x y. \<not> lt y x) xs" and "sorted_wrt (\<lambda>x y. \<not> lt y x) ys"
    and "mset xs = mset ys"
    and "\<And>x y. x \<in> set xs \<Longrightarrow> y \<in> set xs \<Longrightarrow> \<not> lt x y \<Longrightarrow> \<not> lt y x \<Longrightarrow> x = y"
  shows "xs = ys"
  using assms
proof (induction xs arbitrary: ys)
  case Nil
  then show ?case by simp
next
  case (Cons x xs)
  then obtain y zs where ys: "ys = y # zs"
    by (cases ys) auto
  have sets: "set (x # xs) = set ys"
    using Cons.prems(3) by (metis set_mset_mset)
  have "x = y"
  proof (rule Cons.prems(4))
    show "x \<in> set (x # xs)" by simp
    show "y \<in> set (x # xs)" using sets ys by simp
    have "x = y \<or> x \<in> set zs"
      using sets ys by auto
    then show "\<not> lt x y" using Cons.prems(2) ys less_irrefl by auto
    have "y = x \<or> y \<in> set xs"
      using sets ys by auto
    then show "\<not> lt y x" using Cons.prems(1) less_irrefl by auto
  qed
  moreover have "xs = zs"
    using Cons.prems ys \<open>x = y\<close> by (intro Cons.IH) auto
  ultimately show ?case by (simp add: ys)
qed

lemma std_sort_unique:
  assumes "sorted_wrt (\<lambda>x y. \<not> lt y x) ys" and "mset ys = mset xs"
    and "\<And>x y. x \<in> set xs \<Longrightarrow> y \<in> set xs \<Longrightarrow> \<not> lt x y \<Longrightarrow> \<not> lt y x \<Longrightarrow> x = y"
  shows "ys = std_sort lt xs"
proof -
  have "set ys = set xs"
    using assms(2) by (metis set_mset_mset)
  then show ?thesis
    using assms by (intro sorted_wrt_unique sorted_std_sort) auto
qed

end

section \<open>Order of texts\<close>

fun string_less :: "string \<Rightarrow> string \<Rightarrow> bool" where
  \<comment> \<open>\<open>operator<\<close> of \<open>std::string\<close>: characters are compared as unsigned bytes\<close>
  "string_less [] [] = False"
| "string_less [] (b # bs) = True"
| "string_less (a # as) [] = False"
| "string_less (a # as) (b # bs) =
     (let x = of_char a :: nat; y = of_char b in x < y \<or> x = y \<and> string_less as bs)"

interpretation text_order: strict_weak_order string_less
proof
  show "string_less x y \<Longrightarrow> \<not> string_less y x" for x y
    by (induction x y rule: string_less.induct) (auto simp: Let_def)
  show "\<not> string_less x y \<Longrightarrow> \<not> string_less y z \<Longrightarrow> \<not> string_less x z" for x y z
  proof (induction x y arbitrary: z rule: string_less.induct)
    case (4 a as b bs)
    then show ?case by (cases z) (auto simp: Let_def)
  qed (case_tac z; simp)+
qed

end
