(* ===== verification/Core.thy ===== *)
theory Core
  imports Prelude
begin

text \<open>
  The leaf library \<open>src/src/core\<close>: error codes and their wire names, the exception
  hierarchy, the validated identifier classes and the cancellation token.
\<close>

section \<open>Error codes (core/ErrorCode)\<close>

datatype ErrorCode =
    BackupFailed
  | BackupCancelled
  | RunnerActionFailed
  | RunnerCancelled
  | RunnerProfileBusy
  | RunnerTargetBusy
  | RunnerStaleRun
  | RunnerRunMismatch
  | TransferFailed
  | TransferProducerFailed
  | TransferConsumerFailed
  | TransferProducerConsumerFailed
  | HookBeforeSnapshotFailed
  | HookBeforeSnapshotTimeout
  | HookAfterSnapshotFailed
  | HookAfterSnapshotTimeout
  | TargetBtrfsUuidMismatch
  | RepositoryRecoveryRequired
  | ConfigurationSaveFailed
  | ConfigurationRollbackIncomplete
  | CredentialMutationRollbackIncomplete
  | ConfigurationChanged

fun error_code_name :: "ErrorCode \<Rightarrow> string" where
  "error_code_name BackupFailed = ''backup.failed''"
| "error_code_name BackupCancelled = ''backup.cancelled''"
| "error_code_name RunnerActionFailed = ''runner.action_failed''"
| "error_code_name RunnerCancelled = ''runner.cancelled''"
| "error_code_name RunnerProfileBusy = ''runner.profile_busy''"
| "error_code_name RunnerTargetBusy = ''runner.target_busy''"
| "error_code_name RunnerStaleRun = ''runner.stale_run''"
| "error_code_name RunnerRunMismatch = ''runner.run_mismatch''"
| "error_code_name TransferFailed = ''transfer.failed''"
| "error_code_name TransferProducerFailed = ''transfer.producer_failed''"
| "error_code_name TransferConsumerFailed = ''transfer.consumer_failed''"
| "error_code_name TransferProducerConsumerFailed = ''transfer.producer_consumer_failed''"
| "error_code_name HookBeforeSnapshotFailed = ''hook.before_snapshot_failed''"
| "error_code_name HookBeforeSnapshotTimeout = ''hook.before_snapshot_timeout''"
| "error_code_name HookAfterSnapshotFailed = ''hook.after_snapshot_failed''"
| "error_code_name HookAfterSnapshotTimeout = ''hook.after_snapshot_timeout''"
| "error_code_name TargetBtrfsUuidMismatch = ''target.btrfs_uuid_mismatch''"
| "error_code_name RepositoryRecoveryRequired = ''repository.recovery_required''"
| "error_code_name ConfigurationSaveFailed = ''configuration.save_failed''"
| "error_code_name ConfigurationRollbackIncomplete = ''configuration.rollback_incomplete''"
| "error_code_name CredentialMutationRollbackIncomplete =
     ''credential.mutation_rollback_incomplete''"
| "error_code_name ConfigurationChanged = ''configuration.changed''"

definition error_code_from_name :: "string \<Rightarrow> ErrorCode option" where
  "error_code_from_name name =
     (if name = ''backup.failed'' then Some BackupFailed
      else if name = ''backup.cancelled'' then Some BackupCancelled
      else if name = ''runner.action_failed'' then Some RunnerActionFailed
      else if name = ''runner.cancelled'' then Some RunnerCancelled
      else if name = ''runner.profile_busy'' then Some RunnerProfileBusy
      else if name = ''runner.target_busy'' then Some RunnerTargetBusy
      else if name = ''runner.stale_run'' then Some RunnerStaleRun
      else if name = ''runner.run_mismatch'' then Some RunnerRunMismatch
      else if name = ''transfer.failed'' then Some TransferFailed
      else if name = ''transfer.producer_failed'' then Some TransferProducerFailed
      else if name = ''transfer.consumer_failed'' then Some TransferConsumerFailed
      else if name = ''transfer.producer_consumer_failed''
        then Some TransferProducerConsumerFailed
      else if name = ''hook.before_snapshot_failed'' then Some HookBeforeSnapshotFailed
      else if name = ''hook.before_snapshot_timeout'' then Some HookBeforeSnapshotTimeout
      else if name = ''hook.after_snapshot_failed'' then Some HookAfterSnapshotFailed
      else if name = ''hook.after_snapshot_timeout'' then Some HookAfterSnapshotTimeout
      else if name = ''target.btrfs_uuid_mismatch'' then Some TargetBtrfsUuidMismatch
      else if name = ''repository.recovery_required'' then Some RepositoryRecoveryRequired
      else if name = ''configuration.save_failed'' then Some ConfigurationSaveFailed
      else if name = ''configuration.rollback_incomplete''
        then Some ConfigurationRollbackIncomplete
      else if name = ''credential.mutation_rollback_incomplete''
        then Some CredentialMutationRollbackIncomplete
      else if name = ''configuration.changed'' then Some ConfigurationChanged
      else None)"

section \<open>Exceptions (core/Errors)\<close>

text \<open>
  The exception classes the code throws and catches. \<open>StdException\<close> stands for every other
  class derived from \<open>std::exception\<close> (\<open>std::logic_error\<close>, filesystem errors), and
  \<open>UnknownException\<close> for a thrown value that is not one, which only \<open>catch (...)\<close> sees.
\<close>

datatype exn =
    BtrfsBackupError string
  | ConfigurationError string
  | ValidationError string
  | SystemOperationError string
  | CodedValidationError ErrorCode string
  | CodedOperationError ErrorCode string
  | RecoveryRequiredError ErrorCode string
  | OperationCancelledError string
  | StdException string
  | UnknownException

type_synonym 'a result = "exn + 'a"

fun what :: "exn \<Rightarrow> string" where
  "what (BtrfsBackupError m) = m"
| "what (ConfigurationError m) = m"
| "what (ValidationError m) = m"
| "what (SystemOperationError m) = m"
| "what (CodedValidationError c m) = m"
| "what (CodedOperationError c m) = m"
| "what (RecoveryRequiredError c m) = m"
| "what (OperationCancelledError m) = m"
| "what (StdException m) = m"
| "what UnknownException = []"

text \<open>\<open>dynamic_cast\<close> to \<open>CodedError\<close>, and the class tests of the catch clauses.\<close>

fun coded_error :: "exn \<Rightarrow> ErrorCode option" where
  "coded_error (CodedValidationError c m) = Some c"
| "coded_error (CodedOperationError c m) = Some c"
| "coded_error (RecoveryRequiredError c m) = Some c"
| "coded_error e = None"

fun is_OperationCancelledError :: "exn \<Rightarrow> bool" where
  "is_OperationCancelledError (OperationCancelledError m) = True"
| "is_OperationCancelledError e = False"

fun is_BtrfsBackupError :: "exn \<Rightarrow> bool" where
  "is_BtrfsBackupError (StdException m) = False"
| "is_BtrfsBackupError UnknownException = False"
| "is_BtrfsBackupError e = True"

fun is_ValidationError :: "exn \<Rightarrow> bool" where
  "is_ValidationError (ValidationError m) = True"
| "is_ValidationError (CodedValidationError c m) = True"
| "is_ValidationError e = False"

fun is_std_exception :: "exn \<Rightarrow> bool" where
  "is_std_exception UnknownException = False"
| "is_std_exception e = True"

section \<open>Identifiers (core/Identifiers)\<close>

text \<open>
  The identifier classes hold a string their constructor has checked; the model keeps the
  string and gives the constructors as functions that may throw. The two regular
  expressions are \<open>[A-Za-z0-9][A-Za-z0-9._-]{0,63}\<close> and \<open>[A-Za-z0-9][A-Za-z0-9._:-]*\<close>.
\<close>

type_synonym ProfileId = string
type_synonym RunId = string
type_synonym OperationId = string
type_synonym BrowseSessionId = string
type_synonym SourceId = string

definition is_ascii_alnum :: "char \<Rightarrow> bool" where
  "is_ascii_alnum c \<longleftrightarrow>
     is_digit c \<or> (65 \<le> (of_char c :: nat) \<and> (of_char c :: nat) \<le> 90)
                \<or> (97 \<le> (of_char c :: nat) \<and> (of_char c :: nat) \<le> 122)"

definition identifier_char :: "char \<Rightarrow> bool" where
  "identifier_char c \<longleftrightarrow> is_ascii_alnum c \<or> c \<in> {CHR ''.'', CHR ''_'', CHR ''-''}"

fun identifier_re :: "string \<Rightarrow> bool" where
  "identifier_re [] = False"
| "identifier_re (c # cs) = (is_ascii_alnum c \<and> list_all identifier_char cs \<and> length cs \<le> 63)"

fun run_id_re :: "string \<Rightarrow> bool" where
  "run_id_re [] = False"
| "run_id_re (c # cs) =
     (is_ascii_alnum c \<and> list_all (\<lambda>x. identifier_char x \<or> x = CHR '':'') cs)"

definition validate_identifier :: "string \<Rightarrow> string \<Rightarrow> unit result" where
  "validate_identifier v field_name =
     (if \<not> identifier_re v
      then Inl (ValidationError (field_name @ '' contains unsupported characters''))
      else Inr ())"

definition validate_profile_id :: "string \<Rightarrow> unit result" where
  "validate_profile_id profile_id =
     (case validate_identifier profile_id ''profileId'' of
        Inl e \<Rightarrow> (if is_ValidationError e
                  then Inl (ValidationError (''invalid profile id: '' @ profile_id))
                  else Inl e)
      | Inr u \<Rightarrow> Inr u)"

definition validate_run_id :: "string \<Rightarrow> unit result" where
  "validate_run_id run_id =
     (if \<not> run_id_re run_id then Inl (ValidationError (''invalid run id: '' @ run_id))
      else Inr ())"

definition validate_operation_id :: "string \<Rightarrow> unit result" where
  "validate_operation_id operation_id = validate_identifier operation_id ''operationId''"

definition validate_browse_session_id :: "string \<Rightarrow> unit result" where
  "validate_browse_session_id browse_session_id =
     validate_identifier browse_session_id ''browseSessionId''"

definition make_ProfileId :: "string \<Rightarrow> ProfileId result" where
  "make_ProfileId v = bindE (validate_profile_id v) (\<lambda>_. Inr v)"

definition make_RunId :: "string \<Rightarrow> RunId result" where
  "make_RunId v = bindE (validate_run_id v) (\<lambda>_. Inr v)"

definition make_OperationId :: "string \<Rightarrow> OperationId result" where
  "make_OperationId v = bindE (validate_operation_id v) (\<lambda>_. Inr v)"

definition make_BrowseSessionId :: "string \<Rightarrow> BrowseSessionId result" where
  "make_BrowseSessionId v = bindE (validate_browse_session_id v) (\<lambda>_. Inr v)"

definition make_SourceId :: "string \<Rightarrow> SourceId result" where
  "make_SourceId v = bindE (validate_identifier v ''sourceId'') (\<lambda>_. Inr v)"

section \<open>Cancellation (core/Cancellation)\<close>

record CancellationToken =
  stop_requested :: bool

definition new_CancellationToken :: CancellationToken where
  "new_CancellationToken = \<lparr>stop_requested = False\<rparr>"

definition request_cancel :: "CancellationToken \<Rightarrow> CancellationToken" where
  "request_cancel token = token\<lparr>stop_requested := True\<rparr>"

definition cancellation_requested :: "CancellationToken \<Rightarrow> bool" where
  "cancellation_requested token = stop_requested token"

section \<open>Lemmas\<close>

lemma error_code_from_name_name: "error_code_from_name (error_code_name c) = Some c"
  by (cases c) (simp_all add: error_code_from_name_def)

lemma error_code_name_inject: "error_code_name c = error_code_name d \<Longrightarrow> c = d"
  by (metis error_code_from_name_name option.inject)

lemma error_code_from_name_sound: "error_code_from_name n = Some c \<Longrightarrow> error_code_name c = n"
  by (auto simp: error_code_from_name_def split: if_splits)

lemma is_ascii_alnum_not_slash: "is_ascii_alnum c \<Longrightarrow> c \<noteq> CHR ''/''"
  by (auto simp: is_ascii_alnum_def is_digit_def)

lemma identifier_char_not_slash: "identifier_char c \<Longrightarrow> c \<noteq> CHR ''/''"
  by (auto simp: identifier_char_def is_ascii_alnum_def is_digit_def)

lemma identifier_re_no_slash: "identifier_re s \<Longrightarrow> CHR ''/'' \<notin> set s"
  by (cases s) (auto simp: list_all_iff dest: is_ascii_alnum_not_slash identifier_char_not_slash)

lemma run_id_re_no_slash: "run_id_re s \<Longrightarrow> CHR ''/'' \<notin> set s"
  by (cases s)
    (auto simp: list_all_iff dest: is_ascii_alnum_not_slash identifier_char_not_slash)

lemma identifier_re_not_dots: "identifier_re s \<Longrightarrow> s \<noteq> [] \<and> s \<noteq> ''.'' \<and> s \<noteq> ''..''"
  by (cases s) (auto simp: is_ascii_alnum_def is_digit_def)

lemma run_id_re_not_dots: "run_id_re s \<Longrightarrow> s \<noteq> [] \<and> s \<noteq> ''.'' \<and> s \<noteq> ''..''"
  by (cases s) (auto simp: is_ascii_alnum_def is_digit_def)

lemma make_SourceId_eq_Inr: "make_SourceId v = Inr w \<longleftrightarrow> identifier_re v \<and> w = v"
  by (auto simp: make_SourceId_def validate_identifier_def)

lemma make_ProfileId_eq_Inr: "make_ProfileId v = Inr w \<longleftrightarrow> identifier_re v \<and> w = v"
  by (auto simp: make_ProfileId_def validate_profile_id_def validate_identifier_def)

lemma make_RunId_eq_Inr: "make_RunId v = Inr w \<longleftrightarrow> run_id_re v \<and> w = v"
  by (auto simp: make_RunId_def validate_run_id_def)

end
