(* ===== verification/FsPath.thy ===== *)
theory FsPath
  imports Core
begin

text \<open>
  \<open>std::filesystem::path\<close> on POSIX and \<open>src/src/config/domain/Validation\<close>. A path is its
  text; iterating it yields the root directory \<open>/\<close> of an absolute path, the file names
  between the separators and, after a trailing separator, one empty name. Two paths compare
  equal when these sequences are equal. \<open>lexically_normal\<close> follows the eight steps of the
  C++ standard (removal of \<open>.\<close>, of a name followed by \<open>..\<close>, of \<open>..\<close> at the root, and of the
  separator after a final \<open>..\<close>).
\<close>

named_theorems path_simps \<open>equations of the path operations\<close>

type_synonym path = string

section \<open>Structure of a path\<close>

fun split_sep :: "string \<Rightarrow> string list" where
  "split_sep [] = [[]]"
| "split_sep (c # cs) =
     (if c = CHR ''/'' then [] # split_sep cs
      else (case split_sep cs of [] \<Rightarrow> [[c]] | w # ws \<Rightarrow> (c # w) # ws))"

definition is_absolute :: "path \<Rightarrow> bool" where
  "is_absolute p \<longleftrightarrow> p \<noteq> [] \<and> hd p = CHR ''/''"

definition path_names :: "path \<Rightarrow> string list" where
  "path_names p =
     (let ws = filter (\<lambda>w. w \<noteq> []) (split_sep p)
      in if ws \<noteq> [] \<and> last p = CHR ''/'' then ws @ [[]] else ws)"

definition path_elements :: "path \<Rightarrow> string list" where
  \<comment> \<open>the sequence \<open>begin ()\<close> to \<open>end ()\<close>\<close>
  "path_elements p = (if is_absolute p then [''/''] else []) @ path_names p"

definition path_eq :: "path \<Rightarrow> path \<Rightarrow> bool" where
  \<comment> \<open>\<open>operator==\<close>\<close>
  "path_eq p q \<longleftrightarrow> path_elements p = path_elements q"

fun join_names :: "string list \<Rightarrow> string" where
  "join_names [] = []"
| "join_names [n] = n"
| "join_names (n # m # ns) = n @ ''/'' @ join_names (m # ns)"

definition path_of_names :: "bool \<Rightarrow> string list \<Rightarrow> path" where
  "path_of_names absolute ns = (if absolute then ''/'' else []) @ join_names ns"

definition path_append :: "path \<Rightarrow> path \<Rightarrow> path" where
  \<comment> \<open>\<open>operator/\<close>\<close>
  "path_append p q =
     (if is_absolute q then q
      else if p = [] \<or> last p = CHR ''/'' then p @ q
      else p @ ''/'' @ q)"

definition filename :: "path \<Rightarrow> path" where
  "filename p = (if path_names p = [] then [] else last (path_names p))"

definition fs_parent_path :: "path \<Rightarrow> path" where
  \<comment> \<open>\<open>std::filesystem::path::parent_path\<close>\<close>
  "fs_parent_path p = (if path_names p = [] then p else path_of_names (is_absolute p) (butlast (path_names p)))"

section \<open>Lexical normal form\<close>

fun normal_step :: "bool \<Rightarrow> string list \<times> bool \<Rightarrow> string \<Rightarrow> string list \<times> bool" where
  \<comment> \<open>the names kept so far, latest first, and whether a separator follows them\<close>
  "normal_step absolute (st, slash) n =
     (if n = ''..'' then
        (case st of
           [] \<Rightarrow> if absolute then ([], slash) else ([''..''], False)
         | x # xs \<Rightarrow> if x = ''..'' then (''..'' # st, False) else (xs, True))
      else if n = ''.'' \<or> n = [] then (st, True)
      else (n # st, False))"

definition normal_names :: "bool \<Rightarrow> string list \<Rightarrow> string list" where
  "normal_names absolute ns =
     (case foldl (normal_step absolute) ([], False) ns of
        (st, slash) \<Rightarrow> if st \<noteq> [] \<and> slash \<and> hd st \<noteq> ''..'' then rev st @ [[]] else rev st)"

definition lexically_normal :: "path \<Rightarrow> path" where
  "lexically_normal p =
     (if p = [] then []
      else (let ns = normal_names (is_absolute p) (path_names p)
            in if ns = [] then (if is_absolute p then ''/'' else ''.'')
               else path_of_names (is_absolute p) ns))"

section \<open>config/domain/Validation\<close>

definition parse_uint :: "string \<Rightarrow> string \<Rightarrow> nat \<Rightarrow> nat result" where
  \<comment> \<open>\<open>std::stoull\<close> throws \<open>std::out_of_range\<close> from \<open>2 ^ 64\<close> on\<close>
  "parse_uint v name maximum =
     (if v = [] \<or> \<not> list_all is_digit v
      then Inl (ValidationError (name @ '' must be a non-negative base-10 integer''))
      else (let n = foldl (\<lambda>a c. a * 10 + digit_val c) 0 v
            in if n \<ge> 2 ^ 64 \<or> n > maximum
               then Inl (ValidationError (name @ '' is outside the supported range''))
               else Inr n))"

definition parse_positive_uint :: "string \<Rightarrow> string \<Rightarrow> nat \<Rightarrow> nat result" where
  "parse_positive_uint v name maximum =
     bindE (parse_uint v name maximum) (\<lambda>n.
       if n = 0 then Inl (ValidationError (name @ '' must be greater than zero'')) else Inr n)"

definition normalized_path :: "path \<Rightarrow> path" where
  "normalized_path p = lexically_normal p"

definition contains_newline :: "string \<Rightarrow> bool" where
  "contains_newline v \<longleftrightarrow> CHR 0x0A \<in> set v \<or> CHR 0x0D \<in> set v"

definition normalized_absolute_path :: "string \<Rightarrow> string \<Rightarrow> path result" where
  "normalized_absolute_path v name =
     (if v = [] \<or> hd v \<noteq> CHR ''/''
      then Inl (ValidationError (name @ '' must be an absolute path''))
      else if contains_newline v
      then Inl (ValidationError (name @ '' contains a newline''))
      else (let r = normalized_path v
            in if \<not> is_absolute r then Inl (ValidationError (name @ '' is invalid'')) else Inr r))"

definition normalized_relative_path :: "string \<Rightarrow> string \<Rightarrow> path result" where
  "normalized_relative_path v name =
     (if v = [] then Inl (ValidationError (name @ '' must be a non-empty relative path''))
      else if contains_newline v then Inl (ValidationError (name @ '' contains a newline''))
      else if is_absolute v then Inl (ValidationError (name @ '' must be a safe relative path''))
      else if list_ex (\<lambda>item. item = [] \<or> item = ''.'' \<or> item = ''..'') (path_elements v)
      then Inl (ValidationError (name @ '' must be a safe relative path''))
      else Inr (normalized_path v))"

fun elements_within :: "string list \<Rightarrow> string list \<Rightarrow> bool" where
  \<comment> \<open>the loop over the elements of the candidate and of the base\<close>
  "elements_within c [] = True"
| "elements_within [] (b # bs) = False"
| "elements_within (c # cs) (b # bs) = (if c \<noteq> b then False else elements_within cs bs)"

definition path_is_within :: "path \<Rightarrow> path \<Rightarrow> bool" where
  "path_is_within candidate base =
     elements_within (path_elements (normalized_path candidate))
                     (path_elements (normalized_path base))"

section \<open>Splitting and joining\<close>

definition plain_name :: "string \<Rightarrow> bool" where
  \<comment> \<open>a file name other than the empty name, \<open>.\<close> and \<open>..\<close>\<close>
  "plain_name n \<longleftrightarrow> n \<noteq> [] \<and> CHR ''/'' \<notin> set n \<and> n \<noteq> ''.'' \<and> n \<noteq> ''..''"

definition segment :: "string \<Rightarrow> bool" where
  "segment n \<longleftrightarrow> n \<noteq> [] \<and> CHR ''/'' \<notin> set n"

lemma plain_name_segment [simp]: "plain_name n \<Longrightarrow> segment n"
  by (simp add: plain_name_def segment_def)

lemma split_sep_ne [simp]: "split_sep s \<noteq> []"
  by (induction s) (auto split: list.splits)

lemma split_sep_no_slash: "CHR ''/'' \<notin> set n \<Longrightarrow> split_sep n = [n]"
  by (induction n) auto

lemma split_sep_append:
  "CHR ''/'' \<notin> set n \<Longrightarrow> split_sep (n @ CHR ''/'' # s) = n # split_sep s"
  by (induction n) auto

lemma split_sep_segments: "w \<in> set (split_sep s) \<Longrightarrow> CHR ''/'' \<notin> set w"
proof (induction s arbitrary: w)
  case Nil
  then show ?case by simp
next
  case (Cons c s)
  then show ?case
    by (auto split: if_splits list.splits)
qed

lemma path_names_elems: "n \<in> set (path_names p) \<Longrightarrow> n = [] \<or> segment n"
  by (auto simp: path_names_def Let_def segment_def dest: split_sep_segments split: if_splits)

lemma split_sep_join:
  assumes "ns \<noteq> []" and "\<forall>n \<in> set ns. CHR ''/'' \<notin> set n"
  shows "split_sep (join_names ns) = ns"
  using assms
proof (induction ns rule: join_names.induct)
  case (3 n m ns)
  then show ?case
    using split_sep_append [of n "join_names (m # ns)"] by simp
qed (simp_all add: split_sep_no_slash)

lemma join_names_eq_Nil: "join_names ns = [] \<longleftrightarrow> ns = [] \<or> ns = [[]]"
  by (induction ns rule: join_names.induct) auto

lemma last_join_names:
  "ns \<noteq> [] \<Longrightarrow> last ns \<noteq> [] \<Longrightarrow> join_names ns \<noteq> [] \<and> last (join_names ns) = last (last ns)"
proof (induction ns rule: join_names.induct)
  case (3 n m ns)
  then show ?case by auto
qed auto

lemma join_names_snoc_Nil: "ns \<noteq> [] \<Longrightarrow> join_names (ns @ [[]]) = join_names ns @ ''/''"
  by (induction ns rule: join_names.induct) auto

lemma hd_join_names: "hd ns \<noteq> [] \<Longrightarrow> ns \<noteq> [] \<Longrightarrow> hd (join_names ns) = hd (hd ns)"
  by (cases ns rule: join_names.cases) auto

text \<open>A list of segments survives rendering and reading back, with or without a final slash.\<close>

lemma path_names_of_segments:
  assumes "\<forall>n \<in> set ns. segment n"
  shows "path_names (path_of_names absolute ns) = ns"
proof (cases "ns = []")
  case True
  then show ?thesis
    by (cases absolute) (simp_all add: path_names_def path_of_names_def)
next
  case False
  have noslash: "\<forall>n \<in> set ns. CHR ''/'' \<notin> set n" and ne: "\<forall>n \<in> set ns. n \<noteq> []"
    using assms by (auto simp: segment_def)
  have sp: "split_sep (join_names ns) = ns"
    using split_sep_join [OF False noslash] .
  have "last ns \<in> set ns"
    using False by simp
  then have l: "join_names ns \<noteq> []" "last (join_names ns) \<noteq> CHR ''/''"
    using last_join_names [OF False] noslash ne last_in_set by (metis, metis)
  have f: "filter (\<lambda>w. w \<noteq> []) ns = ns"
    using ne by (simp add: filter_id_conv)
  show ?thesis
    using sp l f by (cases absolute) (simp_all add: path_names_def path_of_names_def)
qed

lemma path_names_of_segments_slash:
  assumes "\<forall>n \<in> set ns. segment n" and "ns \<noteq> []"
  shows "path_names (path_of_names absolute (ns @ [[]])) = ns @ [[]]"
proof -
  have noslash: "\<forall>n \<in> set (ns @ [[]]). CHR ''/'' \<notin> set n" and ne: "\<forall>n \<in> set ns. n \<noteq> []"
    using assms by (auto simp: segment_def)
  have sp: "split_sep (join_names ns @ ''/'') = ns @ [[]]"
    using split_sep_join [OF _ noslash] by (simp add: join_names_snoc_Nil assms(2))
  have f: "filter (\<lambda>w. w \<noteq> []) ns = ns"
    using ne by (simp add: filter_id_conv)
  show ?thesis
    using sp f assms(2)
    by (cases absolute) (simp_all add: path_names_def path_of_names_def join_names_snoc_Nil)
qed

lemma is_absolute_of_segments:
  assumes "\<forall>n \<in> set ns. segment n"
  shows "is_absolute (path_of_names absolute ns) = absolute"
    and "ns \<noteq> [] \<Longrightarrow> is_absolute (path_of_names absolute (ns @ [[]])) = absolute"
proof -
  have "ns \<noteq> [] \<Longrightarrow> hd (join_names ns) \<noteq> CHR ''/'' \<and> join_names ns \<noteq> []"
    using assms hd_join_names [of ns]
    by (cases ns) (auto simp: segment_def join_names_eq_Nil, metis hd_in_set)
  then show "is_absolute (path_of_names absolute ns) = absolute"
    and "ns \<noteq> [] \<Longrightarrow> is_absolute (path_of_names absolute (ns @ [[]])) = absolute"
    by (cases "ns = []"; auto simp: is_absolute_def path_of_names_def join_names_snoc_Nil)+
qed

section \<open>The normal form is a fixed point\<close>

definition normal_stack :: "bool \<Rightarrow> string list \<Rightarrow> bool" where
  "normal_stack absolute st \<longleftrightarrow>
     (\<exists>k ps. st = rev ps @ replicate k ''..'' \<and> (absolute \<longrightarrow> k = 0) \<and> (\<forall>n \<in> set ps. plain_name n))"

definition normal_form :: "bool \<Rightarrow> string list \<Rightarrow> bool" where
  "normal_form absolute ns \<longleftrightarrow>
     (\<exists>k ps. (ns = replicate k ''..'' @ ps \<or> ps \<noteq> [] \<and> ns = replicate k ''..'' @ ps @ [[]])
        \<and> (absolute \<longrightarrow> k = 0) \<and> (\<forall>n \<in> set ps. plain_name n))"

lemma normal_stack_step:
  assumes "normal_stack absolute st" and "n = [] \<or> segment n"
  shows "normal_stack absolute (fst (normal_step absolute (st, slash) n))"
proof -
  obtain k ps where st: "st = rev ps @ replicate k ''..''" "absolute \<longrightarrow> k = 0"
    "\<forall>n \<in> set ps. plain_name n"
    using assms(1) by (auto simp: normal_stack_def)
  consider (dots) "n = ''..''" | (skip) "n = ''.'' \<or> n = []" | (plain) "plain_name n"
    using assms(2) by (auto simp: plain_name_def segment_def)
  then show ?thesis
  proof cases
    case dots
    show ?thesis
    proof (cases "ps = []")
      case True
      then have "st = [] \<or> (\<exists>j. k = Suc j)"
        using st(1) by (cases k) auto
      then show ?thesis
        using dots st True
        by (auto simp: normal_stack_def intro: exI [of _ "Suc k"] exI [of _ "[]"]
            exI [of _ "Suc 0"] split: list.splits)
    next
      case False
      then obtain ps' x where ps: "ps = ps' @ [x]"
        by (metis rev_exhaust)
      then have "x \<noteq> ''..''"
        using st(3) by (auto simp: plain_name_def)
      then show ?thesis
        using dots st ps by (auto simp: normal_stack_def)
    qed
  next
    case skip
    then show ?thesis
      using assms(1) by auto
  next
    case plain
    then have "n \<noteq> ''..''" "n \<noteq> ''.''" "n \<noteq> []"
      by (auto simp: plain_name_def)
    then show ?thesis
      using st plain
      by (auto simp: normal_stack_def intro!: exI [of _ k] exI [of _ "ps @ [n]"])
  qed
qed

lemma normal_stack_fold:
  assumes "\<forall>n \<in> set ns. n = [] \<or> segment n" and "normal_stack absolute (fst s)"
  shows "normal_stack absolute (fst (foldl (normal_step absolute) s ns))"
  using assms
proof (induction ns arbitrary: s)
  case (Cons n ns)
  then show ?case
    using normal_stack_step [of absolute "fst s" n "snd s"] by simp
qed simp

lemma normal_form_names:
  assumes "\<forall>n \<in> set ns. n = [] \<or> segment n"
  shows "normal_form absolute (normal_names absolute ns)"
proof -
  obtain st slash where f: "foldl (normal_step absolute) ([], False) ns = (st, slash)"
    by (metis surj_pair)
  have "normal_stack absolute st"
    using normal_stack_fold [OF assms, of absolute "([], False)"] f
    by (force simp: normal_stack_def)
  then obtain k ps where st: "st = rev ps @ replicate k ''..''" "absolute \<longrightarrow> k = 0"
    "\<forall>n \<in> set ps. plain_name n"
    by (auto simp: normal_stack_def)
  have "rev st = replicate k ''..'' @ ps"
    by (simp add: st)
  moreover have "hd st \<noteq> ''..'' \<Longrightarrow> st \<noteq> [] \<Longrightarrow> ps \<noteq> []"
    using st(1) by (cases k) auto
  ultimately show ?thesis
    using st(2,3) by (auto simp: normal_names_def normal_form_def f)
qed

lemma fold_normal_plain:
  "\<forall>n \<in> set ps. plain_name n \<Longrightarrow>
   foldl (normal_step absolute) (st, slash) ps = (rev ps @ st, if ps = [] then slash else False)"
  by (induction ps arbitrary: st slash) (auto simp: plain_name_def)

lemma fold_normal_dots:
  "foldl (normal_step False) (replicate j ''..'', slash) (replicate k ''..'')
   = (replicate (k + j) ''..'', if k = 0 then slash else False)"
proof (induction k arbitrary: j slash)
  case (Suc k)
  then show ?case
    using Suc.IH [of "Suc j" False] by (cases j) auto
qed simp

lemma normal_names_normal_form:
  assumes "normal_form absolute ns"
  shows "normal_names absolute ns = ns"
proof -
  obtain k ps where ns: "ns = replicate k ''..'' @ ps \<or> ps \<noteq> [] \<and> ns = replicate k ''..'' @ ps @ [[]]"
    and k: "absolute \<longrightarrow> k = 0" and ps: "\<forall>n \<in> set ps. plain_name n"
    using assms by (auto simp: normal_form_def)
  have dots: "foldl (normal_step absolute) ([], False) (replicate k ''..'')
      = (replicate k ''..'', False)"
    using k fold_normal_dots [of 0 False k] by (cases absolute) auto
  have all: "foldl (normal_step absolute) ([], False) (replicate k ''..'' @ ps)
      = (rev ps @ replicate k ''..'', False)"
    using dots fold_normal_plain [OF ps] by simp
  have "ps \<noteq> [] \<Longrightarrow> hd (rev ps @ replicate k ''..'') \<noteq> ''..''"
    using ps by (simp add: hd_rev plain_name_def)
  then show ?thesis
    using ns all by (auto simp: normal_names_def)
qed

lemma segment_dotdot [simp]: "segment ''..''"
  by (simp add: segment_def)

lemma normal_form_readback:
  assumes "normal_form absolute ns"
  shows "path_names (path_of_names absolute ns) = ns"
    and "ns \<noteq> [] \<or> absolute \<Longrightarrow> is_absolute (path_of_names absolute ns) = absolute"
proof -
  obtain k ps where ns: "ns = replicate k ''..'' @ ps \<or> ps \<noteq> [] \<and> ns = (replicate k ''..'' @ ps) @ [[]]"
    and ps: "\<forall>n \<in> set ps. plain_name n"
    using assms by (auto simp: normal_form_def)
  have seg: "\<forall>n \<in> set (replicate k ''..'' @ ps). segment n"
    using ps by (auto simp del: replicate_append_same)
  show "path_names (path_of_names absolute ns) = ns"
    using ns path_names_of_segments [OF seg] path_names_of_segments_slash [OF seg] by auto
  show "ns \<noteq> [] \<or> absolute \<Longrightarrow> is_absolute (path_of_names absolute ns) = absolute"
    using ns is_absolute_of_segments [OF seg] by auto
qed

lemma path_names_segments: "\<forall>n \<in> set (path_names p). n = [] \<or> segment n"
  using path_names_elems by blast

lemma lexically_normal_names:
  assumes "p \<noteq> []"
  shows "is_absolute (lexically_normal p) = is_absolute p"
    and "path_names (lexically_normal p) =
      (if normal_names (is_absolute p) (path_names p) = [] \<and> \<not> is_absolute p then [''.'']
       else normal_names (is_absolute p) (path_names p))"
proof -
  let ?ns = "normal_names (is_absolute p) (path_names p)"
  note nf = normal_form_readback [OF normal_form_names [OF path_names_segments [of p], of "is_absolute p"]]
  have roots: "path_names ''/'' = []" "is_absolute ''/''" "path_names ''.'' = [''.'']"
    "\<not> is_absolute ''.''"
    by (simp_all add: path_names_def is_absolute_def)
  show "is_absolute (lexically_normal p) = is_absolute p"
    using nf(2) assms roots by (auto simp: lexically_normal_def Let_def)
  show "path_names (lexically_normal p) = (if ?ns = [] \<and> \<not> is_absolute p then [''.''] else ?ns)"
    using nf(1) assms roots by (auto simp: lexically_normal_def Let_def)
qed

lemma lexically_normal_eq_Nil [simp]: "lexically_normal p = [] \<longleftrightarrow> p = []"
proof
  assume "lexically_normal p = []"
  then show "p = []"
    using lexically_normal_names [of p] by (fastforce simp: path_names_def is_absolute_def
        lexically_normal_def Let_def path_of_names_def join_names_eq_Nil normal_names_def
        split: if_splits prod.splits)
qed (simp add: lexically_normal_def)

theorem lexically_normal_idem: "lexically_normal (lexically_normal p) = lexically_normal p"
proof (cases "p = []")
  case False
  let ?ns = "normal_names (is_absolute p) (path_names p)"
  have nf: "normal_names (is_absolute p) ?ns = ?ns"
    by (rule normal_names_normal_form [OF normal_form_names [OF path_names_segments]])
  have dot: "normal_names False [''.''] = []"
    by (simp add: normal_names_def)
  show ?thesis
    using lexically_normal_names [OF False] nf dot False
    by (auto simp: lexically_normal_def [of "lexically_normal p"] Let_def)
      (auto simp: lexically_normal_def Let_def)
qed (simp add: lexically_normal_def)

end
