(* ===== verification/PathLaws.thy ===== *)
theory PathLaws
  imports FsPath
begin

text \<open>
  The laws of the path functions of theory FsPath that the other components rest on:
  containment (config/domain/Validation, \<open>path_is_within\<close>), directories without a trailing
  separator, and the paths built by appending a checked name to such a directory.
\<close>

section \<open>Containment\<close>

lemma elements_within_iff: "elements_within c b \<longleftrightarrow> (\<exists>r. c = b @ r)"
  by (induction c b rule: elements_within.induct) auto

lemma path_is_within_refl [simp]: "path_is_within p p"
  by (simp add: path_is_within_def elements_within_iff)

lemma path_is_within_trans:
  "path_is_within a b \<Longrightarrow> path_is_within b c \<Longrightarrow> path_is_within a c"
  by (auto simp: path_is_within_def elements_within_iff)

lemma path_is_within_normal [simp]:
  "path_is_within (lexically_normal a) b = path_is_within a b"
  "path_is_within a (lexically_normal b) = path_is_within a b"
  by (simp_all add: path_is_within_def normalized_path_def lexically_normal_idem)

text \<open>
  A clean path is absolute, in normal form and without a trailing separator. It is what every
  directory of a profile is when its text has no trailing separator.
\<close>

definition clean_path :: "path \<Rightarrow> bool" where
  "clean_path p \<longleftrightarrow> is_absolute p \<and> list_all plain_name (path_names p)
     \<and> p = path_of_names True (path_names p)"

lemma clean_path_of_names:
  "\<forall>n \<in> set ns. plain_name n \<Longrightarrow> clean_path (path_of_names True ns)"
  using path_names_of_segments [of ns True] is_absolute_of_segments(1) [of ns True]
  by (simp add: clean_path_def list_all_iff)

lemma clean_path_absolute: "clean_path p \<Longrightarrow> is_absolute p"
  unfolding clean_path_def by blast

lemma clean_path_exists:
  assumes "clean_path p"
  obtains ns where "p = path_of_names True ns" and "\<forall>n \<in> set ns. plain_name n"
    and "path_names p = ns" and "is_absolute p" and "path_elements p = ''/'' # ns"
  using assms by (auto simp: clean_path_def list_all_iff path_elements_def)

lemma clean_path_normal: "clean_path p \<Longrightarrow> lexically_normal p = p"
proof -
  assume "clean_path p"
  then obtain ns where p: "p = path_of_names True ns" and ns: "\<forall>n \<in> set ns. plain_name n"
    and names: "path_names p = ns" "is_absolute p"
    by (rule clean_path_exists)
  have "normal_names True ns = ns"
    by (rule normal_names_normal_form)
      (use ns in \<open>auto simp: normal_form_def intro!: exI [of _ 0] exI [of _ ns]\<close>)
  moreover have "p \<noteq> []"
    using p by (simp add: path_of_names_def)
  ultimately show ?thesis
    using names p by (simp add: lexically_normal_def path_of_names_def is_absolute_def)
qed

lemma last_path_of_plain:
  assumes "\<forall>n \<in> set ns. plain_name n" and "ns \<noteq> []"
  shows "path_of_names b ns \<noteq> []" and "last (path_of_names b ns) \<noteq> CHR ''/''"
proof -
  have l: "last ns \<in> set ns" "last ns \<noteq> []" "CHR ''/'' \<notin> set (last ns)"
    using assms by (auto simp: plain_name_def)
  then show "path_of_names b ns \<noteq> []"
    using last_join_names [OF assms(2)] by (simp add: path_of_names_def)
  show "last (path_of_names b ns) \<noteq> CHR ''/''"
    using last_join_names [OF assms(2) l(2)] l(2,3) last_in_set [of "last ns"]
    by (auto simp: path_of_names_def simp del: last_in_set)
qed

lemma join_names_append:
  "xs \<noteq> [] \<Longrightarrow> ys \<noteq> [] \<Longrightarrow> join_names (xs @ ys) = join_names xs @ ''/'' @ join_names ys"
proof (induction xs rule: join_names.induct)
  case (2 n)
  then show ?case by (cases ys) auto
qed auto

text \<open>Appending safe names to a clean directory.\<close>

lemma path_append_clean:
  assumes "\<forall>n \<in> set ns. plain_name n" and "\<forall>n \<in> set rs. plain_name n" and "rs \<noteq> []"
  shows "path_append (path_of_names True ns) (path_of_names False rs) = path_of_names True (ns @ rs)"
proof -
  have "\<not> is_absolute (path_of_names False rs)"
    using is_absolute_of_segments(1) [of rs False] assms(2) by simp
  moreover have "ns \<noteq> [] \<Longrightarrow> last (path_of_names True ns) \<noteq> CHR ''/''"
    using last_path_of_plain [of ns True] assms(1) by blast
  ultimately show ?thesis
    using assms(3) join_names_append [of ns rs]
    by (cases "ns = []") (auto simp: path_append_def path_of_names_def)
qed

lemma path_of_single: "path_of_names False [n] = n"
  by (simp add: path_of_names_def)

lemma clean_path_append:
  assumes "clean_path p" and "plain_name n"
  shows "clean_path (path_append p n)" and "path_names (path_append p n) = path_names p @ [n]"
    and "path_elements (path_append p n) = path_elements p @ [n]"
proof -
  obtain ns where p: "p = path_of_names True ns" and ns: "\<forall>m \<in> set ns. plain_name m"
    and names: "path_names p = ns" and abs: "is_absolute p"
    using assms(1) by (rule clean_path_exists)
  have app: "path_append p n = path_of_names True (ns @ [n])"
    using path_append_clean [of ns "[n]"] ns assms(2) p by (simp add: path_of_single)
  have all: "\<forall>m \<in> set (ns @ [n]). plain_name m"
    using ns assms(2) by auto
  show clean: "clean_path (path_append p n)"
    unfolding app by (rule clean_path_of_names [OF all])
  show nms: "path_names (path_append p n) = path_names p @ [n]"
    using path_names_of_segments [of "ns @ [n]" True] all by (simp add: app names)
  show "path_elements (path_append p n) = path_elements p @ [n]"
    using abs clean by (simp add: path_elements_def nms clean_path_absolute)
qed

lemma filename_clean_append:
  "clean_path p \<Longrightarrow> plain_name n \<Longrightarrow> filename (path_append p n) = n"
  by (simp add: filename_def clean_path_append)

lemma parent_path_clean:
  assumes "clean_path p"
  shows "clean_path (fs_parent_path p)" and "path_names (fs_parent_path p) = butlast (path_names p)"
proof -
  obtain ns where p: "p = path_of_names True ns" "\<forall>n \<in> set ns. plain_name n" "path_names p = ns" "is_absolute p"
    using assms by (rule clean_path_exists)
  have b: "\<forall>n \<in> set (butlast ns). plain_name n" using p(2) by (auto dest: in_set_butlastD)
  show "clean_path (fs_parent_path p)"
    using clean_path_of_names [OF b] assms p(1,3,4) by (cases "ns = []") (simp_all add: fs_parent_path_def)
  show "path_names (fs_parent_path p) = butlast (path_names p)"
    using path_names_of_segments [of "butlast ns" True] b p(1,3,4) by (cases "ns = []") (simp_all add: fs_parent_path_def)
qed

lemma parent_path_append:
  assumes "clean_path p" and "plain_name n"
  shows "fs_parent_path (path_append p n) = p"
proof -
  note app = clean_path_append [OF assms]
  have "fs_parent_path (path_append p n) = path_of_names True (path_names p)"
    using clean_path_absolute [OF app(1)] unfolding fs_parent_path_def app(2) by simp
  then show ?thesis using assms(1) by (simp add: clean_path_def)
qed

lemma path_is_within_clean_iff:
  assumes "clean_path p" and "clean_path q"
  shows "path_is_within p q \<longleftrightarrow> (\<exists>r. path_names p = path_names q @ r)"
  using assms
  by (auto simp: path_is_within_def normalized_path_def clean_path_normal elements_within_iff
      path_elements_def clean_path_def)

lemma path_is_within_append: "clean_path p \<Longrightarrow> plain_name n \<Longrightarrow> path_is_within (path_append p n) p"
  by (auto simp: path_is_within_clean_iff clean_path_append)

lemma normalized_relative_path_Inr:
  assumes "normalized_relative_path v name = Inr r"
  obtains rs where "r = path_of_names False rs" and "\<forall>n \<in> set rs. plain_name n" and "rs \<noteq> []"
proof -
  have v: "v \<noteq> []" "\<not> is_absolute v" "r = lexically_normal v"
    and ok: "\<forall>n \<in> set (path_names v). n \<noteq> [] \<and> n \<noteq> ''.'' \<and> n \<noteq> ''..''"
    using assms
    by (auto simp: normalized_relative_path_def normalized_path_def path_elements_def list_ex_iff
        split: if_splits)
  have plain: "\<forall>n \<in> set (path_names v). plain_name n"
    using ok path_names_elems [of _ v] by (auto simp: plain_name_def segment_def)
  then have nn: "normal_names False (path_names v) = path_names v"
    by (intro normal_names_normal_form)
      (auto simp: normal_form_def intro!: exI [of _ 0] exI [of _ "path_names v"])
  have ne: "path_names v \<noteq> []"
  proof
    assume "path_names v = []"
    moreover obtain c cs where "v = c # cs" and "c \<noteq> CHR ''/''"
      using v(1,2) by (cases v) (auto simp: is_absolute_def)
    ultimately show False
      by (auto simp: path_names_def Let_def filter_empty_conv split: if_splits list.splits)
  qed
  have "r = path_of_names False (path_names v)"
    using v nn ne by (simp add: lexically_normal_def)
  then show thesis
    using that plain ne by blast
qed

lemma path_is_within_safe_append:
  assumes "clean_path p" and "r = path_of_names False rs" and "\<forall>n \<in> set rs. plain_name n" and "rs \<noteq> []"
  shows "clean_path (path_append p r)" and "path_is_within (path_append p r) p"
    and "path_names (path_append p r) = path_names p @ rs"
proof -
  obtain ns where p: "p = path_of_names True ns" and ns: "\<forall>m \<in> set ns. plain_name m"
    and names: "path_names p = ns"
    using assms(1) by (rule clean_path_exists)
  have app: "path_append p r = path_of_names True (ns @ rs)"
    using path_append_clean [OF ns assms(3,4)] p assms(2) by simp
  have all: "\<forall>m \<in> set (ns @ rs). plain_name m"
    using ns assms(3) by auto
  show clean: "clean_path (path_append p r)"
    unfolding app by (rule clean_path_of_names [OF all])
  show nms: "path_names (path_append p r) = path_names p @ rs"
    using path_names_of_segments [of "ns @ rs" True] all by (simp add: app names)
  show "path_is_within (path_append p r) p"
    using clean nms assms(1) by (simp add: path_is_within_clean_iff)
qed

text \<open>
  A base whose normal form ends in a separator contains nothing but itself: its last element
  is the empty name, which no other path has in that position.
\<close>

lemma path_elements_Nil_last: "path_elements p = xs @ [] # ys \<Longrightarrow> ys = []"
proof -
  assume a: "path_elements p = xs @ [] # ys"
  have "[] \<notin> set (butlast (path_elements p))"
    by (auto simp: path_elements_def path_names_def Let_def butlast_append dest: in_set_butlastD)
  then show ?thesis
    using a by (cases ys rule: rev_cases) (auto simp: butlast_append)
qed

lemma path_is_within_trailing_separator:
  assumes "path_elements (lexically_normal base) = xs @ [[]]"
  shows "path_is_within candidate base \<longleftrightarrow>
    path_eq (lexically_normal candidate) (lexically_normal base)"
  using assms path_elements_Nil_last [of "lexically_normal candidate" xs]
  by (auto simp: path_is_within_def normalized_path_def elements_within_iff path_eq_def)

lemma normalized_absolute_path_Inr:
  assumes "normalized_absolute_path v name = Inr r"
  shows "is_absolute r" and "lexically_normal r = r" and "r = lexically_normal v"
    and "\<not> contains_newline v"
  using assms
  by (auto simp: normalized_absolute_path_def normalized_path_def lexically_normal_idem Let_def
      split: if_splits)

text \<open>An accepted absolute path is clean, or it ends in a separator and is not the root.\<close>

lemma normalized_absolute_path_clean:
  assumes "normalized_absolute_path v name = Inr r" and "r = ''/'' \<or> last r \<noteq> CHR ''/''"
  shows "clean_path r"
proof -
  have v: "r = lexically_normal v" "v \<noteq> []" "is_absolute v"
    using normalized_absolute_path_Inr(3) [OF assms(1)] assms(1)
    unfolding normalized_absolute_path_def is_absolute_def by (auto split: if_splits)
  define ns where "ns = normal_names True (path_names v)"
  have "normal_form True ns"
    unfolding ns_def by (rule normal_form_names [OF path_names_segments])
  then obtain k ps where "k = 0" and ps: "\<forall>n \<in> set ps. plain_name n"
    and "ns = replicate k ''..'' @ ps \<or> ps \<noteq> [] \<and> ns = replicate k ''..'' @ ps @ [[]]"
    unfolding normal_form_def by blast
  then have ns: "ns = ps \<or> ps \<noteq> [] \<and> ns = ps @ [[]]"
    by simp
  have r: "r = path_of_names True ns"
    unfolding v(1) lexically_normal_def using v(2,3) by (simp add: ns_def path_of_names_def Let_def)
  have "ns = ps"
  proof (rule ccontr)
    assume "ns \<noteq> ps"
    then have *: "ps \<noteq> []" "ns = ps @ [[]]"
      using ns by auto
    have "r = ''/'' @ join_names ps @ ''/''"
      unfolding r *(2) by (simp add: path_of_names_def join_names_snoc_Nil *(1))
    moreover have "[] \<notin> set ps"
      using ps unfolding plain_name_def by blast
    then have "ps \<noteq> [[]]"
      by auto
    ultimately show False
      using assms(2) *(1) by (auto simp: join_names_eq_Nil)
  qed
  then show ?thesis
    using clean_path_of_names [OF ps] r by simp
qed

text \<open>A directory written with a trailing separator.\<close>

lemma trailing_separator:
  assumes "clean_path p" and "p \<noteq> ''/''"
  shows "lexically_normal (p @ ''/'') = p @ ''/''"
    and "path_elements (p @ ''/'') = path_elements p @ [[]]"
    and "path_append (p @ ''/'') q = path_append p q"
proof -
  obtain ns where p: "p = path_of_names True ns" and ns: "\<forall>n \<in> set ns. plain_name n"
    and names: "path_names p = ns" and el: "path_elements p = ''/'' # ns"
    using assms(1) by (rule clean_path_exists)
  have ne: "ns \<noteq> []"
    using assms(2) p by (auto simp: path_of_names_def)
  have ps: "p @ ''/'' = path_of_names True (ns @ [[]])"
    using ne by (simp add: p path_of_names_def join_names_snoc_Nil)
  have sg: "\<forall>n \<in> set ns. segment n"
    using ns by auto
  have pn: "path_names (p @ ''/'') = ns @ [[]]" and ab: "is_absolute (p @ ''/'')"
    unfolding ps using path_names_of_segments_slash [OF sg ne, of True]
      is_absolute_of_segments(2) [OF sg ne, of True] by simp_all
  have "normal_names True (ns @ [[]]) = ns @ [[]]"
    by (rule normal_names_normal_form)
      (use ns ne in \<open>auto simp: normal_form_def intro!: exI [of _ 0] exI [of _ ns]\<close>)
  then show "lexically_normal (p @ ''/'') = p @ ''/''"
    unfolding lexically_normal_def using pn ab ps by simp
  show "path_elements (p @ ''/'') = path_elements p @ [[]]"
    unfolding path_elements_def [of "p @ ''/''"] using pn ab el by simp
  have "p \<noteq> []" "last p \<noteq> CHR ''/''"
    unfolding p using last_path_of_plain [OF ns ne] by auto
  then show "path_append (p @ ''/'') q = path_append p q"
    by (simp add: path_append_def)
qed

end
