(* ===== verification/ConfigDomain.thy ===== *)
theory ConfigDomain
  imports PathLaws
begin

text \<open>
  The value types and the profile of config/domain: paths checked on construction
  (OperationPath, RepositoryPath), storage limits (StoragePolicy), target identity
  (TargetIdentity) and the profile (Profile.hpp). A constructor that throws is a function into
  \<open>result\<close>; the value it returns is the checked text or number, and the invariant of each type
  is a predicate on it.
\<close>

section \<open>Checked paths\<close>

type_synonym TargetDevicePath = path
type_synonym TargetMountPoint = path
type_synonym SourceSubvolumePath = path
type_synonym LocalSnapshotRoot = path
type_synonym KeyFilePath = path
type_synonym HookProgramPath = path
type_synonym RemoteSnapshotRoot = path
type_synonym IncomingRoot = path
type_synonym SafeRelativePath = path

definition make_OperationPathValue :: "path \<Rightarrow> string \<Rightarrow> path result" where
  "make_OperationPathValue v field_name = normalized_absolute_path v field_name"

definition make_TargetDevicePath :: "path \<Rightarrow> TargetDevicePath result" where
  "make_TargetDevicePath v =
     bindE (make_OperationPathValue v ''target.device'') (\<lambda>p.
       if \<not> path_is_within p ''/dev''
       then Inl (ValidationError ''target.device must point inside /dev'') else Inr p)"

definition make_TargetMountPoint :: "path \<Rightarrow> TargetMountPoint result" where
  "make_TargetMountPoint v = make_OperationPathValue v ''target.mountPoint''"

definition make_SourceSubvolumePath :: "path \<Rightarrow> SourceSubvolumePath result" where
  "make_SourceSubvolumePath v = make_OperationPathValue v ''source.subvolume''"

definition make_LocalSnapshotRoot :: "path \<Rightarrow> LocalSnapshotRoot result" where
  "make_LocalSnapshotRoot v = make_OperationPathValue v ''source.localSnapshotDir''"

definition make_KeyFilePath :: "path \<Rightarrow> KeyFilePath result" where
  "make_KeyFilePath v = make_OperationPathValue v ''target.activation.keyFile''"

definition make_HookProgramPath :: "path \<Rightarrow> HookProgramPath result" where
  "make_HookProgramPath v = make_OperationPathValue v ''hook.program''"

definition make_RemoteSnapshotRoot :: "string \<Rightarrow> RemoteSnapshotRoot result" where
  "make_RemoteSnapshotRoot v = normalized_absolute_path v ''remote snapshot root''"

definition make_IncomingRoot :: "string \<Rightarrow> IncomingRoot result" where
  "make_IncomingRoot v = normalized_absolute_path v ''incoming root''"

definition make_SafeRelativePath :: "string \<Rightarrow> SafeRelativePath result" where
  "make_SafeRelativePath v =
     bindE (normalized_relative_path v ''repository relative path'') (\<lambda>normalized.
       if normalized \<noteq> v
       then Inl (ValidationError
         ''repository relative path must be canonical and contain no empty segments'')
       else Inr normalized)"

section \<open>Storage limits\<close>

type_synonym RetentionCount = nat
type_synonym ByteThreshold = nat

definition RetentionCount_maximum :: nat where
  "RetentionCount_maximum = 100000"

definition ByteThreshold_maximum :: nat where
  "ByteThreshold_maximum = 1000000000000000"

definition make_RetentionCount :: "nat \<Rightarrow> RetentionCount result" where
  "make_RetentionCount v =
     (if v > RetentionCount_maximum
      then Inl (ValidationError ''retention count is outside the supported range'') else Inr v)"

definition make_ByteThreshold :: "nat \<Rightarrow> ByteThreshold result" where
  "make_ByteThreshold v =
     (if v > ByteThreshold_maximum
      then Inl (ValidationError ''byte threshold is outside the supported range'') else Inr v)"

section \<open>Target identity\<close>

type_synonym LuksUuid = string
type_synonym BtrfsUuid = string
type_synonym PartitionUuid = string
type_synonym MapperName = string

definition is_hex_digit :: "char \<Rightarrow> bool" where
  "is_hex_digit c \<longleftrightarrow> is_digit c
     \<or> (of_char CHR ''a'' \<le> (of_char c :: nat) \<and> (of_char c :: nat) \<le> of_char CHR ''f'')
     \<or> (of_char CHR ''A'' \<le> (of_char c :: nat) \<and> (of_char c :: nat) \<le> of_char CHR ''F'')"

definition uuid_pattern :: "string \<Rightarrow> bool" where
  \<comment> \<open>groups of 8, 4, 4, 4 and 12 hexadecimal digits separated by dashes\<close>
  "uuid_pattern v \<longleftrightarrow> length v = 36 \<and>
     (\<forall>i \<in> set [0..<36]. if i \<in> {8, 13, 18, 23} then v ! i = CHR ''-'' else is_hex_digit (v ! i))"

definition to_lower :: "char \<Rightarrow> char" where
  \<comment> \<open>\<open>std::tolower\<close> in the C locale\<close>
  "to_lower c = (if of_char CHR ''A'' \<le> (of_char c :: nat) \<and> (of_char c :: nat) \<le> of_char CHR ''Z''
     then char_of ((of_char c :: nat) + 32) else c)"

definition canonical_uuid :: "string \<Rightarrow> string \<Rightarrow> bool \<Rightarrow> string result" where
  "canonical_uuid v name allow_empty =
     (if allow_empty \<and> v = [] then Inr v
      else if \<not> uuid_pattern v then Inl (ValidationError (name @ '' is not a canonical UUID''))
      else Inr (map to_lower v))"

definition make_LuksUuid :: "string \<Rightarrow> LuksUuid result" where
  "make_LuksUuid v = canonical_uuid v ''LUKS UUID'' False"

definition make_BtrfsUuid :: "string \<Rightarrow> BtrfsUuid result" where
  "make_BtrfsUuid v = canonical_uuid v ''Btrfs UUID'' False"

definition make_PartitionUuid :: "string \<Rightarrow> PartitionUuid result" where
  "make_PartitionUuid v = canonical_uuid v ''partition UUID'' True"

definition make_MapperName :: "string \<Rightarrow> MapperName result" where
  "make_MapperName v = bindE (validate_identifier v ''mapper name'') (\<lambda>_. Inr v)"

section \<open>The profile\<close>

datatype TargetActivation = AskPasswordActivation | KeyFileActivation (key_file: KeyFilePath)

record ProfileTarget =
  target_device :: TargetDevicePath
  luks_uuid :: LuksUuid
  btrfs_uuid :: BtrfsUuid
  partition_uuid :: PartitionUuid
  target_serial :: string
  mapper_name :: MapperName
  mount_point :: TargetMountPoint
  activation :: TargetActivation

record ProfilePaths =
  remote_root :: RemoteSnapshotRoot
  incoming_root :: IncomingRoot

record ProfileSettings =
  daily_limit :: bool
  incremental_required :: bool
  keep_failed_local_snapshot :: bool
  auto_eject :: bool
  default_remote_retention :: RetentionCount
  default_local_retention :: RetentionCount
  minimum_target_free_bytes :: ByteThreshold
  minimum_local_free_bytes :: ByteThreshold

record ProfileHookCommand =
  hook_program :: HookProgramPath
  hook_arguments :: "string list"
  hook_timeout :: int

record ProfileHooks =
  before_snapshot :: "ProfileHookCommand list"
  after_snapshot :: "ProfileHookCommand list"

record ProfileSource =
  source_id :: SourceId
  source_name :: string
  source_enabled :: bool
  subvolume :: SourceSubvolumePath
  local_snapshot_dir :: LocalSnapshotRoot
  remote_subdir :: SafeRelativePath
  remote_retention :: RetentionCount
  local_retention :: RetentionCount

record Profile =
  configuration_generation :: string
  profile_id :: ProfileId
  profile_name :: string
  profile_enabled :: bool
  target :: ProfileTarget
  paths :: ProfilePaths
  settings :: ProfileSettings
  hooks :: ProfileHooks
  sources :: "ProfileSource list"

definition default_ProfileSettings :: ProfileSettings where
  "default_ProfileSettings =
     \<lparr> daily_limit = True, incremental_required = True, keep_failed_local_snapshot = False,
       auto_eject = True, default_remote_retention = 30, default_local_retention = 30,
       minimum_target_free_bytes = 0, minimum_local_free_bytes = 0 \<rparr>"

section \<open>The invariants of the value types\<close>

definition normal_absolute :: "path \<Rightarrow> bool" where
  "normal_absolute p \<longleftrightarrow> is_absolute p \<and> lexically_normal p = p"

definition safe_relative :: "path \<Rightarrow> bool" where
  "safe_relative r \<longleftrightarrow> path_names r \<noteq> [] \<and> list_all plain_name (path_names r)
     \<and> r = path_of_names False (path_names r)"

definition canonical_uuid_text :: "string \<Rightarrow> bool" where
  "canonical_uuid_text u \<longleftrightarrow> uuid_pattern u \<and> map to_lower u = u"

lemma make_OperationPathValue_normal:
  "make_OperationPathValue v name = Inr p \<Longrightarrow> normal_absolute p"
  by (simp add: make_OperationPathValue_def normal_absolute_def normalized_absolute_path_Inr)

lemma make_TargetDevicePath_within:
  "make_TargetDevicePath v = Inr p \<Longrightarrow> normal_absolute p \<and> path_is_within p ''/dev''"
  by (auto simp: make_TargetDevicePath_def result_simps make_OperationPathValue_normal
      split: if_splits)

lemma roots_normal:
  "make_RemoteSnapshotRoot v = Inr p \<Longrightarrow> normal_absolute p"
  "make_IncomingRoot v = Inr p \<Longrightarrow> normal_absolute p"
  by (simp_all add: make_RemoteSnapshotRoot_def make_IncomingRoot_def normal_absolute_def
      normalized_absolute_path_Inr)

lemma safe_relative_of_names:
  "\<forall>n \<in> set rs. plain_name n \<Longrightarrow> rs \<noteq> [] \<Longrightarrow> safe_relative (path_of_names False rs)"
  using path_names_of_segments [of rs False] by (simp add: safe_relative_def list_all_iff)

lemma make_SafeRelativePath_safe:
  assumes "make_SafeRelativePath v = Inr r"
  shows "safe_relative r" and "r = v"
proof -
  have n: "normalized_relative_path v ''repository relative path'' = Inr r" and "r = v"
    using assms by (auto simp: make_SafeRelativePath_def result_simps split: if_splits)
  then show "r = v" by simp
  from n obtain rs where "r = path_of_names False rs" "\<forall>n \<in> set rs. plain_name n" "rs \<noteq> []"
    by (rule normalized_relative_path_Inr)
  then show "safe_relative r"
    using safe_relative_of_names by simp
qed

lemma safe_relative_append:
  assumes "clean_path p" and "safe_relative r"
  shows "clean_path (path_append p r)" and "path_is_within (path_append p r) p"
    and "path_names (path_append p r) = path_names p @ path_names r"
proof -
  have r: "r = path_of_names False (path_names r)" "\<forall>n \<in> set (path_names r). plain_name n"
    "path_names r \<noteq> []"
    using assms(2) by (auto simp: safe_relative_def list_all_iff)
  show "clean_path (path_append p r)" "path_is_within (path_append p r) p"
    "path_names (path_append p r) = path_names p @ path_names r"
    using path_is_within_safe_append [OF assms(1) r] by auto
qed

lemma of_char_inj: "(of_char c :: nat) = of_char d \<longleftrightarrow> c = d"
  by simp

lemma to_lower_idem: "to_lower (to_lower c) = to_lower c"
proof (cases "65 \<le> (of_char c :: nat) \<and> (of_char c :: nat) \<le> 90")
  case True
  then have "(of_char (char_of ((of_char c :: nat) + 32) :: char) :: nat) = of_char c + 32"
    by simp
  then show ?thesis
    using True by (simp add: to_lower_def)
next
  case False
  then show ?thesis by (auto simp: to_lower_def)
qed

lemma to_lower_hex: "is_hex_digit c \<Longrightarrow> is_hex_digit (to_lower c)"
  by (auto simp: is_hex_digit_def is_digit_def to_lower_def)

lemma to_lower_dash [simp]: "to_lower CHR ''-'' = CHR ''-''"
  by (simp add: to_lower_def)

lemma uuid_pattern_lower: "uuid_pattern v \<Longrightarrow> uuid_pattern (map to_lower v)"
  unfolding uuid_pattern_def by (auto simp: to_lower_hex simp del: upt_rec_numeral)

lemma canonical_uuid_canonical:
  assumes "canonical_uuid v name e = Inr u"
  shows "canonical_uuid_text u \<or> e \<and> u = []"
  using assms
  by (auto simp: canonical_uuid_def canonical_uuid_text_def uuid_pattern_lower to_lower_idem
      split: if_splits)

lemma canonical_uuid_fixed:
  "canonical_uuid_text u \<Longrightarrow> canonical_uuid u name e = Inr u"
  by (auto simp: canonical_uuid_def canonical_uuid_text_def uuid_pattern_def)

end
