(* ===== verification/RuntimeTime.thy ===== *)
theory RuntimeTime
  imports Core
begin

text \<open>
  \<open>src/src/core/RuntimeTime\<close>: time points, calendar dates and their text forms. A
  \<open>RuntimeTimePoint\<close> is \<open>std::chrono::system_clock::time_point\<close>, a signed 64-bit count of
  nanoseconds since 1970-01-01T00:00:00Z, modelled as an integer; the one computation
  that can leave the 64-bit range, in \<open>parse_utc_timestamp\<close>, has the wrap-around written out.
  The calendar conversions \<open>sys_days\<close> and \<open>year_month_day\<close> of the standard library are the
  proleptic Gregorian calendar.
\<close>

type_synonym RuntimeTimePoint = int

record LocalDate =
  ld_year :: int
  ld_month :: int
  ld_day :: int

section \<open>The Gregorian calendar\<close>

definition is_leap :: "int \<Rightarrow> bool" where
  "is_leap y \<longleftrightarrow> y mod 4 = 0 \<and> (y mod 100 \<noteq> 0 \<or> y mod 400 = 0)"

definition month_lengths :: "int \<Rightarrow> int list" where
  "month_lengths y = [31, if is_leap y then 29 else 28, 31, 30, 31, 30, 31, 31, 30, 31, 30, 31]"

definition last_day_of_month :: "int \<Rightarrow> int \<Rightarrow> int" where
  "last_day_of_month y m = month_lengths y ! nat (m - 1)"

definition date_ok :: "LocalDate \<Rightarrow> bool" where
  \<comment> \<open>\<open>year_month_day::ok\<close>\<close>
  "date_ok d \<longleftrightarrow> - 32767 \<le> ld_year d \<and> ld_year d \<le> 32767 \<and> 1 \<le> ld_month d \<and> ld_month d \<le> 12
     \<and> 1 \<le> ld_day d \<and> ld_day d \<le> last_day_of_month (ld_year d) (ld_month d)"

definition days_before_year :: "int \<Rightarrow> int" where
  \<comment> \<open>days from 0000-01-01 to the first of January\<close>
  "days_before_year y = 365 * y + (y - 1) div 4 - (y - 1) div 100 + (y - 1) div 400 + 1"

definition days_before_month :: "int \<Rightarrow> int \<Rightarrow> int" where
  "days_before_month y m = sum_list (take (nat (m - 1)) (month_lengths y))"

definition sys_days :: "LocalDate \<Rightarrow> int" where
  \<comment> \<open>days since 1970-01-01\<close>
  "sys_days d = days_before_year (ld_year d) + days_before_month (ld_year d) (ld_month d)
     + (ld_day d - 1) - 719528"

definition year_of_day :: "int \<Rightarrow> int" where
  \<comment> \<open>the year that contains a day counted from 0000-01-01\<close>
  "year_of_day n =
     (let y = (400 * n) div 146097
      in if n < days_before_year y then y - 1
         else if days_before_year (y + 1) \<le> n then y + 1 else y)"

fun month_of_day :: "int list \<Rightarrow> int \<Rightarrow> int \<Rightarrow> int \<times> int" where
  \<comment> \<open>month and day of month from the zero-based day of the year\<close>
  "month_of_day [] m n = (m, n + 1)"
| "month_of_day (l # ls) m n = (if n < l then (m, n + 1) else month_of_day ls (m + 1) (n - l))"

definition year_month_day :: "int \<Rightarrow> LocalDate" where
  "year_month_day n =
     (let d = n + 719528; y = year_of_day d;
          (m, k) = month_of_day (month_lengths y) 1 (d - days_before_year y)
      in \<lparr>ld_year = y, ld_month = m, ld_day = k\<rparr>)"

section \<open>Text forms\<close>

definition ns_per_second :: int where
  "ns_per_second = 1000000000"

definition wrap_i64 :: "int \<Rightarrow> int" where
  "wrap_i64 x = (x + 2 ^ 63) mod 2 ^ 64 - 2 ^ 63"

definition substr :: "nat \<Rightarrow> nat \<Rightarrow> string \<Rightarrow> string" where
  "substr pos n s = take n (drop pos s)"

fun decimal_from :: "int \<Rightarrow> string \<Rightarrow> int option" where
  "decimal_from acc [] = Some acc"
| "decimal_from acc (c # cs) =
     (if \<not> is_digit c then None else decimal_from (acc * 10 + int (digit_val c)) cs)"

definition decimal :: "string \<Rightarrow> int option" where
  "decimal v = decimal_from 0 v"

definition format_utc :: "RuntimeTimePoint \<Rightarrow> bool \<Rightarrow> string" where
  "format_utc time compact_clock =
     (let seconds = time div ns_per_second;
          day = seconds div 86400;
          date = year_month_day day;
          clock = seconds - day * 86400
      in setw_fill0 4 (int_text (ld_year date)) @ ''-''
         @ setw_fill0 2 (int_text (ld_month date)) @ ''-''
         @ setw_fill0 2 (int_text (ld_day date)) @ ''T''
         @ setw_fill0 2 (int_text (clock div 3600))
         @ (if \<not> compact_clock then '':'' else [])
         @ setw_fill0 2 (int_text (clock mod 3600 div 60))
         @ (if \<not> compact_clock then '':'' else [])
         @ setw_fill0 2 (int_text (clock mod 60)) @ ''Z'')"

definition format_utc_snapshot_timestamp :: "RuntimeTimePoint \<Rightarrow> string" where
  "format_utc_snapshot_timestamp time = format_utc time True"

definition format_utc_iso_timestamp :: "RuntimeTimePoint \<Rightarrow> string" where
  "format_utc_iso_timestamp time = format_utc time False"

definition format_local_date :: "LocalDate \<Rightarrow> string" where
  "format_local_date date =
     setw_fill0 4 (int_text (ld_year date)) @ ''-''
     @ setw_fill0 2 (int_text (ld_month date)) @ ''-''
     @ setw_fill0 2 (int_text (ld_day date))"

definition parse_utc_timestamp :: "string \<Rightarrow> RuntimeTimePoint option" where
  "parse_utc_timestamp v =
     (let compact = (length v = 18); iso = (length v = 20)
      in if (\<not> compact \<and> \<not> iso) \<or> v ! 4 \<noteq> CHR ''-'' \<or> v ! 7 \<noteq> CHR ''-'' \<or> v ! 10 \<noteq> CHR ''T''
            \<or> last v \<noteq> CHR ''Z'' then None
         else if iso \<and> (v ! 13 \<noteq> CHR '':'' \<or> v ! 16 \<noteq> CHR '':'') then None
         else (let minute_offset = (if iso then 14 else 13);
                   second_offset = (if iso then 17 else 15)
               in case (decimal (substr 0 4 v), decimal (substr 5 2 v), decimal (substr 8 2 v),
                        decimal (substr 11 2 v), decimal (substr minute_offset 2 v),
                        decimal (substr second_offset 2 v)) of
                    (Some year, Some month, Some day, Some hour, Some minute, Some second) \<Rightarrow>
                      (let date = \<lparr>ld_year = year, ld_month = month, ld_day = day\<rparr>
                       in if \<not> date_ok date \<or> hour > 23 \<or> minute > 59 \<or> second > 59 then None
                          else Some (wrap_i64 ((sys_days date * 86400 + hour * 3600
                                                + minute * 60 + second) * ns_per_second)))
                  | _ \<Rightarrow> None))"

definition parse_local_date :: "string \<Rightarrow> LocalDate option" where
  "parse_local_date v =
     (if length v \<noteq> 10 \<or> v ! 4 \<noteq> CHR ''-'' \<or> v ! 7 \<noteq> CHR ''-'' then None
      else (case (decimal (substr 0 4 v), decimal (substr 5 2 v), decimal (substr 8 2 v)) of
              (Some year, Some month, Some day) \<Rightarrow>
                (let date = \<lparr>ld_year = year, ld_month = month, ld_day = day\<rparr>
                 in if date_ok date then Some date else None)
            | _ \<Rightarrow> None))"

section \<open>Calendar lemmas\<close>

lemma times_div_le: "0 < k \<Longrightarrow> k * (x div k) \<le> x" for x k :: int
  using pos_mod_sign [of k x] mult_div_mod_eq [of k x] by linarith

lemma less_times_div: "0 < k \<Longrightarrow> x < k * (x div k) + k" for x k :: int
  using pos_mod_bound [of k x] mult_div_mod_eq [of k x] by linarith

lemma div_pred: "0 < k \<Longrightarrow> x div k - (x - 1) div k = (if x mod k = 0 then 1 else 0)" for x k :: int
proof (cases "x mod k = 0")
  assume k: "0 < k"
  case True
  then have "x - 1 = k * (x div k - 1) + (k - 1)"
    using mult_div_mod_eq [of k x] by (simp add: right_diff_distrib)
  then have "(x - 1) div k = x div k - 1"
    by (rule int_div_pos_eq) (use k in simp_all)
  with True show ?thesis by simp
next
  assume k: "0 < k"
  case False
  have "x - 1 = k * (x div k) + (x mod k - 1)"
    by simp
  moreover have "0 \<le> x mod k - 1" "x mod k - 1 < k"
    using k False pos_mod_sign [of k x] pos_mod_bound [of k x] by linarith+
  ultimately have "(x - 1) div k = x div k"
    by (rule int_div_pos_eq)
  with False show ?thesis by simp
qed

lemma days_before_year_lower: "146097 * y - 396 \<le> 400 * days_before_year y"
  using less_times_div [of 4 "y - 1"] times_div_le [of 100 "y - 1"] less_times_div [of 400 "y - 1"]
  unfolding days_before_year_def by simp

lemma days_before_year_upper: "400 * days_before_year y \<le> 146097 * y + 699"
  using times_div_le [of 4 "y - 1"] less_times_div [of 100 "y - 1"] times_div_le [of 400 "y - 1"]
  unfolding days_before_year_def by simp

lemma year_of_day_bounds:
  "days_before_year (year_of_day n) \<le> n \<and> n < days_before_year (year_of_day n + 1)"
proof -
  define y where "y = (400 * n) div 146097"
  have ab: "146097 * y \<le> 400 * n" "400 * n < 146097 * y + 146097"
    using times_div_le [of 146097 "400 * n"] less_times_div [of 146097 "400 * n"]
    by (simp_all add: y_def)
  have "days_before_year (y - 1) \<le> n"
    using days_before_year_upper [of "y - 1"] ab(1) by simp
  moreover have "n < days_before_year (y + 2)"
    using days_before_year_lower [of "y + 2"] ab(2) by simp
  ultimately show ?thesis
    unfolding year_of_day_def Let_def y_def [symmetric] by (simp add: add.commute)
qed

lemma days_before_year_Suc:
  "days_before_year (y + 1) = days_before_year y + sum_list (month_lengths y)"
proof -
  have m: "y mod 400 mod 100 = y mod 100" "y mod 100 mod 4 = y mod 4"
    by (simp_all add: mod_mod_cancel)
  have "days_before_year (y + 1) - days_before_year y = 365 + (y div 4 - (y - 1) div 4)
      - (y div 100 - (y - 1) div 100) + (y div 400 - (y - 1) div 400)"
    by (simp add: days_before_year_def)
  also have "\<dots> = 365 + (if y mod 4 = 0 then 1 else 0) - (if y mod 100 = 0 then 1 else 0)
      + (if y mod 400 = 0 then 1 else 0)"
    by (simp only: div_pred zero_less_numeral)
  also have "\<dots> = 365 + (if is_leap y then 1 else 0)"
    using m by (auto simp: is_leap_def)
  also have "\<dots> = sum_list (month_lengths y)"
    by (simp add: month_lengths_def)
  finally show ?thesis
    by (simp only: diff_eq_eq add.commute)
qed

lemma month_of_day_spec:
  assumes "month_of_day ls m n = (m', k)" and "0 \<le> n" and "n < sum_list ls"
  shows "m \<le> m' \<and> m' < m + int (length ls) \<and> 1 \<le> k \<and> k \<le> ls ! nat (m' - m)
    \<and> sum_list (take (nat (m' - m)) ls) + (k - 1) = n"
  using assms
proof (induction ls m n rule: month_of_day.induct)
  case (1 m n)
  then show ?case by simp
next
  case (2 l ls m n)
  show ?case
  proof (cases "n < l")
    case True
    with 2 show ?thesis by auto
  next
    case False
    with 2 have ih: "m + 1 \<le> m' \<and> m' < m + 1 + int (length ls) \<and> 1 \<le> k \<and> k \<le> ls ! nat (m' - (m + 1))
      \<and> sum_list (take (nat (m' - (m + 1))) ls) + (k - 1) = n - l"
      by simp
    moreover from ih have "nat (m' - m) = Suc (nat (m' - (m + 1)))"
      by linarith
    ultimately show ?thesis by auto
  qed
qed

lemma length_month_lengths [simp]: "length (month_lengths y) = 12"
  by (simp add: month_lengths_def)

lemma year_month_day_spec:
  "1 \<le> ld_month (year_month_day n) \<and> ld_month (year_month_day n) \<le> 12
   \<and> 1 \<le> ld_day (year_month_day n)
   \<and> ld_day (year_month_day n)
       \<le> last_day_of_month (ld_year (year_month_day n)) (ld_month (year_month_day n))
   \<and> sys_days (year_month_day n) = n"
proof -
  let ?d = "n + 719528"
  let ?y = "year_of_day ?d"
  obtain m k where mk: "month_of_day (month_lengths ?y) 1 (?d - days_before_year ?y) = (m, k)"
    by (metis surj_pair)
  have "0 \<le> ?d - days_before_year ?y" "?d - days_before_year ?y < sum_list (month_lengths ?y)"
    using year_of_day_bounds [of ?d] days_before_year_Suc [of ?y] by linarith+
  note month_of_day_spec [OF mk this]
  then show ?thesis
    by (simp add: year_month_day_def Let_def mk sys_days_def days_before_month_def
        last_day_of_month_def)
qed

lemma last_day_of_month_bounds:
  assumes "1 \<le> m" and "m \<le> 12"
  shows "28 \<le> last_day_of_month y m \<and> last_day_of_month y m \<le> 31"
proof -
  have "\<forall>l \<in> set (month_lengths y). 28 \<le> l \<and> l \<le> 31"
    by (simp add: month_lengths_def)
  moreover have "nat (m - 1) < length (month_lengths y)"
    using assms by simp
  ultimately show ?thesis
    unfolding last_day_of_month_def using nth_mem by blast
qed

section \<open>Decimal text lemmas\<close>

lemma nat_text_1: "n < 10 \<Longrightarrow> nat_text n = [digit_char n]"
  by (simp add: nat_text.simps)

lemma nat_text_step: "10 \<le> n \<Longrightarrow> nat_text n = nat_text (n div 10) @ [digit_char (n mod 10)]"
  by (simp add: nat_text.simps [of n])

lemma digit_char_0: "digit_char 0 = CHR ''0''"
proof -
  have "(of_char (CHR ''0'') :: nat) = 48" by simp
  then show ?thesis
    by (metis char_of_char digit_char_def add.right_neutral)
qed

lemma two_digits:
  assumes "0 \<le> i" and "i < 100"
  shows "setw_fill0 2 (int_text i) = [digit_char (nat i div 10), digit_char (nat i mod 10)]"
proof (cases "i < 10")
  case True
  with assms have "nat i < 10" by simp
  with assms show ?thesis
    by (simp add: setw_fill0_def int_text_def nat_text_1 digit_char_0 numeral_2_eq_2)
next
  case False
  with assms have "10 \<le> nat i" "nat i div 10 < 10" by auto
  with assms show ?thesis
    by (simp add: setw_fill0_def int_text_def nat_text_1 nat_text_step)
qed

lemma four_digits:
  assumes "0 \<le> i" and "i < 10000"
  shows "setw_fill0 4 (int_text i) =
    [digit_char (nat i div 1000), digit_char (nat i div 100 mod 10),
     digit_char (nat i div 10 mod 10), digit_char (nat i mod 10)]"
proof -
  define n where "n = nat i"
  have n: "n < 10000" "int_text i = nat_text n"
    using assms by (auto simp: n_def int_text_def)
  have dd: "n div 10 div 10 = n div 100" "n div 100 div 10 = n div 1000"
    by (simp_all add: div_mult2_eq)
  have r: "replicate 3 z = [z, z, z]" "replicate 2 z = [z, z]" "replicate (Suc 0) z = [z]"
    for z :: char
    by (simp_all add: numeral_3_eq_3 numeral_2_eq_2)
  consider "n < 10" | "10 \<le> n" "n < 100" | "100 \<le> n" "n < 1000" | "1000 \<le> n"
    by linarith
  then show ?thesis
  proof cases
    case 1
    then show ?thesis
      unfolding n(2) n_def [symmetric]
      by (simp add: setw_fill0_def nat_text_1 digit_char_0 r)
  next
    case 2
    then show ?thesis
      unfolding n(2) n_def [symmetric]
      by (simp add: setw_fill0_def nat_text_step nat_text_1 digit_char_0 r)
  next
    case 3
    then have "10 \<le> n div 10" "n div 100 < 10" by auto
    then show ?thesis
      using 3 unfolding n(2) n_def [symmetric]
      by (simp add: setw_fill0_def nat_text_step nat_text_1 digit_char_0 r dd)
  next
    case 4
    then have "10 \<le> n div 10" "10 \<le> n div 100" "n div 1000 < 10"
      using n(1) by auto
    then show ?thesis
      using 4 unfolding n(2) n_def [symmetric]
      by (simp add: setw_fill0_def nat_text_step nat_text_1 dd)
  qed
qed

lemma decimal_two_digits:
  "0 \<le> i \<Longrightarrow> i < 100 \<Longrightarrow> decimal [digit_char (nat i div 10), digit_char (nat i mod 10)] = Some i"
  by (simp add: decimal_def zdiv_int zmod_int)

lemma decimal_four_digits:
  assumes "0 \<le> i" and "i < 10000"
  shows "decimal [digit_char (nat i div 1000), digit_char (nat i div 100 mod 10),
     digit_char (nat i div 10 mod 10), digit_char (nat i mod 10)] = Some i"
proof -
  have "nat i div 1000 < 10" using assms by auto
  moreover have "int (nat i div 1000) * 10 + int (nat i div 100 mod 10) = int (nat i div 100)"
    "int (nat i div 100) * 10 + int (nat i div 10 mod 10) = int (nat i div 10)"
    using div_mult_mod_eq [of "nat i div 100" 10] div_mult_mod_eq [of "nat i div 10" 10]
    by (simp_all flip: div_mult2_eq of_nat_mult of_nat_add)
  moreover have "int (nat i div 10) * 10 + int (nat i mod 10) = i"
    using assms by (simp add: zdiv_int zmod_int)
  ultimately show ?thesis
    by (simp add: decimal_def)
qed

section \<open>Round trips\<close>

definition representable :: "int \<Rightarrow> bool" where
  "representable t \<longleftrightarrow> - (2 ^ 63) \<le> t \<and> t < 2 ^ 63"

lemma wrap_i64_id: "representable t \<Longrightarrow> wrap_i64 t = t"
  by (simp add: representable_def wrap_i64_def)

lemma LocalDate_eta: "\<lparr>ld_year = ld_year d, ld_month = ld_month d, ld_day = ld_day d\<rparr> = d"
  by simp

lemma date_texts:
  assumes "0 \<le> y" and "y \<le> 9999" and "1 \<le> m" and "m \<le> 12" and "1 \<le> d" and "d \<le> 31"
  shows "\<exists>y1 y2 y3 y4 m1 m2 d1 d2. setw_fill0 4 (int_text y) = [y1, y2, y3, y4]
    \<and> setw_fill0 2 (int_text m) = [m1, m2] \<and> setw_fill0 2 (int_text d) = [d1, d2]
    \<and> decimal [y1, y2, y3, y4] = Some y \<and> decimal [m1, m2] = Some m \<and> decimal [d1, d2] = Some d"
  using four_digits [of y] decimal_four_digits [of y] two_digits [of m] decimal_two_digits [of m]
    two_digits [of d] decimal_two_digits [of d] assms
  by (auto simp del: One_nat_def)

lemma two_digit_text:
  assumes "0 \<le> i" and "i < 100"
  shows "\<exists>a b. setw_fill0 2 (int_text i) = [a, b] \<and> decimal [a, b] = Some i"
  using two_digits [OF assms] decimal_two_digits [OF assms] by auto

lemma parse_local_date_format:
  assumes "date_ok date" and "0 \<le> ld_year date" and "ld_year date \<le> 9999"
  shows "parse_local_date (format_local_date date) = Some date"
proof -
  have "ld_day date \<le> 31"
    using assms(1) last_day_of_month_bounds [of "ld_month date" "ld_year date"]
    by (auto simp: date_ok_def)
  then obtain y1 y2 y3 y4 m1 m2 d1 d2 where
    t: "setw_fill0 4 (int_text (ld_year date)) = [y1, y2, y3, y4]"
       "setw_fill0 2 (int_text (ld_month date)) = [m1, m2]"
       "setw_fill0 2 (int_text (ld_day date)) = [d1, d2]"
    and d: "decimal [y1, y2, y3, y4] = Some (ld_year date)" "decimal [m1, m2] = Some (ld_month date)"
       "decimal [d1, d2] = Some (ld_day date)"
    using date_texts [of "ld_year date" "ld_month date" "ld_day date"] assms
    by (auto simp: date_ok_def)
  have "format_local_date date = [y1, y2, y3, y4, CHR ''-'', m1, m2, CHR ''-'', d1, d2]"
    by (simp add: format_local_date_def t)
  then show ?thesis
    using assms(1) d by (simp add: parse_local_date_def substr_def Let_def LocalDate_eta)
qed

lemma parse_utc_timestamp_format:
  assumes "0 \<le> ld_year (year_month_day (t div ns_per_second div 86400))"
    and "ld_year (year_month_day (t div ns_per_second div 86400)) \<le> 9999"
  shows "parse_utc_timestamp (format_utc t compact)
    = Some (wrap_i64 (t div ns_per_second * ns_per_second))"
proof -
  define s where "s = t div ns_per_second"
  define day where "day = s div 86400"
  define c where "c = s - day * 86400"
  define date where "date = year_month_day day"
  have c: "0 \<le> c" "c < 86400"
    by (auto simp: c_def day_def minus_div_mult_eq_mod)
  have ymd: "1 \<le> ld_month date" "ld_month date \<le> 12" "1 \<le> ld_day date"
    "ld_day date \<le> last_day_of_month (ld_year date) (ld_month date)" "sys_days date = day"
    using year_month_day_spec [of day] by (auto simp: date_def)
  have year: "0 \<le> ld_year date" "ld_year date \<le> 9999"
    using assms by (auto simp: date_def day_def s_def)
  have ok: "date_ok date"
    using ymd year by (simp add: date_ok_def)
  have "ld_day date \<le> 31"
    using ymd last_day_of_month_bounds [of "ld_month date" "ld_year date"] by linarith
  then obtain y1 y2 y3 y4 m1 m2 d1 d2 where
    t: "setw_fill0 4 (int_text (ld_year date)) = [y1, y2, y3, y4]"
       "setw_fill0 2 (int_text (ld_month date)) = [m1, m2]"
       "setw_fill0 2 (int_text (ld_day date)) = [d1, d2]"
    and d: "decimal [y1, y2, y3, y4] = Some (ld_year date)" "decimal [m1, m2] = Some (ld_month date)"
       "decimal [d1, d2] = Some (ld_day date)"
    using date_texts [of "ld_year date" "ld_month date" "ld_day date"] ymd year by blast
  have hms: "0 \<le> c div 3600" "c div 3600 \<le> 23" "0 \<le> c mod 3600 div 60" "c mod 3600 div 60 \<le> 59"
    "0 \<le> c mod 60" "c mod 60 \<le> 59"
    using c by auto
  obtain h1 h2 where
    h: "setw_fill0 2 (int_text (c div 3600)) = [h1, h2]" "decimal [h1, h2] = Some (c div 3600)"
    using two_digit_text [of "c div 3600"] hms(1,2) by auto
  obtain n1 n2 where
    n: "setw_fill0 2 (int_text (c mod 3600 div 60)) = [n1, n2]"
      "decimal [n1, n2] = Some (c mod 3600 div 60)"
    using two_digit_text [of "c mod 3600 div 60"] hms(3,4) by auto
  obtain s1 s2 where
    s: "setw_fill0 2 (int_text (c mod 60)) = [s1, s2]" "decimal [s1, s2] = Some (c mod 60)"
    using two_digit_text [of "c mod 60"] hms(5,6) by auto
  have "c mod 3600 mod 60 = c mod 60"
    by (simp add: mod_mod_cancel)
  then have "c = c div 3600 * 3600 + (c mod 3600 div 60) * 60 + c mod 60"
    by (metis div_mult_mod_eq add.assoc)
  then have total: "day * 86400 + c div 3600 * 3600 + c mod 3600 div 60 * 60 + c mod 60 = s"
    by (simp add: c_def)
  have f: "format_utc t compact =
    [y1, y2, y3, y4, CHR ''-'', m1, m2, CHR ''-'', d1, d2, CHR ''T'', h1, h2]
    @ (if compact then [] else '':'') @ [n1, n2] @ (if compact then [] else '':'')
    @ [s1, s2, CHR ''Z'']"
    by (simp add: format_utc_def Let_def t h(1) n(1) s(1) flip: s_def day_def c_def date_def)
  show ?thesis
  proof (cases compact)
    case True
    show ?thesis
      unfolding parse_utc_timestamp_def f
      using True ok d h(2) n(2) s(2) hms ymd(5) total
      by (simp add: Let_def substr_def LocalDate_eta flip: s_def)
  next
    case False
    show ?thesis
      unfolding parse_utc_timestamp_def f
      using False ok d h(2) n(2) s(2) hms ymd(5) total
      by (simp add: Let_def substr_def LocalDate_eta flip: s_def)
  qed
qed

section \<open>Times of the system clock\<close>

text \<open>
  A time point of the system clock is a 64-bit count of nanoseconds, so its year is between
  1677 and 2262 and its text form has a four-digit year.
\<close>

definition clock_time :: "RuntimeTimePoint \<Rightarrow> bool" where
  "clock_time t \<longleftrightarrow> representable (t div ns_per_second * ns_per_second)"

lemma year_month_day_year:
  assumes "- 719528 \<le> n" and "n < 2932897"
  shows "0 \<le> ld_year (year_month_day n)" and "ld_year (year_month_day n) \<le> 9999"
proof -
  let ?y = "year_of_day (n + 719528)"
  have y: "ld_year (year_month_day n) = ?y"
    by (simp add: year_month_day_def Let_def split: prod.splits)
  have b: "days_before_year ?y \<le> n + 719528" "n + 719528 < days_before_year (?y + 1)"
    using year_of_day_bounds [of "n + 719528"] by auto
  have "- 699 \<le> 146097 * (?y + 1)"
    using days_before_year_upper [of "?y + 1"] b(2) assms(1) by simp
  then show "0 \<le> ld_year (year_month_day n)"
  proof (cases "?y = - 1")
    case True
    then show ?thesis
      using b(2) assms(1) by (simp add: days_before_year_def)
  qed (simp add: y)
  have "146097 * ?y \<le> 400 * (n + 719528) + 396"
    using days_before_year_lower [of ?y] b(1) by simp
  then have "146097 * ?y \<le> 1460970240"
    using assms(2) by simp
  then show "ld_year (year_month_day n) \<le> 9999"
  proof (cases "?y = 10000")
    case True
    then show ?thesis
      using b(1) assms(2) by (simp add: days_before_year_def)
  qed (simp add: y)
qed

lemma clock_time_day:
  assumes "clock_time t"
  shows "- 719528 \<le> t div ns_per_second div 86400" and "t div ns_per_second div 86400 < 2932897"
proof -
  have r: "- (2 ^ 63) \<le> t div ns_per_second * ns_per_second" "t div ns_per_second * ns_per_second < 2 ^ 63"
    using assms by (auto simp: clock_time_def representable_def)
  have "- 9223372037 \<le> t div ns_per_second" "t div ns_per_second \<le> 9223372036"
    using r by (simp_all add: ns_per_second_def)
  then have "- 106752 \<le> t div ns_per_second div 86400" "t div ns_per_second div 86400 \<le> 106751"
    using zdiv_mono1 [of "- 9223372037" "t div ns_per_second" 86400]
      zdiv_mono1 [of "t div ns_per_second" 9223372036 86400] by simp_all
  then show "- 719528 \<le> t div ns_per_second div 86400" "t div ns_per_second div 86400 < 2932897"
    by simp_all
qed

lemma parse_utc_timestamp_clock:
  assumes "clock_time t"
  shows "parse_utc_timestamp (format_utc t compact) = Some (t div ns_per_second * ns_per_second)"
  using parse_utc_timestamp_format [of t compact] year_month_day_year [OF clock_time_day [OF assms]]
    assms by (simp add: clock_time_def wrap_i64_id)

lemma length_format_utc:
  assumes "clock_time t"
  shows "length (format_utc t compact) = (if compact then 18 else 20)"
proof -
  let ?date = "year_month_day (t div ns_per_second div 86400)"
  let ?c = "t div ns_per_second - t div ns_per_second div 86400 * 86400"
  have ymd: "1 \<le> ld_month ?date" "ld_month ?date \<le> 12" "1 \<le> ld_day ?date"
    "ld_day ?date \<le> last_day_of_month (ld_year ?date) (ld_month ?date)"
    using year_month_day_spec [of "t div ns_per_second div 86400"] by auto
  have "ld_day ?date \<le> 31"
    using ymd last_day_of_month_bounds [of "ld_month ?date" "ld_year ?date"] by linarith
  then have d: "length (setw_fill0 4 (int_text (ld_year ?date))) = 4"
       "length (setw_fill0 2 (int_text (ld_month ?date))) = 2"
       "length (setw_fill0 2 (int_text (ld_day ?date))) = 2"
    using date_texts [of "ld_year ?date" "ld_month ?date" "ld_day ?date"] ymd
      year_month_day_year [OF clock_time_day [OF assms]] by fastforce+
  have c: "0 \<le> ?c" "?c < 86400"
    by (auto simp: minus_div_mult_eq_mod)
  have l: "0 \<le> i \<Longrightarrow> i \<le> 99 \<Longrightarrow> length (setw_fill0 2 (int_text i)) = 2" for i
    using two_digit_text [of i] by fastforce
  have "0 \<le> ?c div 3600" "?c div 3600 \<le> 99" "0 \<le> ?c mod 3600 div 60" "?c mod 3600 div 60 \<le> 99"
    "0 \<le> ?c mod 60" "?c mod 60 \<le> 99"
    using c by auto
  note ls = l [OF this(1,2)] l [OF this(3,4)] l [OF this(5,6)]
  show ?thesis
    unfolding format_utc_def Let_def by (simp add: d ls)
qed

end
