(* ===== verification/SnapshotInventory.thy ===== *)
theory SnapshotInventory
  imports ConfigDomain RuntimeTime
begin

text \<open>
  backup/model/SnapshotInventory: snapshot names and their parser, snapshot identifiers, and the
  scan of a snapshot directory into a sorted inventory. What the scan reads from the file system
  is an argument: the entries of the directory with their \<open>symlink_status\<close>, and the metadata
  reader (\<open>SnapshotMetadataReader\<close>), which asks btrfs about one path.
\<close>

section \<open>Types\<close>

datatype SnapshotSide = Local | Remote

type_synonym SnapshotUuid = string
type_synonym ReceivedSnapshotUuid = string

record SnapshotName =
  sn_source_id :: SourceId
  sn_timestamp :: RuntimeTimePoint
  sn_sequence :: int
  sn_name :: string

record SnapshotMetadata =
  is_subvolume :: bool
  sm_readonly :: bool
  sm_uuid :: SnapshotUuid
  sm_received_uuid :: ReceivedSnapshotUuid

record SnapshotInfo =
  si_side :: SnapshotSide
  si_source_id :: SourceId
  si_name :: string
  si_timestamp :: RuntimeTimePoint
  si_sequence :: int
  si_path :: path
  si_readonly :: bool
  si_uuid :: SnapshotUuid
  si_received_uuid :: ReceivedSnapshotUuid

text \<open>The answers of the file system to \<open>fs::exists\<close>, \<open>fs::is_directory\<close> and the iteration.\<close>

datatype EntryStatus = StatusError | Symlink | Directory | OtherEntry

datatype DirectoryScan =
    ScanMissing
  | ScanNotDirectory
  | ScanEntries "(string \<times> EntryStatus) list"
  | ScanFails string \<comment> \<open>\<open>std::filesystem::filesystem_error\<close>\<close>

type_synonym SnapshotMetadataReader = "(path \<Rightarrow> SnapshotMetadata option result) option"

section \<open>Operations\<close>

definition normalized_uuid :: "string \<Rightarrow> string" where
  "normalized_uuid v = map to_lower v"

definition all_digits :: "string \<Rightarrow> bool" where
  "all_digits v \<longleftrightarrow> list_all is_digit v"

definition metadata_sort_key_less :: "SnapshotInfo \<Rightarrow> SnapshotInfo \<Rightarrow> bool" where
  "metadata_sort_key_less l r \<longleftrightarrow>
     (if si_timestamp l \<noteq> si_timestamp r then si_timestamp l < si_timestamp r
      else if si_sequence l \<noteq> si_sequence r then si_sequence l < si_sequence r
      else si_path l < si_path r)"

definition make_SnapshotUuid :: "string \<Rightarrow> SnapshotUuid" where
  "make_SnapshotUuid v = normalized_uuid v"

definition make_ReceivedSnapshotUuid :: "string \<Rightarrow> ReceivedSnapshotUuid" where
  "make_ReceivedSnapshotUuid v = normalized_uuid v"

definition uuid_matches :: "SnapshotUuid \<Rightarrow> ReceivedSnapshotUuid \<Rightarrow> bool" where
  "uuid_matches snapshot received \<longleftrightarrow> snapshot \<noteq> [] \<and> received \<noteq> [] \<and> snapshot = received"

definition parse_snapshot_name :: "string \<Rightarrow> SourceId \<Rightarrow> SnapshotName option" where
  "parse_snapshot_name name source =
     (let prefix = source @ ''-''
      in if take (length prefix) name \<noteq> prefix then None
         else (let rest = drop (length prefix) name
           in if length rest \<noteq> 18 \<and> length rest \<noteq> 21 then None
              else (case parse_utc_timestamp (substr 0 18 rest) of
                 None \<Rightarrow> None
               | Some timestamp \<Rightarrow>
                   if length rest = 21 then
                     (if rest ! 18 \<noteq> CHR ''-'' \<or> \<not> all_digits (substr 19 2 rest) then None
                      else (let sequence = int (foldl (\<lambda>a c. a * 10 + digit_val c) 0 (substr 19 2 rest))
                        in if sequence \<le> 0 then None
                           else Some \<lparr> sn_source_id = source, sn_timestamp = timestamp,
                                       sn_sequence = sequence, sn_name = name \<rparr>))
                   else Some \<lparr> sn_source_id = source, sn_timestamp = timestamp,
                               sn_sequence = 0, sn_name = name \<rparr>)))"

definition inventory_entry ::
  "path \<Rightarrow> path \<Rightarrow> SourceId \<Rightarrow> SnapshotSide \<Rightarrow> (path \<Rightarrow> SnapshotMetadata option result)
   \<Rightarrow> string \<Rightarrow> EntryStatus \<Rightarrow> SnapshotInfo option result" where
  \<comment> \<open>the body of the loop; \<open>Inr None\<close> is \<open>continue\<close>\<close>
  "inventory_entry scan_directory reported source side reader name status =
     (case status of
        StatusError \<Rightarrow> Inl (ValidationError
          (''could not inspect snapshot inventory entry: '' @ path_append scan_directory name))
      | Symlink \<Rightarrow> Inl (ValidationError
          (''symbolic link is forbidden in snapshot inventory: '' @ path_append reported name))
      | OtherEntry \<Rightarrow> Inr None
      | Directory \<Rightarrow>
          (case parse_snapshot_name name source of
             None \<Rightarrow> Inr None
           | Some parsed \<Rightarrow>
               bindE (reader (path_append scan_directory name)) (\<lambda>metadata.
                 case metadata of
                   None \<Rightarrow> Inr None
                 | Some m \<Rightarrow>
                     if \<not> is_subvolume m then Inr None
                     else Inr (Some
                         \<lparr> si_side = side, si_source_id = sn_source_id parsed,
                           si_name = sn_name parsed, si_timestamp = sn_timestamp parsed,
                           si_sequence = sn_sequence parsed, si_path = path_append reported name,
                           si_readonly = sm_readonly m, si_uuid = sm_uuid m,
                           si_received_uuid = sm_received_uuid m \<rparr>))))"

fun inventory_entries ::
  "path \<Rightarrow> path \<Rightarrow> SourceId \<Rightarrow> SnapshotSide \<Rightarrow> (path \<Rightarrow> SnapshotMetadata option result)
   \<Rightarrow> (string \<times> EntryStatus) list \<Rightarrow> SnapshotInfo list result" where
  \<comment> \<open>the loop over \<open>fs::directory_iterator\<close>\<close>
  "inventory_entries scan_directory reported source side reader [] = Inr []"
| "inventory_entries scan_directory reported source side reader ((name, status) # entries) =
     bindE (inventory_entry scan_directory reported source side reader name status) (\<lambda>info.
     bindE (inventory_entries scan_directory reported source side reader entries) (\<lambda>infos.
       Inr (case info of None \<Rightarrow> infos | Some i \<Rightarrow> i # infos)))"

definition list_snapshot_inventory_at ::
  "(path \<Rightarrow> DirectoryScan) \<Rightarrow> path \<Rightarrow> path \<Rightarrow> SourceId \<Rightarrow> SnapshotSide \<Rightarrow> SnapshotMetadataReader
   \<Rightarrow> SnapshotInfo list result" where
  "list_snapshot_inventory_at fs scan_directory reported source side metadata_reader =
     (case metadata_reader of
        None \<Rightarrow> Inl (ValidationError ''snapshot metadata reader is required'')
      | Some reader \<Rightarrow>
          (case fs scan_directory of
             ScanMissing \<Rightarrow> Inr []
           | ScanNotDirectory \<Rightarrow>
               Inl (ValidationError (''snapshot inventory path is not a directory: '' @ reported))
           | ScanFails message \<Rightarrow> Inl (StdException message)
           | ScanEntries entries \<Rightarrow>
               bindE (inventory_entries scan_directory reported source side reader entries)
                 (\<lambda>infos. Inr (std_sort metadata_sort_key_less infos))))"

definition list_snapshot_inventory ::
  "(path \<Rightarrow> DirectoryScan) \<Rightarrow> path \<Rightarrow> SourceId \<Rightarrow> SnapshotSide \<Rightarrow> SnapshotMetadataReader
   \<Rightarrow> SnapshotInfo list result" where
  "list_snapshot_inventory fs directory source side metadata_reader =
     list_snapshot_inventory_at fs directory directory source side metadata_reader"

section \<open>The sort key\<close>

interpretation inventory_order: strict_weak_order metadata_sort_key_less
  by unfold_locales (auto simp: metadata_sort_key_less_def split: if_splits)

lemma metadata_sort_key_total:
  "\<not> metadata_sort_key_less x y \<Longrightarrow> \<not> metadata_sort_key_less y x
   \<Longrightarrow> si_timestamp x = si_timestamp y \<and> si_sequence x = si_sequence y \<and> si_path x = si_path y"
  by (auto simp: metadata_sort_key_less_def split: if_splits)

section \<open>Snapshot names\<close>

definition two_digit :: "nat \<Rightarrow> string" where
  \<comment> \<open>\<open>%02d\<close> of a number below 100\<close>
  "two_digit n = [digit_char (n div 10), digit_char (n mod 10)]"

lemma two_digit_facts:
  assumes "n < 100"
  shows "length (two_digit n) = 2" and "all_digits (two_digit n)"
    and "foldl (\<lambda>a c. a * 10 + digit_val c) 0 (two_digit n) = n"
  using assms by (simp_all add: two_digit_def all_digits_def)

lemma parse_snapshot_name_base:
  assumes "clock_time t"
  shows "parse_snapshot_name (source @ ''-'' @ format_utc_snapshot_timestamp t) source =
    Some \<lparr> sn_source_id = source, sn_timestamp = t div ns_per_second * ns_per_second,
      sn_sequence = 0, sn_name = source @ ''-'' @ format_utc_snapshot_timestamp t \<rparr>"
  using parse_utc_timestamp_clock [OF assms, of True] length_format_utc [OF assms, of True]
  by (simp add: parse_snapshot_name_def Let_def substr_def format_utc_snapshot_timestamp_def)

lemma parse_snapshot_name_sequence:
  assumes "clock_time t" and "1 \<le> n" and "n < 100"
  shows "parse_snapshot_name (source @ ''-'' @ format_utc_snapshot_timestamp t @ ''-'' @ two_digit n) source =
    Some \<lparr> sn_source_id = source, sn_timestamp = t div ns_per_second * ns_per_second,
      sn_sequence = int n,
      sn_name = source @ ''-'' @ format_utc_snapshot_timestamp t @ ''-'' @ two_digit n \<rparr>"
  using parse_utc_timestamp_clock [OF assms(1), of True] length_format_utc [OF assms(1), of True]
    two_digit_facts [OF assms(3)] assms(2)
  by (simp add: parse_snapshot_name_def Let_def substr_def format_utc_snapshot_timestamp_def
      nth_append)

lemma parse_snapshot_name_Some:
  assumes "parse_snapshot_name name source = Some p"
  shows "sn_source_id p = source" and "sn_name p = name" and "0 \<le> sn_sequence p"
    and "sn_sequence p \<le> 99" and "\<exists>rest. name = source @ ''-'' @ rest \<and> length rest \<in> {18, 21}"
proof -
  have rest: "\<exists>rest. name = source @ ''-'' @ rest \<and> length rest \<in> {18, 21}"
  proof
    let ?rest = "drop (length (source @ ''-'')) name"
    have "take (length (source @ ''-'')) name = source @ ''-''" "length ?rest \<in> {18, 21}"
      using assms by (auto simp: parse_snapshot_name_def Let_def split: if_splits)
    then show "name = source @ ''-'' @ ?rest \<and> length ?rest \<in> {18, 21}"
      by (metis append.assoc append_take_drop_id)
  qed
  then show "\<exists>rest. name = source @ ''-'' @ rest \<and> length rest \<in> {18, 21}" .
  show "sn_source_id p = source" "sn_name p = name" "0 \<le> sn_sequence p"
    using assms
    by (auto simp: parse_snapshot_name_def Let_def split: if_splits option.splits)
  obtain rest where r: "name = source @ ''-'' @ rest"
    using rest by blast
  have d: "is_digit c \<Longrightarrow> digit_val c \<le> 9" for c
    by (auto simp: is_digit_def digit_val_def)
  have "sn_sequence p = 0 \<or> (length rest = 21 \<and> all_digits (substr 19 2 rest)
    \<and> sn_sequence p = int (foldl (\<lambda>a c. a * 10 + digit_val c) 0 (substr 19 2 rest)))"
    using assms r by (auto simp: parse_snapshot_name_def Let_def split: if_splits option.splits)
  moreover have "foldl (\<lambda>a c. a * 10 + digit_val c) 0 w \<le> 99" if w: "all_digits w" "length w \<le> 2" for w
  proof -
    consider "w = []" | a where "w = [a]" | a b where "w = [a, b]"
      using w(2) by (cases w; cases "tl w"; cases "tl (tl w)") auto
    then show ?thesis
    proof cases
      case (2 a)
      then show ?thesis using w(1) d [of a] by (simp add: all_digits_def)
    next
      case (3 a b)
      then show ?thesis using w(1) d [of a] d [of b] by (simp add: all_digits_def)
    qed simp
  qed
  ultimately show "sn_sequence p \<le> 99"
    by (auto simp: substr_def)
qed

section \<open>What an inventory holds\<close>

definition inventory_item ::
  "path \<Rightarrow> path \<Rightarrow> SourceId \<Rightarrow> SnapshotSide \<Rightarrow> (path \<Rightarrow> SnapshotMetadata option result)
   \<Rightarrow> SnapshotInfo \<Rightarrow> bool" where
  \<comment> \<open>an item describes a subvolume of the directory whose name is a snapshot name of the source\<close>
  "inventory_item sd rd source side reader i \<longleftrightarrow>
     si_side i = side \<and> si_source_id i = source \<and> si_path i = path_append rd (si_name i)
     \<and> (\<exists>p. parse_snapshot_name (si_name i) source = Some p \<and> si_timestamp i = sn_timestamp p
          \<and> si_sequence i = sn_sequence p)
     \<and> (\<exists>m. reader (path_append sd (si_name i)) = Inr (Some m) \<and> is_subvolume m
          \<and> si_readonly i = sm_readonly m \<and> si_uuid i = sm_uuid m
          \<and> si_received_uuid i = sm_received_uuid m)"

lemma inventory_entry_Some:
  "inventory_entry sd rd source side reader n st = Inr (Some i)
   \<Longrightarrow> st = Directory \<and> si_name i = n \<and> inventory_item sd rd source side reader i"
  using parse_snapshot_name_Some(1,2) [of n source]
  by (auto simp: inventory_entry_def inventory_item_def result_simps
      split: EntryStatus.splits option.splits if_splits)

lemma inventory_entry_None:
  "inventory_entry sd rd source side reader n st = Inr None
   \<Longrightarrow> st = OtherEntry \<or> st = Directory \<and> (parse_snapshot_name n source = None
        \<or> (\<exists>md. reader (path_append sd n) = Inr md \<and> (\<forall>m. md = Some m \<longrightarrow> \<not> is_subvolume m)))"
  by (auto simp: inventory_entry_def result_simps
      split: EntryStatus.splits option.splits if_splits)

lemma inventory_entries_sound:
  "inventory_entries sd rd source side reader entries = Inr infos
   \<Longrightarrow> \<forall>i \<in> set infos. inventory_item sd rd source side reader i \<and> (si_name i, Directory) \<in> set entries"
proof (induction sd rd source side reader entries arbitrary: infos rule: inventory_entries.induct)
  case (2 sd rd source side reader n st es)
  from "2.prems" obtain info rest where
    i: "inventory_entry sd rd source side reader n st = Inr info"
    and r: "inventory_entries sd rd source side reader es = Inr rest"
    and infos: "infos = (case info of None \<Rightarrow> rest | Some i \<Rightarrow> i # rest)"
    by (auto simp: result_simps)
  have "\<forall>i \<in> set rest. inventory_item sd rd source side reader i \<and> (si_name i, Directory) \<in> set es"
    using "2.IH" i r by blast
  then show ?case
    using infos i by (cases info) (auto dest: inventory_entry_Some)
qed simp

lemma inventory_entries_no_symlink:
  "inventory_entries sd rd source side reader entries = Inr infos
   \<Longrightarrow> (n, st) \<in> set entries \<Longrightarrow> st = Directory \<or> st = OtherEntry"
proof (induction sd rd source side reader entries arbitrary: infos rule: inventory_entries.induct)
  case (2 sd rd source side reader n' st' es)
  then show ?case
    by (auto simp: result_simps)
      (metis inventory_entry_None inventory_entry_Some option.exhaust)
qed simp

lemma inventory_entries_complete:
  "inventory_entries sd rd source side reader entries = Inr infos
   \<Longrightarrow> (n, Directory) \<in> set entries \<Longrightarrow> parse_snapshot_name n source = Some p
   \<Longrightarrow> reader (path_append sd n) = Inr (Some m) \<Longrightarrow> is_subvolume m
   \<Longrightarrow> \<exists>i \<in> set infos. si_name i = n"
proof (induction sd rd source side reader entries arbitrary: infos rule: inventory_entries.induct)
  case (2 sd rd source side reader n' st' es)
  from "2.prems"(1) obtain info rest where
    i: "inventory_entry sd rd source side reader n' st' = Inr info"
    and r: "inventory_entries sd rd source side reader es = Inr rest"
    and infos: "infos = (case info of None \<Rightarrow> rest | Some i \<Rightarrow> i # rest)"
    by (auto simp: result_simps)
  show ?case
  proof (cases "(n, Directory) \<in> set es")
    case True
    then have "\<exists>i \<in> set rest. si_name i = n"
      using "2.IH" i r "2.prems" by blast
    then show ?thesis
      using infos by (cases info) auto
  next
    case False
    then have n: "n' = n" "st' = Directory"
      using "2.prems"(2) by auto
    then have "info \<noteq> None"
      using i inventory_entry_None [of sd rd source side reader n' st'] "2.prems"(3-5) by auto
    then show ?thesis
      using i inventory_entry_Some infos n(1) by (cases info) fastforce+
  qed
qed simp

lemma inventory_entries_names:
  "inventory_entries sd rd source side reader entries = Inr infos
   \<Longrightarrow> distinct (map fst entries) \<Longrightarrow> distinct (map si_name infos)"
proof (induction sd rd source side reader entries arbitrary: infos rule: inventory_entries.induct)
  case (2 sd rd source side reader n st es)
  from "2.prems"(1) obtain info rest where
    i: "inventory_entry sd rd source side reader n st = Inr info"
    and r: "inventory_entries sd rd source side reader es = Inr rest"
    and infos: "infos = (case info of None \<Rightarrow> rest | Some i \<Rightarrow> i # rest)"
    by (auto simp: result_simps)
  have d: "distinct (map si_name rest)"
    using "2.IH" i r "2.prems"(2) by simp
  have "n \<notin> set (map si_name rest)"
    using inventory_entries_sound [OF r] "2.prems"(2) by force
  then show ?case
    using infos i d by (cases info) (auto dest: inventory_entry_Some)
qed simp

lemma list_snapshot_inventory_at_Inr:
  assumes "list_snapshot_inventory_at fs sd rd source side (Some reader) = Inr infos"
  shows "fs sd = ScanMissing \<and> infos = []
    \<or> (\<exists>entries raw. fs sd = ScanEntries entries
         \<and> inventory_entries sd rd source side reader entries = Inr raw
         \<and> infos = std_sort metadata_sort_key_less raw)"
  using assms by (auto simp: list_snapshot_inventory_at_def result_simps split: DirectoryScan.splits)

end
