(* ===== verification/Retention.thy ===== *)
theory Retention
  imports SnapshotInventory
begin

text \<open>backup/model/RetentionPlan: which snapshots of a source are kept and which are deleted.\<close>

record RetentionPlan =
  rp_source_id :: SourceId
  keep_count :: nat
  keep :: "SnapshotInfo list"
  delete_snapshots :: "SnapshotInfo list"

definition oldest_first :: "SnapshotInfo \<Rightarrow> SnapshotInfo \<Rightarrow> bool" where
  "oldest_first l r \<longleftrightarrow>
     (if si_timestamp l \<noteq> si_timestamp r then si_timestamp l < si_timestamp r
      else if si_sequence l \<noteq> si_sequence r then si_sequence l < si_sequence r
      else si_path l < si_path r)"

definition plan_count_retention :: "SourceId \<Rightarrow> SnapshotInfo list \<Rightarrow> nat \<Rightarrow> RetentionPlan" where
  "plan_count_retention source snapshots keep_n =
     (let matching = std_sort oldest_first (filter (\<lambda>s. si_source_id s = source) snapshots);
          plan = \<lparr> rp_source_id = source, keep_count = keep_n, keep = [], delete_snapshots = [] \<rparr>
      in if keep_n = 0 \<or> length matching \<le> keep_n then plan\<lparr> keep := matching \<rparr>
         else (let delete_count = length matching - keep_n
           in plan\<lparr> delete_snapshots := take delete_count matching,
                    keep := drop delete_count matching \<rparr>))"

interpretation age_order: strict_weak_order oldest_first
  by unfold_locales (auto simp: oldest_first_def split: if_splits)

section \<open>Every snapshot of the source is kept or deleted, and the newest are kept\<close>

lemma plan_count_retention_split:
  "delete_snapshots (plan_count_retention source snapshots n) @ keep (plan_count_retention source snapshots n)
   = std_sort oldest_first (filter (\<lambda>s. si_source_id s = source) snapshots)"
  by (simp add: plan_count_retention_def Let_def)

lemma plan_count_retention_set:
  "set (delete_snapshots (plan_count_retention source snapshots n))
   \<union> set (keep (plan_count_retention source snapshots n)) = {s \<in> set snapshots. si_source_id s = source}"
  using arg_cong [OF plan_count_retention_split, of set source snapshots n] by auto

lemma plan_count_retention_delete_subset:
  "s \<in> set (delete_snapshots (plan_count_retention source snapshots n))
   \<Longrightarrow> s \<in> set snapshots \<and> si_source_id s = source"
  using plan_count_retention_set by auto

lemma plan_count_retention_older:
  assumes "d \<in> set (delete_snapshots (plan_count_retention source snapshots n))"
    and "k \<in> set (keep (plan_count_retention source snapshots n))"
  shows "\<not> oldest_first k d"
  using age_order.sorted_std_sort [of "filter (\<lambda>s. si_source_id s = source) snapshots"] assms
  by (simp add: plan_count_retention_split [of source snapshots n, symmetric] sorted_wrt_append)

lemma plan_count_retention_lengths:
  "length (keep (plan_count_retention source snapshots n)) =
     (let m = length (filter (\<lambda>s. si_source_id s = source) snapshots)
      in if n = 0 then m else min n m)"
  by (auto simp: plan_count_retention_def Let_def)

text \<open>
  A snapshot that is newer than every other one of its source is never deleted; this is what
  protects the snapshot a run is about to create.
\<close>

lemma plan_count_retention_keeps_newest:
  assumes newest: "\<And>s. s \<in> set others \<Longrightarrow> si_source_id s = source \<Longrightarrow> oldest_first s new"
    and source: "si_source_id new = source"
  shows "new \<notin> set (delete_snapshots (plan_count_retention source (others @ [new]) n))"
proof
  let ?p = "plan_count_retention source (others @ [new]) n"
  assume del: "new \<in> set (delete_snapshots ?p)"
  then have ne: "delete_snapshots ?p \<noteq> []" by auto
  have "keep ?p \<noteq> []"
  proof
    assume "keep ?p = []"
    then have "length (keep ?p) = 0" by simp
    moreover have "length (filter (\<lambda>s. si_source_id s = source) (others @ [new])) > 0"
      using source by simp
    ultimately have "n = 0"
      by (simp add: plan_count_retention_lengths Let_def min_def del: filter_append split: if_splits)
    then show False
      using ne by (simp add: plan_count_retention_def Let_def)
  qed
  then obtain k where k: "k \<in> set (keep ?p)"
    by (cases "keep ?p") auto
  have "new \<notin> set others"
    using newest [of new] source age_order.less_irrefl by blast
  then have "count (mset (filter (\<lambda>s. si_source_id s = source) (others @ [new]))) new = 1"
    using source by (simp add: count_mset_0_iff)
  moreover have "mset (delete_snapshots ?p) + mset (keep ?p)
      = mset (filter (\<lambda>s. si_source_id s = source) (others @ [new]))"
    using arg_cong [OF plan_count_retention_split, of mset source "others @ [new]" n] by simp
  ultimately have "count (mset (delete_snapshots ?p)) new + count (mset (keep ?p)) new = 1"
    by (metis count_union)
  moreover have "count (mset (delete_snapshots ?p)) new > 0"
    using del by simp
  ultimately have "count (mset (keep ?p)) new = 0"
    by linarith
  then have "k \<noteq> new"
    using k by (auto simp: count_mset_0_iff)
  moreover have "k \<in> set (others @ [new]) \<and> si_source_id k = source"
    using k plan_count_retention_set [of source "others @ [new]" n] by blast
  ultimately have "oldest_first k new"
    using newest by auto
  then show False
    using plan_count_retention_older [OF del k] by simp
qed

section \<open>Properties\<close>

text \<open>
  Property C18: the retention plan of a source partitions the snapshots of that source into the
  deleted and the kept ones. Nothing kept is older than anything deleted, exactly
  \<open>min keep_count\<close> of them are kept, and a keep count of zero deletes nothing.
\<close>

theorem plan_count_retention_correct:
  "let plan = plan_count_retention source snapshots n;
       own = filter (\<lambda>s. si_source_id s = source) snapshots
   in mset (delete_snapshots plan) + mset (keep plan) = mset own
      \<and> list_all (\<lambda>d. list_all (\<lambda>k. \<not> oldest_first k d) (keep plan)) (delete_snapshots plan)
      \<and> length (keep plan) = (if n = 0 then length own else min n (length own))
      \<and> (if n = 0 then delete_snapshots plan = [] else True)"
proof -
  let ?plan = "plan_count_retention source snapshots n"
  let ?own = "filter (\<lambda>s. si_source_id s = source) snapshots"
  have "mset (delete_snapshots ?plan @ keep ?plan) = mset ?own"
    by (simp only: plan_count_retention_split mset_std_sort)
  moreover have "\<forall>d \<in> set (delete_snapshots ?plan). \<forall>k \<in> set (keep ?plan). \<not> oldest_first k d"
    using plan_count_retention_older by blast
  moreover have "n = 0 \<Longrightarrow> delete_snapshots ?plan = []"
    by (simp add: plan_count_retention_def Let_def)
  ultimately show ?thesis
    by (simp add: list_all_iff plan_count_retention_lengths Let_def)
qed

end
