(* ===== verification/IncrementalParent.thy ===== *)
theory IncrementalParent
  imports SnapshotInventory
begin

text \<open>
  backup/model/IncrementalParent: the choice of the parent of an incremental transfer, a local
  snapshot whose UUID is the received UUID of a snapshot on the target.
\<close>

datatype IncrementalParentSelection =
    FullTransfer
  | IncrementalTransfer (local_parent: SnapshotInfo) (remote_parent: SnapshotInfo)

definition normalized_path_string :: "path \<Rightarrow> string" where
  "normalized_path_string p = lexically_normal p"

definition same_path_text :: "path \<Rightarrow> path \<Rightarrow> bool" where
  "same_path_text l r \<longleftrightarrow> normalized_path_string l = normalized_path_string r"

definition newest_first :: "SnapshotInfo \<Rightarrow> SnapshotInfo \<Rightarrow> bool" where
  "newest_first l r \<longleftrightarrow>
     (if si_timestamp l \<noteq> si_timestamp r then si_timestamp l > si_timestamp r
      else if si_sequence l \<noteq> si_sequence r then si_sequence l > si_sequence r
      else si_path l > si_path r)"

type_synonym ReceivedIndex = "(ReceivedSnapshotUuid \<times> SnapshotInfo) list"

fun index_remote :: "SourceId \<Rightarrow> SnapshotInfo list \<Rightarrow> bool \<times> ReceivedIndex \<Rightarrow> (bool \<times> ReceivedIndex) result"
  where
  \<comment> \<open>the first loop: \<open>remote_snapshots_exist\<close> and \<open>remote_by_received_uuid\<close>\<close>
  "index_remote source [] acc = Inr acc"
| "index_remote source (remote # rs) (exist, index) =
     (if si_source_id remote \<noteq> source then index_remote source rs (exist, index)
      else if \<not> si_readonly remote \<or> si_received_uuid remote = [] then index_remote source rs (True, index)
      else (case find (\<lambda>entry. fst entry = si_received_uuid remote) index of
          Some entry \<Rightarrow>
            if \<not> path_eq (si_path (snd entry)) (si_path remote)
            then Inl (ValidationError (''ambiguous remote parent received UUID for '' @ source
              @ '': '' @ si_received_uuid remote))
            else index_remote source rs (True, index)
        | None \<Rightarrow> index_remote source rs (True, index @ [(si_received_uuid remote, remote)])))"

definition parent_candidate :: "SourceId \<Rightarrow> path option \<Rightarrow> SnapshotInfo \<Rightarrow> bool" where
  \<comment> \<open>the conditions of the second loop\<close>
  "parent_candidate source current l \<longleftrightarrow>
     \<not> (si_source_id l \<noteq> source \<or> \<not> si_readonly l \<or> si_uuid l = [])
     \<and> \<not> (case current of None \<Rightarrow> False | Some p \<Rightarrow> same_path_text (si_path l) p)"

fun first_matching_parent :: "ReceivedIndex \<Rightarrow> SnapshotInfo list \<Rightarrow> (SnapshotInfo \<times> SnapshotInfo) option"
  where
  "first_matching_parent index [] = None"
| "first_matching_parent index (l # ls) =
     (case find (\<lambda>entry. uuid_matches (si_uuid l) (fst entry)) index of
        None \<Rightarrow> first_matching_parent index ls
      | Some entry \<Rightarrow> Some (l, snd entry))"

definition select_incremental_parent ::
  "SourceId \<Rightarrow> SnapshotInfo list \<Rightarrow> SnapshotInfo list \<Rightarrow> path option \<Rightarrow> bool
   \<Rightarrow> IncrementalParentSelection result" where
  "select_incremental_parent source local_snapshots remote_snapshots current incremental_req =
     bindE (index_remote source remote_snapshots (False, [])) (\<lambda>(remote_snapshots_exist, index).
       let candidates = std_sort newest_first (filter (parent_candidate source current) local_snapshots)
       in case first_matching_parent index candidates of
            Some (l, r) \<Rightarrow> Inr (IncrementalTransfer l r)
          | None \<Rightarrow>
              if remote_snapshots_exist \<and> incremental_req
              then Inl (ValidationError (''Remote snapshots exist for '' @ source
                @ '', but no UUID-matching local parent was found.''))
              else Inr FullTransfer)"

interpretation recency_order: strict_weak_order newest_first
  by unfold_locales (auto simp: newest_first_def split: if_splits)

section \<open>The index of received UUIDs\<close>

definition eligible_remote :: "SourceId \<Rightarrow> SnapshotInfo \<Rightarrow> bool" where
  "eligible_remote source r \<longleftrightarrow> si_source_id r = source \<and> si_readonly r \<and> si_received_uuid r \<noteq> []"

lemma index_remote_exist:
  "index_remote source rs (exist, index) = Inr (exist', index')
   \<Longrightarrow> exist' \<longleftrightarrow> exist \<or> (\<exists>r \<in> set rs. si_source_id r = source)"
  by (induction rs arbitrary: exist index) (auto split: if_splits option.splits)

lemma index_remote_sound:
  "index_remote source rs (exist, index) = Inr (exist', index') \<Longrightarrow> (u, r) \<in> set index'
   \<Longrightarrow> (u, r) \<in> set index \<or> r \<in> set rs \<and> eligible_remote source r \<and> u = si_received_uuid r"
  by (induction rs arbitrary: exist index)
    (fastforce simp: eligible_remote_def split: if_splits option.splits)+

lemma index_remote_extends:
  "index_remote source rs (exist, index) = Inr (exist', index') \<Longrightarrow> e \<in> set index \<Longrightarrow> e \<in> set index'"
  by (induction rs arbitrary: exist index) (auto split: if_splits option.splits)

lemma index_remote_complete:
  "index_remote source rs (exist, index) = Inr (exist', index') \<Longrightarrow> r \<in> set rs \<Longrightarrow> eligible_remote source r
   \<Longrightarrow> \<exists>r'. (si_received_uuid r, r') \<in> set index' \<and> path_eq (si_path r') (si_path r)"
proof (induction rs arbitrary: exist index)
  case (Cons x rs)
  show ?case
  proof (cases "r = x")
    case True
    then show ?thesis
    proof (cases "find (\<lambda>entry. fst entry = si_received_uuid x) index")
      case None
      then have "index_remote source rs (True, index @ [(si_received_uuid x, x)]) = Inr (exist', index')"
        using Cons.prems True by (simp add: eligible_remote_def split: if_splits)
      then show ?thesis
        using index_remote_extends [of _ _ _ "index @ [(si_received_uuid x, x)]"] True
        by (fastforce simp: path_eq_def)
    next
      case (Some e)
      then have e: "e \<in> set index" "fst e = si_received_uuid x"
        using find_Some_iff_member [OF Some] by auto
      moreover from Some have "path_eq (si_path (snd e)) (si_path x)"
        "index_remote source rs (True, index) = Inr (exist', index')"
        using Cons.prems True by (auto simp: eligible_remote_def split: if_splits)
      ultimately show ?thesis
        using index_remote_extends [of _ _ _ index] True by (metis prod.collapse)
    qed
  next
    case False
    then have "r \<in> set rs"
      using Cons.prems(2) by simp
    then show ?thesis
      using Cons.IH Cons.prems(1,3) by (auto split: if_splits option.splits)
  qed
qed simp

lemma index_remote_ambiguous:
  "index_remote source rs (exist, index) = Inl e
   \<Longrightarrow> \<forall>en \<in> set index. eligible_remote source (snd en) \<and> fst en = si_received_uuid (snd en) \<and> snd en \<in> S
   \<Longrightarrow> set rs \<subseteq> S
   \<Longrightarrow> \<exists>r1 \<in> S. \<exists>r2 \<in> S. eligible_remote source r1 \<and> eligible_remote source r2
        \<and> si_received_uuid r1 = si_received_uuid r2 \<and> \<not> path_eq (si_path r1) (si_path r2)"
proof (induction rs arbitrary: exist index)
  case (Cons x rs)
  show ?case
  proof (cases "si_source_id x = source \<and> si_readonly x \<and> si_received_uuid x \<noteq> []")
    case False
    then show ?thesis
      using Cons.IH [of _ index] Cons.prems by (auto split: if_splits)
  next
    case True
    then have x: "eligible_remote source x" by (simp add: eligible_remote_def)
    show ?thesis
    proof (cases "find (\<lambda>entry. fst entry = si_received_uuid x) index")
      case None
      then show ?thesis
        using Cons.IH [of True "index @ [(si_received_uuid x, x)]"] Cons.prems True x by auto
    next
      case (Some en)
      then have en: "en \<in> set index" "fst en = si_received_uuid x"
        using find_Some_iff_member [OF Some] by auto
      then have "eligible_remote source (snd en)" "si_received_uuid (snd en) = si_received_uuid x"
        "snd en \<in> S" "x \<in> S"
        using Cons.prems(2,3) by auto
      then show ?thesis
        using Cons.IH [of True index] Cons.prems True Some x by (auto split: if_splits)
    qed
  qed
qed simp

section \<open>The selected parent\<close>

lemma first_matching_parent_Some:
  "first_matching_parent index ls = Some (l, r)
   \<Longrightarrow> l \<in> set ls \<and> (\<exists>u. (u, r) \<in> set index \<and> uuid_matches (si_uuid l) u)"
proof (induction ls)
  case (Cons x ls)
  show ?case
  proof (cases "find (\<lambda>entry. uuid_matches (si_uuid x) (fst entry)) index")
    case None
    then show ?thesis using Cons by auto
  next
    case (Some e)
    then show ?thesis
      using Cons.prems find_Some_iff_member [OF Some] by (metis (no_types, lifting)
        first_matching_parent.simps(2) list.set_intros(1) option.inject option.simps(5) prod.collapse prod.inject)
  qed
qed simp

lemma first_matching_parent_None:
  "first_matching_parent index ls = None \<longleftrightarrow>
   (\<forall>l \<in> set ls. \<forall>en \<in> set index. \<not> uuid_matches (si_uuid l) (fst en))"
proof (induction ls)
  case (Cons x ls)
  show ?case
  proof (cases "find (\<lambda>entry. uuid_matches (si_uuid x) (fst entry)) index")
    case None
    then have "\<forall>en \<in> set index. \<not> uuid_matches (si_uuid x) (fst en)"
      by (auto simp: find_None_iff)
    then show ?thesis using Cons None by simp
  next
    case (Some e)
    then show ?thesis
      using find_Some_iff_member [OF Some] by auto
  qed
qed simp

lemma first_matching_parent_first:
  assumes "first_matching_parent index ls = Some (l, r)"
    and "sorted_wrt (\<lambda>x y. \<not> newest_first y x) ls"
    and "l' \<in> set ls" and "(u, r') \<in> set index" and "uuid_matches (si_uuid l') u"
  shows "\<not> newest_first l' l"
  using assms
proof (induction ls)
  case (Cons x ls)
  show ?case
  proof (cases "find (\<lambda>entry. uuid_matches (si_uuid x) (fst entry)) index")
    case None
    then have "l' \<noteq> x"
      using Cons.prems(4,5) by (auto simp: find_None_iff)
    then show ?thesis
      using Cons None by auto
  next
    case (Some e)
    then have "l = x" using Cons.prems(1) by simp
    then show ?thesis
      using Cons.prems(2,3) recency_order.less_irrefl by auto
  qed
qed simp

definition matching_pair ::
  "SourceId \<Rightarrow> path option \<Rightarrow> SnapshotInfo list \<Rightarrow> SnapshotInfo list \<Rightarrow> SnapshotInfo \<Rightarrow> SnapshotInfo \<Rightarrow> bool"
  where
  \<comment> \<open>a read-only local snapshot and a read-only received copy of it on the target\<close>
  "matching_pair source current locals remotes l r \<longleftrightarrow>
     l \<in> set locals \<and> parent_candidate source current l
     \<and> r \<in> set remotes \<and> eligible_remote source r \<and> si_received_uuid r = si_uuid l"

definition ambiguous_remotes :: "SourceId \<Rightarrow> SnapshotInfo list \<Rightarrow> bool" where
  "ambiguous_remotes source remotes \<longleftrightarrow>
     (\<exists>r1 \<in> set remotes. \<exists>r2 \<in> set remotes. eligible_remote source r1 \<and> eligible_remote source r2
        \<and> si_received_uuid r1 = si_received_uuid r2 \<and> \<not> path_eq (si_path r1) (si_path r2))"

lemma index_remote_ok_unambiguous:
  assumes "index_remote source rs (False, []) = Inr (exist, index)"
  shows "\<not> ambiguous_remotes source rs"
proof -
  have "distinct (map fst index')" if "index_remote source rs (ex, ix) = Inr (ex', index')"
    and "distinct (map fst ix)" for ex ix ex' index' rs
    using that
  proof (induction rs arbitrary: ex ix)
    case (Cons x rs)
    then show ?case
      by (auto split: if_splits option.splits simp: find_None_iff) fastforce
  qed simp
  then have d: "distinct (map fst index)"
    using assms by fastforce
  show ?thesis
  proof
    assume "ambiguous_remotes source rs"
    then obtain r1 r2 where r: "r1 \<in> set rs" "r2 \<in> set rs" "eligible_remote source r1"
      "eligible_remote source r2" "si_received_uuid r1 = si_received_uuid r2"
      "\<not> path_eq (si_path r1) (si_path r2)"
      by (auto simp: ambiguous_remotes_def)
    obtain e1 e2 where "(si_received_uuid r1, e1) \<in> set index" "path_eq (si_path e1) (si_path r1)"
      "(si_received_uuid r1, e2) \<in> set index" "path_eq (si_path e2) (si_path r2)"
      using index_remote_complete [OF assms r(1,3)] index_remote_complete [OF assms r(2,4)] r(5) by auto
    moreover from this have "e1 = e2"
      using d by (meson eq_key_imp_eq_value)
    ultimately show False
      using r(6) by (auto simp: path_eq_def)
  qed
qed

lemma select_incremental_parent_cases:
  "case select_incremental_parent source locals remotes current req of
     Inr (IncrementalTransfer l r) \<Rightarrow>
       matching_pair source current locals remotes l r
       \<and> (\<forall>l' r'. matching_pair source current locals remotes l' r' \<longrightarrow> \<not> newest_first l' l)
       \<and> \<not> ambiguous_remotes source remotes
   | Inr FullTransfer \<Rightarrow>
       (\<forall>l r. \<not> matching_pair source current locals remotes l r)
       \<and> \<not> (req \<and> (\<exists>r \<in> set remotes. si_source_id r = source))
       \<and> \<not> ambiguous_remotes source remotes
   | Inl e \<Rightarrow> ambiguous_remotes source remotes
       \<or> (req \<and> (\<exists>r \<in> set remotes. si_source_id r = source)
          \<and> (\<forall>l r. \<not> matching_pair source current locals remotes l r))"
proof (cases "index_remote source remotes (False, [])")
  case (Inl e)
  then show ?thesis
    using index_remote_ambiguous [OF Inl, of "set remotes"]
    by (auto simp: select_incremental_parent_def ambiguous_remotes_def)
next
  case (Inr p)
  obtain exist index where p: "p = (exist, index)" by (cases p)
  note ix = Inr [unfolded p]
  let ?cs = "std_sort newest_first (filter (parent_candidate source current) locals)"
  have ok: "\<not> ambiguous_remotes source remotes"
    by (rule index_remote_ok_unambiguous [OF ix])
  have ex: "exist \<longleftrightarrow> (\<exists>r \<in> set remotes. si_source_id r = source)"
    using index_remote_exist [OF ix] by simp
  have sound: "r \<in> set remotes \<and> eligible_remote source r \<and> u = si_received_uuid r"
    if "(u, r) \<in> set index" for u r
    using index_remote_sound [OF ix that] by simp
  have pair: "l \<in> set ?cs \<and> (\<exists>r'. (si_received_uuid r, r') \<in> set index)
      \<and> uuid_matches (si_uuid l) (si_received_uuid r)"
    if "matching_pair source current locals remotes l r" for l r
    using index_remote_complete [OF ix, of r] that
    by (auto simp: matching_pair_def uuid_matches_def eligible_remote_def)
  show ?thesis
  proof (cases "first_matching_parent index ?cs")
    case None
    then have "\<not> matching_pair source current locals remotes l r" for l r
      using pair [of l r] unfolding first_matching_parent_None by fastforce
    then show ?thesis
      using ix ok ex None by (simp add: select_incremental_parent_def)
  next
    case (Some lr)
    obtain l r where lr: "lr = (l, r)" by (cases lr)
    note fm = Some [unfolded lr]
    have "matching_pair source current locals remotes l r"
      using first_matching_parent_Some [OF fm] sound
      by (auto simp: matching_pair_def uuid_matches_def)
    moreover have "\<not> newest_first l' l" if "matching_pair source current locals remotes l' r'" for l' r'
      using pair [OF that] first_matching_parent_first [OF fm recency_order.sorted_std_sort] by blast
    ultimately show ?thesis
      using ix ok fm by (simp add: select_incremental_parent_def)
  qed
qed

section \<open>Properties\<close>

text \<open>
  Property C17: parent selection is decided by the inventories alone. An incremental transfer names
  a read-only local snapshot and the received copy of exactly that snapshot on the target, and no
  newer local snapshot has such a copy. A full transfer is chosen only when no pair exists and
  either the target holds no snapshot of the source or increments are optional. The selection
  fails only on ambiguous received UUIDs or when increments are required and no pair exists.
\<close>

theorem select_incremental_parent_correct:
  "case select_incremental_parent source locals remotes current req of
     Inr (IncrementalTransfer l r) \<Rightarrow>
       matching_pair source current locals remotes l r
       \<and> \<not> (\<exists>l' r'. matching_pair source current locals remotes l' r' \<and> newest_first l' l)
       \<and> \<not> ambiguous_remotes source remotes
   | Inr FullTransfer \<Rightarrow>
       \<not> (\<exists>l r. matching_pair source current locals remotes l r)
       \<and> \<not> (req \<and> list_ex (\<lambda>r. si_source_id r = source) remotes)
       \<and> \<not> ambiguous_remotes source remotes
   | Inl e \<Rightarrow> ambiguous_remotes source remotes
       \<or> (req \<and> list_ex (\<lambda>r. si_source_id r = source) remotes
          \<and> \<not> (\<exists>l r. matching_pair source current locals remotes l r))"
  using select_incremental_parent_cases [where source = source and locals = locals
      and remotes = remotes and current = current and req = req]
  by (auto simp: list_ex_iff split: sum.splits IncrementalParentSelection.splits)

end
