(* ===== verification/PendingRecovery.thy ===== *)
theory PendingRecovery
  imports SnapshotInventory
begin

text \<open>
  backup/model/PendingRecovery: what is done about a pending marker, which a run leaves behind
  when it is interrupted between creating a local snapshot and committing the received copy.
\<close>

section \<open>Types\<close>

datatype PendingRecoveryEffect =
    DeletePendingRemoteSnapshot path
  | DeletePendingLocalSnapshot path
  | ClearPendingMarker path

record PendingMarker =
  pm_source_id :: SourceId
  pm_local_snapshot_path :: path
  pm_final_snapshot_path :: path
  pm_run_id :: RunId
  pm_timestamp :: RuntimeTimePoint

record PendingRecoveryPlan =
  marker_path :: path
  pending_snapshot_path :: path
  effects :: "PendingRecoveryEffect list"
  recovery_message :: string

definition recovery_required :: "PendingRecoveryPlan \<Rightarrow> bool" where
  "recovery_required plan \<longleftrightarrow> effects plan \<noteq> []"

section \<open>Operations\<close>

definition remote_contains_received_uuid :: "SnapshotInfo list \<Rightarrow> SourceId \<Rightarrow> SnapshotUuid \<Rightarrow> bool" where
  "remote_contains_received_uuid remotes source uuid \<longleftrightarrow>
     list_ex (\<lambda>remote. si_source_id remote = source \<and> uuid_matches uuid (si_received_uuid remote)) remotes"

definition marker_path_is_valid :: "PendingMarker \<Rightarrow> SourceId \<Rightarrow> path \<Rightarrow> path \<Rightarrow> bool" where
  "marker_path_is_valid marker source local_dir remote_dir \<longleftrightarrow>
     (if pm_source_id marker \<noteq> source \<or> pm_local_snapshot_path marker = [] then False
      else (let snapshot_path = lexically_normal (pm_local_snapshot_path marker)
        in if \<not> path_is_within snapshot_path local_dir then False
           else (let base = filename snapshot_path; prefix = source @ ''-''
             in if take (length prefix) base \<noteq> prefix then False
                else if pm_final_snapshot_path marker = [] then False
                else (let final_path = lexically_normal (pm_final_snapshot_path marker)
                  in path_is_within final_path remote_dir
                     \<and> path_eq (filename final_path) (filename snapshot_path)))))"

definition remote_snapshot_at_path :: "SnapshotInfo list \<Rightarrow> path \<Rightarrow> SnapshotInfo option" where
  "remote_snapshot_at_path remotes p =
     (let wanted = lexically_normal p
      in find (\<lambda>remote. path_eq (lexically_normal (si_path remote)) wanted) remotes)"

definition plan_pending_recovery ::
  "SourceId \<Rightarrow> path \<Rightarrow> path \<Rightarrow> path \<Rightarrow> PendingMarker option \<Rightarrow> SnapshotMetadata option
   \<Rightarrow> SnapshotInfo list \<Rightarrow> bool \<Rightarrow> PendingRecoveryPlan" where
  "plan_pending_recovery source state_dir local_dir remote_dir marker_opt pending_opt remotes keep_failed =
     (let marker_file = path_append state_dir (''pending-'' @ source);
          plan = \<lparr> marker_path = marker_file, pending_snapshot_path = [], effects = [],
                   recovery_message = [] \<rparr>
      in case marker_opt of
           None \<Rightarrow> plan
         | Some marker \<Rightarrow>
           (let local_path = pm_local_snapshot_path marker;
                clear = ClearPendingMarker marker_file;
                plan1 = plan\<lparr> pending_snapshot_path := local_path, effects := [clear] \<rparr>
            in if \<not> marker_path_is_valid marker source local_dir remote_dir
               then plan1\<lparr> recovery_message :=
                 ''Ignoring invalid pending marker for '' @ source @ '': '' @ marker_file \<rparr>
               else (case pending_opt of
                   None \<Rightarrow> plan1\<lparr> recovery_message :=
                     ''Clearing pending marker for missing local snapshot: '' @ local_path \<rparr>
                 | Some pending \<Rightarrow>
                   if \<not> is_subvolume pending
                   then plan1\<lparr> recovery_message :=
                     ''Clearing pending marker for missing local snapshot: '' @ local_path \<rparr>
                   else
                   (let remote_path = pm_final_snapshot_path marker;
                        final_snapshot = remote_snapshot_at_path remotes remote_path
                    in if (case final_snapshot of None \<Rightarrow> False
                           | Some f \<Rightarrow> sm_uuid pending \<noteq> []
                               \<and> \<not> uuid_matches (sm_uuid pending) (si_received_uuid f))
                       then plan1\<lparr> effects :=
                              (if \<not> keep_failed
                                  \<and> \<not> remote_contains_received_uuid remotes source (sm_uuid pending)
                               then [DeletePendingRemoteSnapshot remote_path,
                                     DeletePendingLocalSnapshot local_path, clear]
                               else [DeletePendingRemoteSnapshot remote_path, clear]),
                            recovery_message :=
                              ''Removing unverified committed snapshot left by an interrupted run: ''
                              @ remote_path \<rparr>
                       else if sm_uuid pending \<noteq> []
                            \<and> remote_contains_received_uuid remotes source (sm_uuid pending)
                       then plan1\<lparr> recovery_message :=
                         ''Recovered committed snapshot from an interrupted run: '' @ local_path \<rparr>
                       else if keep_failed
                       then plan1\<lparr> recovery_message :=
                         ''Keeping pending local snapshot by configuration: '' @ local_path \<rparr>
                       else plan1\<lparr> effects := [DeletePendingLocalSnapshot local_path, clear],
                         recovery_message :=
                           ''Removing orphaned local snapshot from an interrupted run: ''
                           @ local_path \<rparr>))))"

section \<open>Lemmas\<close>

lemma marker_path_is_valid_iff:
  "marker_path_is_valid marker source local_dir remote_dir \<longleftrightarrow>
     pm_source_id marker = source \<and> pm_local_snapshot_path marker \<noteq> []
     \<and> path_is_within (pm_local_snapshot_path marker) local_dir
     \<and> take (length (source @ ''-'')) (filename (lexically_normal (pm_local_snapshot_path marker)))
         = source @ ''-''
     \<and> pm_final_snapshot_path marker \<noteq> []
     \<and> path_is_within (pm_final_snapshot_path marker) remote_dir
     \<and> path_eq (filename (lexically_normal (pm_final_snapshot_path marker)))
         (filename (lexically_normal (pm_local_snapshot_path marker)))"
  by (simp add: marker_path_is_valid_def Let_def)

lemma plan_pending_recovery_marker_path [simp]:
  "marker_path (plan_pending_recovery source sd ld rd m p remotes kf) = path_append sd (''pending-'' @ source)"
  by (simp add: plan_pending_recovery_def Let_def split: option.split)

lemma plan_pending_recovery_None [simp]:
  "effects (plan_pending_recovery source sd ld rd None p remotes kf) = []"
  by (simp add: plan_pending_recovery_def)

lemma plan_pending_recovery_invalid:
  "\<not> marker_path_is_valid marker source ld rd
   \<Longrightarrow> effects (plan_pending_recovery source sd ld rd (Some marker) p remotes kf)
     = [ClearPendingMarker (path_append sd (''pending-'' @ source))]"
  by (simp add: plan_pending_recovery_def Let_def)

lemma plan_pending_recovery_shape:
  "effects (plan_pending_recovery source sd ld rd (Some marker) p remotes kf) \<in>
     (let c = ClearPendingMarker (path_append sd (''pending-'' @ source));
          l = DeletePendingLocalSnapshot (pm_local_snapshot_path marker);
          r = DeletePendingRemoteSnapshot (pm_final_snapshot_path marker)
      in {[c], [l, c], [r, c], [r, l, c]})"
  by (simp add: plan_pending_recovery_def Let_def split: option.split)

lemma plan_pending_recovery_delete_local:
  assumes "DeletePendingLocalSnapshot q \<in> set (effects (plan_pending_recovery source sd ld rd m p remotes kf))"
  obtains marker pending where "m = Some marker" and "p = Some pending"
    and "marker_path_is_valid marker source ld rd" and "is_subvolume pending"
    and "q = pm_local_snapshot_path marker" and "\<not> kf"
    and "\<not> remote_contains_received_uuid remotes source (sm_uuid pending)"
proof -
  obtain marker where m: "m = Some marker"
    using assms by (cases m) auto
  have v: "marker_path_is_valid marker source ld rd"
    using assms m by (cases "marker_path_is_valid marker source ld rd")
      (simp_all add: plan_pending_recovery_invalid)
  obtain pending where p: "p = Some pending" "is_subvolume pending"
    using assms m v by (cases p) (auto simp: plan_pending_recovery_def Let_def split: if_splits)
  have "q = pm_local_snapshot_path marker" "\<not> kf"
    "\<not> remote_contains_received_uuid remotes source (sm_uuid pending)"
    using assms m v p
    by (auto simp: plan_pending_recovery_def Let_def remote_contains_received_uuid_def
        uuid_matches_def list_ex_iff split: if_splits option.splits)
  with m v p that show thesis by blast
qed

lemma plan_pending_recovery_delete_remote:
  assumes "DeletePendingRemoteSnapshot q \<in> set (effects (plan_pending_recovery source sd ld rd m p remotes kf))"
  obtains marker pending final where "m = Some marker" and "p = Some pending"
    and "marker_path_is_valid marker source ld rd" and "is_subvolume pending"
    and "q = pm_final_snapshot_path marker" and "remote_snapshot_at_path remotes q = Some final"
    and "sm_uuid pending \<noteq> []" and "\<not> uuid_matches (sm_uuid pending) (si_received_uuid final)"
proof -
  obtain marker where m: "m = Some marker"
    using assms by (cases m) auto
  have v: "marker_path_is_valid marker source ld rd"
    using assms m by (cases "marker_path_is_valid marker source ld rd")
      (simp_all add: plan_pending_recovery_invalid)
  obtain pending where p: "p = Some pending" "is_subvolume pending"
    using assms m v by (cases p) (auto simp: plan_pending_recovery_def Let_def split: if_splits)
  have "q = pm_final_snapshot_path marker"
    "\<exists>final. remote_snapshot_at_path remotes q = Some final \<and> sm_uuid pending \<noteq> []
       \<and> \<not> uuid_matches (sm_uuid pending) (si_received_uuid final)"
    using assms m v p
    by (auto simp: plan_pending_recovery_def Let_def split: if_splits option.splits)
  with m v p that show thesis by blast
qed

lemma path_elements_last_filename:
  "path_elements p = xs @ [[]] \<Longrightarrow> filename p = []"
  by (auto simp: path_elements_def filename_def split: if_splits)
     (metis append_butlast_last_id append_is_Nil_conv last_ConsR last_snoc not_Cons_self2)

text \<open>With a trailing separator on the local snapshot directory no marker is ever valid.\<close>

lemma marker_path_invalid_trailing_separator:
  assumes "path_elements (lexically_normal ld) = xs @ [[]]"
  shows "\<not> marker_path_is_valid marker source ld rd"
proof
  assume v: "marker_path_is_valid marker source ld rd"
  then have "path_elements (lexically_normal (pm_local_snapshot_path marker)) = xs @ [[]]"
    using path_is_within_trailing_separator [OF assms] assms
    by (simp add: marker_path_is_valid_iff path_eq_def)
  then have "filename (lexically_normal (pm_local_snapshot_path marker)) = []"
    by (rule path_elements_last_filename)
  then show False
    using v by (simp add: marker_path_is_valid_iff)
qed

section \<open>Concrete inputs\<close>

definition witness_marker :: PendingMarker where
  "witness_marker = \<lparr> pm_source_id = ''s'', pm_local_snapshot_path = ''/l/s-1'',
     pm_final_snapshot_path = ''/r/s-1'', pm_run_id = ''run'', pm_timestamp = 0 \<rparr>"

definition witness_pending :: SnapshotMetadata where
  "witness_pending = \<lparr> is_subvolume = True, sm_readonly = True, sm_uuid = ''a'', sm_received_uuid = [] \<rparr>"

definition witness_remote :: SnapshotInfo where
  "witness_remote = \<lparr> si_side = Remote, si_source_id = ''s'', si_name = ''s-1'', si_timestamp = 0,
     si_sequence = 0, si_path = ''/r/s-1'', si_readonly = True, si_uuid = ''c'',
     si_received_uuid = ''b'' \<rparr>"

section \<open>Properties\<close>



text \<open>
  Property C19: recovery deletes a snapshot on the target only at the committed path the marker
  names, inside the directory of the source on the target, and only when the snapshot found there
  was not received from the pending local snapshot.
\<close>

theorem pending_recovery_remote_safe:
  assumes "DeletePendingRemoteSnapshot q \<in> set (effects
    (plan_pending_recovery source state_dir local_dir remote_dir marker pending remotes keep_failed))"
  shows "path_is_within q remote_dir
    \<and> (\<exists>m f. pending = Some m \<and> remote_snapshot_at_path remotes q = Some f
         \<and> sm_uuid m \<noteq> [] \<and> \<not> uuid_matches (sm_uuid m) (si_received_uuid f))"
  using assms
  by (rule plan_pending_recovery_delete_remote) (auto simp: marker_path_is_valid_iff)

theorem pending_recovery_remote_safe_witness:
  "path_is_within ''/r/s-1'' ''/r'' \<and> \<not> uuid_matches ''a'' ''b''"
proof -
  have "DeletePendingRemoteSnapshot ''/r/s-1'' \<in> set (effects
    (plan_pending_recovery ''s'' ''/v'' ''/l'' ''/r'' (Some witness_marker) (Some witness_pending)
      [witness_remote] False))"
    by code_simp
  from pending_recovery_remote_safe [OF this] show ?thesis
    by (simp add: uuid_matches_def)
qed

text \<open>
  The effects of a recovery come in one order. Nothing happens without a marker, and
  with one the marker is cleared exactly once, as the last effect, after the deletion on the target
  and the local deletion.
\<close>

theorem pending_recovery_order:
  "case marker of
     None \<Rightarrow> effects (plan_pending_recovery source sd ld rd marker pending remotes kf) = []
   | Some m \<Rightarrow>
      (\<exists>del_remote del_local.
         effects (plan_pending_recovery source sd ld rd marker pending remotes kf) =
           (if del_remote then [DeletePendingRemoteSnapshot (pm_final_snapshot_path m)] else [])
           @ (if del_local then [DeletePendingLocalSnapshot (pm_local_snapshot_path m)] else [])
           @ [ClearPendingMarker (path_append sd (''pending-'' @ source))])"
proof (cases marker)
  case (Some m)
  have "\<exists>a b. effects (plan_pending_recovery source sd ld rd (Some m) pending remotes kf) =
      (if a then [DeletePendingRemoteSnapshot (pm_final_snapshot_path m)] else [])
      @ (if b then [DeletePendingLocalSnapshot (pm_local_snapshot_path m)] else [])
      @ [ClearPendingMarker (path_append sd (''pending-'' @ source))]"
    using plan_pending_recovery_shape [of source sd ld rd m pending remotes kf]
    unfolding Let_def ex_bool_eq by auto
  then show ?thesis by (simp only: Some option.case)
qed simp

text \<open>
  Property C31: a local snapshot directory whose normal form ends in a separator disables
  recovery. Whatever the marker and the inventories are, the marker is dropped as invalid and
  nothing is deleted.
\<close>

theorem pending_recovery_trailing_separator:
  assumes "path_elements (lexically_normal local_dir) = xs @ [[]]"
  shows "effects (plan_pending_recovery source state_dir local_dir remote_dir (Some m) pending remotes kf)
    = [ClearPendingMarker (path_append state_dir (''pending-'' @ source))]"
  by (intro plan_pending_recovery_invalid marker_path_invalid_trailing_separator [OF assms])

theorem pending_recovery_trailing_separator_witness:
  "effects (plan_pending_recovery ''s'' ''/v'' ''/l/'' ''/r'' (Some witness_marker) (Some witness_pending) [] False)
    = [ClearPendingMarker ''/v/pending-s'']"
proof -
  have "path_elements (lexically_normal ''/l/'') = [''/'', ''l''] @ [[]]"
    by code_simp
  from pending_recovery_trailing_separator [OF this, of "''s''" "''/v''" "''/r''" witness_marker
      "Some witness_pending" "[]" False]
  show ?thesis by (simp add: path_append_def is_absolute_def)
qed

end
