(* ===== verification/RunPlan.thy ===== *)
theory RunPlan
  imports Retention IncrementalParent PendingRecovery
begin

text \<open>
  The plan of a run: backup/model/BackupRunAction, BackupRunActions, BackupRunPlan,
  BackupPlanningSnapshot and backup/planning/BackupPlanBuilder. A plan lists the actions of every
  enabled source; it is computed from the profile and from what discovery found.
\<close>

section \<open>Actions\<close>

datatype BackupRunActionKind =
    RecoverPending
  | CleanupIncoming
  | BeforeSnapshotHook
  | CreateSnapshot
  | AfterSnapshotHook
  | SendReceive
  | VerifyReceived
  | CommitReceived
  | ApplyRemoteRetention
  | ApplyLocalRetention
  | CleanupSource

datatype HookPhase = BeforeSnapshot | AfterSnapshot

datatype BackupRunAction =
    RecoverPendingAction SourceId PendingRecoveryPlan
  | CleanupIncomingAction SourceId path \<comment> \<open>\<open>incoming_directory\<close>\<close>
  | RunHookAction SourceId HookPhase ProfileHookCommand
  | CreateSnapshotAction SourceId path path path path path RunId
      \<comment> \<open>\<open>source\<close>, \<open>snapshot_directory\<close>, \<open>snapshot\<close>, \<open>final_remote_snapshot\<close>,
        \<open>profile_state_directory\<close>\<close>
  | SendReceiveAction SourceId path "path option" path path
      \<comment> \<open>\<open>snapshot\<close>, \<open>parent\<close>, \<open>remote_snapshot_directory\<close>, \<open>incoming_run_directory\<close>\<close>
  | VerifyReceivedAction SourceId path path \<comment> \<open>\<open>local_snapshot\<close>, \<open>received_snapshot\<close>\<close>
  | CommitReceivedAction SourceId path path path
      \<comment> \<open>\<open>local_snapshot\<close>, \<open>received_snapshot\<close>, \<open>final_snapshot\<close>\<close>
  | ApplyRemoteRetentionAction SourceId RetentionPlan
  | ApplyLocalRetentionAction SourceId RetentionPlan
  | CleanupSourceAction SourceId path path path path
      \<comment> \<open>\<open>received_snapshot\<close>, \<open>incoming_run_directory\<close>, \<open>pending_marker\<close>,
        \<open>profile_state_directory\<close>\<close>

fun backup_run_action_kind :: "BackupRunAction \<Rightarrow> BackupRunActionKind" where
  "backup_run_action_kind (RecoverPendingAction s r) = RecoverPending"
| "backup_run_action_kind (CleanupIncomingAction s d) = CleanupIncoming"
| "backup_run_action_kind (RunHookAction s phase h) =
     (if phase = BeforeSnapshot then BeforeSnapshotHook else AfterSnapshotHook)"
| "backup_run_action_kind (CreateSnapshotAction s a b c d e r) = CreateSnapshot"
| "backup_run_action_kind (SendReceiveAction s a p b c) = SendReceive"
| "backup_run_action_kind (VerifyReceivedAction s a b) = VerifyReceived"
| "backup_run_action_kind (CommitReceivedAction s a b c) = CommitReceived"
| "backup_run_action_kind (ApplyRemoteRetentionAction s p) = ApplyRemoteRetention"
| "backup_run_action_kind (ApplyLocalRetentionAction s p) = ApplyLocalRetention"
| "backup_run_action_kind (CleanupSourceAction s a b c d) = CleanupSource"

fun backup_run_action_source_id :: "BackupRunAction \<Rightarrow> SourceId" where
  "backup_run_action_source_id (RecoverPendingAction s r) = s"
| "backup_run_action_source_id (CleanupIncomingAction s d) = s"
| "backup_run_action_source_id (RunHookAction s phase h) = s"
| "backup_run_action_source_id (CreateSnapshotAction s a b c d e r) = s"
| "backup_run_action_source_id (SendReceiveAction s a p b c) = s"
| "backup_run_action_source_id (VerifyReceivedAction s a b) = s"
| "backup_run_action_source_id (CommitReceivedAction s a b c) = s"
| "backup_run_action_source_id (ApplyRemoteRetentionAction s p) = s"
| "backup_run_action_source_id (ApplyLocalRetentionAction s p) = s"
| "backup_run_action_source_id (CleanupSourceAction s a b c d) = s"

section \<open>What discovery found\<close>

type_synonym SnapshotInventoryBySource = "SourceId \<rightharpoonup> SnapshotInfo list"
type_synonym PendingMarkerBySource = "SourceId \<rightharpoonup> PendingMarker option"
type_synonym PendingSnapshotBySource = "SourceId \<rightharpoonup> SnapshotMetadata option"

record BackupPlanningSnapshot =
  local_inventory :: SnapshotInventoryBySource
  remote_inventory :: SnapshotInventoryBySource
  pending_markers :: PendingMarkerBySource
  pending_snapshots :: PendingSnapshotBySource
  profile_state_dir :: path

definition snapshots_for :: "SnapshotInventoryBySource \<Rightarrow> SourceId \<Rightarrow> SnapshotInfo list" where
  "snapshots_for inventories source = (case inventories source of None \<Rightarrow> [] | Some s \<Rightarrow> s)"

definition pending_marker_for :: "PendingMarkerBySource \<Rightarrow> SourceId \<Rightarrow> PendingMarker option" where
  "pending_marker_for markers source = (case markers source of None \<Rightarrow> None | Some m \<Rightarrow> m)"

definition pending_snapshot_for :: "PendingSnapshotBySource \<Rightarrow> SourceId \<Rightarrow> SnapshotMetadata option" where
  "pending_snapshot_for snapshots source = (case snapshots source of None \<Rightarrow> None | Some m \<Rightarrow> m)"

section \<open>The name of the new snapshot\<close>

definition name_exists :: "SnapshotInfo list \<Rightarrow> string \<Rightarrow> bool" where
  "name_exists snapshots name \<longleftrightarrow> list_ex (\<lambda>s. si_name s = name) snapshots"

fun planned_sequence :: "SnapshotInfo list \<Rightarrow> string \<Rightarrow> nat list \<Rightarrow> string option" where
  \<comment> \<open>the loop over the sequence numbers, with the suffix \<open>-%02d\<close>\<close>
  "planned_sequence locals base [] = None"
| "planned_sequence locals base (n # ns) =
     (let candidate = base @ ''-'' @ two_digit n
      in if \<not> name_exists locals candidate then Some candidate else planned_sequence locals base ns)"

definition planned_snapshot_name ::
  "SourceId \<Rightarrow> RuntimeTimePoint \<Rightarrow> SnapshotInfo list \<Rightarrow> string result" where
  "planned_snapshot_name source timestamp locals =
     (let timestamp_text = format_utc_snapshot_timestamp timestamp;
          base = source @ ''-'' @ timestamp_text
      in if \<not> name_exists locals base then Inr base
         else (case planned_sequence locals base [1..<100] of
             Some name \<Rightarrow> Inr name
           | None \<Rightarrow> Inl (ValidationError
               (''could not allocate snapshot name for '' @ source @ '' at '' @ timestamp_text))))"

definition projected_snapshot ::
  "SnapshotSide \<Rightarrow> SourceId \<Rightarrow> string \<Rightarrow> RuntimeTimePoint \<Rightarrow> path \<Rightarrow> SnapshotInfo result" where
  "projected_snapshot side source name timestamp p =
     (case parse_snapshot_name name source of
        None \<Rightarrow> Inl (ValidationError (''planned snapshot name is invalid: '' @ name))
      | Some parsed \<Rightarrow> Inr
          \<lparr> si_side = side, si_source_id = source, si_name = name, si_timestamp = timestamp,
            si_sequence = sn_sequence parsed, si_path = p, si_readonly = True, si_uuid = [],
            si_received_uuid = [] \<rparr>)"

section \<open>The plan of one source\<close>

record BackupSourceRunPlan =
  plan_source_id :: SourceId
  actions :: "BackupRunAction list"

fun check_source_actions :: "SourceId \<Rightarrow> BackupRunActionKind set \<Rightarrow> BackupRunAction list \<Rightarrow> unit result"
  where
  "check_source_actions source singletons [] = Inr ()"
| "check_source_actions source singletons (a # as) =
     (if backup_run_action_source_id a \<noteq> source
      then Inl (ValidationError ''backup source plan contains an action for a different source'')
      else (let kind = backup_run_action_kind a
        in if kind = BeforeSnapshotHook \<or> kind = AfterSnapshotHook
           then check_source_actions source singletons as
           else if kind \<in> singletons
           then Inl (ValidationError ''backup source plan contains a duplicate action kind'')
           else check_source_actions source (insert kind singletons) as))"

definition make_BackupSourceRunPlan :: "SourceId \<Rightarrow> BackupRunAction list \<Rightarrow> BackupSourceRunPlan result" where
  "make_BackupSourceRunPlan source as =
     bindE (check_source_actions source {} as) (\<lambda>_. Inr \<lparr> plan_source_id = source, actions = as \<rparr>)"

record SourcePlanContext =
  ctx_profile :: Profile
  ctx_local_inventory :: SnapshotInventoryBySource
  ctx_remote_inventory :: SnapshotInventoryBySource
  ctx_pending_markers :: PendingMarkerBySource
  ctx_pending_snapshots :: PendingSnapshotBySource
  ctx_profile_state_dir :: path
  ctx_run_id :: RunId
  ctx_snapshot_timestamp :: RuntimeTimePoint

record PlannedSourcePaths =
  remote_snapshot_directory :: path
  incoming_source_root :: path
  incoming_run_directory :: path
  local_snapshot :: path
  received_snapshot :: path
  final_remote_snapshot :: path
  snapshot_name :: string

definition plan_source_paths ::
  "ProfileSource \<Rightarrow> SourcePlanContext \<Rightarrow> SnapshotInfo list \<Rightarrow> PlannedSourcePaths result" where
  "plan_source_paths source context local_snapshots =
     (let sid = source_id source;
          pr_paths = paths (ctx_profile context);
          remote_directory = path_append (remote_root pr_paths) (remote_subdir source);
          incoming = path_append (incoming_root pr_paths) sid;
          incoming_run = path_append incoming (ctx_run_id context)
      in if \<not> path_is_within remote_directory (remote_root pr_paths)
         then Inl (ValidationError (''Remote source directory escapes REMOTE_ROOT: '' @ remote_directory))
         else if \<not> path_is_within incoming (incoming_root pr_paths)
         then Inl (ValidationError (''Incoming source directory escapes INCOMING_ROOT: '' @ incoming))
         else if path_is_within (local_snapshot_dir source) (mount_point (target (ctx_profile context)))
         then Inl (ValidationError (''LOCAL_SNAPSHOT_DIR must not be inside the backup target: ''
           @ local_snapshot_dir source))
         else bindE (planned_snapshot_name sid (ctx_snapshot_timestamp context) local_snapshots)
           (\<lambda>name. Inr
             \<lparr> remote_snapshot_directory = remote_directory, incoming_source_root = incoming,
               incoming_run_directory = incoming_run,
               local_snapshot = path_append (local_snapshot_dir source) name,
               received_snapshot = path_append incoming_run name,
               final_remote_snapshot = path_append remote_directory name,
               snapshot_name = name \<rparr>))"

definition pending_local_effect :: "PendingRecoveryPlan \<Rightarrow> path option" where
  \<comment> \<open>\<open>pending_recovery_effect<DeletePendingLocalSnapshot>\<close>\<close>
  "pending_local_effect plan =
     (case find (\<lambda>e. case e of DeletePendingLocalSnapshot p \<Rightarrow> True | _ \<Rightarrow> False) (effects plan) of
        Some (DeletePendingLocalSnapshot p) \<Rightarrow> Some p | _ \<Rightarrow> None)"

definition pending_remote_effect :: "PendingRecoveryPlan \<Rightarrow> path option" where
  \<comment> \<open>\<open>pending_recovery_effect<DeletePendingRemoteSnapshot>\<close>\<close>
  "pending_remote_effect plan =
     (case find (\<lambda>e. case e of DeletePendingRemoteSnapshot p \<Rightarrow> True | _ \<Rightarrow> False) (effects plan) of
        Some (DeletePendingRemoteSnapshot p) \<Rightarrow> Some p | _ \<Rightarrow> None)"

definition projected_snapshots ::
  "SnapshotInfo list \<Rightarrow> PendingRecoveryPlan \<Rightarrow> SnapshotSide \<Rightarrow> SourceId \<Rightarrow> PlannedSourcePaths
   \<Rightarrow> RuntimeTimePoint \<Rightarrow> SnapshotInfo list result" where
  "projected_snapshots current recovery side source planned timestamp =
     (let removed_path = (case (if side = Local then pending_local_effect recovery
                                else pending_remote_effect recovery) of None \<Rightarrow> [] | Some p \<Rightarrow> p);
          projected = (if removed_path \<noteq> []
                       then filter (\<lambda>s. \<not> path_eq (si_path s) removed_path) current else current);
          projected_path = (if side = Local then local_snapshot planned
                            else final_remote_snapshot planned)
      in bindE (projected_snapshot side source (snapshot_name planned) timestamp projected_path)
           (\<lambda>new. Inr (projected @ [new])))"

definition ordered_source_actions ::
  "ProfileSource \<Rightarrow> SourcePlanContext \<Rightarrow> PlannedSourcePaths \<Rightarrow> PendingRecoveryPlan
   \<Rightarrow> IncrementalParentSelection \<Rightarrow> RetentionPlan \<Rightarrow> RetentionPlan \<Rightarrow> BackupRunAction list" where
  "ordered_source_actions source context planned recovery parent local_ret remote_ret =
     (let sid = source_id source;
          parent_path = (case parent of FullTransfer \<Rightarrow> None | IncrementalTransfer l r \<Rightarrow> Some (si_path l))
      in (if recovery_required recovery then [RecoverPendingAction sid recovery] else [])
         @ [CleanupIncomingAction sid (incoming_source_root planned)]
         @ map (RunHookAction sid BeforeSnapshot) (before_snapshot (hooks (ctx_profile context)))
         @ [CreateSnapshotAction sid (subvolume source) (local_snapshot_dir source)
              (local_snapshot planned) (final_remote_snapshot planned)
              (ctx_profile_state_dir context) (ctx_run_id context)]
         @ map (RunHookAction sid AfterSnapshot) (after_snapshot (hooks (ctx_profile context)))
         @ [SendReceiveAction sid (local_snapshot planned) parent_path
              (remote_snapshot_directory planned) (incoming_run_directory planned),
            VerifyReceivedAction sid (local_snapshot planned) (received_snapshot planned),
            CommitReceivedAction sid (local_snapshot planned) (received_snapshot planned)
              (final_remote_snapshot planned),
            ApplyRemoteRetentionAction sid remote_ret,
            ApplyLocalRetentionAction sid local_ret,
            CleanupSourceAction sid (received_snapshot planned) (incoming_run_directory planned)
              (marker_path recovery) (ctx_profile_state_dir context)])"

definition build_source_run_plan ::
  "ProfileSource \<Rightarrow> SourcePlanContext \<Rightarrow> BackupSourceRunPlan result" where
  "build_source_run_plan source context =
     (let sid = source_id source;
          locals = snapshots_for (ctx_local_inventory context) sid;
          remotes = snapshots_for (ctx_remote_inventory context) sid;
          profile = ctx_profile context
      in bindE (plan_source_paths source context locals) (\<lambda>planned.
         bindE (select_incremental_parent sid locals remotes (Some (local_snapshot planned))
                  (incremental_required (settings profile))) (\<lambda>parent.
         let recovery = plan_pending_recovery sid (ctx_profile_state_dir context)
               (local_snapshot_dir source) (remote_snapshot_directory planned)
               (pending_marker_for (ctx_pending_markers context) sid)
               (pending_snapshot_for (ctx_pending_snapshots context) sid)
               remotes (keep_failed_local_snapshot (settings profile))
         in bindE (projected_snapshots locals recovery Local sid planned
                     (ctx_snapshot_timestamp context)) (\<lambda>projected_local.
            let local_ret = plan_count_retention sid projected_local (local_retention source)
            in bindE (projected_snapshots remotes recovery Remote sid planned
                        (ctx_snapshot_timestamp context)) (\<lambda>projected_remote.
               let remote_ret = plan_count_retention sid projected_remote (remote_retention source)
               in make_BackupSourceRunPlan sid
                    (ordered_source_actions source context planned recovery parent
                       local_ret remote_ret))))))"

section \<open>The plan of a run\<close>

record BackupRunPlan =
  plan_profile_id :: ProfileId
  plan_run_id :: RunId
  target_mount_point :: path
  plan_sources :: "BackupSourceRunPlan list"

fun plan_each_source ::
  "SourcePlanContext \<Rightarrow> SourceId set \<Rightarrow> ProfileSource list \<Rightarrow> BackupSourceRunPlan list result" where
  \<comment> \<open>the loop over \<open>profile.sources\<close>\<close>
  "plan_each_source context seen [] = Inr []"
| "plan_each_source context seen (source # rest) =
     (if \<not> source_enabled source then plan_each_source context seen rest
      else if source_id source \<in> seen
      then Inl (ValidationError (''duplicate source id in backup run plan: '' @ source_id source))
      else bindE (build_source_run_plan source context) (\<lambda>plan.
           bindE (plan_each_source context (insert (source_id source) seen) rest) (\<lambda>plans.
             Inr (plan # plans))))"

definition build_backup_run_plan ::
  "Profile \<Rightarrow> SnapshotInventoryBySource \<Rightarrow> SnapshotInventoryBySource \<Rightarrow> PendingMarkerBySource
   \<Rightarrow> PendingSnapshotBySource \<Rightarrow> path \<Rightarrow> RunId \<Rightarrow> RuntimeTimePoint \<Rightarrow> BackupRunPlan result" where
  "build_backup_run_plan profile locals remotes markers pending state_dir run timestamp =
     (let context = \<lparr> ctx_profile = profile, ctx_local_inventory = locals,
            ctx_remote_inventory = remotes, ctx_pending_markers = markers,
            ctx_pending_snapshots = pending, ctx_profile_state_dir = state_dir,
            ctx_run_id = run, ctx_snapshot_timestamp = timestamp \<rparr>
      in bindE (plan_each_source context {} (sources profile)) (\<lambda>plans. Inr
           \<lparr> plan_profile_id = profile_id profile, plan_run_id = run,
             target_mount_point = mount_point (target profile), plan_sources = plans \<rparr>))"

definition BackupPlanBuilder_build ::
  "Profile \<Rightarrow> BackupPlanningSnapshot \<Rightarrow> RunId \<Rightarrow> RuntimeTimePoint \<Rightarrow> bool \<Rightarrow> bool \<Rightarrow> BackupRunPlan result"
  where
  \<comment> \<open>the last two arguments are the answers of \<open>cancellation_requested\<close> before and after planning\<close>
  "BackupPlanBuilder_build profile snapshot run timestamp cancelled_before cancelled_after =
     (if cancelled_before then Inl (OperationCancelledError ''backup cancelled during planning'')
      else bindE (build_backup_run_plan profile (local_inventory snapshot) (remote_inventory snapshot)
             (pending_markers snapshot) (pending_snapshots snapshot) (profile_state_dir snapshot)
             run timestamp)
        (\<lambda>plan. if cancelled_after
           then Inl (OperationCancelledError ''backup cancelled during planning'') else Inr plan))"

end
