(* ===== verification/Mounts.thy ===== *)
theory Mounts
  imports ConfigDomain PathLaws
begin

text \<open>
  The mount table and what a run requires of it: backup/ports/IMountInspector and
  backup/planning/BackupPreflightValidation. The table itself, read from the kernel, is an
  argument; \<open>weakly_canonical\<close> is the library function that resolves symbolic links, with
  \<open>None\<close> where it reports an error.
\<close>

section \<open>Mount entries (backup/ports/IMountInspector)\<close>

record MountEntry =
  me_source :: string
  me_target :: string
  me_fstype :: string
  me_root :: string
  me_options :: string
  me_mount_id :: int
  me_device_id :: string
  me_filesystem_uuid :: string

definition strip_subvolume_suffix :: "string \<Rightarrow> string" where
  "strip_subvolume_suffix source = takeWhile (\<lambda>c. c \<noteq> CHR ''['') source"

definition mount_at :: "MountEntry list \<Rightarrow> path \<Rightarrow> MountEntry option" where
  "mount_at entries target_path =
     (let normalized_target = normalized_path target_path
      in find (\<lambda>entry. path_eq (normalized_path (me_target entry)) normalized_target) (rev entries))"

definition mount_for_path_step ::
  "path \<Rightarrow> (MountEntry \<times> nat) option \<Rightarrow> MountEntry \<Rightarrow> (MountEntry \<times> nat) option" where
  \<comment> \<open>the loop body: the best entry so far with the size of its target\<close>
  "mount_for_path_step normalized best entry =
     (if me_target entry = [] then best
      else (let entry_target = normalized_path (me_target entry)
        in if path_is_within normalized entry_target
           then (case best of
               None \<Rightarrow> Some (entry, length entry_target)
             | Some (_, best_size) \<Rightarrow>
                 if length entry_target \<ge> best_size then Some (entry, length entry_target) else best)
           else best))"

definition mount_for_path :: "MountEntry list \<Rightarrow> path \<Rightarrow> MountEntry option" where
  "mount_for_path entries p =
     map_option fst (foldl (mount_for_path_step (normalized_path p)) None entries)"

definition paths_are_same_filesystem :: "MountEntry list \<Rightarrow> path \<Rightarrow> path \<Rightarrow> bool" where
  "paths_are_same_filesystem entries path_a path_b =
     (case (mount_for_path entries path_a, mount_for_path entries path_b) of
        (Some mount_a, Some mount_b) \<Rightarrow>
          if me_filesystem_uuid mount_a \<noteq> [] \<and> me_filesystem_uuid mount_b \<noteq> []
          then me_filesystem_uuid mount_a = me_filesystem_uuid mount_b
          else me_device_id mount_a \<noteq> [] \<and> me_device_id mount_a = me_device_id mount_b
      | _ \<Rightarrow> False)"

definition mount_uses_mapper :: "MountEntry list \<Rightarrow> path \<Rightarrow> path \<Rightarrow> bool" where
  "mount_uses_mapper entries mountpoint mapper_path =
     (case mount_at entries mountpoint of
        None \<Rightarrow> False
      | Some mount \<Rightarrow>
          path_eq (normalized_path (strip_subvolume_suffix (me_source mount))) (normalized_path mapper_path))"

section \<open>What a run requires (backup/planning/BackupPreflightValidation)\<close>

fun text_contains :: "string \<Rightarrow> string \<Rightarrow> bool" where
  \<comment> \<open>\<open>std::string::contains\<close>\<close>
  "text_contains [] needle = (needle = [])"
| "text_contains (c # cs) needle = (take (length needle) (c # cs) = needle \<or> text_contains cs needle)"

definition has_mount_option :: "string \<Rightarrow> string \<Rightarrow> bool" where
  "has_mount_option options option = text_contains ('','' @ options @ '','') ('','' @ option @ '','')"

definition resolved_path :: "(path \<Rightarrow> path option) \<Rightarrow> path \<Rightarrow> path" where
  "resolved_path weakly_canonical p =
     (case weakly_canonical p of None \<Rightarrow> normalized_path p | Some resolved \<Rightarrow> normalized_path resolved)"

definition resolved_path_is_within :: "(path \<Rightarrow> path option) \<Rightarrow> path \<Rightarrow> path \<Rightarrow> bool" where
  "resolved_path_is_within weakly_canonical candidate base =
     path_is_within (resolved_path weakly_canonical candidate) (resolved_path weakly_canonical base)"

datatype TargetMountAccess = Read | ReadWrite

definition missing_mount_option :: "string \<Rightarrow> string option" where
  \<comment> \<open>the loop over the required options: the first one that is missing\<close>
  "missing_mount_option options =
     find (\<lambda>option. \<not> has_mount_option options option) [''nodev'', ''nosuid'', ''noexec'', ''nosymfollow'']"

definition validate_backup_target_mount ::
  "(path \<Rightarrow> path option) \<Rightarrow> Profile \<Rightarrow> MountEntry list \<Rightarrow> TargetMountAccess \<Rightarrow> MountEntry result" where
  "validate_backup_target_mount weakly_canonical profile mounts access =
     (let mount_point_text = mount_point (target profile);
          mapper_path = path_append ''/dev/mapper'' (mapper_name (target profile))
      in case mount_at mounts (mount_point (target profile)) of
           None \<Rightarrow> Inl (ValidationError (''Backup target is not mounted at '' @ mount_point_text))
         | Some target_mount \<Rightarrow>
     bindE (requireE (me_fstype target_mount = ''btrfs'')
              (ValidationError (''Backup target is not a Btrfs filesystem: '' @ mount_point_text))) (\<lambda>_.
     bindE (requireE (mount_uses_mapper mounts (mount_point (target profile)) mapper_path)
              (ValidationError (''The filesystem mounted at '' @ mount_point_text @ '' is not '' @ mapper_path))) (\<lambda>_.
     bindE (requireE (\<not> (access = ReadWrite \<and> \<not> has_mount_option (me_options target_mount) ''rw''))
              (ValidationError (''Backup target is not mounted read-write: '' @ mount_point_text))) (\<lambda>_.
     bindE (case missing_mount_option (me_options target_mount) of
              Some option \<Rightarrow> Inl (ValidationError
                (''Backup target is missing required mount option '' @ option @ '': '' @ mount_point_text))
            | None \<Rightarrow> Inr ()) (\<lambda>_.
     bindE (requireE (\<not> (me_filesystem_uuid target_mount = []
                  \<or> map to_lower (me_filesystem_uuid target_mount) \<noteq> btrfs_uuid (target profile)))
              (ValidationError (''Btrfs UUID mismatch at '' @ mount_point_text))) (\<lambda>_.
     bindE (requireE (resolved_path_is_within weakly_canonical (remote_root (paths profile)) (mount_point (target profile)))
              (ValidationError (''REMOTE_ROOT escapes the backup mountpoint: '' @ remote_root (paths profile)))) (\<lambda>_.
     bindE (requireE (resolved_path_is_within weakly_canonical (incoming_root (paths profile)) (mount_point (target profile)))
              (ValidationError (''INCOMING_ROOT escapes the backup mountpoint: '' @ incoming_root (paths profile)))) (\<lambda>_.
       Inr target_mount))))))))"

definition validate_source_mounts :: "Profile \<Rightarrow> MountEntry list \<Rightarrow> ProfileSource \<Rightarrow> unit result" where
  \<comment> \<open>the body of the loop over the sources\<close>
  "validate_source_mounts profile mounts source =
     (if \<not> source_enabled source then Inr ()
      else if \<not> paths_are_same_filesystem mounts (subvolume source) (local_snapshot_dir source)
      then Inl (ValidationError (''LOCAL_SNAPSHOT_DIR must be on the same Btrfs filesystem as '' @ subvolume source))
      else if paths_are_same_filesystem mounts (subvolume source) (mount_point (target profile))
      then Inl (ValidationError (''SOURCE_SUBVOLUME must not be on the backup target filesystem: '' @ subvolume source))
      else if path_is_within (local_snapshot_dir source) (mount_point (target profile))
      then Inl (ValidationError (''LOCAL_SNAPSHOT_DIR must not be inside the backup target: '' @ local_snapshot_dir source))
      else Inr ())"

definition validate_backup_mounts ::
  "(path \<Rightarrow> path option) \<Rightarrow> Profile \<Rightarrow> MountEntry list \<Rightarrow> MountEntry result" where
  "validate_backup_mounts weakly_canonical profile mounts =
     bindE (validate_backup_target_mount weakly_canonical profile mounts ReadWrite) (\<lambda>target_mount.
     bindE (mapE (validate_source_mounts profile mounts) (sources profile)) (\<lambda>_. Inr target_mount))"

section \<open>Mount options\<close>

fun comma_list :: "string \<Rightarrow> string list" where
  \<comment> \<open>the options of a mount as a list\<close>
  "comma_list [] = [[]]"
| "comma_list (c # cs) =
     (if c = CHR '','' then [] # comma_list cs
      else (case comma_list cs of [] \<Rightarrow> [[c]] | w # ws \<Rightarrow> (c # w) # ws))"

lemma text_contains_iff: "text_contains hay needle \<longleftrightarrow> (\<exists>pre post. hay = pre @ needle @ post)"
proof (induction hay)
  case (Cons c cs)
  have "take (length needle) (c # cs) = needle \<longleftrightarrow> (\<exists>post. c # cs = needle @ post)"
    by (metis append_eq_conv_conj append_take_drop_id)
  then show ?case
    using Cons.IH by (auto simp: Cons_eq_append_conv)
qed simp

lemma split_at_separator:
  assumes "c \<notin> set w"
  shows "w @ c # x = p @ c # y \<longleftrightarrow> p = w \<and> x = y \<or> (\<exists>q. p = w @ c # q \<and> x = q @ c # y)"
  using assms
proof (induction w arbitrary: p)
  case Nil
  then show ?case by (cases p) auto
next
  case (Cons a w)
  then show ?case by (cases p) auto
qed

lemma comma_list_no_comma: "CHR '','' \<notin> set w \<Longrightarrow> comma_list w = [w]"
  by (induction w) auto

lemma comma_list_append: "CHR '','' \<notin> set w \<Longrightarrow> comma_list (w @ CHR '','' # rest) = w # comma_list rest"
  by (induction w) auto

definition enclosed :: "string \<Rightarrow> string \<Rightarrow> bool" where
  \<comment> \<open>the option occurs between two commas in the text that follows a comma\<close>
  "enclosed v x \<longleftrightarrow> (\<exists>pre post. CHR '','' # x = pre @ CHR '','' # v @ CHR '','' # post)"

lemma enclosed_iff:
  "enclosed v x \<longleftrightarrow> (\<exists>post. x = v @ CHR '','' # post) \<or> (\<exists>q post. x = q @ CHR '','' # v @ CHR '','' # post)"
  unfolding enclosed_def Cons_eq_append_conv by blast

lemma enclosed_Cons:
  assumes "CHR '','' \<notin> set v" and "CHR '','' \<notin> set w"
  shows "enclosed v (w @ CHR '','' # x) \<longleftrightarrow> w = v \<or> enclosed v x"
proof -
  have a: "(\<exists>post. w @ CHR '','' # x = v @ CHR '','' # post) \<longleftrightarrow> w = v"
    using split_at_separator [OF assms(2), of x v] assms(1) by auto
  have "(\<exists>q post. w @ CHR '','' # x = q @ CHR '','' # v @ CHR '','' # post) \<longleftrightarrow> enclosed v x"
    unfolding split_at_separator [OF assms(2)] enclosed_iff by blast
  then show ?thesis
    unfolding enclosed_iff [of v "w @ CHR '','' # x"] a by blast
qed

lemma enclosed_Nil: "\<not> enclosed v []"
  by (simp add: enclosed_iff)

lemma enclosed_comma_list:
  assumes "CHR '','' \<notin> set v"
  shows "enclosed v (options @ '','') \<longleftrightarrow> v \<in> set (comma_list options)"
proof (induction options rule: length_induct)
  case (1 options)
  show ?case
  proof (cases "CHR '','' \<in> set options")
    case True
    then obtain w rest where o: "options = w @ CHR '','' # rest" and w: "CHR '','' \<notin> set w"
      by (metis split_list_first)
    have "enclosed v (rest @ '','') \<longleftrightarrow> v \<in> set (comma_list rest)"
      using 1 o by simp
    then show ?thesis
      using enclosed_Cons [OF assms w, of "rest @ '',''"] by (auto simp: o comma_list_append [OF w])
  next
    case False
    then show ?thesis
      using enclosed_Cons [OF assms False, of "[]"]
      by (auto simp: comma_list_no_comma [OF False] enclosed_Nil)
  qed
qed

text \<open>
  A mount has an option exactly when the option is one of the comma-separated
  entries of its option text. An option that is only a part of an entry, like \<open>rw\<close> in
  \<open>errors=rw-panic\<close>, does not count.
\<close>

theorem has_mount_option_iff:
  assumes "CHR '','' \<notin> set option"
  shows "has_mount_option options option \<longleftrightarrow> option \<in> set (comma_list options)"
  using enclosed_comma_list [OF assms, of options]
  by (simp add: has_mount_option_def text_contains_iff enclosed_def)

theorem has_mount_option_iff_witness:
  "has_mount_option ''ro,errors=rw-panic,nodev'' ''nodev''
   \<and> \<not> has_mount_option ''ro,errors=rw-panic,nodev'' ''rw''"
proof -
  have "has_mount_option ''ro,errors=rw-panic,nodev'' ''nodev''
      \<longleftrightarrow> ''nodev'' \<in> set (comma_list ''ro,errors=rw-panic,nodev'')"
    by (rule has_mount_option_iff) simp
  moreover have "has_mount_option ''ro,errors=rw-panic,nodev'' ''rw''
      \<longleftrightarrow> ''rw'' \<in> set (comma_list ''ro,errors=rw-panic,nodev'')"
    by (rule has_mount_option_iff) simp
  ultimately show ?thesis by simp
qed

end
