(* ===== verification/RunEvents.thy ===== *)
theory RunEvents
  imports RunPlan Mounts "HOL-Library.Word"
begin

text \<open>
  The events a run reports (backup/model/BackupRunEvent), its checkpoints
  (backup/model/BackupRunCheckpoint) and its results (backup/model/BackupRunExecution and
  BackupExecution). Byte counters are 64-bit words, as in the code.
\<close>

type_synonym u64 = "64 word"

section \<open>Events (backup/model/BackupRunEvent)\<close>

datatype BackupRunEventKind =
    RunStartedKind
  | SourceStartedKind
  | ActionStartedKind
  | TransferProgressKind
  | ActionCompletedKind
  | ActionFailedKind
  | CheckpointWrittenKind
  | SourceCompletedKind
  | TargetValidationCompletedKind
  | RunCompletedKind
  | RunFailedKind
  | RunCancelledKind

datatype OperationKind = Backup | TargetValidation | Planning

datatype BackupTransferStage = Sizing | Transferring

record TransferProgressReport =
  tp_stage :: BackupTransferStage
  tp_bytes_transferred :: u64
  tp_bytes_produced :: u64
  tp_bytes_total_estimated :: u64
  tp_run_bytes_transferred :: u64
  tp_delta_bytes :: u64
  tp_elapsed_ms :: u64
  tp_speed_bps :: u64
  tp_message :: string

datatype BackupRunEvent =
    RunStarted ProfileId RunId OperationKind
  | SourceStarted ProfileId RunId SourceId int
  | ActionStarted ProfileId RunId SourceId int BackupRunActionKind
  | TransferProgress ProfileId RunId SourceId int TransferProgressReport
  | ActionCompleted ProfileId RunId SourceId int BackupRunActionKind
  | ActionFailed ProfileId RunId SourceId int BackupRunActionKind "ErrorCode option" string
  | CheckpointWritten ProfileId RunId SourceId int BackupRunActionKind
  | SourceCompleted ProfileId RunId SourceId int
  | TargetValidationCompleted ProfileId RunId
  | RunCompleted ProfileId RunId
  | RunFailed ProfileId RunId ErrorCode string OperationKind
  | RunCancelled ProfileId RunId "SourceId option" int "BackupRunActionKind option"
      "ErrorCode option" string OperationKind

fun backup_run_event_kind :: "BackupRunEvent \<Rightarrow> BackupRunEventKind" where
  "backup_run_event_kind (RunStarted p r k) = RunStartedKind"
| "backup_run_event_kind (SourceStarted p r s i) = SourceStartedKind"
| "backup_run_event_kind (ActionStarted p r s i a) = ActionStartedKind"
| "backup_run_event_kind (TransferProgress p r s i t) = TransferProgressKind"
| "backup_run_event_kind (ActionCompleted p r s i a) = ActionCompletedKind"
| "backup_run_event_kind (ActionFailed p r s i a c m) = ActionFailedKind"
| "backup_run_event_kind (CheckpointWritten p r s i a) = CheckpointWrittenKind"
| "backup_run_event_kind (SourceCompleted p r s i) = SourceCompletedKind"
| "backup_run_event_kind (TargetValidationCompleted p r) = TargetValidationCompletedKind"
| "backup_run_event_kind (RunCompleted p r) = RunCompletedKind"
| "backup_run_event_kind (RunFailed p r c m k) = RunFailedKind"
| "backup_run_event_kind (RunCancelled p r s i a c m k) = RunCancelledKind"

fun backup_run_event_profile_id :: "BackupRunEvent \<Rightarrow> ProfileId" where
  "backup_run_event_profile_id (RunStarted p r k) = p"
| "backup_run_event_profile_id (SourceStarted p r s i) = p"
| "backup_run_event_profile_id (ActionStarted p r s i a) = p"
| "backup_run_event_profile_id (TransferProgress p r s i t) = p"
| "backup_run_event_profile_id (ActionCompleted p r s i a) = p"
| "backup_run_event_profile_id (ActionFailed p r s i a c m) = p"
| "backup_run_event_profile_id (CheckpointWritten p r s i a) = p"
| "backup_run_event_profile_id (SourceCompleted p r s i) = p"
| "backup_run_event_profile_id (TargetValidationCompleted p r) = p"
| "backup_run_event_profile_id (RunCompleted p r) = p"
| "backup_run_event_profile_id (RunFailed p r c m k) = p"
| "backup_run_event_profile_id (RunCancelled p r s i a c m k) = p"

fun backup_run_event_run_id :: "BackupRunEvent \<Rightarrow> RunId" where
  "backup_run_event_run_id (RunStarted p r k) = r"
| "backup_run_event_run_id (SourceStarted p r s i) = r"
| "backup_run_event_run_id (ActionStarted p r s i a) = r"
| "backup_run_event_run_id (TransferProgress p r s i t) = r"
| "backup_run_event_run_id (ActionCompleted p r s i a) = r"
| "backup_run_event_run_id (ActionFailed p r s i a c m) = r"
| "backup_run_event_run_id (CheckpointWritten p r s i a) = r"
| "backup_run_event_run_id (SourceCompleted p r s i) = r"
| "backup_run_event_run_id (TargetValidationCompleted p r) = r"
| "backup_run_event_run_id (RunCompleted p r) = r"
| "backup_run_event_run_id (RunFailed p r c m k) = r"
| "backup_run_event_run_id (RunCancelled p r s i a c m k) = r"

fun backup_run_event_source_id :: "BackupRunEvent \<Rightarrow> SourceId option" where
  "backup_run_event_source_id (SourceStarted p r s i) = Some s"
| "backup_run_event_source_id (ActionStarted p r s i a) = Some s"
| "backup_run_event_source_id (TransferProgress p r s i t) = Some s"
| "backup_run_event_source_id (ActionCompleted p r s i a) = Some s"
| "backup_run_event_source_id (ActionFailed p r s i a c m) = Some s"
| "backup_run_event_source_id (CheckpointWritten p r s i a) = Some s"
| "backup_run_event_source_id (SourceCompleted p r s i) = Some s"
| "backup_run_event_source_id (RunCancelled p r s i a c m k) = s"
| "backup_run_event_source_id e = None"

fun backup_run_event_source_index :: "BackupRunEvent \<Rightarrow> int" where
  "backup_run_event_source_index (SourceStarted p r s i) = i"
| "backup_run_event_source_index (ActionStarted p r s i a) = i"
| "backup_run_event_source_index (TransferProgress p r s i t) = i"
| "backup_run_event_source_index (ActionCompleted p r s i a) = i"
| "backup_run_event_source_index (ActionFailed p r s i a c m) = i"
| "backup_run_event_source_index (CheckpointWritten p r s i a) = i"
| "backup_run_event_source_index (SourceCompleted p r s i) = i"
| "backup_run_event_source_index (RunCancelled p r s i a c m k) = i"
| "backup_run_event_source_index e = 0"

fun backup_run_event_action_kind :: "BackupRunEvent \<Rightarrow> BackupRunActionKind option" where
  "backup_run_event_action_kind (ActionStarted p r s i a) = Some a"
| "backup_run_event_action_kind (ActionCompleted p r s i a) = Some a"
| "backup_run_event_action_kind (ActionFailed p r s i a c m) = Some a"
| "backup_run_event_action_kind (CheckpointWritten p r s i a) = Some a"
| "backup_run_event_action_kind (TransferProgress p r s i t) = Some SendReceive"
| "backup_run_event_action_kind (RunCancelled p r s i a c m k) = a"
| "backup_run_event_action_kind e = None"

fun backup_run_event_operation_kind :: "BackupRunEvent \<Rightarrow> OperationKind" where
  "backup_run_event_operation_kind (RunStarted p r k) = k"
| "backup_run_event_operation_kind (RunFailed p r c m k) = k"
| "backup_run_event_operation_kind (RunCancelled p r s i a c m k) = k"
| "backup_run_event_operation_kind (TargetValidationCompleted p r) = TargetValidation"
| "backup_run_event_operation_kind e = Backup"

section \<open>Checkpoints and results\<close>

record BackupRunCheckpoint =
  cp_profile_id :: ProfileId
  cp_run_id :: RunId
  cp_source_id :: SourceId
  cp_action_kind :: BackupRunActionKind

datatype BackupRunExecutionResult =
    BackupRunExecutionCompleted nat
  | BackupRunExecutionCancelled nat
  | BackupRunExecutionFailed ErrorCode string nat

fun execution_actions_completed :: "BackupRunExecutionResult \<Rightarrow> nat" where
  "execution_actions_completed (BackupRunExecutionCompleted n) = n"
| "execution_actions_completed (BackupRunExecutionCancelled n) = n"
| "execution_actions_completed (BackupRunExecutionFailed c m n) = n"

datatype BackupCompletionWarningComponent = SuccessLedger | TerminalStatus | TargetStorageMeasurementWarning

record BackupCompletionWarning =
  cw_component :: BackupCompletionWarningComponent
  cw_error_code :: ErrorCode
  cw_message :: string

record BackupRequest =
  rq_profile_id :: ProfileId
  rq_force :: bool
  rq_validate_only :: bool

record BackupPlanRequest =
  prq_profile_id :: ProfileId
  prq_mount_target :: bool

record CancellationRequest =
  cr_profile_id :: ProfileId
  cr_run_id :: RunId

datatype CancellationRequestOutcome = Accepted | StaleRun | RunMismatch

datatype CancelBackupResult =
    CancellationAccepted ProfileId RunId
  | CancellationStaleRun ProfileId RunId
  | CancellationRunMismatch ProfileId RunId

datatype BackupExecutionResult =
    BackupExecutionCompleted BackupRunPlan nat "BackupCompletionWarning list"
  | BackupExecutionSkipped BackupRunPlan
  | BackupExecutionCancelled BackupRunPlan nat
  | BackupExecutionBusy ProfileId RunId ErrorCode string
  | BackupExecutionValidated BackupRunPlan
  | BackupExecutionFailed ProfileId RunId ErrorCode string nat

section \<open>Terminal events\<close>

fun terminal_event :: "BackupRunEvent \<Rightarrow> bool" where
  \<comment> \<open>the events that end the report of a run\<close>
  "terminal_event (TargetValidationCompleted p r) = True"
| "terminal_event (RunCompleted p r) = True"
| "terminal_event (RunFailed p r c m k) = True"
| "terminal_event (RunCancelled p r s i a c m k) = True"
| "terminal_event e = False"

end
