(* ===== verification/TransferModel.thy ===== *)
theory TransferModel
  imports RunEvents
begin

text \<open>
  The data of a transfer: backup/transfer/TransferPlan, TransferResult, TransferSizing,
  TransferEvent and the checks and the command lines of SnapshotTransfer, together with the
  commands of backup/ports/Process.
\<close>

section \<open>Plans and commands\<close>

record TransferPipelinePlan =
  producer_argv :: "string list"
  consumer_argv :: "string list"
  plan_bytes_total_estimated :: u64
  retained_resources :: "path list" \<comment> \<open>the pinned directories, by their stable paths\<close>

record SendReceiveCommandPlan =
  send_argv :: "string list"
  receive_argv :: "string list"

definition build_send_receive_command_plan :: "path \<Rightarrow> path \<Rightarrow> path \<Rightarrow> SendReceiveCommandPlan" where
  "build_send_receive_command_plan snapshot_path parent_path receive_directory =
     \<lparr> send_argv = [''btrfs'', ''send'', ''--proto'', ''2'', ''--compressed-data'']
         @ (if parent_path \<noteq> [] then [''-p'', parent_path] else []) @ [snapshot_path],
       receive_argv = [''btrfs'', ''receive'', receive_directory] \<rparr>"

definition make_stream_sizing_plan :: "TransferPipelinePlan \<Rightarrow> TransferPipelinePlan" where
  "make_stream_sizing_plan transfer_plan =
     transfer_plan\<lparr> consumer_argv := [''btrfs'', ''receive'', ''--dump''] \<rparr>"

record CommandResult =
  exit_code :: int
  command_output :: string
  command_cancelled :: bool
  timed_out :: bool

datatype CommandEnvironmentProfile = StandardEnvironment | HookEnvironment | SystemdControlEnvironment

record ControlledCommandOptions =
  stdin_fd :: int
  timeout_ms :: int
  max_output_bytes :: nat
  terminate_grace_period_ms :: int
  kill_reap_period_ms :: int
  inherited_fds :: "int list"
  environment_profile :: CommandEnvironmentProfile
  environment :: "(string \<times> string) list"

definition default_command_options :: ControlledCommandOptions where
  "default_command_options =
     \<lparr> stdin_fd = - 1, timeout_ms = 300000, max_output_bytes = 64 * 1024,
       terminate_grace_period_ms = 5000, kill_reap_period_ms = 5000, inherited_fds = [],
       environment_profile = StandardEnvironment, environment = [] \<rparr>"

definition capture_command :: "(string list \<Rightarrow> CommandResult result) \<Rightarrow> string list \<Rightarrow> string result" where
  \<comment> \<open>the runner is the argument; the loop that pops the final line ends is \<open>dropWhile\<close> from the end\<close>
  "capture_command runner argv =
     (if argv = [] then Inl (ValidationError ''empty command'')
      else bindE (runner argv) (\<lambda>r.
        if exit_code r \<noteq> 0 then Inl (ValidationError (''command failed: '' @ hd argv))
        else Inr (rev (dropWhile (\<lambda>c. c = CHR 0x0A \<or> c = CHR 0x0D) (rev (command_output r))))))"

section \<open>Results (backup/transfer/TransferResult)\<close>

datatype TransferSideResult =
    TransferNotStarted string
  | TransferRunning string
  | TransferExited int string

fun side_started :: "TransferSideResult \<Rightarrow> bool" where
  "side_started (TransferNotStarted d) = False"
| "side_started (TransferRunning d) = True"
| "side_started (TransferExited c d) = True"

fun side_exit_code :: "TransferSideResult \<Rightarrow> int option" where
  "side_exit_code (TransferExited c d) = Some c"
| "side_exit_code (TransferRunning d) = None"
| "side_exit_code (TransferNotStarted d) = None"

fun side_diagnostics :: "TransferSideResult \<Rightarrow> string" where
  "side_diagnostics (TransferNotStarted d) = d"
| "side_diagnostics (TransferRunning d) = d"
| "side_diagnostics (TransferExited c d) = d"

definition mark_exited :: "int \<Rightarrow> TransferSideResult \<Rightarrow> TransferSideResult" where
  "mark_exited code side = TransferExited code (side_diagnostics side)"

record TransferResult =
  producer :: TransferSideResult
  consumer :: TransferSideResult
  bytes_transferred :: u64
  bytes_produced :: u64
  bytes_total_estimated :: u64
  duration_ms :: u64
  average_speed_bps :: u64
  cancelled :: bool

definition side_failure :: "string \<Rightarrow> TransferSideResult \<Rightarrow> string" where
  "side_failure side r =
     (let message = side @ '' failed'';
          message = (if \<not> side_started r then message @ '' before start''
            else message @ '' with exit code '' @
              int_text (case side_exit_code r of None \<Rightarrow> - 1 | Some c \<Rightarrow> c))
      in if side_diagnostics r \<noteq> [] then message @ '': '' @ side_diagnostics r else message)"

definition transfer_succeeded :: "TransferResult \<Rightarrow> bool" where
  "transfer_succeeded r \<longleftrightarrow>
     \<not> cancelled r \<and> side_exit_code (producer r) = Some 0 \<and> side_exit_code (consumer r) = Some 0"

definition transfer_failure_error_code :: "TransferResult \<Rightarrow> ErrorCode option" where
  "transfer_failure_error_code r =
     (if transfer_succeeded r then None
      else if cancelled r then Some RunnerCancelled
      else (let producer_failed = side_exit_code (producer r) \<noteq> Some 0;
                consumer_failed = side_exit_code (consumer r) \<noteq> Some 0
        in if producer_failed \<and> consumer_failed then Some TransferProducerConsumerFailed
           else if producer_failed then Some TransferProducerFailed
           else if consumer_failed then Some TransferConsumerFailed
           else Some TransferFailed))"

definition require_transfer_success :: "TransferResult \<Rightarrow> unit result" where
  "require_transfer_success r =
     (if transfer_succeeded r then Inr ()
      else if cancelled r then Inl (ValidationError ''Transfer was cancelled'')
      else (let producer_failed = side_exit_code (producer r) \<noteq> Some 0;
                consumer_failed = side_exit_code (consumer r) \<noteq> Some 0
        in if producer_failed \<and> consumer_failed
           then Inl (ValidationError (''Transfer failed: '' @ side_failure ''producer'' (producer r)
             @ ''; '' @ side_failure ''consumer'' (consumer r)))
           else if producer_failed then Inl (ValidationError (side_failure ''producer'' (producer r)))
           else if consumer_failed then Inl (ValidationError (side_failure ''consumer'' (consumer r)))
           else Inl (ValidationError ''Transfer failed'')))"

definition require_success_with_error_code :: "TransferResult \<Rightarrow> unit result" where
  "require_success_with_error_code r =
     (case require_transfer_success r of
        Inr u \<Rightarrow> Inr u
      | Inl error \<Rightarrow>
          Inl (CodedValidationError
            (case transfer_failure_error_code r of Some code \<Rightarrow> code | None \<Rightarrow> TransferFailed) (what error)))"

section \<open>Events (backup/transfer/TransferEvent)\<close>

datatype TransferEventKind =
    TransferStarted
  | TransferProgressed
  | ProducerFinished
  | ConsumerFinished
  | TransferCancelled
  | TransferCompleted

datatype TransferActivity = TransferringActivity | SizingActivity

record TransferEvent =
  te_kind :: TransferEventKind
  te_activity :: TransferActivity
  te_bytes_transferred :: u64
  te_bytes_produced :: u64
  te_bytes_total_estimated :: u64
  te_delta_bytes :: u64
  te_elapsed_ms :: u64
  te_speed_bps :: u64
  te_message :: string

definition sizing_event :: "TransferEvent \<Rightarrow> TransferEvent option" where
  \<comment> \<open>\<open>StreamSizingEventSink\<close>: the event it passes on, if any\<close>
  "sizing_event event =
     (if te_kind event \<noteq> TransferProgressed then None
      else Some \<lparr> te_kind = TransferProgressed, te_activity = SizingActivity,
        te_bytes_transferred = 0, te_bytes_produced = 0, te_bytes_total_estimated = 0,
        te_delta_bytes = 0, te_elapsed_ms = te_elapsed_ms event, te_speed_bps = te_speed_bps event,
        te_message = ''Measuring Btrfs send stream.'' \<rparr>)"

section \<open>Checking a received snapshot (backup/transfer/SnapshotTransfer)\<close>

definition verify_received_snapshot ::
  "SourceId \<Rightarrow> SnapshotMetadata \<Rightarrow> SnapshotMetadata \<Rightarrow> unit result" where
  "verify_received_snapshot source local_metadata received_metadata =
     bindE (requireE (is_subvolume received_metadata)
              (ValidationError ''btrfs receive did not create the expected subvolume'')) (\<lambda>_.
     bindE (requireE (sm_readonly received_metadata)
              (ValidationError ''Received subvolume is not readonly'')) (\<lambda>_.
     requireE (uuid_matches (sm_uuid local_metadata) (sm_received_uuid received_metadata))
       (ValidationError (''Received UUID does not match the local snapshot UUID for '' @ source))))"

section \<open>The error code of a failed transfer\<close>

lemma transfer_failure_error_code_None: "transfer_failure_error_code r = None \<longleftrightarrow> transfer_succeeded r"
  by (simp add: transfer_failure_error_code_def Let_def)

lemma require_transfer_success_Inr: "require_transfer_success r = Inr u \<longleftrightarrow> transfer_succeeded r"
  by (simp add: require_transfer_success_def Let_def)

lemma require_success_with_error_code_Inr [simp]:
  "require_success_with_error_code r = Inr u \<longleftrightarrow> transfer_succeeded r"
  using require_transfer_success_Inr [of r]
  by (cases "require_transfer_success r") (auto simp: require_success_with_error_code_def)

text \<open>
  The exception of a failed transfer names the side that failed. A transfer that
  both sides ended with exit code zero passes; otherwise the code tells apart a cancelled
  transfer, a failed producer, a failed consumer and both, and it is never the general code.
\<close>

theorem transfer_failure_classified:
  "case require_success_with_error_code r of
     Inr u \<Rightarrow> transfer_succeeded r \<and> transfer_failure_error_code r = None
   | Inl (CodedValidationError code m) \<Rightarrow>
       code = (if cancelled r then RunnerCancelled
         else if side_exit_code (producer r) = Some 0 then TransferConsumerFailed
         else if side_exit_code (consumer r) = Some 0 then TransferProducerFailed
         else TransferProducerConsumerFailed)
   | Inl e \<Rightarrow> False"
  by (auto simp: require_success_with_error_code_def require_transfer_success_def
      transfer_failure_error_code_def transfer_succeeded_def Let_def)

end
