(* ===== verification/RunState.thy ===== *)
theory RunState
  imports TransferModel "HOL-Library.Sublist"
begin

text \<open>
  The state of code that talks to the outside through the interfaces of backup/ports. Everything
  behind an interface is a function over a world of type \<open>'w\<close> that the model knows nothing
  about, so the theorems hold for every behaviour of it. Every call is appended to a trace, in
  the order the code makes them; properties speak about this trace.
\<close>

section \<open>Calls\<close>

datatype RepositoryCall =
    OpenRoot path
  | EnsureDirectory path path
  | PathExists path path
  | PinDirectory path path
  | RemoveContents path path
  | RemoveTree path path
  | CreateDirectories path
  | ReadSnapshotMetadata "path option" path
  | CreateReadonlySnapshot "path option" path "path option" path
  | DeleteSubvolume "path option" path
  | WriteMarker path PendingMarker
  | ClearMarker path
  | ResolveExecutable path
  | RunControlled "string list" ControlledCommandOptions
  | StartTransfer TransferPipelinePlan
  | WaitForTransfer
  | RequestTransferCancel
  | TakeTransferResult

datatype TargetMountMode = RequireMounted | MountIfNeeded

datatype ServiceCall =
    GetProfile ProfileId
  | OpenEventSink ProfileId
  | TryAcquireLease ProfileId
  | ReleaseLease
  | OpenCheckpointStore ProfileId
  | RegisterActiveRun CancellationRequest
  | CloseActiveRun
  | WatchCancellation CancellationRequest
  | CloseCancellationWatch
  | ClearCancelRequest CancellationRequest
  | RequestCancel CancellationRequest
  | PrepareTarget TargetMountMode
  | CloseTarget
  | InspectMounts
  | Discover
  | BuildPlan
  | CreateActionHandler
  | LastSuccessMatches
  | WriteSuccess RunId nat
  | WriteSkipped RunId nat
  | MeasureTarget path MountEntry
  | WriteMeasurement
  | ClockNow
  | LocalDateToday
  | GenerateRunId

datatype RunCall =
    Emit BackupRunEvent
  | WriteCheckpoint BackupRunCheckpoint
  | Polled bool \<comment> \<open>the cancellation token and its answer\<close>
  | Repository RepositoryCall
  | Service ServiceCall

record 'w run_state =
  trace :: "RunCall list"
  world :: 'w

type_synonym ('w, 'a) port = "'w \<Rightarrow> 'a result \<times> 'w"
type_synonym ('w, 'a) io = "('w run_state, exn, 'a) run"

definition callS :: "RunCall \<Rightarrow> ('w, 'a) port \<Rightarrow> ('w, 'a) io" where
  "callS c p s = (case p (world s) of (r, w) \<Rightarrow> (r, s\<lparr> trace := trace s @ [c], world := w \<rparr>))"

definition pollS :: "('w \<Rightarrow> bool \<times> 'w) \<Rightarrow> ('w, bool) io" where
  \<comment> \<open>\<open>cancellation_requested ()\<close>, which does not throw\<close>
  "pollS p s = (case p (world s) of (b, w) \<Rightarrow> (Inr b, s\<lparr> trace := trace s @ [Polled b], world := w \<rparr>))"

section \<open>What a step adds to the trace\<close>

text \<open>
  \<open>traceS m R\<close>: whatever the state, the step \<open>m\<close> appends calls to the trace that are related by
  \<open>R\<close> to its result. The rules compute \<open>R\<close> backwards through the program.
\<close>

definition traceS :: "('w, 'a) io \<Rightarrow> (exn + 'a \<Rightarrow> RunCall list \<Rightarrow> bool) \<Rightarrow> bool" where
  "traceS m R \<longleftrightarrow> (\<forall>s. \<exists>cs. trace (snd (m s)) = trace s @ cs \<and> R (fst (m s)) cs)"

named_theorems trace_rules \<open>rules of the trace logic\<close>

lemma traceS_return [trace_rules]: "R (Inr x) [] \<Longrightarrow> traceS (returnS x) R"
  by (simp add: traceS_def run_simps)

lemma traceS_throw [trace_rules]: "R (Inl e) [] \<Longrightarrow> traceS (throwS e) R"
  by (simp add: traceS_def run_simps)

lemma traceS_lift [trace_rules]: "R r [] \<Longrightarrow> traceS (liftE r) R"
  by (simp add: traceS_def run_simps)

lemma traceS_call: "(\<And>r. R r [c]) \<Longrightarrow> traceS (callS c p) R"
  by (auto simp: traceS_def callS_def split: prod.splits)

lemma traceS_poll: "(\<And>b. R (Inr b) [Polled b]) \<Longrightarrow> traceS (pollS p) R"
  by (auto simp: traceS_def pollS_def split: prod.splits)

lemma traceS_bind:
  assumes "traceS m (\<lambda>r cs. case r of Inl e \<Rightarrow> R (Inl e) cs
      | Inr x \<Rightarrow> traceS (f x) (\<lambda>r' ds. R r' (cs @ ds)))"
  shows "traceS (bindS m f) R"
  unfolding traceS_def
proof
  fix s
  obtain cs where cs: "trace (snd (m s)) = trace s @ cs"
    "case fst (m s) of Inl e \<Rightarrow> R (Inl e) cs | Inr x \<Rightarrow> traceS (f x) (\<lambda>r' ds. R r' (cs @ ds))"
    using assms unfolding traceS_def by blast
  show "\<exists>cs. trace (snd (bindS m f s)) = trace s @ cs \<and> R (fst (bindS m f s)) cs"
  proof (cases "m s")
    case (Pair r t)
    show ?thesis
    proof (cases r)
      case (Inl e)
      then show ?thesis using cs Pair by (auto simp: bindS_def)
    next
      case (Inr x)
      have "traceS (f x) (\<lambda>r' ds. R r' (cs @ ds))" and t: "trace t = trace s @ cs"
        using cs Pair Inr by auto
      then obtain ds where "trace (snd (f x t)) = trace t @ ds" "R (fst (f x t)) (cs @ ds)"
        unfolding traceS_def by blast
      then show ?thesis using Pair Inr t by (auto simp: bindS_def)
    qed
  qed
qed

lemma traceS_catch:
  assumes "traceS m (\<lambda>r cs. case r of Inr x \<Rightarrow> R (Inr x) cs
      | Inl e \<Rightarrow> traceS (h e) (\<lambda>r' ds. R r' (cs @ ds)))"
  shows "traceS (catchS m h) R"
  unfolding traceS_def
proof
  fix s
  obtain cs where cs: "trace (snd (m s)) = trace s @ cs"
    "case fst (m s) of Inr x \<Rightarrow> R (Inr x) cs | Inl e \<Rightarrow> traceS (h e) (\<lambda>r' ds. R r' (cs @ ds))"
    using assms unfolding traceS_def by blast
  show "\<exists>cs. trace (snd (catchS m h s)) = trace s @ cs \<and> R (fst (catchS m h s)) cs"
  proof (cases "m s")
    case (Pair r t)
    show ?thesis
    proof (cases r)
      case (Inr x)
      then show ?thesis using cs Pair by (auto simp: catchS_def)
    next
      case (Inl e)
      have "traceS (h e) (\<lambda>r' ds. R r' (cs @ ds))" and t: "trace t = trace s @ cs"
        using cs Pair Inl by auto
      then obtain ds where "trace (snd (h e t)) = trace t @ ds" "R (fst (h e t)) (cs @ ds)"
        unfolding traceS_def by blast
      then show ?thesis using Pair Inl t by (auto simp: catchS_def)
    qed
  qed
qed

lemma traceS_mono: "traceS m R' \<Longrightarrow> (\<And>r cs. R' r cs \<Longrightarrow> R r cs) \<Longrightarrow> traceS m R"
  unfolding traceS_def by blast

lemma traceS_conj: "traceS m R \<Longrightarrow> traceS m R' \<Longrightarrow> traceS m (\<lambda>r cs. R r cs \<and> R' r cs)"
  unfolding traceS_def by (metis same_append_eq)

lemma traceS_D: "traceS m R \<Longrightarrow> m s = (r, t) \<Longrightarrow> \<exists>cs. trace t = trace s @ cs \<and> R r cs"
  unfolding traceS_def by (metis fst_conv snd_conv)

text \<open>Calls of one kind only.\<close>

abbreviation only :: "(RunCall \<Rightarrow> bool) \<Rightarrow> exn + 'a \<Rightarrow> RunCall list \<Rightarrow> bool" where
  "only P \<equiv> \<lambda>r cs. list_all P cs"

lemma only_return: "traceS (returnS x) (only P)"
  by (rule traceS_return) simp

lemma only_throw: "traceS (throwS e) (only P)"
  by (rule traceS_throw) simp

lemma only_lift: "traceS (liftE r) (only P)"
  by (rule traceS_lift) simp

lemma only_call: "P c \<Longrightarrow> traceS (callS c p) (only P)"
  by (rule traceS_call) simp

lemma only_poll: "P (Polled True) \<Longrightarrow> P (Polled False) \<Longrightarrow> traceS (pollS p) (only P)"
  by (rule traceS_poll, rename_tac b, case_tac b) simp_all

lemma only_bind:
  assumes "traceS m (only P)" and "\<And>x. traceS (f x) (only P)"
  shows "traceS (bindS m f) (only P)"
  by (rule traceS_bind, rule traceS_mono [OF assms(1)])
     (auto split: sum.splits intro: traceS_mono [OF assms(2)])

lemma only_catch:
  assumes "traceS m (only P)" and "\<And>e. traceS (h e) (only P)"
  shows "traceS (catchS m h) (only P)"
  by (rule traceS_catch, rule traceS_mono [OF assms(1)])
     (auto split: sum.splits intro: traceS_mono [OF assms(2)])

lemma only_iter: "(\<And>x. traceS (f x) (only P)) \<Longrightarrow> traceS (iterS f xs) (only P)"
  by (induction xs) (auto intro: only_return only_bind)

lemmas only_rules = only_return only_throw only_lift only_call only_poll only_bind only_catch only_iter

section \<open>Steps that do not throw\<close>

definition okS :: "('w, 'a) io \<Rightarrow> ('a \<Rightarrow> bool) \<Rightarrow> bool" where
  \<comment> \<open>the step returns normally in every state, with a result that satisfies the predicate\<close>
  "okS m P \<longleftrightarrow> (\<forall>s. \<exists>x t. m s = (Inr x, t) \<and> P x)"

lemma okS_return: "P x \<Longrightarrow> okS (returnS x) P"
  by (simp add: okS_def run_simps)

lemma okS_bind:
  assumes "okS m (\<lambda>x. okS (f x) P)"
  shows "okS (bindS m f) P"
  unfolding okS_def
proof
  fix s
  obtain x t where m: "m s = (Inr x, t)" and "okS (f x) P"
    using assms unfolding okS_def by blast
  then obtain y u where "f x t = (Inr y, u)" "P y"
    unfolding okS_def by blast
  then show "\<exists>x t. bindS m f s = (Inr x, t) \<and> P x"
    using m by (simp add: bindS_def)
qed

lemma okS_catch:
  assumes "okS m P"
  shows "okS (catchS m h) P"
  unfolding okS_def
proof
  fix s
  obtain x t where "m s = (Inr x, t)" "P x"
    using assms unfolding okS_def by blast
  then show "\<exists>x t. catchS m h s = (Inr x, t) \<and> P x"
    by (simp add: catchS_def)
qed

lemma okS_call:
  assumes "\<And>w. \<exists>x w'. p w = (Inr x, w') \<and> P x"
  shows "okS (callS c p) P"
  unfolding okS_def
proof
  fix s :: "'a run_state"
  obtain x w' where "p (world s) = (Inr x, w')" "P x"
    using assms by blast
  then show "\<exists>x t. callS c p s = (Inr x, t) \<and> P x"
    by (simp add: callS_def)
qed

lemma okS_poll: "(\<And>w. P (fst (p w))) \<Longrightarrow> okS (pollS p) P"
  by (simp add: okS_def pollS_def split_def)

lemma okS_mono: "okS m P \<Longrightarrow> (\<And>x. P x \<Longrightarrow> Q x) \<Longrightarrow> okS m Q"
  unfolding okS_def by blast

lemmas okS_intros = okS_return okS_bind okS_catch

end
