(* ===== verification/ActionHandlers.thy ===== *)
theory ActionHandlers
  imports RunState
begin

text \<open>
  Executing one action of a plan: backup/execution/actions (the handlers of snapshots, recovery,
  retention, hooks and the repository, and their dispatcher), backup/transfer/TransferCoordinator,
  the commit of backup/transfer/SnapshotTransfer and backup/execution/BackupActionExecutor. A safe
  directory root is represented by its path; a handler without a root passes \<open>None\<close>.
\<close>

section \<open>The interfaces an action uses\<close>

record 'w RunnerPorts =
  on_backup_run_event :: "BackupRunEvent \<Rightarrow> ('w, unit) port"
  write_checkpoint :: "BackupRunCheckpoint \<Rightarrow> ('w, unit) port"
  cancellation_token :: "'w \<Rightarrow> bool \<times> 'w"

record 'w ActionPorts = "'w RunnerPorts" +
  ap_open_root :: "path \<Rightarrow> ('w, unit) port"
  ap_ensure_directory :: "path \<Rightarrow> path \<Rightarrow> ('w, unit) port"
  ap_exists :: "path \<Rightarrow> path \<Rightarrow> ('w, bool) port"
  ap_pin_directory :: "path \<Rightarrow> path \<Rightarrow> ('w, path) port" \<comment> \<open>the stable path\<close>
  ap_remove_contents :: "path \<Rightarrow> path \<Rightarrow> ('w, unit) port"
  ap_remove_tree :: "path \<Rightarrow> path \<Rightarrow> ('w, unit) port"
  ap_create_directories :: "path \<Rightarrow> ('w, unit) port"
  ap_read_snapshot_metadata :: "path option \<Rightarrow> path \<Rightarrow> ('w, SnapshotMetadata option) port"
  ap_create_readonly_snapshot :: "path option \<Rightarrow> path \<Rightarrow> path option \<Rightarrow> path \<Rightarrow> ('w, unit) port"
  ap_delete_subvolume :: "path option \<Rightarrow> path \<Rightarrow> ('w, unit) port"
  ap_write_marker :: "path \<Rightarrow> PendingMarker \<Rightarrow> ('w, unit) port"
  ap_clear_marker :: "path \<Rightarrow> ('w, unit) port"
  ap_now :: "('w, RuntimeTimePoint) port"
  ap_resolve_executable :: "path \<Rightarrow> ('w, string \<times> int list) port"
  ap_run_controlled :: "string list \<Rightarrow> ControlledCommandOptions \<Rightarrow> ('w, CommandResult) port"
  ap_start_transfer :: "TransferPipelinePlan \<Rightarrow> ('w, nat) port"
    \<comment> \<open>starts the transfer thread; the number bounds the waiting periods until it ends\<close>
  ap_wait_for_transfer :: "('w, TransferEvent list \<times> bool) port"
    \<comment> \<open>one waiting period: the events the thread reports in it, and whether it has ended\<close>
  ap_request_transfer_cancel :: "('w, unit) port"
  ap_take_transfer_result :: "('w, TransferResult) port"

definition emit :: "('w, 'z) RunnerPorts_scheme \<Rightarrow> BackupRunEvent \<Rightarrow> ('w, unit) io" where
  "emit ports event = callS (Emit event) (on_backup_run_event ports event)"

definition poll_cancellation :: "('w, 'z) RunnerPorts_scheme \<Rightarrow> ('w, bool) io" where
  "poll_cancellation ports = pollS (cancellation_token ports)"

definition open_safe_root :: "('w, 'z) ActionPorts_scheme \<Rightarrow> path \<Rightarrow> ('w, unit) io" where
  "open_safe_root ports root = callS (Repository (OpenRoot root)) (ap_open_root ports root)"

definition ensure_directory :: "('w, 'z) ActionPorts_scheme \<Rightarrow> path \<Rightarrow> path \<Rightarrow> ('w, unit) io" where
  "ensure_directory ports root p = callS (Repository (EnsureDirectory root p)) (ap_ensure_directory ports root p)"

definition exists_beneath :: "('w, 'z) ActionPorts_scheme \<Rightarrow> path \<Rightarrow> path \<Rightarrow> ('w, bool) io" where
  "exists_beneath ports root p = callS (Repository (PathExists root p)) (ap_exists ports root p)"

definition pin_directory_beneath :: "('w, 'z) ActionPorts_scheme \<Rightarrow> path \<Rightarrow> path \<Rightarrow> ('w, path) io" where
  "pin_directory_beneath ports root p = callS (Repository (PinDirectory root p)) (ap_pin_directory ports root p)"

definition remove_contents :: "('w, 'z) ActionPorts_scheme \<Rightarrow> path \<Rightarrow> path \<Rightarrow> ('w, unit) io" where
  "remove_contents ports root p = callS (Repository (RemoveContents root p)) (ap_remove_contents ports root p)"

definition remove_tree :: "('w, 'z) ActionPorts_scheme \<Rightarrow> path \<Rightarrow> path \<Rightarrow> ('w, unit) io" where
  "remove_tree ports root p = callS (Repository (RemoveTree root p)) (ap_remove_tree ports root p)"

definition read_snapshot_metadata ::
  "('w, 'z) ActionPorts_scheme \<Rightarrow> path option \<Rightarrow> path \<Rightarrow> ('w, SnapshotMetadata option) io" where
  "read_snapshot_metadata ports root p =
     callS (Repository (ReadSnapshotMetadata root p)) (ap_read_snapshot_metadata ports root p)"

definition create_readonly_snapshot ::
  "('w, 'z) ActionPorts_scheme \<Rightarrow> path option \<Rightarrow> path \<Rightarrow> path option \<Rightarrow> path \<Rightarrow> ('w, unit) io" where
  "create_readonly_snapshot ports source_root source target_root snapshot =
     callS (Repository (CreateReadonlySnapshot source_root source target_root snapshot))
       (ap_create_readonly_snapshot ports source_root source target_root snapshot)"

definition delete_subvolume :: "('w, 'z) ActionPorts_scheme \<Rightarrow> path option \<Rightarrow> path \<Rightarrow> ('w, unit) io" where
  "delete_subvolume ports root p = callS (Repository (DeleteSubvolume root p)) (ap_delete_subvolume ports root p)"

definition write_marker :: "('w, 'z) ActionPorts_scheme \<Rightarrow> path \<Rightarrow> PendingMarker \<Rightarrow> ('w, unit) io" where
  "write_marker ports state_dir marker =
     callS (Repository (WriteMarker state_dir marker)) (ap_write_marker ports state_dir marker)"

definition clear_marker :: "('w, 'z) ActionPorts_scheme \<Rightarrow> path \<Rightarrow> ('w, unit) io" where
  "clear_marker ports p = callS (Repository (ClearMarker p)) (ap_clear_marker ports p)"

lemmas port_calls = emit_def poll_cancellation_def open_safe_root_def ensure_directory_def
  exists_beneath_def pin_directory_beneath_def remove_contents_def remove_tree_def
  read_snapshot_metadata_def create_readonly_snapshot_def delete_subvolume_def write_marker_def
  clear_marker_def

section \<open>Recovery (RecoveryActionHandler)\<close>

definition pending_clear_effect :: "PendingRecoveryPlan \<Rightarrow> path option" where
  \<comment> \<open>\<open>pending_recovery_effect<ClearPendingMarker>\<close>\<close>
  "pending_clear_effect plan =
     (case find (\<lambda>e. case e of ClearPendingMarker p \<Rightarrow> True | _ \<Rightarrow> False) (effects plan) of
        Some (ClearPendingMarker p) \<Rightarrow> Some p | _ \<Rightarrow> None)"

definition handle_recover_pending ::
  "('w, 'z) ActionPorts_scheme \<Rightarrow> path option \<Rightarrow> path option \<Rightarrow> PendingRecoveryPlan \<Rightarrow> ('w, unit) io" where
  "handle_recover_pending ports local_root target_root recovery =
     bindS (case pending_remote_effect recovery of
              None \<Rightarrow> returnS () | Some p \<Rightarrow> delete_subvolume ports target_root p) (\<lambda>_.
     bindS (case pending_local_effect recovery of
              None \<Rightarrow> returnS () | Some p \<Rightarrow> delete_subvolume ports local_root p) (\<lambda>_.
       case pending_clear_effect recovery of
         None \<Rightarrow> returnS () | Some p \<Rightarrow> clear_marker ports p))"

section \<open>Creating a snapshot (SnapshotActionHandler)\<close>

definition require_new_snapshot_metadata ::
  "('w, 'z) ActionPorts_scheme \<Rightarrow> path \<Rightarrow> path option \<Rightarrow> ('w, SnapshotMetadata) io" where
  "require_new_snapshot_metadata ports p safe_root =
     bindS (read_snapshot_metadata ports safe_root p) (\<lambda>metadata.
       case metadata of
         None \<Rightarrow> throwS (ValidationError (''New local snapshot metadata is missing: '' @ p))
       | Some m \<Rightarrow> returnS m)"

definition handle_create_snapshot ::
  "('w, 'z) ActionPorts_scheme \<Rightarrow> path option \<Rightarrow> SourceId \<Rightarrow> path \<Rightarrow> path \<Rightarrow> path \<Rightarrow> path \<Rightarrow> path \<Rightarrow> RunId
   \<Rightarrow> ('w, unit) io" where
  "handle_create_snapshot ports local_root sid source snapshot_directory snapshot final_remote state_dir run =
     bindS (case local_root of
              None \<Rightarrow> callS (Repository (CreateDirectories snapshot_directory))
                        (ap_create_directories ports snapshot_directory)
            | Some root \<Rightarrow> ensure_directory ports root snapshot_directory) (\<lambda>_.
     bindS (callS (Service ClockNow) (ap_now ports)) (\<lambda>now.
     bindS (write_marker ports state_dir
              \<lparr> pm_source_id = sid, pm_local_snapshot_path = snapshot,
                pm_final_snapshot_path = final_remote, pm_run_id = run, pm_timestamp = now \<rparr>) (\<lambda>_.
     bindS (create_readonly_snapshot ports local_root source local_root snapshot) (\<lambda>_.
     bindS (require_new_snapshot_metadata ports snapshot local_root) (\<lambda>metadata.
       if \<not> is_subvolume metadata \<or> \<not> sm_readonly metadata
       then throwS (ValidationError (''New local snapshot is not readonly: '' @ snapshot))
       else returnS ())))))"

section \<open>Retention (RetentionActionHandler)\<close>

definition apply_retention ::
  "('w, 'z) ActionPorts_scheme \<Rightarrow> path option \<Rightarrow> RetentionPlan \<Rightarrow> ('w, unit) io" where
  "apply_retention ports root plan =
     iterS (\<lambda>snapshot. delete_subvolume ports root (si_path snapshot)) (delete_snapshots plan)"

section \<open>Hooks (HookActionHandler)\<close>

definition hook_error_code :: "HookPhase \<Rightarrow> bool \<Rightarrow> ErrorCode" where
  "hook_error_code phase timeout =
     (if phase = BeforeSnapshot
      then (if timeout then HookBeforeSnapshotTimeout else HookBeforeSnapshotFailed)
      else (if timeout then HookAfterSnapshotTimeout else HookAfterSnapshotFailed))"

definition hook_options :: "ProfileHookCommand \<Rightarrow> int list \<Rightarrow> ProfileId \<Rightarrow> SourceId \<Rightarrow> ControlledCommandOptions" where
  "hook_options hook fds profile sid =
     default_command_options
       \<lparr> timeout_ms := 1000 * hook_timeout hook, inherited_fds := fds,
         environment_profile := HookEnvironment,
         environment := [(''BTRFS_BACKUP_PROFILE_ID'', profile), (''BTRFS_BACKUP_SOURCE_ID'', sid)] \<rparr>"

definition run_hook_command ::
  "('w, 'z) ActionPorts_scheme \<Rightarrow> ProfileHookCommand \<Rightarrow> ProfileId \<Rightarrow> SourceId \<Rightarrow> ('w, CommandResult) io" where
  \<comment> \<open>the body of the \<open>try\<close> block\<close>
  "run_hook_command ports hook profile sid =
     bindS (callS (Repository (ResolveExecutable (hook_program hook)))
              (ap_resolve_executable ports (hook_program hook))) (\<lambda>(execution_path, fds).
       let argv = execution_path # hook_arguments hook; options = hook_options hook fds profile sid
       in callS (Repository (RunControlled argv options)) (ap_run_controlled ports argv options))"

definition handle_run_hook ::
  "('w, 'z) ActionPorts_scheme \<Rightarrow> SourceId \<Rightarrow> HookPhase \<Rightarrow> ProfileHookCommand \<Rightarrow> ProfileId \<Rightarrow> ('w, unit) io" where
  "handle_run_hook ports sid phase hook profile =
     (if hook_program hook = [] then throwS (ValidationError ''hook program is required'')
      else if hook_timeout hook < 1 \<or> hook_timeout hook > 24 * 3600
      then throwS (CodedValidationError (hook_error_code phase False)
             (''hook timeout is outside the supported range: '' @ hook_program hook))
      else bindS (catchS (run_hook_command ports hook profile sid) (\<lambda>error.
               if is_std_exception error
               then throwS (CodedOperationError (hook_error_code phase False)
                 (''hook execution failed: '' @ hook_program hook @ '': '' @ what error))
               else throwS error)) (\<lambda>r.
             if command_cancelled r
             then throwS (OperationCancelledError (''hook cancelled: '' @ hook_program hook))
             else if timed_out r
             then throwS (CodedOperationError (hook_error_code phase True)
               (''hook timed out after '' @ int_text (hook_timeout hook) @ '' seconds: '' @ hook_program hook))
             else if exit_code r \<noteq> 0
             then throwS (CodedOperationError (hook_error_code phase False)
               (''hook failed with exit code '' @ int_text (exit_code r) @ '': '' @ hook_program hook))
             else returnS ()))"

section \<open>The repository (RepositoryActionHandler and SnapshotTransfer)\<close>

definition require_snapshot_metadata ::
  "('w, 'z) ActionPorts_scheme \<Rightarrow> path \<Rightarrow> path \<Rightarrow> string \<Rightarrow> ('w, SnapshotMetadata) io" where
  "require_snapshot_metadata ports safe_root p message =
     bindS (read_snapshot_metadata ports (Some safe_root) p) (\<lambda>metadata.
       case metadata of
         None \<Rightarrow> throwS (ValidationError (message @ '': '' @ p))
       | Some m \<Rightarrow> returnS m)"

definition commit_received_snapshot_beneath ::
  "('w, 'z) ActionPorts_scheme \<Rightarrow> path \<Rightarrow> path \<Rightarrow> path \<Rightarrow> SnapshotUuid \<Rightarrow> ('w, unit) io" where
  "commit_received_snapshot_beneath ports root received_path final_path expected_received_uuid =
     bindS (exists_beneath ports root final_path) (\<lambda>present.
       if present then throwS (ValidationError (''Destination snapshot already exists: '' @ final_path))
       else
         bindS (create_readonly_snapshot ports (Some root) received_path (Some root) final_path) (\<lambda>_.
         bindS (read_snapshot_metadata ports (Some root) final_path) (\<lambda>committed.
           if (case committed of None \<Rightarrow> True
               | Some m \<Rightarrow> \<not> uuid_matches expected_received_uuid (sm_received_uuid m))
           then
             (let verification_error =
                ''Committed snapshot Received UUID does not match the local snapshot UUID''
              in bindS (catchS (delete_subvolume ports (Some root) final_path) (\<lambda>cleanup_error.
                    if is_std_exception cleanup_error
                    then throwS (RecoveryRequiredError RepositoryRecoveryRequired
                      (verification_error @ ''; cleanup failed for '' @ final_path @ '': ''
                        @ what cleanup_error @ ''; repository requires recovery''))
                    else throwS cleanup_error)) (\<lambda>_.
                  throwS (ValidationError verification_error)))
           else returnS ())))"

definition handle_cleanup_incoming :: "('w, 'z) ActionPorts_scheme \<Rightarrow> path \<Rightarrow> path \<Rightarrow> ('w, unit) io" where
  "handle_cleanup_incoming ports target_root incoming_directory =
     remove_contents ports target_root incoming_directory"

definition handle_verify_received ::
  "('w, 'z) ActionPorts_scheme \<Rightarrow> path \<Rightarrow> path \<Rightarrow> SourceId \<Rightarrow> path \<Rightarrow> path \<Rightarrow> ('w, unit) io" where
  "handle_verify_received ports local_root target_root sid local_path received_path =
     bindS (require_snapshot_metadata ports local_root local_path ''Local snapshot metadata is missing'') (\<lambda>l.
     bindS (require_snapshot_metadata ports target_root received_path ''Received snapshot metadata is missing'') (\<lambda>r.
       liftE (verify_received_snapshot sid l r)))"

definition handle_commit_received ::
  "('w, 'z) ActionPorts_scheme \<Rightarrow> path \<Rightarrow> path \<Rightarrow> path \<Rightarrow> path \<Rightarrow> path \<Rightarrow> ('w, unit) io" where
  "handle_commit_received ports local_root target_root local_path received_path final_path =
     bindS (require_snapshot_metadata ports local_root local_path ''Local snapshot metadata is missing'') (\<lambda>l.
       commit_received_snapshot_beneath ports target_root received_path final_path (sm_uuid l))"

definition handle_cleanup_source ::
  "('w, 'z) ActionPorts_scheme \<Rightarrow> path \<Rightarrow> path \<Rightarrow> path \<Rightarrow> path \<Rightarrow> ('w, unit) io" where
  "handle_cleanup_source ports target_root received_path incoming_run pending_marker =
     bindS (remove_tree ports target_root received_path) (\<lambda>_.
     bindS (remove_tree ports target_root incoming_run) (\<lambda>_.
       clear_marker ports pending_marker))"

section \<open>The dispatcher (BackupRunActionHandler and OwnedBackupRunActionHandler)\<close>

definition create_action_handler :: "('w, 'z) ActionPorts_scheme \<Rightarrow> BackupRunPlan \<Rightarrow> ('w, unit) io" where
  \<comment> \<open>the roots are opened in the order of the members of \<open>OwnedBackupRunActionHandler\<close>\<close>
  "create_action_handler ports plan =
     iterS (open_safe_root ports)
       [''/'', ''/'', target_mount_point plan, ''/'', target_mount_point plan, ''/'', target_mount_point plan]"

fun handle_action :: "('w, 'z) ActionPorts_scheme \<Rightarrow> BackupRunPlan \<Rightarrow> BackupRunAction \<Rightarrow> ('w, unit) io" where
  "handle_action ports plan (RecoverPendingAction sid recovery) =
     handle_recover_pending ports (Some ''/'') (Some (target_mount_point plan)) recovery"
| "handle_action ports plan (CleanupIncomingAction sid incoming_directory) =
     handle_cleanup_incoming ports (target_mount_point plan) incoming_directory"
| "handle_action ports plan (RunHookAction sid phase hook) =
     handle_run_hook ports sid phase hook (plan_profile_id plan)"
| "handle_action ports plan (CreateSnapshotAction sid source snapshot_directory snapshot final_remote state_dir run) =
     handle_create_snapshot ports (Some ''/'') sid source snapshot_directory snapshot final_remote state_dir run"
| "handle_action ports plan (SendReceiveAction sid snapshot parent remote_directory incoming_run) =
     throwS (StdException ''send-receive actions are handled by TransferCoordinator'')"
| "handle_action ports plan (VerifyReceivedAction sid local_path received_path) =
     handle_verify_received ports ''/'' (target_mount_point plan) sid local_path received_path"
| "handle_action ports plan (CommitReceivedAction sid local_path received_path final_path) =
     handle_commit_received ports ''/'' (target_mount_point plan) local_path received_path final_path"
| "handle_action ports plan (ApplyRemoteRetentionAction sid retention) =
     apply_retention ports (Some (target_mount_point plan)) retention"
| "handle_action ports plan (ApplyLocalRetentionAction sid retention) =
     apply_retention ports (Some ''/'') retention"
| "handle_action ports plan (CleanupSourceAction sid received_path incoming_run pending_marker state_dir) =
     handle_cleanup_source ports (target_mount_point plan) received_path incoming_run pending_marker"

section \<open>Transfers (TransferCoordinator)\<close>

definition transfer_plan_for_action ::
  "('w, 'z) ActionPorts_scheme \<Rightarrow> path \<Rightarrow> path option \<Rightarrow> path \<Rightarrow> path \<Rightarrow> path \<Rightarrow> ('w, TransferPipelinePlan) io" where
  "transfer_plan_for_action ports snapshot parent remote_directory incoming_run mount =
     bindS (open_safe_root ports ''/'') (\<lambda>_.
     bindS (open_safe_root ports mount) (\<lambda>_.
     bindS (ensure_directory ports mount remote_directory) (\<lambda>_.
     bindS (ensure_directory ports mount incoming_run) (\<lambda>_.
     bindS (pin_directory_beneath ports ''/'' snapshot) (\<lambda>snapshot_path.
     bindS (pin_directory_beneath ports mount incoming_run) (\<lambda>receive_path.
     bindS (case parent of
              None \<Rightarrow> returnS [] | Some p \<Rightarrow> pin_directory_beneath ports ''/'' p) (\<lambda>parent_path.
       let command_plan = build_send_receive_command_plan snapshot_path parent_path receive_path
       in returnS \<lparr> producer_argv = send_argv command_plan, consumer_argv = receive_argv command_plan,
            plan_bytes_total_estimated = 0,
            retained_resources = [snapshot_path, receive_path] @ (if parent = None then [] else [parent_path]) \<rparr>)))))))"

fun wait_for_transfer_or_cancellation ::
  "('w, 'z) ActionPorts_scheme \<Rightarrow> (TransferEvent \<Rightarrow> ('w, unit) io) \<Rightarrow> nat \<Rightarrow> ('w, unit) io" where
  \<comment> \<open>the events of a period reach the sink from the transfer thread; an exception of the sink ends
    the transfer and is what \<open>wait ()\<close> then throws\<close>
  "wait_for_transfer_or_cancellation ports sink 0 = returnS ()"
| "wait_for_transfer_or_cancellation ports sink (Suc n) =
     bindS (callS (Repository WaitForTransfer) (ap_wait_for_transfer ports)) (\<lambda>(events, ended).
     bindS (iterS sink events) (\<lambda>_.
       if ended then returnS ()
       else bindS (poll_cancellation ports) (\<lambda>requested.
            bindS (if requested
                   then callS (Repository RequestTransferCancel) (ap_request_transfer_cancel ports)
                   else returnS ()) (\<lambda>_.
              wait_for_transfer_or_cancellation ports sink n))))"

definition run_pipeline ::
  "('w, 'z) ActionPorts_scheme \<Rightarrow> TransferPipelinePlan \<Rightarrow> (TransferEvent \<Rightarrow> ('w, unit) io) \<Rightarrow> ('w, TransferResult) io" where
  "run_pipeline ports plan sink =
     bindS (callS (Repository (StartTransfer plan)) (ap_start_transfer ports plan)) (\<lambda>periods.
     bindS (wait_for_transfer_or_cancellation ports sink periods) (\<lambda>_.
       callS (Repository TakeTransferResult) (ap_take_transfer_result ports)))"

definition sizing_sink :: "(TransferEvent \<Rightarrow> ('w, unit) io) \<Rightarrow> TransferEvent \<Rightarrow> ('w, unit) io" where
  "sizing_sink sink event = (case sizing_event event of None \<Rightarrow> returnS () | Some e \<Rightarrow> sink e)"

definition coordinate_transfer ::
  "('w, 'z) ActionPorts_scheme \<Rightarrow> path \<Rightarrow> path option \<Rightarrow> path \<Rightarrow> path \<Rightarrow> path
   \<Rightarrow> (TransferEvent \<Rightarrow> ('w, unit) io) \<Rightarrow> ('w, TransferResult) io" where
  \<comment> \<open>\<open>TransferCoordinator::execute\<close>\<close>
  "coordinate_transfer ports snapshot parent remote_directory incoming_run mount sink =
     bindS (transfer_plan_for_action ports snapshot parent remote_directory incoming_run mount) (\<lambda>plan.
     bindS (run_pipeline ports (make_stream_sizing_plan plan) (sizing_sink sink)) (\<lambda>sizing_result.
       if cancelled sizing_result then returnS sizing_result
       else
         bindS (liftE (require_success_with_error_code sizing_result)) (\<lambda>_.
         bindS (run_pipeline ports (plan\<lparr> plan_bytes_total_estimated := bytes_transferred sizing_result \<rparr>) sink) (\<lambda>r.
           if \<not> cancelled r then bindS (liftE (require_success_with_error_code r)) (\<lambda>_. returnS r)
           else returnS r))))"

section \<open>Executing an action (BackupActionExecutor)\<close>

record BackupActionExecutionResult =
  ar_cancelled :: bool
  ar_bytes_transferred :: u64

record BackupActionExecutionContext =
  ac_plan :: BackupRunPlan
  ac_source :: BackupSourceRunPlan
  ac_source_index :: int
  ac_completed_run_bytes :: u64

definition transfer_event_adapter ::
  "('w, 'z) ActionPorts_scheme \<Rightarrow> BackupActionExecutionContext \<Rightarrow> TransferEvent \<Rightarrow> ('w, unit) io" where
  "transfer_event_adapter ports ac event =
     (if te_kind event \<noteq> TransferProgressed then returnS ()
      else emit ports (TransferProgress (plan_profile_id (ac_plan ac)) (plan_run_id (ac_plan ac))
        (plan_source_id (ac_source ac)) (ac_source_index ac)
        \<lparr> tp_stage = (if te_activity event = SizingActivity then Sizing else Transferring),
          tp_bytes_transferred = te_bytes_transferred event,
          tp_bytes_produced = te_bytes_produced event,
          tp_bytes_total_estimated = te_bytes_total_estimated event,
          tp_run_bytes_transferred = ac_completed_run_bytes ac + te_bytes_transferred event,
          tp_delta_bytes = te_delta_bytes event,
          tp_elapsed_ms = te_elapsed_ms event,
          tp_speed_bps = te_speed_bps event,
          tp_message = te_message event \<rparr>))"

definition execute_action ::
  "('w, 'z) ActionPorts_scheme \<Rightarrow> BackupRunAction \<Rightarrow> BackupActionExecutionContext
   \<Rightarrow> ('w, BackupActionExecutionResult) io" where
  \<comment> \<open>\<open>BackupActionExecutor::execute\<close>, with \<open>execute_transfer\<close> and \<open>execute_short_action\<close>\<close>
  "execute_action ports action ac =
     (case action of
        SendReceiveAction sid snapshot parent remote_directory incoming_run \<Rightarrow>
          bindS (coordinate_transfer ports snapshot parent remote_directory incoming_run
                   (target_mount_point (ac_plan ac)) (transfer_event_adapter ports ac)) (\<lambda>r.
            returnS \<lparr> ar_cancelled = cancelled r, ar_bytes_transferred = bytes_transferred r \<rparr>)
      | _ \<Rightarrow> bindS (handle_action ports (ac_plan ac) action) (\<lambda>_.
            returnS \<lparr> ar_cancelled = False, ar_bytes_transferred = 0 \<rparr>))"

end
