(* ===== verification/RunExecutor.thy ===== *)
theory RunExecutor
  imports ActionHandlers
begin

text \<open>
  Executing a plan: backup/execution/BackupRunExecutor, BackupRunCheckpointPolicy, BackupRun and
  DefaultBackupRunFactory. The executor of single actions is an interface of the code and an
  argument here; \<open>execute_backup_run\<close> puts the model's own executor in its place.
\<close>

type_synonym 'w action_executor =
  "BackupRunAction \<Rightarrow> BackupActionExecutionContext \<Rightarrow> ('w, BackupActionExecutionResult) io"

section \<open>Checkpoints (BackupRunCheckpointPolicy)\<close>

fun position_of_source :: "SourceId \<Rightarrow> BackupSourceRunPlan list \<Rightarrow> nat \<Rightarrow> int" where
  \<comment> \<open>the loop over the indices\<close>
  "position_of_source sid [] i = 0"
| "position_of_source sid (source # rest) i =
     (if plan_source_id source = sid then int (i + 1) else position_of_source sid rest (i + 1))"

definition checkpoint_source_index :: "BackupRunPlan \<Rightarrow> SourceId \<Rightarrow> int" where
  "checkpoint_source_index plan sid = position_of_source sid (plan_sources plan) 0"

definition checkpoint_after_success ::
  "('w, 'z) RunnerPorts_scheme \<Rightarrow> BackupRunAction \<Rightarrow> BackupRunPlan \<Rightarrow> BackupSourceRunPlan \<Rightarrow> ('w, unit) io" where
  "checkpoint_after_success ports action plan source =
     (let kind = backup_run_action_kind action;
          checkpoint = \<lparr> cp_profile_id = plan_profile_id plan, cp_run_id = plan_run_id plan,
            cp_source_id = plan_source_id source, cp_action_kind = kind \<rparr>
      in bindS (callS (WriteCheckpoint checkpoint) (write_checkpoint ports checkpoint)) (\<lambda>_.
           emit ports (CheckpointWritten (plan_profile_id plan) (plan_run_id plan) (plan_source_id source)
             (checkpoint_source_index plan (plan_source_id source)) kind)))"

section \<open>The executor (BackupRunExecutor)\<close>

definition run_error_code :: "exn \<Rightarrow> ErrorCode" where
  "run_error_code error = (case coded_error error of Some code \<Rightarrow> code | None \<Rightarrow> BackupFailed)"

definition source_index_for_event :: "BackupRunPlan \<Rightarrow> BackupSourceRunPlan \<Rightarrow> int" where
  "source_index_for_event plan source = position_of_source (plan_source_id source) (plan_sources plan) 0"

definition emit_action_failure ::
  "('w, 'z) RunnerPorts_scheme \<Rightarrow> BackupRunPlan \<Rightarrow> BackupSourceRunPlan \<Rightarrow> int \<Rightarrow> BackupRunActionKind \<Rightarrow> exn
   \<Rightarrow> ('w, unit) io" where
  "emit_action_failure ports plan source index kind error =
     emit ports (ActionFailed (plan_profile_id plan) (plan_run_id plan) (plan_source_id source) index kind
       (Some (run_error_code error)) (what error))"

definition emit_cancelled ::
  "('w, 'z) RunnerPorts_scheme \<Rightarrow> BackupRunPlan \<Rightarrow> BackupSourceRunPlan option \<Rightarrow> BackupRunActionKind option
   \<Rightarrow> ErrorCode option \<Rightarrow> string \<Rightarrow> ('w, unit) io" where
  "emit_cancelled ports plan source kind code message =
     emit ports (RunCancelled (plan_profile_id plan) (plan_run_id plan) (map_option plan_source_id source)
       (case source of None \<Rightarrow> 0 | Some s \<Rightarrow> source_index_for_event plan s) kind code message Backup)"

datatype run_step =
    NextStep nat u64 \<comment> \<open>\<open>actions_completed\<close> and \<open>completed_run_bytes\<close>\<close>
  | ReturnNow BackupRunExecutionResult

definition attempt_action ::
  "('w, 'z) RunnerPorts_scheme \<Rightarrow> 'w action_executor \<Rightarrow> BackupRunPlan \<Rightarrow> BackupSourceRunPlan \<Rightarrow> int
   \<Rightarrow> nat \<Rightarrow> u64 \<Rightarrow> BackupRunAction \<Rightarrow> ('w, run_step) io" where
  \<comment> \<open>the \<open>try\<close> block with its catch clauses\<close>
  "attempt_action ports act plan source index n bytes action =
     (let kind = backup_run_action_kind action in
      catchS
        (bindS (act action \<lparr> ac_plan = plan, ac_source = source, ac_source_index = index,
                             ac_completed_run_bytes = bytes \<rparr>) (\<lambda>action_result.
           if ar_cancelled action_result
           then bindS (emit_cancelled ports plan (Some source) (Some kind) None []) (\<lambda>_.
                  returnS (ReturnNow (BackupRunExecutionCancelled n)))
           else returnS (NextStep n (bytes + ar_bytes_transferred action_result))))
        (\<lambda>error.
           if is_OperationCancelledError error
           then bindS (emit_cancelled ports plan (Some source) (Some kind) (Some RunnerCancelled) (what error)) (\<lambda>_.
                  returnS (ReturnNow (BackupRunExecutionCancelled n)))
           else if is_BtrfsBackupError error
           then bindS (emit_action_failure ports plan source index kind error) (\<lambda>_.
                bindS (emit ports (RunFailed (plan_profile_id plan) (plan_run_id plan)
                         (run_error_code error) (what error) Backup)) (\<lambda>_.
                  returnS (ReturnNow (BackupRunExecutionFailed (run_error_code error) (what error) n))))
           else if is_std_exception error
           then bindS (emit_action_failure ports plan source index kind error) (\<lambda>_. throwS error)
           else throwS error))"

definition execute_one_action ::
  "('w, 'z) RunnerPorts_scheme \<Rightarrow> 'w action_executor \<Rightarrow> BackupRunPlan \<Rightarrow> BackupSourceRunPlan \<Rightarrow> int
   \<Rightarrow> nat \<Rightarrow> u64 \<Rightarrow> BackupRunAction \<Rightarrow> ('w, run_step) io" where
  \<comment> \<open>the body of the loop over the actions\<close>
  "execute_one_action ports act plan source index n bytes action =
     (let kind = backup_run_action_kind action in
      bindS (poll_cancellation ports) (\<lambda>requested.
        if requested
        then bindS (emit_cancelled ports plan (Some source) None None []) (\<lambda>_.
               returnS (ReturnNow (BackupRunExecutionCancelled n)))
        else
          bindS (emit ports (ActionStarted (plan_profile_id plan) (plan_run_id plan) (plan_source_id source)
                   index kind)) (\<lambda>_.
          bindS (attempt_action ports act plan source index n bytes action) (\<lambda>step.
            case step of
              ReturnNow r \<Rightarrow> returnS (ReturnNow r)
            | NextStep n' bytes' \<Rightarrow>
                bindS (emit ports (ActionCompleted (plan_profile_id plan) (plan_run_id plan)
                         (plan_source_id source) index kind)) (\<lambda>_.
                bindS (checkpoint_after_success ports action plan source) (\<lambda>_.
                  returnS (NextStep (n' + 1) bytes')))))))"

fun execute_actions ::
  "('w, 'z) RunnerPorts_scheme \<Rightarrow> 'w action_executor \<Rightarrow> BackupRunPlan \<Rightarrow> BackupSourceRunPlan \<Rightarrow> int
   \<Rightarrow> nat \<Rightarrow> u64 \<Rightarrow> BackupRunAction list \<Rightarrow> ('w, run_step) io" where
  "execute_actions ports act plan source index n bytes [] = returnS (NextStep n bytes)"
| "execute_actions ports act plan source index n bytes (action # rest) =
     bindS (execute_one_action ports act plan source index n bytes action) (\<lambda>step.
       case step of
         ReturnNow r \<Rightarrow> returnS (ReturnNow r)
       | NextStep n' bytes' \<Rightarrow> execute_actions ports act plan source index n' bytes' rest)"

definition execute_source ::
  "('w, 'z) RunnerPorts_scheme \<Rightarrow> 'w action_executor \<Rightarrow> BackupRunPlan \<Rightarrow> nat \<Rightarrow> u64 \<Rightarrow> BackupSourceRunPlan
   \<Rightarrow> ('w, run_step) io" where
  \<comment> \<open>the body of the loop over the sources\<close>
  "execute_source ports act plan n bytes source =
     bindS (poll_cancellation ports) (\<lambda>requested.
       if requested
       then bindS (emit_cancelled ports plan (Some source) None None []) (\<lambda>_.
              returnS (ReturnNow (BackupRunExecutionCancelled n)))
       else (let index = source_index_for_event plan source in
         bindS (emit ports (SourceStarted (plan_profile_id plan) (plan_run_id plan) (plan_source_id source) index)) (\<lambda>_.
         bindS (execute_actions ports act plan source index n bytes (actions source)) (\<lambda>step.
           case step of
             ReturnNow r \<Rightarrow> returnS (ReturnNow r)
           | NextStep n' bytes' \<Rightarrow>
               bindS (emit ports (SourceCompleted (plan_profile_id plan) (plan_run_id plan)
                        (plan_source_id source) index)) (\<lambda>_.
                 returnS (NextStep n' bytes'))))))"

fun execute_sources ::
  "('w, 'z) RunnerPorts_scheme \<Rightarrow> 'w action_executor \<Rightarrow> BackupRunPlan \<Rightarrow> nat \<Rightarrow> u64 \<Rightarrow> BackupSourceRunPlan list
   \<Rightarrow> ('w, BackupRunExecutionResult) io" where
  "execute_sources ports act plan n bytes [] = returnS (BackupRunExecutionCompleted n)"
| "execute_sources ports act plan n bytes (source # rest) =
     bindS (execute_source ports act plan n bytes source) (\<lambda>step.
       case step of
         ReturnNow r \<Rightarrow> returnS r
       | NextStep n' bytes' \<Rightarrow> execute_sources ports act plan n' bytes' rest)"

definition execute_plan_actions ::
  "('w, 'z) RunnerPorts_scheme \<Rightarrow> 'w action_executor \<Rightarrow> BackupRunPlan \<Rightarrow> ('w, BackupRunExecutionResult) io" where
  \<comment> \<open>\<open>BackupRunExecutor::execute\<close>\<close>
  "execute_plan_actions ports act plan = execute_sources ports act plan 0 0 (plan_sources plan)"

section \<open>A run (BackupRun and DefaultBackupRunFactory)\<close>

record BackupRun =
  br_plan :: BackupRunPlan
  br_started :: bool

definition backup_run_execute ::
  "('w, 'z) RunnerPorts_scheme \<Rightarrow> 'w action_executor \<Rightarrow> BackupRun
   \<Rightarrow> BackupRun \<times> ('w, BackupRunExecutionResult) io" where
  \<comment> \<open>\<open>BackupRun::execute\<close>: the run afterwards, and what the call does\<close>
  "backup_run_execute ports act run =
     (if br_started run then (run, throwS (StdException ''backup run cannot be executed more than once''))
      else (run\<lparr> br_started := True \<rparr>, execute_plan_actions ports act (br_plan run)))"

definition execute_backup_run ::
  "('w, 'z) ActionPorts_scheme \<Rightarrow> BackupRunPlan \<Rightarrow> ('w, BackupRunExecutionResult) io" where
  \<comment> \<open>\<open>DefaultBackupRunFactory::execute\<close>\<close>
  "execute_backup_run ports plan =
     bindS (create_action_handler ports plan) (\<lambda>_.
       snd (backup_run_execute ports (execute_action ports) \<lparr> br_plan = plan, br_started = False \<rparr>))"

end
