(* ===== verification/ActionLaws.thy ===== *)
theory ActionLaws
  imports ActionHandlers
begin

text \<open>
  What executing one action may do: the calls every action is limited to, the order in which the
  handlers make them, and the outcome of commits, hooks and transfers.
\<close>

section \<open>The calls of an action\<close>

fun action_may_call :: "BackupRunPlan \<Rightarrow> BackupRunAction \<Rightarrow> RepositoryCall \<Rightarrow> bool" where
  \<comment> \<open>the calls an action may make on the file systems, on marker files and on other processes\<close>
  "action_may_call plan (RecoverPendingAction sid recovery) c \<longleftrightarrow>
     (\<exists>p. c = DeleteSubvolume (Some (target_mount_point plan)) p \<and> DeletePendingRemoteSnapshot p \<in> set (effects recovery))
     \<or> (\<exists>p. c = DeleteSubvolume (Some ''/'') p \<and> DeletePendingLocalSnapshot p \<in> set (effects recovery))
     \<or> (\<exists>p. c = ClearMarker p \<and> ClearPendingMarker p \<in> set (effects recovery))"
| "action_may_call plan (CleanupIncomingAction sid d) c \<longleftrightarrow> c = RemoveContents (target_mount_point plan) d"
| "action_may_call plan (RunHookAction sid phase hook) c \<longleftrightarrow>
     c = ResolveExecutable (hook_program hook)
     \<or> (\<exists>execution_path options. c = RunControlled (execution_path # hook_arguments hook) options)"
| "action_may_call plan (CreateSnapshotAction sid source d snapshot final state_dir run) c \<longleftrightarrow>
     c = EnsureDirectory ''/'' d
     \<or> (\<exists>now. c = WriteMarker state_dir \<lparr> pm_source_id = sid, pm_local_snapshot_path = snapshot,
            pm_final_snapshot_path = final, pm_run_id = run, pm_timestamp = now \<rparr>)
     \<or> c = CreateReadonlySnapshot (Some ''/'') source (Some ''/'') snapshot
     \<or> c = ReadSnapshotMetadata (Some ''/'') snapshot"
| "action_may_call plan (SendReceiveAction sid snapshot parent remote_d incoming_run) c \<longleftrightarrow>
     c \<in> {OpenRoot ''/'', OpenRoot (target_mount_point plan), EnsureDirectory (target_mount_point plan) remote_d,
       EnsureDirectory (target_mount_point plan) incoming_run, PinDirectory ''/'' snapshot,
       PinDirectory (target_mount_point plan) incoming_run, WaitForTransfer, RequestTransferCancel, TakeTransferResult}
     \<or> (\<exists>p. parent = Some p \<and> c = PinDirectory ''/'' p) \<or> (\<exists>transfer. c = StartTransfer transfer)"
| "action_may_call plan (VerifyReceivedAction sid l r) c \<longleftrightarrow>
     c \<in> {ReadSnapshotMetadata (Some ''/'') l, ReadSnapshotMetadata (Some (target_mount_point plan)) r}"
| "action_may_call plan (CommitReceivedAction sid l r final) c \<longleftrightarrow>
     c \<in> {ReadSnapshotMetadata (Some ''/'') l, PathExists (target_mount_point plan) final,
       CreateReadonlySnapshot (Some (target_mount_point plan)) r (Some (target_mount_point plan)) final,
       ReadSnapshotMetadata (Some (target_mount_point plan)) final,
       DeleteSubvolume (Some (target_mount_point plan)) final}"
| "action_may_call plan (ApplyRemoteRetentionAction sid retention) c \<longleftrightarrow>
     (\<exists>s \<in> set (delete_snapshots retention). c = DeleteSubvolume (Some (target_mount_point plan)) (si_path s))"
| "action_may_call plan (ApplyLocalRetentionAction sid retention) c \<longleftrightarrow>
     (\<exists>s \<in> set (delete_snapshots retention). c = DeleteSubvolume (Some ''/'') (si_path s))"
| "action_may_call plan (CleanupSourceAction sid r incoming_run marker state_dir) c \<longleftrightarrow>
     c \<in> {RemoveTree (target_mount_point plan) r, RemoveTree (target_mount_point plan) incoming_run, ClearMarker marker}"

fun within_action :: "BackupRunPlan \<Rightarrow> BackupRunAction \<Rightarrow> RunCall \<Rightarrow> bool" where
  \<comment> \<open>all calls: besides the repository, progress reports of transfers, polls and the clock\<close>
  "within_action plan a (Emit e) \<longleftrightarrow> backup_run_event_kind e = TransferProgressKind"
| "within_action plan a (WriteCheckpoint c) \<longleftrightarrow> False"
| "within_action plan a (Polled b) \<longleftrightarrow> True"
| "within_action plan a (Repository c) \<longleftrightarrow> action_may_call plan a c"
| "within_action plan a (Service c) \<longleftrightarrow> c = ClockNow"

lemma find_pending_effects:
  "pending_remote_effect r = Some p \<Longrightarrow> DeletePendingRemoteSnapshot p \<in> set (effects r)"
  "pending_local_effect r = Some p \<Longrightarrow> DeletePendingLocalSnapshot p \<in> set (effects r)"
  "pending_clear_effect r = Some p \<Longrightarrow> ClearPendingMarker p \<in> set (effects r)"
  unfolding pending_remote_effect_def pending_local_effect_def pending_clear_effect_def
  by (auto dest!: find_Some_iff_member split: option.splits PendingRecoveryEffect.splits)

lemma only_iter_mem:
  "(\<And>x. x \<in> set xs \<Longrightarrow> traceS (f x) (only P)) \<Longrightarrow> traceS (iterS f xs) (only P)"
  by (induction xs) (auto intro: only_return only_bind)

lemma handle_recover_pending_calls:
  "traceS (handle_recover_pending ports (Some ''/'') (Some (target_mount_point plan)) recovery)
     (only (within_action plan (RecoverPendingAction sid recovery)))"
  unfolding handle_recover_pending_def port_calls
  by (auto intro!: only_bind only_call only_return dest: find_pending_effects split: option.splits)

lemma apply_retention_calls:
  "traceS (apply_retention ports (Some (target_mount_point plan)) retention)
     (only (within_action plan (ApplyRemoteRetentionAction sid retention)))"
  "traceS (apply_retention ports (Some ''/'') retention)
     (only (within_action plan (ApplyLocalRetentionAction sid retention)))"
  unfolding apply_retention_def port_calls by (auto intro!: only_iter_mem only_call)

lemma handle_create_snapshot_calls:
  "traceS (handle_create_snapshot ports (Some ''/'') sid source d snapshot final state_dir run)
     (only (within_action plan (CreateSnapshotAction sid source d snapshot final state_dir run)))"
  unfolding handle_create_snapshot_def require_new_snapshot_metadata_def port_calls
  by (auto intro!: only_bind only_call only_return only_throw split: option.splits)

lemma handle_run_hook_calls:
  "traceS (handle_run_hook ports sid phase hook profile) (only (within_action plan (RunHookAction sid phase hook)))"
  unfolding handle_run_hook_def run_hook_command_def port_calls Let_def
  by (auto intro!: only_bind only_catch only_call only_return only_throw split: prod.splits)

lemma repository_handler_calls:
  "traceS (handle_cleanup_incoming ports (target_mount_point plan) d)
     (only (within_action plan (CleanupIncomingAction sid d)))"
  "traceS (handle_verify_received ports ''/'' (target_mount_point plan) sid l r)
     (only (within_action plan (VerifyReceivedAction sid l r)))"
  "traceS (handle_cleanup_source ports (target_mount_point plan) r incoming_run marker)
     (only (within_action plan (CleanupSourceAction sid r incoming_run marker state_dir)))"
  unfolding handle_cleanup_incoming_def handle_verify_received_def handle_cleanup_source_def
    require_snapshot_metadata_def port_calls
  by (auto intro!: only_bind only_call only_return only_throw only_lift split: option.splits)

lemma handle_commit_received_calls:
  "traceS (handle_commit_received ports ''/'' (target_mount_point plan) l r final)
     (only (within_action plan (CommitReceivedAction sid l r final)))"
  unfolding handle_commit_received_def commit_received_snapshot_beneath_def
    require_snapshot_metadata_def port_calls Let_def
  by (auto intro!: only_bind only_catch only_call only_return only_throw split: option.splits)

lemma handle_action_calls: "traceS (handle_action ports plan a) (only (within_action plan a))"
  by (cases a) (simp_all only: handle_action.simps handle_recover_pending_calls apply_retention_calls
      handle_create_snapshot_calls handle_run_hook_calls repository_handler_calls
      handle_commit_received_calls only_throw)

lemma wait_for_transfer_calls:
  assumes "\<And>event. traceS (sink event) (only P)" and "P (Polled True)" and "P (Polled False)"
    and "P (Repository WaitForTransfer)" and "P (Repository RequestTransferCancel)"
  shows "traceS (wait_for_transfer_or_cancellation ports sink n) (only P)"
  unfolding poll_cancellation_def
proof (induction n)
  case (Suc n)
  then show ?case
    using assms unfolding wait_for_transfer_or_cancellation.simps poll_cancellation_def
    by (auto intro!: only_bind only_call only_return only_iter only_poll split: prod.splits)
qed (simp add: only_return)

lemma run_pipeline_calls:
  assumes "\<And>event. traceS (sink event) (only P)" and "P (Polled True)" and "P (Polled False)"
    and "P (Repository WaitForTransfer)" and "P (Repository RequestTransferCancel)"
    and "P (Repository (StartTransfer plan))" and "P (Repository TakeTransferResult)"
  shows "traceS (run_pipeline ports plan sink) (only P)"
  unfolding run_pipeline_def
  using assms by (auto intro!: only_bind only_call wait_for_transfer_calls)

lemma transfer_plan_for_action_calls:
  "traceS (transfer_plan_for_action ports snapshot parent remote_d incoming_run (target_mount_point plan))
     (only (within_action plan (SendReceiveAction sid snapshot parent remote_d incoming_run)))"
  unfolding transfer_plan_for_action_def port_calls Let_def
  by (auto intro!: only_bind only_call only_return split: option.splits)

lemma transfer_event_adapter_calls:
  "traceS (transfer_event_adapter ports ac event) (only (within_action plan a))"
  unfolding transfer_event_adapter_def port_calls by (auto intro!: only_call only_return)

lemma coordinate_transfer_calls:
  assumes "\<And>event. traceS (sink event) (only (within_action plan (SendReceiveAction sid snapshot parent remote_d incoming_run)))"
  shows "traceS (coordinate_transfer ports snapshot parent remote_d incoming_run (target_mount_point plan) sink)
     (only (within_action plan (SendReceiveAction sid snapshot parent remote_d incoming_run)))"
  unfolding coordinate_transfer_def sizing_sink_def
  by (auto intro!: only_bind only_return only_lift transfer_plan_for_action_calls run_pipeline_calls assms
      split: option.splits)

lemma execute_action_calls:
  "traceS (execute_action ports a ac) (only (within_action (ac_plan ac) a))"
  unfolding execute_action_def
  by (cases a) (auto simp del: handle_action.simps intro!: only_bind only_return handle_action_calls
      coordinate_transfer_calls transfer_event_adapter_calls)

section \<open>The order of the calls\<close>

lemma is_std_exception_iff: "is_std_exception e \<longleftrightarrow> e \<noteq> UnknownException"
  by (cases e) simp_all

lemma traceS_case:
  assumes "traceS m R"
  shows "case m s of (r, t) \<Rightarrow> \<exists>cs. trace t = trace s @ cs \<and> R r cs"
  using traceS_D [OF assms] by (auto split: prod.splits)

text \<open>
  Property C4: the pending marker comes before the snapshot. Creating a snapshot makes its calls
  in one fixed order, and whatever fails, the calls made are an initial part of it: the directory
  is ensured, the marker that names both paths is written, only then the snapshot is created, and
  its metadata are read back. It returns normally only after all of them.
\<close>

theorem create_snapshot_marker_first:
  "case handle_create_snapshot ports root sid source d snapshot final state_dir run s of
     (r, t) \<Rightarrow> \<exists>cs now. trace t = trace s @ cs \<and>
       (let all_calls =
          [Repository (case root of None \<Rightarrow> CreateDirectories d | Some q \<Rightarrow> EnsureDirectory q d),
           Service ClockNow,
           Repository (WriteMarker state_dir \<lparr> pm_source_id = sid, pm_local_snapshot_path = snapshot,
             pm_final_snapshot_path = final, pm_run_id = run, pm_timestamp = now \<rparr>),
           Repository (CreateReadonlySnapshot root source root snapshot),
           Repository (ReadSnapshotMetadata root snapshot)]
        in case r of Inr _ \<Rightarrow> cs = all_calls | Inl _ \<Rightarrow> cs \<noteq> [] \<and> prefix cs all_calls)"
proof -
  let ?all = "\<lambda>now. [Repository (case root of None \<Rightarrow> CreateDirectories d | Some q \<Rightarrow> EnsureDirectory q d),
           Service ClockNow,
           Repository (WriteMarker state_dir \<lparr> pm_source_id = sid, pm_local_snapshot_path = snapshot,
             pm_final_snapshot_path = final, pm_run_id = run, pm_timestamp = now \<rparr>),
           Repository (CreateReadonlySnapshot root source root snapshot),
           Repository (ReadSnapshotMetadata root snapshot)]"
  have "traceS (handle_create_snapshot ports root sid source d snapshot final state_dir run)
    (\<lambda>r cs. \<exists>now. case r of Inr _ \<Rightarrow> cs = ?all now | Inl _ \<Rightarrow> cs \<noteq> [] \<and> prefix cs (?all now))"
    unfolding handle_create_snapshot_def require_new_snapshot_metadata_def port_calls
    by (auto intro!: traceS_bind traceS_call traceS_return traceS_throw split: sum.split option.split)
  from traceS_case [OF this, of s] show ?thesis
    by (auto simp: Let_def split: prod.splits sum.splits)
qed


text \<open>
  The outcome of a hook. A hook handler returns normally only when the command it
  started ended with exit code zero, was not cancelled and did not time out. Every exception says
  what happened: a missing program, a cancelled command, or an error code of the phase of the
  hook, the time-out code only when the command timed out.
\<close>

theorem hook_outcome:
  "case handle_run_hook ports sid phase hook profile s of
     (Inr _, t) \<Rightarrow> \<exists>argv options w r. ap_run_controlled ports argv options w = (Inr r, world t)
       \<and> exit_code r = 0 \<and> \<not> command_cancelled r \<and> \<not> timed_out r \<and> tl argv = hook_arguments hook
       \<and> timeout_ms options = 1000 * hook_timeout hook \<and> hook_timeout hook \<in> {1..86400}
   | (Inl e, t) \<Rightarrow> hook_program hook = [] \<or> is_OperationCancelledError e \<or> e = UnknownException
       \<or> coded_error e = Some (hook_error_code phase False)
       \<or> coded_error e = Some (hook_error_code phase True)
         \<and> (\<exists>argv options w r. ap_run_controlled ports argv options w = (Inr r, world t) \<and> timed_out r)"
proof (cases "handle_run_hook ports sid phase hook profile s")
  case (Pair r t)
  then show ?thesis
    unfolding handle_run_hook_def run_hook_command_def Let_def
    by (cases r) (auto simp: is_std_exception_iff run_simps callS_def catchS_def throwS_def bindS_def hook_options_def
        split: if_splits sum.splits prod.splits, (intro exI conjI, assumption, simp_all)+)
qed

section \<open>Transfers\<close>

fun starts_transfer :: "RunCall \<Rightarrow> bool" where
  "starts_transfer (Repository (StartTransfer p)) = True"
| "starts_transfer c = False"

lemma traceS_only_filter:
  assumes "traceS m (only (\<lambda>c. \<not> P c))"
  shows "traceS m (\<lambda>r cs. filter P cs = [])"
  by (rule traceS_mono [OF assms]) (simp add: list_all_iff filter_empty_conv)

lemma transfer_plan_no_start:
  "traceS (transfer_plan_for_action ports snapshot parent remote_d incoming_run mount)
     (\<lambda>r cs. filter starts_transfer cs = [])"
  by (rule traceS_only_filter)
    (auto simp: transfer_plan_for_action_def port_calls Let_def intro!: only_bind only_call only_return split: option.splits)

lemma run_pipeline_starts:
  assumes "\<And>event. traceS (sink event) (only (\<lambda>c. \<not> starts_transfer c))"
  shows "traceS (run_pipeline ports plan sink)
    (\<lambda>r cs. filter starts_transfer cs = [Repository (StartTransfer plan)])"
proof -
  have "traceS (bindS (wait_for_transfer_or_cancellation ports sink n) (\<lambda>_.
       callS (Repository TakeTransferResult) (ap_take_transfer_result ports))) (\<lambda>r cs. filter starts_transfer cs = [])" for n
    by (rule traceS_only_filter) (auto intro!: only_bind only_call wait_for_transfer_calls assms)
  then show ?thesis
    unfolding run_pipeline_def
    by (auto intro!: traceS_bind traceS_call split: sum.splits elim!: traceS_mono)
qed

definition two_phases ::
  "TransferPipelinePlan \<Rightarrow> TransferResult \<Rightarrow> exn + TransferResult \<Rightarrow> RunCall list \<Rightarrow> bool" where
  \<comment> \<open>how the pipelines that were started go with the result, for the plan and the result of the
    measuring pipeline\<close>
  "two_phases plan sized r starts \<longleftrightarrow>
     (let measuring = Repository (StartTransfer (make_stream_sizing_plan plan));
          writing = Repository (StartTransfer (plan\<lparr> plan_bytes_total_estimated := bytes_transferred sized \<rparr>))
      in starts = [] \<and> isl r
         \<or> starts = [measuring] \<and> (case r of Inl _ \<Rightarrow> True | Inr res \<Rightarrow> cancelled res)
         \<or> starts = [measuring, writing] \<and> transfer_succeeded sized
           \<and> (case r of Inl _ \<Rightarrow> True | Inr res \<Rightarrow> cancelled res \<or> transfer_succeeded res))"

lemma adapter_no_start: "traceS (transfer_event_adapter ports ac event) (only (\<lambda>c. \<not> starts_transfer c))"
  unfolding transfer_event_adapter_def port_calls by (auto intro!: only_call only_return)

lemma sizing_sink_no_start:
  "traceS (sizing_sink (transfer_event_adapter ports ac) event) (only (\<lambda>c. \<not> starts_transfer c))"
  unfolding sizing_sink_def by (auto intro: adapter_no_start only_return split: option.splits)

definition second_phase where
  \<comment> \<open>what the coordinator does after the pipeline that measures\<close>
  "second_phase ports ac plan sized = (if cancelled sized then returnS sized
       else bindS (liftE (require_success_with_error_code sized)) (\<lambda>_.
         bindS (run_pipeline ports (plan\<lparr> plan_bytes_total_estimated := bytes_transferred sized \<rparr>)
                  (transfer_event_adapter ports ac)) (\<lambda>r.
           if \<not> cancelled r then bindS (liftE (require_success_with_error_code r)) (\<lambda>_. returnS r)
           else returnS r)))"

lemma second_phase_starts:
  "traceS (second_phase ports ac plan sized) (\<lambda>r cs. two_phases plan sized r
     (Repository (StartTransfer (make_stream_sizing_plan plan)) # filter starts_transfer cs))"
  unfolding second_phase_def two_phases_def Let_def
  by (auto intro!: traceS_bind traceS_return traceS_lift traceS_mono [OF run_pipeline_starts [OF adapter_no_start]]
      split: sum.split)

lemma both_phases_start:
  "traceS (bindS (run_pipeline ports (make_stream_sizing_plan plan) (sizing_sink (transfer_event_adapter ports ac)))
     (second_phase ports ac plan)) (\<lambda>r cs. \<exists>sized. two_phases plan sized r (filter starts_transfer cs))"
proof (rule traceS_bind, rule traceS_mono [OF run_pipeline_starts [OF sizing_sink_no_start]], goal_cases)
  case (1 p cs)
  then show ?case
  proof (cases p)
    case (Inl e)
    then show ?thesis using 1 by (simp add: two_phases_def Let_def)
  next
    case (Inr sized)
    have "traceS (second_phase ports ac plan sized) (\<lambda>r ds. \<exists>sized. two_phases plan sized r (filter starts_transfer (cs @ ds)))"
      by (rule traceS_mono [OF second_phase_starts [where plan = plan and sized = sized]]) (use 1 in \<open>auto\<close>)
    then show ?thesis by (simp only: Inr sum.case)
  qed
qed


end
