(* ===== verification/RunPlanLaws.thy ===== *)
theory RunPlanLaws
  imports RunPlan
begin

text \<open>
  What the plan of a run guarantees: the new snapshot gets a free name that parses back, the
  actions of a source come in one order, every planned path stays inside its directory, and
  retention never deletes the snapshot the run creates.
\<close>

section \<open>Snapshot names\<close>

lemma planned_sequence_Some:
  "planned_sequence locals base ns = Some name
   \<Longrightarrow> (\<exists>n \<in> set ns. name = base @ ''-'' @ two_digit n) \<and> \<not> name_exists locals name"
  by (induction ns) (auto simp: Let_def split: if_splits)

lemma planned_sequence_None:
  "planned_sequence locals base ns = None \<longleftrightarrow> (\<forall>n \<in> set ns. name_exists locals (base @ ''-'' @ two_digit n))"
  by (induction ns) (auto simp: Let_def)

lemma planned_snapshot_name_Inr:
  assumes "planned_snapshot_name source t locals = Inr name"
  shows "\<not> name_exists locals name"
    and "name = source @ ''-'' @ format_utc_snapshot_timestamp t
      \<or> (\<exists>n. 1 \<le> n \<and> n < 100
           \<and> name = source @ ''-'' @ format_utc_snapshot_timestamp t @ ''-'' @ two_digit n)"
proof -
  let ?base = "source @ ''-'' @ format_utc_snapshot_timestamp t"
  consider "\<not> name_exists locals ?base" "name = ?base"
    | "planned_sequence locals ?base [1..<100] = Some name"
    using assms by (auto simp: planned_snapshot_name_def Let_def simp del: upt_rec_numeral
        split: if_splits option.splits)
  then show "\<not> name_exists locals name"
    "name = ?base \<or> (\<exists>n. 1 \<le> n \<and> n < 100
       \<and> name = source @ ''-'' @ format_utc_snapshot_timestamp t @ ''-'' @ two_digit n)"
    by (cases; fastforce dest: planned_sequence_Some simp del: upt_rec_numeral)+
qed

lemma planned_snapshot_name_parses:
  assumes "clock_time t" and "planned_snapshot_name source t locals = Inr name"
  obtains k where "0 \<le> k" and "k \<le> 99"
    and "parse_snapshot_name name source = Some
      \<lparr> sn_source_id = source, sn_timestamp = t div ns_per_second * ns_per_second,
        sn_sequence = k, sn_name = name \<rparr>"
  using planned_snapshot_name_Inr(2) [OF assms(2)]
proof (elim disjE exE conjE)
  assume "name = source @ ''-'' @ format_utc_snapshot_timestamp t"
  then show thesis
    using that [of 0] parse_snapshot_name_base [OF assms(1), of source] by simp
next
  fix n :: nat assume "1 \<le> n" "n < 100"
    "name = source @ ''-'' @ format_utc_snapshot_timestamp t @ ''-'' @ two_digit n"
  then show thesis
    using that [of "int n"] parse_snapshot_name_sequence [OF assms(1), of n source] by simp
qed

lemma planned_snapshot_name_Inl:
  assumes "planned_snapshot_name source t locals = Inl e"
  shows "name_exists locals (source @ ''-'' @ format_utc_snapshot_timestamp t)"
    and "n \<in> {1..<100} \<Longrightarrow>
      name_exists locals (source @ ''-'' @ format_utc_snapshot_timestamp t @ ''-'' @ two_digit n)"
    and "e = ValidationError (''could not allocate snapshot name for '' @ source @ '' at ''
      @ format_utc_snapshot_timestamp t)"
  using assms planned_sequence_None [of locals "source @ ''-'' @ format_utc_snapshot_timestamp t" "[1..<100]"]
  by (auto simp: planned_snapshot_name_def Let_def simp del: upt_rec_numeral
      split: if_splits option.splits)

section \<open>Names are single path elements\<close>

lemma digits_no_slash: "CHR ''/'' \<notin> set (nat_text n)"
  using nat_text_digits [of n] by (auto simp: list_all_iff is_digit_def)

lemma setw_no_slash: "CHR ''/'' \<notin> set (setw_fill0 w (int_text i))"
  using digits_no_slash by (simp add: setw_fill0_def int_text_def)

lemma format_utc_no_slash: "CHR ''/'' \<notin> set (format_utc t c)"
  by (simp add: format_utc_def Let_def setw_no_slash)

lemma two_digit_no_slash: "n < 100 \<Longrightarrow> CHR ''/'' \<notin> set (two_digit n)"
  using two_digit_facts(2) [of n] by (auto simp: all_digits_def list_all_iff is_digit_def)

lemma plain_identifier: "identifier_re s \<Longrightarrow> plain_name s"
  using identifier_re_no_slash identifier_re_not_dots by (auto simp: plain_name_def)

lemma plain_run_id: "run_id_re s \<Longrightarrow> plain_name s"
  using run_id_re_no_slash run_id_re_not_dots by (auto simp: plain_name_def)

lemma plain_snapshot_name:
  assumes "identifier_re source" and "CHR ''/'' \<notin> set rest"
  shows "plain_name (source @ ''-'' @ rest)"
proof -
  obtain c cs where c: "source = c # cs" "is_ascii_alnum c"
    using assms(1) by (cases source) auto
  moreover from c(2) have "c \<noteq> CHR ''.''"
    by (auto simp: is_ascii_alnum_def is_digit_def)
  ultimately show ?thesis
    using assms(2) identifier_re_no_slash [OF assms(1)] by (simp add: plain_name_def)
qed

lemma planned_snapshot_name_plain:
  assumes "identifier_re source" and "planned_snapshot_name source t locals = Inr name"
  shows "plain_name name"
  using planned_snapshot_name_Inr(2) [OF assms(2)]
    plain_snapshot_name [OF assms(1), of "format_utc_snapshot_timestamp t"]
    plain_snapshot_name [OF assms(1), of "format_utc_snapshot_timestamp t @ ''-'' @ two_digit n" for n]
    format_utc_no_slash [of t True] two_digit_no_slash
  by (auto simp: format_utc_snapshot_timestamp_def)

section \<open>The actions of a source\<close>

lemma check_source_actions_hooks:
  "check_source_actions source S (map (RunHookAction source phase) hs @ as) = check_source_actions source S as"
  by (induction hs) (simp_all add: Let_def)

lemma ordered_source_actions_accepted:
  "make_BackupSourceRunPlan (source_id source)
     (ordered_source_actions source context planned recovery parent local_ret remote_ret)
   = Inr \<lparr> plan_source_id = source_id source,
       actions = ordered_source_actions source context planned recovery parent local_ret remote_ret \<rparr>"
  by (simp add: make_BackupSourceRunPlan_def ordered_source_actions_def Let_def
      check_source_actions_hooks)

lemma build_source_run_plan_Inr:
  assumes "build_source_run_plan source context = Inr plan"
  obtains planned parent recovery projected_local projected_remote where
    "plan_source_paths source context
       (snapshots_for (ctx_local_inventory context) (source_id source)) = Inr planned"
    and "select_incremental_parent (source_id source)
       (snapshots_for (ctx_local_inventory context) (source_id source))
       (snapshots_for (ctx_remote_inventory context) (source_id source))
       (Some (local_snapshot planned))
       (incremental_required (settings (ctx_profile context))) = Inr parent"
    and "recovery = plan_pending_recovery (source_id source) (ctx_profile_state_dir context)
       (local_snapshot_dir source) (remote_snapshot_directory planned)
       (pending_marker_for (ctx_pending_markers context) (source_id source))
       (pending_snapshot_for (ctx_pending_snapshots context) (source_id source))
       (snapshots_for (ctx_remote_inventory context) (source_id source))
       (keep_failed_local_snapshot (settings (ctx_profile context)))"
    and "projected_snapshots (snapshots_for (ctx_local_inventory context) (source_id source))
       recovery Local (source_id source) planned (ctx_snapshot_timestamp context) = Inr projected_local"
    and "projected_snapshots (snapshots_for (ctx_remote_inventory context) (source_id source))
       recovery Remote (source_id source) planned (ctx_snapshot_timestamp context) = Inr projected_remote"
    and "plan = \<lparr> plan_source_id = source_id source,
       actions = ordered_source_actions source context planned recovery parent
         (plan_count_retention (source_id source) projected_local (local_retention source))
         (plan_count_retention (source_id source) projected_remote (remote_retention source)) \<rparr>"
  using assms
  by (auto simp: build_source_run_plan_def Let_def result_simps ordered_source_actions_accepted)

lemma ordered_source_actions_kinds:
  "map backup_run_action_kind
     (ordered_source_actions source context planned recovery parent local_ret remote_ret)
   = (if recovery_required recovery then [RecoverPending] else []) @ [CleanupIncoming]
     @ replicate (length (before_snapshot (hooks (ctx_profile context)))) BeforeSnapshotHook
     @ [CreateSnapshot]
     @ replicate (length (after_snapshot (hooks (ctx_profile context)))) AfterSnapshotHook
     @ [SendReceive, VerifyReceived, CommitReceived, ApplyRemoteRetention, ApplyLocalRetention,
        CleanupSource]"
  by (simp add: ordered_source_actions_def Let_def comp_def map_replicate_const)

lemma ordered_source_actions_source:
  "a \<in> set (ordered_source_actions source context planned recovery parent local_ret remote_ret)
   \<Longrightarrow> backup_run_action_source_id a = source_id source"
  by (auto simp: ordered_source_actions_def Let_def split: if_splits)

lemma recovery_required_iff:
  "recovery_required (plan_pending_recovery source sd ld rd marker pending remotes kf) \<longleftrightarrow> marker \<noteq> None"
proof (cases marker)
  case (Some m)
  then show ?thesis
    using plan_pending_recovery_shape [of source sd ld rd m pending remotes kf]
    by (auto simp: recovery_required_def Let_def)
qed (simp add: recovery_required_def)

section \<open>Planned paths\<close>

definition planning_wf :: "ProfileSource \<Rightarrow> SourcePlanContext \<Rightarrow> bool" where
  \<comment> \<open>the invariants of the value types, with directories written without a trailing separator\<close>
  "planning_wf source context \<longleftrightarrow>
     identifier_re (source_id source) \<and> run_id_re (ctx_run_id context)
     \<and> safe_relative (remote_subdir source) \<and> clean_path (local_snapshot_dir source)
     \<and> clean_path (remote_root (paths (ctx_profile context)))
     \<and> clean_path (incoming_root (paths (ctx_profile context)))"

lemma plan_source_paths_Inr:
  assumes "plan_source_paths source context locals = Inr planned"
  shows "planned_snapshot_name (source_id source) (ctx_snapshot_timestamp context) locals
      = Inr (snapshot_name planned)"
    and "remote_snapshot_directory planned
      = path_append (remote_root (paths (ctx_profile context))) (remote_subdir source)"
    and "incoming_source_root planned
      = path_append (incoming_root (paths (ctx_profile context))) (source_id source)"
    and "incoming_run_directory planned = path_append (incoming_source_root planned) (ctx_run_id context)"
    and "local_snapshot planned = path_append (local_snapshot_dir source) (snapshot_name planned)"
    and "received_snapshot planned = path_append (incoming_run_directory planned) (snapshot_name planned)"
    and "final_remote_snapshot planned
      = path_append (remote_snapshot_directory planned) (snapshot_name planned)"
    and "\<not> path_is_within (local_snapshot_dir source) (mount_point (target (ctx_profile context)))"
  using assms by (auto simp: plan_source_paths_def Let_def result_simps split: if_splits)

lemma plan_source_paths_clean:
  assumes "planning_wf source context" and "plan_source_paths source context locals = Inr planned"
  shows "clean_path (remote_snapshot_directory planned)" and "plain_name (snapshot_name planned)"
    and "clean_path (incoming_source_root planned)" and "clean_path (incoming_run_directory planned)"
    and "path_is_within (remote_snapshot_directory planned) (remote_root (paths (ctx_profile context)))"
    and "path_is_within (incoming_source_root planned) (incoming_root (paths (ctx_profile context)))"
    and "path_is_within (incoming_run_directory planned) (incoming_source_root planned)"
proof -
  note p = plan_source_paths_Inr [OF assms(2)]
  have wf: "identifier_re (source_id source)" "run_id_re (ctx_run_id context)"
    "safe_relative (remote_subdir source)" "clean_path (remote_root (paths (ctx_profile context)))"
    "clean_path (incoming_root (paths (ctx_profile context)))"
    using assms(1) by (auto simp: planning_wf_def)
  show "clean_path (remote_snapshot_directory planned)"
    "path_is_within (remote_snapshot_directory planned) (remote_root (paths (ctx_profile context)))"
    using safe_relative_append [OF wf(4,3)] p(2) by simp_all
  show "plain_name (snapshot_name planned)"
    using planned_snapshot_name_plain [OF wf(1) p(1)] .
  show inc: "clean_path (incoming_source_root planned)"
    and "path_is_within (incoming_source_root planned) (incoming_root (paths (ctx_profile context)))"
    using clean_path_append [OF wf(5) plain_identifier [OF wf(1)]]
      path_is_within_append [OF wf(5) plain_identifier [OF wf(1)]] p(3) by simp_all
  show "clean_path (incoming_run_directory planned)"
    "path_is_within (incoming_run_directory planned) (incoming_source_root planned)"
    using clean_path_append [OF inc plain_run_id [OF wf(2)]]
      path_is_within_append [OF inc plain_run_id [OF wf(2)]] p(4) by simp_all
qed

section \<open>What retention sees\<close>

lemma projected_snapshots_Inr:
  assumes "projected_snapshots current recovery side source planned t = Inr projected"
  obtains others new where "projected = others @ [new]" and "set others \<subseteq> set current"
    and "si_source_id new = source" and "si_timestamp new = t" and "si_name new = snapshot_name planned"
    and "si_path new = (if side = Local then local_snapshot planned else final_remote_snapshot planned)"
proof -
  let ?removed = "case (if side = Local then pending_local_effect recovery
    else pending_remote_effect recovery) of None \<Rightarrow> [] | Some p \<Rightarrow> p"
  let ?others = "if ?removed \<noteq> [] then filter (\<lambda>s. \<not> path_eq (si_path s) ?removed) current else current"
  obtain new where new: "projected = ?others @ [new]"
    "projected_snapshot side source (snapshot_name planned) t
      (if side = Local then local_snapshot planned else final_remote_snapshot planned) = Inr new"
    using assms unfolding projected_snapshots_def Let_def by (auto simp: bindE_eq_Inr_iff)
  have "si_source_id new = source \<and> si_timestamp new = t \<and> si_name new = snapshot_name planned
    \<and> si_path new = (if side = Local then local_snapshot planned else final_remote_snapshot planned)"
    using new(2) by (auto simp: projected_snapshot_def split: option.splits)
  then show thesis
    using that [OF new(1)] by auto
qed

lemma retention_deletes_found:
  assumes "projected_snapshots current recovery side source planned t = Inr projected"
    and "\<And>s. s \<in> set current \<Longrightarrow> si_source_id s = source \<Longrightarrow> si_timestamp s < t"
    and "d \<in> set (delete_snapshots (plan_count_retention source projected n))"
  shows "d \<in> set current"
proof -
  obtain others new where p: "projected = others @ [new]" "set others \<subseteq> set current"
    "si_source_id new = source" "si_timestamp new = t"
    using assms(1) by (rule projected_snapshots_Inr)
  have "new \<notin> set (delete_snapshots (plan_count_retention source (others @ [new]) n))"
    by (rule plan_count_retention_keeps_newest)
      (use p assms(2) in \<open>force simp: oldest_first_def\<close>)+
  moreover have "d \<in> set (others @ [new])"
    using plan_count_retention_delete_subset [OF assms(3)] p(1) by blast
  ultimately show ?thesis
    using p assms(3) by auto
qed

lemma projected_snapshot_ok:
  assumes "clock_time t" and "planned_snapshot_name source t locals = Inr name"
  shows "\<exists>new. projected_snapshot side source name t p = Inr new"
  using assms by (auto elim: planned_snapshot_name_parses simp: projected_snapshot_def)

section \<open>The sources of a plan\<close>

lemma build_source_run_plan_source:
  "build_source_run_plan source context = Inr plan \<Longrightarrow> plan_source_id plan = source_id source"
  by (erule build_source_run_plan_Inr) simp

lemma plan_each_source_Inr:
  "plan_each_source context seen ss = Inr plans
   \<Longrightarrow> map plan_source_id plans = map source_id (filter source_enabled ss)
     \<and> distinct (map source_id (filter source_enabled ss))
     \<and> seen \<inter> set (map source_id (filter source_enabled ss)) = {}
     \<and> list_all2 (\<lambda>s p. build_source_run_plan s context = Inr p) (filter source_enabled ss) plans"
proof (induction ss arbitrary: seen plans)
  case (Cons s ss)
  show ?case
  proof (cases "source_enabled s")
    case False
    then have "plan_each_source context seen ss = Inr plans"
      using Cons.prems by simp
    from Cons.IH [OF this] False show ?thesis
      unfolding filter.simps if_not_P [OF False] by blast
  next
    case True
    then obtain p ps where ps: "build_source_run_plan s context = Inr p"
      "plan_each_source context (insert (source_id s) seen) ss = Inr ps" "plans = p # ps"
      "source_id s \<notin> seen"
      using Cons.prems by (auto simp: result_simps split: if_splits)
    then show ?thesis
      using Cons.IH [OF ps(2)] build_source_run_plan_source [OF ps(1)] True by auto
  qed
qed simp

section \<open>Concrete inputs\<close>

definition sample_source :: ProfileSource where
  "sample_source = \<lparr> source_id = ''home'', source_name = ''Home'', source_enabled = True,
     subvolume = ''/home'', local_snapshot_dir = ''/snap'', remote_subdir = ''home'',
     remote_retention = 1, local_retention = 1 \<rparr>"

definition sample_profile :: Profile where
  "sample_profile = \<lparr> configuration_generation = [], profile_id = ''p'', profile_name = ''P'',
     profile_enabled = True,
     target = \<lparr> target_device = ''/dev/sda1'', luks_uuid = [], btrfs_uuid = [], partition_uuid = [],
       target_serial = [], mapper_name = ''m'', mount_point = ''/mnt'', activation = AskPasswordActivation \<rparr>,
     paths = \<lparr> remote_root = ''/mnt/r'', incoming_root = ''/mnt/i'' \<rparr>,
     settings = default_ProfileSettings, hooks = \<lparr> before_snapshot = [], after_snapshot = [] \<rparr>,
     sources = [sample_source] \<rparr>"

definition sample_local :: SnapshotInfo where
  "sample_local = \<lparr> si_side = Local, si_source_id = ''home'', si_name = ''home-1970-01-01T000000Z'',
     si_timestamp = 0, si_sequence = 0, si_path = ''/snap/home-1970-01-01T000000Z'',
     si_readonly = True, si_uuid = ''a'', si_received_uuid = [] \<rparr>"

definition sample_remote :: SnapshotInfo where
  "sample_remote = \<lparr> si_side = Remote, si_source_id = ''home'', si_name = ''home-1970-01-01T000000Z'',
     si_timestamp = 0, si_sequence = 0, si_path = ''/mnt/r/home/home-1970-01-01T000000Z'',
     si_readonly = True, si_uuid = ''b'', si_received_uuid = ''a'' \<rparr>"

definition sample_context :: SourcePlanContext where
  "sample_context = \<lparr> ctx_profile = sample_profile,
     ctx_local_inventory = [''home'' \<mapsto> [sample_local]],
     ctx_remote_inventory = [''home'' \<mapsto> [sample_remote]], ctx_pending_markers = Map.empty,
     ctx_pending_snapshots = Map.empty, ctx_profile_state_dir = ''/state'', ctx_run_id = ''run'',
     ctx_snapshot_timestamp = ns_per_second \<rparr>"

definition sample_plan :: BackupSourceRunPlan where
  "sample_plan = (case build_source_run_plan sample_source sample_context of Inr p \<Rightarrow> p)"

lemma sample_plan_actions:
  "build_source_run_plan sample_source sample_context = Inr sample_plan"
proof -
  have "\<not> isl (build_source_run_plan sample_source sample_context)"
    by code_simp
  then show ?thesis
    by (auto simp: sample_plan_def split: sum.splits)
qed

section \<open>Properties\<close>

text \<open>
  Property C34: the name planned for a new snapshot is not the name of any local snapshot, and the
  snapshot-name parser reads it back as the source, the second of the run and a sequence number.
  Planning a name fails only when the plain name and all 99 numbered names are taken.
\<close>

theorem planned_snapshot_name_correct:
  assumes "clock_time t"
  shows "case planned_snapshot_name source t locals of
      Inr name \<Rightarrow> \<not> name_exists locals name
        \<and> (\<exists>k. 0 \<le> k \<and> k \<le> 99 \<and> parse_snapshot_name name source = Some
             \<lparr> sn_source_id = source, sn_timestamp = t div ns_per_second * ns_per_second,
               sn_sequence = k, sn_name = name \<rparr>)
    | Inl e \<Rightarrow> name_exists locals (source @ ''-'' @ format_utc_snapshot_timestamp t)
        \<and> list_all (\<lambda>n. name_exists locals
             (source @ ''-'' @ format_utc_snapshot_timestamp t @ ''-'' @ two_digit n)) [1..<100]"
proof (cases "planned_snapshot_name source t locals")
  case (Inl e)
  then show ?thesis
    using planned_snapshot_name_Inl [OF Inl] by (simp add: list_all_iff del: upt_rec_numeral)
next
  case (Inr name)
  obtain k where "0 \<le> k" "k \<le> 99" "parse_snapshot_name name source = Some
      \<lparr> sn_source_id = source, sn_timestamp = t div ns_per_second * ns_per_second,
        sn_sequence = k, sn_name = name \<rparr>"
    by (rule planned_snapshot_name_parses [OF assms Inr])
  then show ?thesis
    using planned_snapshot_name_Inr(1) [OF Inr] by (simp add: Inr)
qed

theorem planned_snapshot_name_correct_witness:
  "planned_snapshot_name ''s'' ns_per_second [] = Inr ''s-1970-01-01T000001Z''
   \<and> (\<exists>k. 0 \<le> k \<and> k \<le> 99 \<and> parse_snapshot_name ''s-1970-01-01T000001Z'' ''s'' = Some
      \<lparr> sn_source_id = ''s'', sn_timestamp = ns_per_second, sn_sequence = k,
        sn_name = ''s-1970-01-01T000001Z'' \<rparr>)"
proof -
  have c: "clock_time ns_per_second"
    by code_simp
  have n: "planned_snapshot_name ''s'' ns_per_second [] = Inr ''s-1970-01-01T000001Z''"
    by code_simp
  show ?thesis
    using planned_snapshot_name_correct [OF c, where source = "''s''" and locals = "[]"] unfolding n
    by (simp add: ns_per_second_def)
qed

text \<open>
  Property C32: every source plan has the same order. A pending marker is recovered first, the
  incoming directory is cleaned, the snapshot is created between the hooks, then it is sent,
  verified and committed, and only after the commit are old snapshots deleted. The constructor of
  the plan never rejects these actions.
\<close>

theorem source_plan_order:
  "case build_source_run_plan source context of
     Inr plan \<Rightarrow>
       plan_source_id plan = source_id source
       \<and> list_all (\<lambda>a. backup_run_action_source_id a = source_id source) (actions plan)
       \<and> map backup_run_action_kind (actions plan) =
           (if pending_marker_for (ctx_pending_markers context) (source_id source) \<noteq> None
            then [RecoverPending] else []) @ [CleanupIncoming]
           @ replicate (length (before_snapshot (hooks (ctx_profile context)))) BeforeSnapshotHook
           @ [CreateSnapshot]
           @ replicate (length (after_snapshot (hooks (ctx_profile context)))) AfterSnapshotHook
           @ [SendReceive, VerifyReceived, CommitReceived, ApplyRemoteRetention,
              ApplyLocalRetention, CleanupSource]
   | Inl e \<Rightarrow> take 6 (what e) \<noteq> ''backup''"
proof (cases "build_source_run_plan source context")
  case (Inl e)
  have names: "planned_snapshot_name s t l = Inl e \<Longrightarrow> take 6 (what e) \<noteq> ''backup''" for s t l
    using planned_snapshot_name_Inl(3) [of s t l e] by simp
  have parent: "select_incremental_parent s l r c q = Inl e \<Longrightarrow> take 6 (what e) \<noteq> ''backup''" for s l r c q
  proof -
    have "index_remote s rs (x, ix) = Inl e \<Longrightarrow> take 6 (what e) \<noteq> ''backup''" for rs x ix
      by (induction rs arbitrary: x ix) (auto split: if_splits option.splits)
    then show "select_incremental_parent s l r c q = Inl e \<Longrightarrow> take 6 (what e) \<noteq> ''backup''"
      by (auto simp: select_incremental_parent_def Let_def result_simps split: option.splits if_splits)
  qed
  have proj: "projected_snapshots c rc sd s pl t = Inl e \<Longrightarrow> take 6 (what e) \<noteq> ''backup''" for c rc sd s pl t
    by (auto simp: projected_snapshots_def projected_snapshot_def Let_def result_simps split: option.splits)
  have pths: "plan_source_paths source context l = Inl e \<Longrightarrow> take 6 (what e) \<noteq> ''backup''" for l
    using names by (auto simp: plan_source_paths_def Let_def result_simps split: if_splits)
  show ?thesis
    using Inl names parent proj pths
    by (auto simp: build_source_run_plan_def Let_def result_simps ordered_source_actions_accepted)
next
  case (Inr plan)
  then show ?thesis
    by (auto elim!: build_source_run_plan_Inr simp: ordered_source_actions_kinds list_all_iff
        ordered_source_actions_source recovery_required_iff)
qed



text \<open>
  Property C8: retention deletes only snapshots that discovery found. When the clock of the run
  is later than every snapshot of the source, the snapshot the run creates is not among those a
  retention action of the plan deletes, on either side.
\<close>

theorem retention_spares_new_snapshot:
  assumes "build_source_run_plan source context = Inr plan"
    and "\<And>s. s \<in> set (snapshots_for (ctx_local_inventory context) (source_id source))
           \<union> set (snapshots_for (ctx_remote_inventory context) (source_id source))
         \<Longrightarrow> si_timestamp s < ctx_snapshot_timestamp context"
  shows "(\<forall>ret. ApplyLocalRetentionAction (source_id source) ret \<in> set (actions plan) \<longrightarrow>
      set (delete_snapshots ret) \<subseteq> set (snapshots_for (ctx_local_inventory context) (source_id source)))
    \<and> (\<forall>ret. ApplyRemoteRetentionAction (source_id source) ret \<in> set (actions plan) \<longrightarrow>
      set (delete_snapshots ret) \<subseteq> set (snapshots_for (ctx_remote_inventory context) (source_id source)))"
proof -
  obtain planned parent recovery pl pr where
    l: "projected_snapshots (snapshots_for (ctx_local_inventory context) (source_id source))
       recovery Local (source_id source) planned (ctx_snapshot_timestamp context) = Inr pl"
    and r: "projected_snapshots (snapshots_for (ctx_remote_inventory context) (source_id source))
       recovery Remote (source_id source) planned (ctx_snapshot_timestamp context) = Inr pr"
    and p: "plan = \<lparr> plan_source_id = source_id source,
       actions = ordered_source_actions source context planned recovery parent
         (plan_count_retention (source_id source) pl (local_retention source))
         (plan_count_retention (source_id source) pr (remote_retention source)) \<rparr>"
    using assms(1) by (rule build_source_run_plan_Inr) blast
  have "set (delete_snapshots (plan_count_retention (source_id source) pl (local_retention source)))
      \<subseteq> set (snapshots_for (ctx_local_inventory context) (source_id source))"
    using retention_deletes_found [OF l] assms(2) by blast
  moreover have "set (delete_snapshots (plan_count_retention (source_id source) pr (remote_retention source)))
      \<subseteq> set (snapshots_for (ctx_remote_inventory context) (source_id source))"
    using retention_deletes_found [OF r] assms(2) by blast
  ultimately show ?thesis
    by (auto simp: p ordered_source_actions_def Let_def split: if_splits)
qed

theorem retention_spares_new_snapshot_witness:
  "list_all (\<lambda>a. case a of ApplyRemoteRetentionAction s ret \<Rightarrow>
       if s = ''home'' then set (delete_snapshots ret) \<subseteq> {sample_remote} else True
     | _ \<Rightarrow> True) (actions sample_plan)"
proof -
  have i: "snapshots_for (ctx_local_inventory sample_context) ''home'' = [sample_local]"
    "snapshots_for (ctx_remote_inventory sample_context) ''home'' = [sample_remote]"
    "source_id sample_source = ''home''"
    by (simp_all add: snapshots_for_def sample_context_def sample_source_def)
  have t: "si_timestamp sample_local < ctx_snapshot_timestamp sample_context"
    "si_timestamp sample_remote < ctx_snapshot_timestamp sample_context"
    by code_simp+
  have "si_timestamp s < ctx_snapshot_timestamp sample_context"
    if "s \<in> set (snapshots_for (ctx_local_inventory sample_context) (source_id sample_source))
      \<union> set (snapshots_for (ctx_remote_inventory sample_context) (source_id sample_source))" for s
    using that t unfolding i by auto
  from retention_spares_new_snapshot [OF sample_plan_actions this] show ?thesis
    unfolding i by (auto simp: list_all_iff split: BackupRunAction.splits)
qed

text \<open>
  A run plan has one source plan for every enabled source, in the order of the
  profile, each built from that source alone; duplicate source identifiers are rejected.
\<close>

theorem run_plan_sources:
  "case build_backup_run_plan profile locals remotes markers pending state_dir run timestamp of
     Inr plan \<Rightarrow>
       map plan_source_id (plan_sources plan) = map source_id (filter source_enabled (sources profile))
       \<and> distinct (map plan_source_id (plan_sources plan))
       \<and> plan_run_id plan = run \<and> target_mount_point plan = mount_point (target profile)
       \<and> list_all2 (\<lambda>s p. build_source_run_plan s
             \<lparr> ctx_profile = profile, ctx_local_inventory = locals, ctx_remote_inventory = remotes,
               ctx_pending_markers = markers, ctx_pending_snapshots = pending,
               ctx_profile_state_dir = state_dir, ctx_run_id = run,
               ctx_snapshot_timestamp = timestamp \<rparr> = Inr p)
           (filter source_enabled (sources profile)) (plan_sources plan)
   | Inl e \<Rightarrow> True"
proof (cases "build_backup_run_plan profile locals remotes markers pending state_dir run timestamp")
  case (Inr plan)
  let ?c = "\<lparr> ctx_profile = profile, ctx_local_inventory = locals, ctx_remote_inventory = remotes,
    ctx_pending_markers = markers, ctx_pending_snapshots = pending, ctx_profile_state_dir = state_dir,
    ctx_run_id = run, ctx_snapshot_timestamp = timestamp \<rparr>"
  obtain plans where plans: "plan_each_source ?c {} (sources profile) = Inr plans"
    "plan = \<lparr> plan_profile_id = profile_id profile, plan_run_id = run,
       target_mount_point = mount_point (target profile), plan_sources = plans \<rparr>"
    using Inr by (auto simp: build_backup_run_plan_def Let_def result_simps)
  then show ?thesis
    using plan_each_source_Inr [OF plans(1)] Inr by simp
qed simp

text \<open>
  A remote root written with a trailing separator makes planning fail. For every
  source with a safe remote directory, the check that the directory stays inside the remote root
  rejects the plan.
\<close>

theorem remote_root_trailing_separator:
  assumes "clean_path p" and "p \<noteq> ''/''" and "remote_root (paths (ctx_profile context)) = p @ ''/''"
    and "safe_relative (remote_subdir source)"
  shows "build_source_run_plan source context = Inl (ValidationError
    (''Remote source directory escapes REMOTE_ROOT: '' @ path_append p (remote_subdir source)))"
proof -
  let ?dir = "path_append p (remote_subdir source)"
  have clean: "clean_path ?dir" and names: "path_names ?dir = path_names p @ path_names (remote_subdir source)"
    using safe_relative_append [OF assms(1,4)] by auto
  have "[] \<notin> set (path_elements ?dir)"
    using clean by (elim clean_path_exists) (auto simp: plain_name_def)
  moreover have "[] \<in> set (path_elements (p @ ''/''))"
    using trailing_separator(2) [OF assms(1,2)] by simp
  ultimately have "\<not> path_eq ?dir (p @ ''/'')"
    unfolding path_eq_def by metis
  moreover have "path_elements (lexically_normal (p @ ''/'')) = path_elements p @ [[]]"
    using trailing_separator(1,2) [OF assms(1,2)] by simp
  ultimately have "\<not> path_is_within ?dir (p @ ''/'')"
    using path_is_within_trailing_separator [of "p @ ''/''" "path_elements p" ?dir]
      trailing_separator(1) [OF assms(1,2)] clean_path_normal [OF clean] by simp
  then show ?thesis
    using trailing_separator(3) [OF assms(1,2)] assms(3)
    by (simp add: build_source_run_plan_def plan_source_paths_def Let_def)
qed

theorem remote_root_trailing_separator_witness:
  "build_source_run_plan sample_source
     (sample_context\<lparr> ctx_profile := sample_profile\<lparr> paths := \<lparr> remote_root = ''/mnt/r/'',
        incoming_root = ''/mnt/i'' \<rparr> \<rparr> \<rparr>)
   = Inl (ValidationError ''Remote source directory escapes REMOTE_ROOT: /mnt/r/home'')"
proof -
  have c: "clean_path ''/mnt/r''" and s: "safe_relative (remote_subdir sample_source)"
    and a: "path_append ''/mnt/r'' (remote_subdir sample_source) = ''/mnt/r/home''"
    by code_simp+
  show ?thesis
    using remote_root_trailing_separator [of "''/mnt/r''" "sample_context\<lparr> ctx_profile := sample_profile\<lparr> paths := \<lparr> remote_root = ''/mnt/r/'',
        incoming_root = ''/mnt/i'' \<rparr> \<rparr> \<rparr>" sample_source] c s unfolding a by simp
qed

end
