(* ===== verification/RunExecutorLaws.thy ===== *)
theory RunExecutorLaws
  imports RunExecutor ActionLaws RunPlanLaws
begin

text \<open>
  What the executor of a plan guarantees for every executor of actions that keeps to its contract:
  the run follows the script of the plan, the count it returns is right, every action starts only
  after the actions before it have been completed, and a run that stops early reports so once.
\<close>

section \<open>The script of a plan\<close>

definition action_script :: "BackupRunPlan \<Rightarrow> BackupSourceRunPlan \<Rightarrow> BackupRunAction \<Rightarrow> RunCall list" where
  "action_script plan source action =
     (let pid = plan_profile_id plan; rid = plan_run_id plan; sid = plan_source_id source;
          index = source_index_for_event plan source; kind = backup_run_action_kind action
      in [Emit (ActionStarted pid rid sid index kind), Emit (ActionCompleted pid rid sid index kind),
          WriteCheckpoint \<lparr> cp_profile_id = pid, cp_run_id = rid, cp_source_id = sid, cp_action_kind = kind \<rparr>,
          Emit (CheckpointWritten pid rid sid index kind)])"

definition source_script :: "BackupRunPlan \<Rightarrow> BackupSourceRunPlan \<Rightarrow> RunCall list" where
  "source_script plan source =
     (let pid = plan_profile_id plan; rid = plan_run_id plan; sid = plan_source_id source;
          index = source_index_for_event plan source
      in [Emit (SourceStarted pid rid sid index)] @ concat (map (action_script plan source) (actions source))
         @ [Emit (SourceCompleted pid rid sid index)])"

definition run_script :: "BackupRunPlan \<Rightarrow> RunCall list" where
  \<comment> \<open>what a run without failures reports and records, transfer progress aside\<close>
  "run_script plan = concat (map (source_script plan) (plan_sources plan))"

fun progress_call :: "RunCall \<Rightarrow> bool" where
  "progress_call (Emit e) \<longleftrightarrow> backup_run_event_kind e \<in>
     {SourceStartedKind, ActionStartedKind, ActionCompletedKind, CheckpointWrittenKind, SourceCompletedKind}"
| "progress_call (WriteCheckpoint c) \<longleftrightarrow> True"
| "progress_call c \<longleftrightarrow> False"

fun completes_action :: "RunCall \<Rightarrow> bool" where
  "completes_action (Emit e) \<longleftrightarrow> backup_run_event_kind e = ActionCompletedKind"
| "completes_action c \<longleftrightarrow> False"

abbreviation completed_actions :: "RunCall list \<Rightarrow> nat" where
  "completed_actions cs \<equiv> length (filter completes_action cs)"

fun ends_run :: "RunCall \<Rightarrow> bool" where
  "ends_run (Emit e) \<longleftrightarrow> terminal_event e"
| "ends_run c \<longleftrightarrow> False"

fun stopped_early :: "BackupRunExecutionResult \<Rightarrow> bool" where
  "stopped_early (BackupRunExecutionCompleted n) = False"
| "stopped_early (BackupRunExecutionCancelled n) = True"
| "stopped_early (BackupRunExecutionFailed c m n) = True"

fun follows :: "nat \<Rightarrow> RunCall list \<Rightarrow> exn + run_step \<Rightarrow> RunCall list \<Rightarrow> bool" where
  \<comment> \<open>the calls \<open>cs\<close> of a part of the run follow the script of that part\<close>
  "follows n script (Inr (NextStep n' bytes)) cs \<longleftrightarrow>
     filter progress_call cs = script \<and> n' = n + completed_actions cs"
| "follows n script (Inr (ReturnNow r)) cs \<longleftrightarrow>
     prefix (filter progress_call cs) script \<and> stopped_early r
     \<and> execution_actions_completed r = n + completed_actions cs"
| "follows n script (Inl e) cs \<longleftrightarrow> prefix (filter progress_call cs) script"

lemma follows_append:
  "filter progress_call cs = script \<Longrightarrow> follows (n + completed_actions cs) script' r ds
   \<Longrightarrow> follows n (script @ script') r (cs @ ds)"
  by (cases "(n + completed_actions cs, script', r, ds)" rule: follows.cases) auto

section \<open>The contract of an executor of actions\<close>

locale action_executor =
  fixes act :: "'w action_executor"
  assumes act_calls: "traceS (act a ac) (only (within_action (ac_plan ac) a))"
begin

lemma act_quiet: "traceS (act a ac) (\<lambda>r cs. filter progress_call cs = [] \<and> completed_actions cs = 0)"
proof (rule traceS_mono [OF act_calls])
  fix cs
  assume c: "list_all (within_action (ac_plan ac) a) cs"
  have "\<not> progress_call c" "\<not> completes_action c" if "within_action (ac_plan ac) a c" for c
    using that by (cases c; simp)+
  then show "filter progress_call cs = [] \<and> completed_actions cs = 0"
    using c by (auto simp: list_all_iff filter_empty_conv)
qed

lemma attempt_action_follows:
  "traceS (attempt_action ports act plan source index n bytes action)
     (\<lambda>r cs. filter progress_call cs = [] \<and> completed_actions cs = 0
        \<and> (case r of Inr (NextStep n' b) \<Rightarrow> n' = n
           | Inr (ReturnNow res) \<Rightarrow> stopped_early res \<and> execution_actions_completed res = n | Inl e \<Rightarrow> True))"
  unfolding attempt_action_def Let_def emit_cancelled_def emit_action_failure_def port_calls
  by (auto intro!: traceS_catch traceS_bind traceS_mono [OF act_quiet] traceS_call traceS_return traceS_throw
      split: sum.split)

lemma execute_one_action_follows:
  "traceS (execute_one_action ports act plan source (source_index_for_event plan source) n bytes action)
     (follows n (action_script plan source action))"
  unfolding execute_one_action_def Let_def emit_cancelled_def checkpoint_after_success_def port_calls
    action_script_def checkpoint_source_index_def
  by (auto intro!: traceS_bind traceS_mono [OF attempt_action_follows] traceS_call traceS_poll traceS_return
      simp: source_index_for_event_def split: sum.split run_step.split)

lemma execute_actions_follows:
  "traceS (execute_actions ports act plan source (source_index_for_event plan source) n bytes as)
     (follows n (concat (map (action_script plan source) as)))"
proof (induction as arbitrary: n bytes)
  case Nil
  then show ?case by (auto intro: traceS_return)
next
  case (Cons a as)
  show ?case
    unfolding execute_actions.simps
    by (auto intro!: traceS_bind traceS_mono [OF execute_one_action_follows] traceS_return
        traceS_mono [OF Cons.IH] split: sum.split run_step.split)
      (erule (1) follows_append)
qed

lemma execute_source_follows:
  "traceS (execute_source ports act plan n bytes source) (follows n (source_script plan source))"
  unfolding execute_source_def Let_def emit_cancelled_def port_calls source_script_def
  by (auto intro!: traceS_bind traceS_mono [OF execute_actions_follows] traceS_call traceS_poll traceS_return
      split: sum.split run_step.split)

lemma execute_sources_follows:
  "traceS (execute_sources ports act plan n bytes ss)
     (\<lambda>r cs. prefix (filter progress_call cs) (concat (map (source_script plan) ss))
        \<and> (case r of Inr res \<Rightarrow> execution_actions_completed res = n + completed_actions cs
             \<and> (stopped_early res \<or> filter progress_call cs = concat (map (source_script plan) ss)) | Inl e \<Rightarrow> True))"
proof (induction ss arbitrary: n bytes)
  case Nil
  then show ?case by (auto intro: traceS_return)
next
  case (Cons s ss)
  show ?case
    unfolding execute_sources.simps
    by (auto intro!: traceS_bind traceS_mono [OF execute_source_follows] traceS_return
        traceS_mono [OF Cons.IH] split: sum.split run_step.split)
qed

lemma execute_plan_follows:
  "traceS (execute_plan_actions ports act plan)
     (\<lambda>r cs. prefix (filter progress_call cs) (run_script plan)
        \<and> (case r of Inr res \<Rightarrow> execution_actions_completed res = completed_actions cs
             \<and> (stopped_early res \<or> filter progress_call cs = run_script plan) | Inl e \<Rightarrow> True))"
  unfolding execute_plan_actions_def run_script_def
  by (rule traceS_mono [OF execute_sources_follows]) (auto split: sum.splits)

end

section \<open>Every action waits for the actions before it\<close>

fun each_call :: "(RunCall list \<Rightarrow> RunCall \<Rightarrow> bool) \<Rightarrow> RunCall list \<Rightarrow> RunCall list \<Rightarrow> bool" where
  \<comment> \<open>every call of the list is related to the calls before it\<close>
  "each_call P before [] = True"
| "each_call P before (c # cs) = (P before c \<and> each_call P (before @ [c]) cs)"

lemma each_call_append:
  "each_call P before (cs @ ds) \<longleftrightarrow> each_call P before cs \<and> each_call P (before @ cs) ds"
  by (induction cs arbitrary: before) auto

lemma each_call_mono:
  "each_call P before cs \<Longrightarrow> (\<And>b c. P b c \<Longrightarrow> Q b c) \<Longrightarrow> each_call Q before cs"
  by (induction cs arbitrary: before) auto

lemma each_call_all:
  "list_all Q cs \<Longrightarrow> (\<And>b c. set before \<subseteq> set b \<Longrightarrow> Q c \<Longrightarrow> P b c) \<Longrightarrow> each_call P before cs"
proof (induction cs arbitrary: before)
  case (Cons c cs)
  have "each_call P (before @ [c]) cs"
    using Cons.prems by (intro Cons.IH) auto
  then show ?case using Cons.prems by simp
qed simp

lemma each_call_split: "each_call P before (cs @ c # ds) \<Longrightarrow> P (before @ cs) c"
  by (simp add: each_call_append)

definition completed_event :: "BackupRunPlan \<Rightarrow> BackupSourceRunPlan \<Rightarrow> BackupRunAction \<Rightarrow> RunCall" where
  "completed_event plan source action =
     Emit (ActionCompleted (plan_profile_id plan) (plan_run_id plan) (plan_source_id source)
       (source_index_for_event plan source) (backup_run_action_kind action))"

fun caused_by :: "BackupRunPlan \<Rightarrow> BackupSourceRunPlan \<Rightarrow> RunCall list \<Rightarrow> RunCall \<Rightarrow> bool" where
  \<comment> \<open>a repository call belongs to an action of the source whose predecessors have been completed\<close>
  "caused_by plan source before (Repository c) \<longleftrightarrow>
     (\<exists>earlier a rest. actions source = earlier @ a # rest \<and> action_may_call plan a c
        \<and> list_all (\<lambda>b. completed_event plan source b \<in> set before) earlier)"
| "caused_by plan source before (Service c) \<longleftrightarrow> c = ClockNow"
| "caused_by plan source before c \<longleftrightarrow> True"

definition caused_by_some :: "BackupRunPlan \<Rightarrow> BackupSourceRunPlan list \<Rightarrow> RunCall list \<Rightarrow> RunCall \<Rightarrow> bool" where
  "caused_by_some plan ss before c \<longleftrightarrow>
     (case c of Repository d \<Rightarrow> list_ex (\<lambda>source. caused_by plan source before c) ss
      | Service d \<Rightarrow> d = ClockNow | _ \<Rightarrow> True)"

fun attempt_call :: "BackupRunPlan \<Rightarrow> BackupRunAction \<Rightarrow> RunCall \<Rightarrow> bool" where
  "attempt_call plan a (Repository c) \<longleftrightarrow> action_may_call plan a c"
| "attempt_call plan a (Service c) \<longleftrightarrow> c = ClockNow"
| "attempt_call plan a c \<longleftrightarrow> True"

lemma within_action_attempt: "within_action plan a c \<Longrightarrow> attempt_call plan a c"
  by (cases c) auto

lemma attempt_call_caused:
  assumes "list_all (attempt_call plan a) cs" and "actions source = earlier @ a # rest"
    and "list_all (\<lambda>b. completed_event plan source b \<in> set before) earlier"
  shows "each_call (caused_by plan source) before cs"
proof (rule each_call_all [OF assms(1)])
  fix b c
  assume b: "set before \<subseteq> set b" "attempt_call plan a c"
  have "list_all (\<lambda>x. completed_event plan source x \<in> set b) earlier"
    using assms(3) b(1) by (auto simp: list_all_iff)
  then show "caused_by plan source b c"
    using b(2) assms(2) by (cases c) auto
qed

context action_executor
begin

lemma attempt_action_calls:
  "traceS (attempt_action ports act plan source index n bytes action) (only (attempt_call plan action))"
  unfolding attempt_action_def Let_def emit_cancelled_def emit_action_failure_def port_calls
proof (rule only_catch)
  have "traceS (act action \<lparr> ac_plan = plan, ac_source = source, ac_source_index = index, ac_completed_run_bytes = bytes \<rparr>)
      (only (attempt_call plan action))"
    by (rule traceS_mono [OF act_calls]) (auto simp: list_all_iff intro: within_action_attempt)
  then show "traceS (bindS (act action \<lparr> ac_plan = plan, ac_source = source, ac_source_index = index, ac_completed_run_bytes = bytes \<rparr>)
      (\<lambda>action_result. if ar_cancelled action_result
         then bindS (callS (Emit (RunCancelled (plan_profile_id plan) (plan_run_id plan) (map_option plan_source_id (Some source))
                (case Some source of None \<Rightarrow> 0 | Some s \<Rightarrow> source_index_for_event plan s)
                (Some (backup_run_action_kind action)) None [] Backup))
              (on_backup_run_event ports (RunCancelled (plan_profile_id plan) (plan_run_id plan) (map_option plan_source_id (Some source))
                (case Some source of None \<Rightarrow> 0 | Some s \<Rightarrow> source_index_for_event plan s)
                (Some (backup_run_action_kind action)) None [] Backup)))
            (\<lambda>_. returnS (ReturnNow (BackupRunExecutionCancelled n)))
         else returnS (NextStep n (bytes + ar_bytes_transferred action_result)))) (only (attempt_call plan action))"
    by (auto intro!: only_bind only_call only_return)
qed (auto intro!: only_bind only_call only_return only_throw)

lemma execute_one_action_caused:
  "traceS (execute_one_action ports act plan source (source_index_for_event plan source) n bytes action)
     (\<lambda>r cs. list_all (attempt_call plan action) cs
        \<and> (case r of Inr (NextStep _ _) \<Rightarrow> completed_event plan source action \<in> set cs | _ \<Rightarrow> True))"
  unfolding execute_one_action_def Let_def emit_cancelled_def checkpoint_after_success_def port_calls completed_event_def
  by (auto intro!: traceS_bind traceS_mono [OF attempt_action_calls] traceS_call traceS_poll traceS_return
      split: sum.split run_step.split)

lemma execute_actions_caused:
  assumes "actions source = earlier @ as"
  shows "traceS (execute_actions ports act plan source (source_index_for_event plan source) n bytes as)
     (\<lambda>r cs. \<forall>before. list_all (\<lambda>b. completed_event plan source b \<in> set before) earlier
        \<longrightarrow> each_call (caused_by plan source) before cs)"
  using assms
proof (induction as arbitrary: n bytes earlier)
  case Nil
  then show ?case by (auto intro: traceS_return)
next
  case (Cons a as)
  have IH: "traceS (execute_actions ports act plan source (source_index_for_event plan source) n bytes as)
     (\<lambda>r cs. \<forall>before. list_all (\<lambda>b. completed_event plan source b \<in> set before) (earlier @ [a])
        \<longrightarrow> each_call (caused_by plan source) before cs)" for n bytes
    by (rule Cons.IH) (simp add: Cons.prems)
  have head: "list_all (attempt_call plan a) cs \<Longrightarrow>
      list_all (\<lambda>b. completed_event plan source b \<in> set before) earlier \<Longrightarrow> each_call (caused_by plan source) before cs"
    for before cs using attempt_call_caused [OF _ Cons.prems] by blast
  show ?case
    unfolding execute_actions.simps
  proof (rule traceS_bind, rule traceS_mono [OF execute_one_action_caused], goal_cases)
    case (1 r cs)
    show ?case
    proof (cases r)
      case (Inr step)
      show ?thesis
      proof (cases step)
        case (NextStep n' b')
        have "completed_event plan source a \<in> set cs" "list_all (attempt_call plan a) cs"
          using 1 Inr NextStep by simp_all
        then show ?thesis
          unfolding Inr NextStep sum.case run_step.case
          by (intro traceS_mono [OF IH]) (auto simp: each_call_append list_all_iff intro: head)
      qed (use 1 Inr in \<open>auto intro!: traceS_return head\<close>)
    qed (use 1 in \<open>auto intro: head\<close>)
  qed
qed

lemma execute_source_caused:
  "traceS (execute_source ports act plan n bytes source) (\<lambda>r cs. \<forall>before. each_call (caused_by plan source) before cs)"
  unfolding execute_source_def Let_def emit_cancelled_def port_calls
  by (auto intro!: traceS_bind traceS_mono [OF execute_actions_caused [where earlier = "[]"]] traceS_call traceS_poll traceS_return
      simp: each_call_append split: sum.split run_step.split)

lemma execute_sources_caused:
  "traceS (execute_sources ports act plan n bytes ss)
     (\<lambda>r cs. \<forall>before. each_call (caused_by_some plan ss) before cs)"
proof (induction ss arbitrary: n bytes)
  case Nil
  then show ?case by (auto intro: traceS_return)
next
  case (Cons s ss)
  have head: "\<forall>before. each_call (caused_by plan s) before cs \<Longrightarrow> each_call (caused_by_some plan (s # ss)) before cs"
    and tail: "\<forall>before. each_call (caused_by_some plan ss) before cs \<Longrightarrow> each_call (caused_by_some plan (s # ss)) before cs"
    for cs before
    by (rule each_call_mono [of _ before], blast, force simp: caused_by_some_def split: RunCall.splits)+
  show ?case
    unfolding execute_sources.simps
    by (auto intro!: traceS_bind traceS_mono [OF execute_source_caused] traceS_return traceS_mono [OF Cons.IH]
        intro: head tail simp: each_call_append split: sum.split run_step.split)
qed

lemma execute_plan_caused:
  "traceS (execute_plan_actions ports act plan)
     (\<lambda>r cs. \<forall>before. each_call (caused_by_some plan (plan_sources plan)) before cs)"
  unfolding execute_plan_actions_def by (rule execute_sources_caused)

end

interpretation model_executor: action_executor "execute_action ports" for ports
  by unfold_locales (rule execute_action_calls)

section \<open>The end of a run is reported once\<close>

definition sink_reports :: "('w, 'z) RunnerPorts_scheme \<Rightarrow> bool" where
  \<comment> \<open>the event sink never throws\<close>
  "sink_reports ports \<longleftrightarrow> (\<forall>e w. \<exists>w'. on_backup_run_event ports e w = (Inr (), w'))"

lemma traceS_emit:
  fixes ports :: "('w, 'z) RunnerPorts_scheme"
  assumes "sink_reports ports" and "R (Inr ()) [Emit e]"
  shows "traceS (emit ports e) R"
  unfolding emit_def traceS_def
proof
  fix s :: "'w run_state"
  obtain w' where "on_backup_run_event ports e (world s) = (Inr (), w')"
    using assms(1) unfolding sink_reports_def by blast
  then show "\<exists>cs. trace (snd (callS (Emit e) (on_backup_run_event ports e) s)) = trace s @ cs
      \<and> R (fst (callS (Emit e) (on_backup_run_event ports e) s)) cs"
    using assms(2) by (simp add: callS_def)
qed

abbreviation no_end :: "RunCall list \<Rightarrow> bool" where
  "no_end cs \<equiv> list_all (\<lambda>c. \<not> ends_run c) cs"

fun reports_end :: "BackupRunPlan \<Rightarrow> BackupRunExecutionResult \<Rightarrow> RunCall list \<Rightarrow> bool" where
  \<comment> \<open>a run that stopped reports this in its last call, and no run reports an end before that\<close>
  "reports_end plan (BackupRunExecutionCompleted n) cs \<longleftrightarrow> no_end cs"
| "reports_end plan (BackupRunExecutionCancelled n) cs \<longleftrightarrow>
     (\<exists>before s i k c m. cs = before @ [Emit (RunCancelled (plan_profile_id plan) (plan_run_id plan) s i k c m Backup)]
        \<and> no_end before)"
| "reports_end plan (BackupRunExecutionFailed c m n) cs \<longleftrightarrow>
     (\<exists>before. cs = before @ [Emit (RunFailed (plan_profile_id plan) (plan_run_id plan) c m Backup)] \<and> no_end before)"

lemma reports_end_append: "no_end cs \<Longrightarrow> reports_end plan r ds \<Longrightarrow> reports_end plan r (cs @ ds)"
  by (cases "(plan, r, ds)" rule: reports_end.cases) (auto simp flip: append_assoc)

lemma reports_end_Cons: "\<not> ends_run c \<Longrightarrow> reports_end plan r ds \<Longrightarrow> reports_end plan r (c # ds)"
  using reports_end_append [of "[c]"] by simp

fun step_reports :: "BackupRunPlan \<Rightarrow> exn + run_step \<Rightarrow> RunCall list \<Rightarrow> bool" where
  "step_reports plan (Inr (ReturnNow r)) cs \<longleftrightarrow> reports_end plan r cs"
| "step_reports plan (Inr (NextStep n b)) cs \<longleftrightarrow> no_end cs"
| "step_reports plan (Inl e) cs \<longleftrightarrow> no_end cs"

lemma step_reports_append: "no_end cs \<Longrightarrow> step_reports plan r ds \<Longrightarrow> step_reports plan r (cs @ ds)"
  by (cases "(plan, r, ds)" rule: step_reports.cases) (auto intro: reports_end_append)

context action_executor
begin

lemma act_no_end: "traceS (act a ac) (only (\<lambda>c. \<not> ends_run c))"
proof (rule traceS_mono [OF act_calls])
  fix cs
  have "\<not> ends_run c" if "within_action (ac_plan ac) a c" for c
  proof (cases c)
    case (Emit e)
    then show ?thesis using that by (cases e) auto
  qed auto
  then show "list_all (within_action (ac_plan ac) a) cs \<Longrightarrow> no_end cs"
    by (auto simp: list_all_iff)
qed

lemma attempt_action_reports:
  assumes "sink_reports ports"
  shows "traceS (attempt_action ports act plan source index n bytes action) (step_reports plan)"
proof -
  note end_rules = reports_end_append [where ds = "[x]" for x]
  show ?thesis
    unfolding attempt_action_def Let_def emit_cancelled_def emit_action_failure_def
    by (auto intro!: traceS_catch traceS_bind traceS_mono [OF act_no_end] traceS_emit [OF assms] traceS_return
        traceS_throw end_rules split: sum.split)
qed

lemma execute_one_action_reports:
  assumes "sink_reports ports"
  shows "traceS (execute_one_action ports act plan source index n bytes action) (step_reports plan)"
  unfolding execute_one_action_def Let_def emit_cancelled_def checkpoint_after_success_def poll_cancellation_def
  by (auto intro!: traceS_bind traceS_mono [OF attempt_action_reports [OF assms]] traceS_emit [OF assms] traceS_call
      traceS_poll traceS_return simp: reports_end_Cons split: sum.split run_step.split)

lemma execute_actions_reports:
  assumes "sink_reports ports"
  shows "traceS (execute_actions ports act plan source index n bytes as) (step_reports plan)"
proof (induction as arbitrary: n bytes)
  case (Cons a as)
  show ?case
    unfolding execute_actions.simps
    by (auto intro!: traceS_bind traceS_mono [OF execute_one_action_reports [OF assms]] traceS_return
        traceS_mono [OF Cons.IH] split: sum.split run_step.split)
      (erule (1) step_reports_append)
qed (simp add: traceS_return)

lemma execute_source_reports:
  assumes "sink_reports ports"
  shows "traceS (execute_source ports act plan n bytes source) (step_reports plan)"
  unfolding execute_source_def Let_def emit_cancelled_def poll_cancellation_def
  by (auto intro!: traceS_bind traceS_mono [OF execute_actions_reports [OF assms]] traceS_emit [OF assms]
      traceS_poll traceS_return simp: reports_end_Cons split: sum.split run_step.split)

lemma execute_sources_reports:
  assumes "sink_reports ports"
  shows "traceS (execute_sources ports act plan n bytes ss)
    (\<lambda>r cs. case r of Inr res \<Rightarrow> reports_end plan res cs | Inl e \<Rightarrow> no_end cs)"
proof (induction ss arbitrary: n bytes)
  case (Cons s ss)
  show ?case
    unfolding execute_sources.simps
    by (auto intro!: traceS_bind traceS_mono [OF execute_source_reports [OF assms]] traceS_return
        traceS_mono [OF Cons.IH] simp: reports_end_append split: sum.splits run_step.split)
qed (simp add: traceS_return)

end

lemma create_action_handler_calls:
  "traceS (create_action_handler ports plan) (only (\<lambda>c. \<exists>p. c = Repository (OpenRoot p)))"
  unfolding create_action_handler_def open_safe_root_def by (rule only_iter, rule only_call) blast

lemma opened_roots_quiet:
  assumes "list_all (\<lambda>c. \<exists>p. c = Repository (OpenRoot p)) cs"
  shows "filter progress_call cs = []" and "filter completes_action cs = []" and "no_end cs"
  using assms by (induction cs) auto

section \<open>The whole run\<close>

lemma execute_backup_run_follows:
  "traceS (execute_backup_run ports plan) (\<lambda>r cs. prefix (filter progress_call cs) (run_script plan)
     \<and> (case r of Inl e \<Rightarrow> True
        | Inr res \<Rightarrow> execution_actions_completed res = completed_actions cs
            \<and> (if stopped_early res then True else filter progress_call cs = run_script plan)))"
  unfolding execute_backup_run_def backup_run_execute_def
  by (auto intro!: traceS_bind traceS_mono [OF create_action_handler_calls]
      traceS_mono [OF model_executor.execute_plan_follows] simp: opened_roots_quiet split: sum.splits)

definition opens_or_caused :: "BackupRunPlan \<Rightarrow> RunCall list \<Rightarrow> RunCall \<Rightarrow> bool" where
  "opens_or_caused plan before c \<longleftrightarrow> (\<exists>p. c = Repository (OpenRoot p)) \<or> caused_by_some plan (plan_sources plan) before c"

lemma execute_backup_run_caused:
  "traceS (execute_backup_run ports plan) (\<lambda>r cs. each_call (opens_or_caused plan) [] cs)"
proof -
  have open_roots: "list_all (\<lambda>c. \<exists>p. c = Repository (OpenRoot p)) cs \<Longrightarrow> each_call (opens_or_caused plan) before cs" for before cs
    by (erule each_call_all) (auto simp: opens_or_caused_def)
  have run: "\<forall>before. each_call (caused_by_some plan (plan_sources plan)) before cs
      \<Longrightarrow> each_call (opens_or_caused plan) before cs" for before cs
    by (rule each_call_mono [where P = "caused_by_some plan (plan_sources plan)"]) (auto simp: opens_or_caused_def)
  show ?thesis
    unfolding execute_backup_run_def backup_run_execute_def
    by (auto intro!: traceS_bind traceS_mono [OF create_action_handler_calls]
        traceS_mono [OF model_executor.execute_plan_caused] simp: each_call_append open_roots run split: sum.splits)
qed

lemma execute_backup_run_reports:
  assumes "sink_reports ports"
  shows "traceS (execute_backup_run ports plan)
    (\<lambda>r cs. case r of Inr res \<Rightarrow> reports_end plan res cs | Inl e \<Rightarrow> no_end cs)"
  unfolding execute_backup_run_def backup_run_execute_def execute_plan_actions_def
  by (auto intro!: traceS_bind traceS_mono [OF create_action_handler_calls]
      traceS_mono [OF model_executor.execute_sources_reports [OF assms]]
      simp: opened_roots_quiet reports_end_append split: sum.splits)

section \<open>A run without disturbances\<close>

definition undisturbed :: "('w, 'z) RunnerPorts_scheme \<Rightarrow> 'w action_executor \<Rightarrow> bool" where
  \<comment> \<open>nothing throws and nobody cancels\<close>
  "undisturbed ports act \<longleftrightarrow> sink_reports ports
     \<and> (\<forall>c w. \<exists>w'. write_checkpoint ports c w = (Inr (), w'))
     \<and> (\<forall>w. \<exists>w'. cancellation_token ports w = (False, w'))
     \<and> (\<forall>a ac s. \<exists>r t. act a ac s = (Inr r, t) \<and> \<not> ar_cancelled r)"

lemma undisturbed_calls:
  assumes "undisturbed ports act"
  shows "okS (emit ports e) (\<lambda>u. True)" and "okS (poll_cancellation ports) (\<lambda>b. \<not> b)"
    and "okS (act a ac) (\<lambda>r. \<not> ar_cancelled r)"
    and "okS (callS (WriteCheckpoint c) (write_checkpoint ports c)) (\<lambda>u. True)"
proof -
  show "okS (emit ports e) (\<lambda>u. True)" "okS (callS (WriteCheckpoint c) (write_checkpoint ports c)) (\<lambda>u. True)"
    using assms unfolding undisturbed_def sink_reports_def emit_def by (auto intro!: okS_call)
  show "okS (act a ac) (\<lambda>r. \<not> ar_cancelled r)"
    using assms unfolding undisturbed_def okS_def by blast
  have "\<not> fst (cancellation_token ports w)" for w
    using assms unfolding undisturbed_def by (metis fst_conv)
  then show "okS (poll_cancellation ports) (\<lambda>b. \<not> b)"
    unfolding poll_cancellation_def by (rule okS_poll)
qed

lemma undisturbed_action:
  assumes "undisturbed ports act"
  shows "okS (execute_one_action ports act plan source index n bytes a) (\<lambda>r. \<exists>b. r = NextStep (n + 1) b)"
  unfolding execute_one_action_def attempt_action_def checkpoint_after_success_def Let_def
  by (auto intro!: okS_intros okS_mono [OF undisturbed_calls(1) [OF assms]] okS_mono [OF undisturbed_calls(2) [OF assms]]
      okS_mono [OF undisturbed_calls(3) [OF assms]] okS_mono [OF undisturbed_calls(4) [OF assms]])

lemma undisturbed_actions:
  assumes "undisturbed ports act"
  shows "okS (execute_actions ports act plan source index n bytes as) (\<lambda>r. \<exists>b. r = NextStep (n + length as) b)"
proof (induction as arbitrary: n bytes)
  case (Cons a as)
  have "n + 1 + length as = n + length (a # as)" by simp
  then show ?case
    unfolding execute_actions.simps
    by (auto intro!: okS_bind okS_mono [OF undisturbed_action [OF assms]]) (metis Cons.IH add_Suc add_Suc_right)
qed (auto intro: okS_return)

lemma undisturbed_sources:
  assumes "undisturbed ports act"
  shows "okS (execute_sources ports act plan n bytes ss)
    (\<lambda>r. r = BackupRunExecutionCompleted (n + sum_list (map (length \<circ> actions) ss)))"
proof (induction ss arbitrary: n bytes)
  case (Cons s ss)
  have "okS (execute_source ports act plan n bytes s) (\<lambda>r. \<exists>b. r = NextStep (n + length (actions s)) b)"
    unfolding execute_source_def Let_def
    by (auto intro!: okS_intros okS_mono [OF undisturbed_calls(1) [OF assms]] okS_mono [OF undisturbed_calls(2) [OF assms]]
        okS_mono [OF undisturbed_actions [OF assms]])
  then show ?case
    unfolding execute_sources.simps
    by (rule okS_bind [OF okS_mono]) (auto intro!: okS_mono [OF Cons.IH])
qed (auto intro: okS_return)

section \<open>Properties\<close>

text \<open>
  Property C25: a run follows its plan. The events and checkpoints of a run, transfer progress and
  the report of a failure aside, are an initial part of the script of the plan: for every source in
  order its start, for every action of it in order the start, the completion, the checkpoint and
  its report, then the completion of the source. A run that completes has gone through the whole
  script, and the number of actions every run returns is the number it reported as completed.
\<close>

theorem run_follows_plan:
  "case execute_backup_run ports plan s of
     (r, t) \<Rightarrow> \<exists>cs. trace t = trace s @ cs \<and> prefix (filter progress_call cs) (run_script plan)
       \<and> (case r of Inl e \<Rightarrow> True
          | Inr res \<Rightarrow> execution_actions_completed res = completed_actions cs
              \<and> (if stopped_early res then True else filter progress_call cs = run_script plan))"
  by (rule traceS_case [OF execute_backup_run_follows])

text \<open>
  Property C2: an action starts only after the actions before it. Every call a run makes on the
  file systems, on marker files or on other processes, the opening of the directory roots aside, is
  a call of some action of some source of the plan, and all earlier actions of that source have been
  reported as completed before it. Of the interfaces of the service a run only reads the clock.
\<close>

theorem actions_in_order:
  "case execute_backup_run ports plan s of
     (r, t) \<Rightarrow> \<exists>cs. trace t = trace s @ cs
       \<and> each_call (\<lambda>before c. (\<exists>p. c = Repository (OpenRoot p)) \<or> caused_by_some plan (plan_sources plan) before c) [] cs"
  by (rule traceS_case [OF execute_backup_run_caused [unfolded opens_or_caused_def]])

text \<open>
  The end of a run is reported once. If the event sink does not throw, a run that
  fails or is cancelled makes exactly one terminal report, as its very last call and with the code
  and message it returns; a run that completes, and one that leaves with an exception, makes none
  and leaves the report to its caller.
\<close>

theorem run_end_reported:
  assumes "sink_reports ports"
  shows "case execute_backup_run ports plan s of
     (r, t) \<Rightarrow> \<exists>cs. trace t = trace s @ cs
       \<and> (case r of Inr res \<Rightarrow> reports_end plan res cs | Inl e \<Rightarrow> no_end cs)"
  by (rule traceS_case [OF execute_backup_run_reports [OF assms]])

text \<open>A world in which everything succeeds, and one that differs from it in a cancelled token.\<close>

definition calm_ports :: "bool \<Rightarrow> unit ActionPorts" where
  "calm_ports cancel =
     \<lparr> on_backup_run_event = \<lambda>e w. (Inr (), w), write_checkpoint = \<lambda>c w. (Inr (), w),
       cancellation_token = \<lambda>w. (cancel, w), ap_open_root = \<lambda>p w. (Inr (), w),
       ap_ensure_directory = \<lambda>q p w. (Inr (), w), ap_exists = \<lambda>q p w. (Inr False, w),
       ap_pin_directory = \<lambda>q p w. (Inr p, w), ap_remove_contents = \<lambda>q p w. (Inr (), w),
       ap_remove_tree = \<lambda>q p w. (Inr (), w), ap_create_directories = \<lambda>p w. (Inr (), w),
       ap_read_snapshot_metadata = \<lambda>q p w. (Inr (Some \<lparr> is_subvolume = True, sm_readonly = True,
         sm_uuid = ''u'', sm_received_uuid = ''u'' \<rparr>), w),
       ap_create_readonly_snapshot = \<lambda>q p q' p' w. (Inr (), w), ap_delete_subvolume = \<lambda>q p w. (Inr (), w),
       ap_write_marker = \<lambda>d m w. (Inr (), w), ap_clear_marker = \<lambda>p w. (Inr (), w), ap_now = \<lambda>w. (Inr 0, w),
       ap_resolve_executable = \<lambda>p w. (Inr (p, []), w),
       ap_run_controlled = \<lambda>argv options w. (Inr \<lparr> exit_code = 0, command_output = [],
         command_cancelled = False, timed_out = False \<rparr>, w),
       ap_start_transfer = \<lambda>plan w. (Inr 1, w), ap_wait_for_transfer = \<lambda>w. (Inr ([], True), w),
       ap_request_transfer_cancel = \<lambda>w. (Inr (), w),
       ap_take_transfer_result = \<lambda>w. (Inr \<lparr> producer = TransferExited 0 [], consumer = TransferExited 0 [],
         bytes_transferred = 7, bytes_produced = 7, bytes_total_estimated = 7, duration_ms = 0,
         average_speed_bps = 0, cancelled = False \<rparr>, w) \<rparr>"

definition sample_run :: BackupRunPlan where
  "sample_run = \<lparr> plan_profile_id = ''p'', plan_run_id = ''r'', target_mount_point = ''/mnt'',
     plan_sources = [sample_plan] \<rparr>"

lemma calm_ports_report: "sink_reports (calm_ports cancel)"
  by (simp add: sink_reports_def calm_ports_def)

theorem run_end_reported_witness:
  "case execute_backup_run (calm_ports True) sample_run \<lparr> trace = [], world = () \<rparr> of
     (r, t) \<Rightarrow> r = Inr (BackupRunExecutionCancelled 0)
       \<and> reports_end sample_run (BackupRunExecutionCancelled 0) (trace t)"
proof -
  obtain r t where e: "execute_backup_run (calm_ports True) sample_run \<lparr> trace = [], world = () \<rparr> = (r, t)"
    by (rule prod.exhaust)
  have "fst (execute_backup_run (calm_ports True) sample_run \<lparr> trace = [], world = () \<rparr>)
      = Inr (BackupRunExecutionCancelled 0)"
    by code_simp
  then have r: "r = Inr (BackupRunExecutionCancelled 0)"
    by (simp add: e)
  show ?thesis
    using run_end_reported [OF calm_ports_report [of True],
        where plan = sample_run and s = "\<lparr> trace = [], world = () \<rparr>"]
    by (simp add: e r)
qed



end
