(* ===== verification/Discovery.thy ===== *)
theory Discovery
  imports RunPlanLaws
begin

text \<open>
  backup/planning/BackupDiscovery: reading the inventories and the pending markers of all enabled
  sources. The file system is the argument \<open>ports\<close>: the safe directory roots, the directory scan,
  the btrfs metadata reader and the marker store, as functions of the path they are asked about.
  The cancellation token is polled at several points; the answer at each of them is the argument
  \<open>cancelled_at\<close>. The file system does not change while it is being read.
\<close>

datatype DiscoveryPoll =
    PollStart
  | PollSource SourceId
  | PollSnapshot SnapshotSide SourceId string
  | PollEnd

record DiscoveryPorts =
  open_root :: "path \<Rightarrow> unit result"
  root_exists :: "path \<Rightarrow> path \<Rightarrow> bool result"
  pin_directory :: "path \<Rightarrow> path \<Rightarrow> path result" \<comment> \<open>the stable path of the pinned directory\<close>
  scan_directory :: "path \<Rightarrow> DirectoryScan"
  read_metadata :: "path \<Rightarrow> SnapshotMetadata option result"
  read_marker :: "path \<Rightarrow> SourceId \<Rightarrow> PendingMarker option result"
  cancelled_at :: "DiscoveryPoll \<Rightarrow> bool"

record ApplicationPaths =
  state_root :: path
  status_root :: path
  history_root :: path
  target_mount_root :: path

definition application_profile_state_dir :: "ApplicationPaths \<Rightarrow> string \<Rightarrow> path" where
  "application_profile_state_dir app_paths profile = path_append (path_append (state_root app_paths) ''profiles'') profile"

definition throw_if_cancelled :: "DiscoveryPorts \<Rightarrow> DiscoveryPoll \<Rightarrow> unit result" where
  "throw_if_cancelled ports poll =
     (if cancelled_at ports poll
      then Inl (OperationCancelledError ''backup cancelled during discovery'') else Inr ())"

definition pinned_metadata_reader ::
  "DiscoveryPorts \<Rightarrow> path \<Rightarrow> path \<Rightarrow> SnapshotSide \<Rightarrow> SourceId \<Rightarrow> path \<Rightarrow> SnapshotMetadata option result" where
  \<comment> \<open>the two metadata lambdas, for the root and the directory of a side\<close>
  "pinned_metadata_reader ports root directory side source p =
     bindE (throw_if_cancelled ports (PollSnapshot side source (filename p))) (\<lambda>_.
     bindE (pin_directory ports root (path_append directory (filename p))) (\<lambda>snapshot.
       read_metadata ports snapshot))"

definition discover_inventory ::
  "DiscoveryPorts \<Rightarrow> path \<Rightarrow> path \<Rightarrow> SnapshotSide \<Rightarrow> SourceId \<Rightarrow> SnapshotInventoryBySource
   \<Rightarrow> SnapshotInventoryBySource result" where
  "discover_inventory ports root directory side source inventory =
     bindE (root_exists ports root directory) (\<lambda>present.
       if present then
         bindE (pin_directory ports root directory) (\<lambda>pinned.
         bindE (list_snapshot_inventory_at (scan_directory ports) pinned directory source side
                  (Some (pinned_metadata_reader ports root directory side source))) (\<lambda>infos.
           Inr (inventory(source \<mapsto> infos))))
       else Inr inventory)"

definition discover_pending ::
  "DiscoveryPorts \<Rightarrow> SourceId \<Rightarrow> PendingMarker option \<Rightarrow> PendingSnapshotBySource
   \<Rightarrow> PendingSnapshotBySource result" where
  "discover_pending ports source marker_opt pending =
     (case marker_opt of
        None \<Rightarrow> Inr pending
      | Some marker \<Rightarrow>
          bindE (root_exists ports ''/'' (pm_local_snapshot_path marker)) (\<lambda>present.
            if present then
              bindE (pin_directory ports ''/'' (pm_local_snapshot_path marker)) (\<lambda>snapshot.
              bindE (read_metadata ports snapshot) (\<lambda>metadata. Inr (pending(source \<mapsto> metadata))))
            else Inr (pending(source \<mapsto> None))))"

definition discover_source ::
  "DiscoveryPorts \<Rightarrow> Profile \<Rightarrow> path \<Rightarrow> ProfileSource \<Rightarrow> BackupPlanningSnapshot
   \<Rightarrow> BackupPlanningSnapshot result" where
  \<comment> \<open>the body of the loop over the sources\<close>
  "discover_source ports profile state source found =
     bindE (throw_if_cancelled ports (PollSource (source_id source))) (\<lambda>_.
       if \<not> source_enabled source then Inr found
       else
         (let remote_dir = path_append (remote_root (paths profile)) (remote_subdir source)
          in bindE (discover_inventory ports ''/'' (local_snapshot_dir source) Local
                      (source_id source) (local_inventory found)) (\<lambda>locals.
             bindE (discover_inventory ports (mount_point (target profile)) remote_dir Remote
                      (source_id source) (remote_inventory found)) (\<lambda>remotes.
             bindE (read_marker ports state (source_id source)) (\<lambda>marker.
             bindE (discover_pending ports (source_id source) marker (pending_snapshots found)) (\<lambda>pending.
               Inr (found\<lparr> local_inventory := locals, remote_inventory := remotes,
                      pending_markers := (pending_markers found)(source_id source \<mapsto> marker),
                      pending_snapshots := pending \<rparr>)))))))"

fun discover_sources ::
  "DiscoveryPorts \<Rightarrow> Profile \<Rightarrow> path \<Rightarrow> ProfileSource list \<Rightarrow> BackupPlanningSnapshot
   \<Rightarrow> BackupPlanningSnapshot result" where
  "discover_sources ports profile state [] found = Inr found"
| "discover_sources ports profile state (source # rest) found =
     bindE (discover_source ports profile state source found) (discover_sources ports profile state rest)"

definition discover :: "DiscoveryPorts \<Rightarrow> Profile \<Rightarrow> ApplicationPaths \<Rightarrow> BackupPlanningSnapshot result" where
  "discover ports profile app_paths =
     bindE (throw_if_cancelled ports PollStart) (\<lambda>_.
       let state = application_profile_state_dir app_paths (profile_id profile)
       in bindE (open_root ports ''/'') (\<lambda>_.
          bindE (open_root ports (mount_point (target profile))) (\<lambda>_.
          bindE (discover_sources ports profile state (sources profile)
                   \<lparr> local_inventory = Map.empty, remote_inventory = Map.empty,
                     pending_markers = Map.empty, pending_snapshots = Map.empty,
                     profile_state_dir = state \<rparr>) (\<lambda>found.
          bindE (throw_if_cancelled ports PollEnd) (\<lambda>_. Inr found)))))"

section \<open>Names and file names\<close>

lemma split_sep_snoc: "split_sep n = [n] \<Longrightarrow> split_sep (q @ ''/'' @ n) = split_sep q @ [n]"
  by (induction q) (auto split: list.splits)

lemma path_names_append_segment:
  assumes "segment n"
  shows "\<exists>ws. path_names (path_append p n) = ws @ [n]"
proof -
  have n: "n \<noteq> []" "CHR ''/'' \<notin> set n" "split_sep n = [n]" "\<not> is_absolute n"
    using assms split_sep_no_slash [of n] by (auto simp: segment_def is_absolute_def dest: hd_in_set)
  have last: "last (q @ n) \<noteq> CHR ''/''" for q
    by (metis last_appendR last_in_set n(1,2))
  obtain q where q: "path_append p n = q @ ''/'' @ n \<or> path_append p n = n"
  proof (cases "p = []")
    case True
    then show ?thesis using that [of "[]"] n(4) by (simp add: path_append_def)
  next
    case False
    then show ?thesis
      using that [of p] that [of "butlast p"] n(4) append_butlast_last_id [OF False]
      by (cases "last p = CHR ''/''") (auto simp: path_append_def)
  qed
  have "split_sep (q @ ''/'' @ n) = split_sep q @ [n]"
    using split_sep_snoc [OF n(3)] .
  then show ?thesis
    using q n(1,3) last [of "q @ ''/''"] last [of "[]"]
    by (auto simp: path_names_def Let_def)
qed

lemma filename_path_append: "segment n \<Longrightarrow> filename (path_append p n) = n"
  using path_names_append_segment [of n p] by (auto simp: filename_def)

lemma decimal_from_digits: "decimal_from a w = Some i \<Longrightarrow> list_all is_digit w"
  by (induction w arbitrary: a) (auto split: if_splits)

lemma digits_not_slash: "list_all is_digit w \<Longrightarrow> CHR ''/'' \<notin> set w"
  by (induction w) (auto simp: is_digit_def)

lemma decimal_no_slash: "decimal w \<noteq> None \<Longrightarrow> CHR ''/'' \<notin> set w"
  using decimal_from_digits digits_not_slash unfolding decimal_def by blast

lemma parse_utc_timestamp_no_slash:
  assumes "parse_utc_timestamp v = Some t" and "length v = 18"
  shows "CHR ''/'' \<notin> set v"
proof -
  obtain c0 c1 c2 c3 c4 c5 c6 c7 c8 c9 c10 c11 c12 c13 c14 c15 c16 c17 where
    v: "v = [c0, c1, c2, c3, c4, c5, c6, c7, c8, c9, c10, c11, c12, c13, c14, c15, c16, c17]"
    using assms(2) by (auto simp: numeral_eq_Suc length_Suc_conv)
  have "decimal [c0, c1, c2, c3] \<noteq> None" "decimal [c5, c6] \<noteq> None" "decimal [c8, c9] \<noteq> None"
    "decimal [c11, c12] \<noteq> None" "decimal [c13, c14] \<noteq> None" "decimal [c15, c16] \<noteq> None"
    "c4 = CHR ''-''" "c7 = CHR ''-''" "c10 = CHR ''T''" "c17 = CHR ''Z''"
    using assms(1) unfolding v parse_utc_timestamp_def
    by (auto simp: substr_def Let_def split: if_splits option.splits)
  then show ?thesis
    unfolding v by (auto dest!: decimal_no_slash [unfolded not_None_eq])
qed

lemma snapshot_name_segment:
  assumes "parse_snapshot_name name source = Some p" and "identifier_re source"
  shows "segment name"
proof -
  obtain rest where r: "name = source @ ''-'' @ rest" "length rest \<in> {18, 21}"
    using parse_snapshot_name_Some(5) [OF assms(1)] by blast
  obtain t where t: "parse_utc_timestamp (take 18 rest) = Some t"
    using assms(1) r by (auto simp: parse_snapshot_name_def Let_def substr_def split: option.splits)
  have front: "CHR ''/'' \<notin> set (take 18 rest)"
    using parse_utc_timestamp_no_slash [OF t] r(2) by auto
  have "CHR ''/'' \<notin> set rest"
  proof (cases "length rest = 21")
    case True
    then have "rest ! 18 = CHR ''-''" "all_digits (drop 19 rest)"
      using assms(1) r by (auto simp: parse_snapshot_name_def Let_def substr_def
          split: option.splits if_splits)
    moreover have "set rest = set (take 18 rest) \<union> {rest ! 18} \<union> set (drop 19 rest)"
      using arg_cong [OF id_take_nth_drop [of 18 rest], of set] True by simp
    ultimately show ?thesis
      using front digits_not_slash [of "drop 19 rest"] unfolding all_digits_def by simp
  next
    case False
    then show ?thesis using front r(2) by simp
  qed
  then show ?thesis
    using r(1) identifier_re_no_slash [OF assms(2)] by (simp add: segment_def)
qed

section \<open>What discovery reports is what the ports answered\<close>

definition found_snapshot :: "DiscoveryPorts \<Rightarrow> path \<Rightarrow> SourceId \<Rightarrow> SnapshotInfo \<Rightarrow> bool" where
  "found_snapshot ports root source i \<longleftrightarrow>
     si_source_id i = source
     \<and> (\<exists>m. bindE (pin_directory ports root (si_path i)) (read_metadata ports) = Inr (Some m)
          \<and> is_subvolume m \<and> si_readonly i = sm_readonly m \<and> si_uuid i = sm_uuid m
          \<and> si_received_uuid i = sm_received_uuid m)"

definition discovered :: "DiscoveryPorts \<Rightarrow> Profile \<Rightarrow> path \<Rightarrow> BackupPlanningSnapshot \<Rightarrow> bool" where
  "discovered ports profile state found \<longleftrightarrow> profile_state_dir found = state
     \<and> (\<forall>x infos. local_inventory found x = Some infos \<longrightarrow> list_all (found_snapshot ports ''/'' x) infos)
     \<and> (\<forall>x infos. remote_inventory found x = Some infos
          \<longrightarrow> list_all (found_snapshot ports (mount_point (target profile)) x) infos)
     \<and> (\<forall>x mo. pending_markers found x = Some mo \<longrightarrow> read_marker ports state x = Inr mo)
     \<and> (\<forall>x md. pending_snapshots found x = Some (Some md) \<longrightarrow>
          (\<exists>mk. read_marker ports state x = Inr (Some mk)
             \<and> bindE (pin_directory ports ''/'' (pm_local_snapshot_path mk)) (read_metadata ports)
               = Inr (Some md)))"

lemma list_inventory_found:
  assumes "list_snapshot_inventory_at scan pinned directory source side
      (Some (pinned_metadata_reader ports root directory side source)) = Inr infos"
    and "identifier_re source" and "i \<in> set infos"
  shows "found_snapshot ports root source i"
proof -
  let ?reader = "pinned_metadata_reader ports root directory side source"
  obtain entries raw where raw: "inventory_entries pinned directory source side ?reader entries = Inr raw"
    "i \<in> set raw"
    using list_snapshot_inventory_at_Inr [OF assms(1)] assms(3) by auto
  then have item: "inventory_item pinned directory source side ?reader i"
    using inventory_entries_sound by blast
  then obtain p m where p: "parse_snapshot_name (si_name i) source = Some p"
    and m: "?reader (path_append pinned (si_name i)) = Inr (Some m)" "is_subvolume m"
      "si_readonly i = sm_readonly m" "si_uuid i = sm_uuid m" "si_received_uuid i = sm_received_uuid m"
      "si_path i = path_append directory (si_name i)" "si_source_id i = source"
    by (auto simp: inventory_item_def)
  have "filename (path_append pinned (si_name i)) = si_name i"
    by (rule filename_path_append [OF snapshot_name_segment [OF p assms(2)]])
  then have "bindE (pin_directory ports root (si_path i)) (read_metadata ports) = Inr (Some m)"
    using m(1,6) by (auto simp: pinned_metadata_reader_def result_simps)
  with m show ?thesis by (auto simp: found_snapshot_def)
qed

lemma discover_inventory_found:
  assumes "discover_inventory ports root directory side source found = Inr found'" and "identifier_re source"
    and "\<forall>x infos. found x = Some infos \<longrightarrow> list_all (found_snapshot ports root x) infos"
  shows "\<forall>x infos. found' x = Some infos \<longrightarrow> list_all (found_snapshot ports root x) infos"
  using assms list_inventory_found
  by (auto simp: discover_inventory_def result_simps list_all_iff split: if_splits)

lemma discover_pending_read:
  assumes "discover_pending ports source marker pending = Inr pending'"
    and "pending' x = Some (Some md)"
  shows "pending x = Some (Some md) \<or> (x = source \<and> (\<exists>mk. marker = Some mk
    \<and> bindE (pin_directory ports ''/'' (pm_local_snapshot_path mk)) (read_metadata ports) = Inr (Some md)))"
  using assms
  by (auto simp: discover_pending_def result_simps split: option.splits if_splits)

lemma discover_source_discovered:
  assumes "discover_source ports profile state source found = Inr found'"
    and "source_enabled source \<longrightarrow> identifier_re (source_id source)"
    and "discovered ports profile state found"
  shows "discovered ports profile state found'"
proof (cases "source_enabled source")
  case False
  then show ?thesis using assms by (auto simp: discover_source_def result_simps)
next
  case True
  obtain ls rs marker pending where
    l: "discover_inventory ports ''/'' (local_snapshot_dir source) Local (source_id source)
      (local_inventory found) = Inr ls"
    and r: "discover_inventory ports (mount_point (target profile))
      (path_append (remote_root (paths profile)) (remote_subdir source)) Remote (source_id source)
      (remote_inventory found) = Inr rs"
    and m: "read_marker ports state (source_id source) = Inr marker"
    and p: "discover_pending ports (source_id source) marker (pending_snapshots found) = Inr pending"
    and f: "found' = found\<lparr> local_inventory := ls, remote_inventory := rs,
      pending_markers := (pending_markers found)(source_id source \<mapsto> marker),
      pending_snapshots := pending \<rparr>"
    using assms(1) True by (auto simp: discover_source_def Let_def result_simps)
  have id: "identifier_re (source_id source)"
    using True assms(2) by simp
  note d = assms(3) [unfolded discovered_def]
  have "\<forall>x md. pending x = Some (Some md) \<longrightarrow> (\<exists>mk. read_marker ports state x = Inr (Some mk)
      \<and> bindE (pin_directory ports ''/'' (pm_local_snapshot_path mk)) (read_metadata ports) = Inr (Some md))"
    using discover_pending_read [OF p] m d by blast
  then show ?thesis
    using d m discover_inventory_found [OF l id] discover_inventory_found [OF r id]
    unfolding discovered_def f by simp
qed

lemma discover_sources_discovered:
  "discover_sources ports profile state ss found = Inr found'
   \<Longrightarrow> \<forall>s \<in> set ss. source_enabled s \<longrightarrow> identifier_re (source_id s)
   \<Longrightarrow> discovered ports profile state found \<Longrightarrow> discovered ports profile state found'"
proof (induction ss arbitrary: found)
  case (Cons s ss)
  then obtain f where "discover_source ports profile state s found = Inr f"
    "discover_sources ports profile state ss f = Inr found'"
    by (auto simp: result_simps)
  then show ?case
    using Cons discover_source_discovered by (meson list.set_intros)
qed simp

lemma discover_discovered:
  assumes "discover ports profile app_paths = Inr found"
    and "\<forall>s \<in> set (sources profile). source_enabled s \<longrightarrow> identifier_re (source_id s)"
  shows "discovered ports profile (application_profile_state_dir app_paths (profile_id profile)) found"
proof -
  let ?state = "application_profile_state_dir app_paths (profile_id profile)"
  have "discover_sources ports profile ?state (sources profile)
      \<lparr> local_inventory = Map.empty, remote_inventory = Map.empty, pending_markers = Map.empty,
        pending_snapshots = Map.empty, profile_state_dir = ?state \<rparr> = Inr found"
    using assms(1) by (auto simp: discover_def Let_def result_simps)
  then show ?thesis
    by (rule discover_sources_discovered [OF _ assms(2)]) (simp add: discovered_def)
qed

definition planning_context ::
  "Profile \<Rightarrow> BackupPlanningSnapshot \<Rightarrow> RunId \<Rightarrow> RuntimeTimePoint \<Rightarrow> SourcePlanContext" where
  \<comment> \<open>the context \<open>build_backup_run_plan\<close> makes of what discovery found\<close>
  "planning_context profile found run timestamp =
     \<lparr> ctx_profile = profile, ctx_local_inventory = local_inventory found,
       ctx_remote_inventory = remote_inventory found, ctx_pending_markers = pending_markers found,
       ctx_pending_snapshots = pending_snapshots found,
       ctx_profile_state_dir = profile_state_dir found, ctx_run_id = run,
       ctx_snapshot_timestamp = timestamp \<rparr>"

lemma planning_context_sel:
  "ctx_profile (planning_context profile found run t) = profile"
  "ctx_local_inventory (planning_context profile found run t) = local_inventory found"
  "ctx_remote_inventory (planning_context profile found run t) = remote_inventory found"
  "ctx_pending_markers (planning_context profile found run t) = pending_markers found"
  "ctx_pending_snapshots (planning_context profile found run t) = pending_snapshots found"
  "ctx_profile_state_dir (planning_context profile found run t) = profile_state_dir found"
  by (simp_all add: planning_context_def)

lemma snapshots_for_found:
  "\<forall>x infos. inventory x = Some infos \<longrightarrow> list_all (P x) infos
   \<Longrightarrow> i \<in> set (snapshots_for inventory source) \<Longrightarrow> P source i"
  by (cases "inventory source") (auto simp: snapshots_for_def list_all_iff)

lemma plan_parent_and_recovery:
  assumes "build_source_run_plan source context = Inr plan"
    and "RecoverPendingAction (source_id source) recovery \<in> set (actions plan)"
    and "SendReceiveAction (source_id source) a (Some p) b c \<in> set (actions plan)"
  obtains planned :: PlannedSourcePaths and l r where "si_path l = p"
    and "matching_pair (source_id source) (Some (local_snapshot planned))
      (snapshots_for (ctx_local_inventory context) (source_id source))
      (snapshots_for (ctx_remote_inventory context) (source_id source)) l r"
    and "recovery = plan_pending_recovery (source_id source) (ctx_profile_state_dir context)
       (local_snapshot_dir source) (remote_snapshot_directory planned)
       (pending_marker_for (ctx_pending_markers context) (source_id source))
       (pending_snapshot_for (ctx_pending_snapshots context) (source_id source))
       (snapshots_for (ctx_remote_inventory context) (source_id source))
       (keep_failed_local_snapshot (settings (ctx_profile context)))"
proof -
  obtain planned parent rec pl pr where
    sel: "select_incremental_parent (source_id source)
       (snapshots_for (ctx_local_inventory context) (source_id source))
       (snapshots_for (ctx_remote_inventory context) (source_id source))
       (Some (local_snapshot planned))
       (incremental_required (settings (ctx_profile context))) = Inr parent"
    and rec: "rec = plan_pending_recovery (source_id source) (ctx_profile_state_dir context)
       (local_snapshot_dir source) (remote_snapshot_directory planned)
       (pending_marker_for (ctx_pending_markers context) (source_id source))
       (pending_snapshot_for (ctx_pending_snapshots context) (source_id source))
       (snapshots_for (ctx_remote_inventory context) (source_id source))
       (keep_failed_local_snapshot (settings (ctx_profile context)))"
    and plan: "plan = \<lparr> plan_source_id = source_id source,
       actions = ordered_source_actions source context planned rec parent
         (plan_count_retention (source_id source) pl (local_retention source))
         (plan_count_retention (source_id source) pr (remote_retention source)) \<rparr>"
    using assms(1) by (rule build_source_run_plan_Inr) blast
  have "recovery = rec"
    using assms(2) by (auto simp: plan ordered_source_actions_def Let_def split: if_splits)
  moreover obtain l r where "parent = IncrementalTransfer l r" "si_path l = p"
    using assms(3) by (auto simp: plan ordered_source_actions_def Let_def
        split: if_splits IncrementalParentSelection.splits)
  moreover from this have "matching_pair (source_id source) (Some (local_snapshot planned))
      (snapshots_for (ctx_local_inventory context) (source_id source))
      (snapshots_for (ctx_remote_inventory context) (source_id source)) l r"
    using select_incremental_parent_cases [where source = "source_id source"
      and locals = "snapshots_for (ctx_local_inventory context) (source_id source)"
      and remotes = "snapshots_for (ctx_remote_inventory context) (source_id source)"
      and current = "Some (local_snapshot planned)"
      and req = "incremental_required (settings (ctx_profile context))"] sel
    by simp
  ultimately show thesis
    by (intro that [where planned = planned and l = l and r = r]) (simp_all only: rec)
qed

section \<open>Concrete ports\<close>

definition sample_ports :: DiscoveryPorts where
  \<comment> \<open>two local snapshots, the older one on the target, the newer one left by an interrupted run\<close>
  "sample_ports = \<lparr>
     open_root = (\<lambda>_. Inr ()), root_exists = (\<lambda>_ _. Inr True), pin_directory = (\<lambda>_ p. Inr p),
     scan_directory = (\<lambda>p. if p = ''/snap'' then ScanEntries [(''home-1970-01-01T000001Z'', Directory),
         (''home-1970-01-01T000000Z'', Directory)]
       else ScanEntries [(''home-1970-01-01T000000Z'', Directory)]),
     read_metadata = (\<lambda>p. Inr (Some
       (if p = ''/snap/home-1970-01-01T000000Z''
        then \<lparr> is_subvolume = True, sm_readonly = True, sm_uuid = ''a'', sm_received_uuid = [] \<rparr>
        else if p = ''/snap/home-1970-01-01T000001Z''
        then \<lparr> is_subvolume = True, sm_readonly = True, sm_uuid = ''c'', sm_received_uuid = [] \<rparr>
        else \<lparr> is_subvolume = True, sm_readonly = True, sm_uuid = ''b'', sm_received_uuid = ''a'' \<rparr>))),
     read_marker = (\<lambda>_ s. Inr (Some \<lparr> pm_source_id = s,
       pm_local_snapshot_path = ''/snap/home-1970-01-01T000001Z'',
       pm_final_snapshot_path = ''/mnt/r/home/home-1970-01-01T000001Z'',
       pm_run_id = ''run0'', pm_timestamp = ns_per_second \<rparr>)),
     cancelled_at = (\<lambda>_. False) \<rparr>"

definition sample_app_paths :: ApplicationPaths where
  "sample_app_paths = \<lparr> state_root = ''/state'', status_root = ''/status'', history_root = ''/history'',
     target_mount_root = ''/mnt'' \<rparr>"

section \<open>Properties\<close>

text \<open>
  Property C7: recovery never removes the parent of the transfer. When a plan made from what
  discovery found both deletes the local snapshot of an interrupted run and sends an increment,
  the deleted snapshot is not the parent of the increment.
\<close>

theorem recovery_spares_parent:
  assumes "discover ports profile app_paths = Inr found"
    and "\<forall>s \<in> set (sources profile). source_enabled s \<longrightarrow> identifier_re (source_id s)"
    and "build_source_run_plan source (planning_context profile found run timestamp) = Inr plan"
    and "RecoverPendingAction (source_id source) recovery \<in> set (actions plan)"
    and "DeletePendingLocalSnapshot q \<in> set (effects recovery)"
    and "SendReceiveAction (source_id source) a (Some p) b c \<in> set (actions plan)"
  shows "p \<noteq> q"
proof
  assume pq: "p = q"
  let ?x = "source_id source"
  have d: "discovered ports profile (application_profile_state_dir app_paths (profile_id profile)) found"
    by (rule discover_discovered [OF assms(1,2)])
  obtain planned :: PlannedSourcePaths and l r where l: "si_path l = p"
    and mp: "matching_pair ?x (Some (local_snapshot planned)) (snapshots_for (local_inventory found) ?x)
      (snapshots_for (remote_inventory found) ?x) l r"
    and rec: "recovery = plan_pending_recovery ?x (profile_state_dir found) (local_snapshot_dir source)
      (remote_snapshot_directory planned) (pending_marker_for (pending_markers found) ?x)
      (pending_snapshot_for (pending_snapshots found) ?x) (snapshots_for (remote_inventory found) ?x)
      (keep_failed_local_snapshot (settings profile))"
    by (rule plan_parent_and_recovery [OF assms(3,4,6), unfolded planning_context_sel])
  obtain mk md where mk: "pending_marker_for (pending_markers found) ?x = Some mk"
    and md: "pending_snapshot_for (pending_snapshots found) ?x = Some md"
    and q: "q = pm_local_snapshot_path mk"
    and no: "\<not> remote_contains_received_uuid (snapshots_for (remote_inventory found) ?x) ?x (sm_uuid md)"
    using assms(5) unfolding rec by (rule plan_pending_recovery_delete_local)
  have "found_snapshot ports ''/'' ?x l"
    using snapshots_for_found [of "local_inventory found" "found_snapshot ports ''/''" l ?x] d mp
    by (auto simp: discovered_def matching_pair_def)
  moreover have "bindE (pin_directory ports ''/'' q) (read_metadata ports) = Inr (Some md)"
  proof -
    let ?state = "application_profile_state_dir app_paths (profile_id profile)"
    have "pending_markers found ?x = Some (Some mk)" "pending_snapshots found ?x = Some (Some md)"
      using mk md by (auto simp: pending_marker_for_def pending_snapshot_for_def split: option.splits)
    then obtain mk' where "read_marker ports ?state ?x = Inr (Some mk)"
      "read_marker ports ?state ?x = Inr (Some mk')"
      "bindE (pin_directory ports ''/'' (pm_local_snapshot_path mk')) (read_metadata ports) = Inr (Some md)"
      using d unfolding discovered_def by blast
    then show ?thesis using q by simp
  qed
  ultimately have "si_uuid l = sm_uuid md"
    using l pq by (auto simp: found_snapshot_def)
  then show False
    using mp no by (auto simp: matching_pair_def eligible_remote_def remote_contains_received_uuid_def
        list_ex_iff uuid_matches_def)
qed

theorem recovery_spares_parent_witness:
  "\<exists>found plan recovery p q a b c.
     discover sample_ports sample_profile sample_app_paths = Inr found
     \<and> build_source_run_plan sample_source
         (planning_context sample_profile found ''run'' (2 * ns_per_second)) = Inr plan
     \<and> RecoverPendingAction (source_id sample_source) recovery \<in> set (actions plan)
     \<and> DeletePendingLocalSnapshot q \<in> set (effects recovery)
     \<and> SendReceiveAction (source_id sample_source) a (Some p) b c \<in> set (actions plan) \<and> p \<noteq> q"
proof -
  let ?q = "''/snap/home-1970-01-01T000001Z''"
  let ?recovers = "\<lambda>act. case act of RecoverPendingAction s rec \<Rightarrow>
    s = source_id sample_source \<and> DeletePendingLocalSnapshot ?q \<in> set (effects rec) | _ \<Rightarrow> False"
  let ?sends = "\<lambda>act. case act of SendReceiveAction s a p b c \<Rightarrow>
    s = source_id sample_source \<and> p = Some ''/snap/home-1970-01-01T000000Z'' | _ \<Rightarrow> False"
  have run: "case discover sample_ports sample_profile sample_app_paths of Inl e \<Rightarrow> False
    | Inr found \<Rightarrow> (case build_source_run_plan sample_source
        (planning_context sample_profile found ''run'' (2 * ns_per_second)) of Inl e \<Rightarrow> False
      | Inr plan \<Rightarrow> list_ex ?recovers (actions plan) \<and> list_ex ?sends (actions plan))"
    by code_simp
  then obtain found where f: "discover sample_ports sample_profile sample_app_paths = Inr found"
    by (cases "discover sample_ports sample_profile sample_app_paths") simp_all
  from run f obtain plan where plan: "build_source_run_plan sample_source
       (planning_context sample_profile found ''run'' (2 * ns_per_second)) = Inr plan"
    by (cases "build_source_run_plan sample_source
       (planning_context sample_profile found ''run'' (2 * ns_per_second))") simp_all
  from run f plan have ex: "list_ex ?recovers (actions plan)" "list_ex ?sends (actions plan)"
    by simp_all
  obtain act1 where a1: "act1 \<in> set (actions plan)" "?recovers act1"
    using ex(1) unfolding list_ex_iff by blast
  obtain act2 where a2: "act2 \<in> set (actions plan)" "?sends act2"
    using ex(2) unfolding list_ex_iff by blast
  from a1 obtain recovery where rec:
    "RecoverPendingAction (source_id sample_source) recovery \<in> set (actions plan)"
    "DeletePendingLocalSnapshot ?q \<in> set (effects recovery)"
    by (cases act1 rule: BackupRunAction.exhaust) simp_all
  from a2 obtain a p b c where send:
    "SendReceiveAction (source_id sample_source) a (Some p) b c \<in> set (actions plan)"
    by (cases act2 rule: BackupRunAction.exhaust) simp_all
  note acts = rec send
  have "\<forall>s \<in> set (sources sample_profile). source_enabled s \<longrightarrow> identifier_re (source_id s)"
    by code_simp
  from recovery_spares_parent [OF f this plan acts] f plan acts show ?thesis by blast
qed

end
