(* ===== verification/TargetStorage.thy ===== *)
theory TargetStorage
  imports RunState
begin

text \<open>
  Free space of the target: backup/model/TargetStorageMeasurement, with the 64-bit arithmetic of
  the code.
\<close>

record FilesystemSpace =
  capacity_bytes :: u64
  free_bytes :: u64
  available_bytes :: u64

record TargetStorageMeasurement =
  measured_space :: FilesystemSpace
  measured_at :: RuntimeTimePoint

definition space_valid :: "FilesystemSpace \<Rightarrow> bool" where
  "space_valid space \<longleftrightarrow> free_bytes space \<le> capacity_bytes space \<and> available_bytes space \<le> free_bytes space"

definition used_bytes :: "FilesystemSpace \<Rightarrow> u64" where
  "used_bytes space = (if space_valid space then capacity_bytes space - free_bytes space else 0)"

definition percent_threshold :: "u64 \<Rightarrow> nat \<Rightarrow> u64" where
  \<comment> \<open>\<open>whole_percent * value + remainder * value / 100\<close>\<close>
  "percent_threshold usable_total percent =
     (usable_total div 100) * of_nat percent + (usable_total mod 100) * of_nat percent div 100"

definition usage_percent :: "FilesystemSpace \<Rightarrow> nat" where
  "usage_percent space =
     (if \<not> space_valid space then 0
      else (let used = used_bytes space; usable_total = used + available_bytes space
        in if usable_total = 0 \<or> used = 0 then 0
           else (case find (\<lambda>percent. used \<le> percent_threshold usable_total percent) [1..<101] of
               Some percent \<Rightarrow> percent | None \<Rightarrow> 100)))"

section \<open>The percentage is rounded up and nothing overflows\<close>

lemma percent_split:
  fixes x p :: nat
  assumes "p \<le> 100"
  shows "x * p div 100 = x div 100 * p + x mod 100 * p div 100" and "x mod 100 * p < 10000"
    and "x div 100 * p + x mod 100 * p div 100 \<le> x"
proof -
  have "x * p = (x div 100 * 100 + x mod 100) * p"
    by (simp only: div_mult_mod_eq)
  then have x: "x * p = x mod 100 * p + x div 100 * p * 100"
    by (simp only: add_mult_distrib add.commute mult.assoc mult.commute [of 100])
  show split: "x * p div 100 = x div 100 * p + x mod 100 * p div 100"
    unfolding x by simp
  have "x mod 100 * p \<le> 99 * 100"
    using assms by (intro mult_le_mono) simp_all
  then show "x mod 100 * p < 10000" by simp
  have "x * p div 100 \<le> x * 100 div 100"
    using assms by (intro div_le_mono) simp
  then show "x div 100 * p + x mod 100 * p div 100 \<le> x"
    using split by simp
qed

lemma unat_percent_threshold:
  assumes "p \<le> 100"
  shows "unat (percent_threshold t p) = unat t * p div 100"
proof -
  note s = percent_split [OF assms, of "unat t"]
  have "unat t < 2 ^ LENGTH(64)"
    by (rule unsigned_less)
  then have t: "unat t < 18446744073709551616"
    by simp
  have up: "unat (of_nat p :: u64) = p"
    using assms by (simp add: unat_of_nat)
  have q: "unat (t div 100) = unat t div 100" and r: "unat (t mod 100) = unat t mod 100"
    by (simp_all add: unat_div unat_mod)
  have a: "unat ((t div 100) * of_nat p) = unat t div 100 * p"
    unfolding unat_word_ariths(2) q up using s(3) t by simp
  have c: "unat ((t mod 100) * of_nat p) = unat t mod 100 * p"
    unfolding unat_word_ariths(2) r up using s(2) by simp
  have b: "unat ((t mod 100) * of_nat p div 100) = unat t mod 100 * p div 100"
    by (simp add: unat_div c)
  show ?thesis
    unfolding percent_threshold_def unat_word_ariths(1) a b s(1) using s(3) t by simp
qed

lemma find_upt:
  "case find P [a..<a + n] of
     Some p \<Rightarrow> a \<le> p \<and> p < a + n \<and> P p \<and> (\<forall>q. a \<le> q \<and> q < p \<longrightarrow> \<not> P q)
   | None \<Rightarrow> (\<forall>q. a \<le> q \<and> q < a + n \<longrightarrow> \<not> P q)"
proof (induction n arbitrary: a)
  case (Suc n)
  have u: "[a..<a + Suc n] = a # [Suc a..<Suc a + n]"
    by (simp add: upt_conv_Cons)
  show ?case
    unfolding u using Suc.IH [of "Suc a"]
    by (auto split: option.splits) (metis Suc_leI le_neq_implies_less)+
qed auto

lemma usage_percent_least:
  assumes "space_valid space" and "used_bytes space \<noteq> 0"
  defines "used \<equiv> unat (used_bytes space)"
  defines "usable \<equiv> used + unat (available_bytes space)"
  shows "usage_percent space \<in> {1..100}" and "100 * used \<le> usage_percent space * usable"
    and "(usage_percent space - 1) * usable < 100 * used"
proof -
  have v: "free_bytes space \<le> capacity_bytes space" "available_bytes space \<le> free_bytes space"
    using assms(1) by (auto simp: space_valid_def)
  have used: "used = unat (capacity_bytes space) - unat (free_bytes space)"
    using assms(1) v by (simp add: used_def used_bytes_def unat_sub)
  have le: "unat (free_bytes space) \<le> unat (capacity_bytes space)" "unat (available_bytes space) \<le> unat (free_bytes space)"
    using v by (simp_all add: word_le_nat_alt)
  have "usable \<le> unat (capacity_bytes space)"
    using used le by (simp add: usable_def)
  moreover have "unat (capacity_bytes space) < 2 ^ LENGTH(64)"
    by (rule unsigned_less)
  ultimately have "usable < 2 ^ 64"
    by simp
  then have t: "unat (used_bytes space + available_bytes space) = usable"
    by (simp add: unat_word_ariths usable_def used_def)
  have pos: "used > 0" "usable > 0" "used \<le> usable"
    using assms(2) by (auto simp: used_def usable_def unat_gt_0)
  define P where "P = (\<lambda>p. used_bytes space \<le> percent_threshold (used_bytes space + available_bytes space) p)"
  have P: "P p \<longleftrightarrow> 100 * used \<le> p * usable" if "p \<le> 100" for p
  proof -
    have "P p \<longleftrightarrow> used \<le> usable * p div 100"
      unfolding P_def word_le_nat_alt unat_percent_threshold [OF that] t used_def ..
    also have "\<dots> \<longleftrightarrow> used * 100 \<le> usable * p"
      by (simp add: less_eq_div_iff_mult_less_eq)
    finally show ?thesis by (simp add: mult.commute)
  qed
  have "used_bytes space + available_bytes space \<noteq> 0"
    using t pos(2) by (metis unat_0 less_irrefl)
  then have u: "usage_percent space = (case find P [1..<1 + 100] of Some p \<Rightarrow> p | None \<Rightarrow> 100)"
    using assms(1,2) by (simp add: usage_percent_def Let_def P_def)
  have "P 100" using P [of 100] pos(3) by simp
  then obtain p where f: "find P [1..<1 + 100] = Some p" "1 \<le> p" "p \<le> 100" "P p" "\<forall>q. 1 \<le> q \<and> q < p \<longrightarrow> \<not> P q"
    using find_upt [where P = P and a = 1 and n = 100] by (auto split: option.splits)
  then show "usage_percent space \<in> {1..100}" "100 * used \<le> usage_percent space * usable"
    using u P by simp_all
  have "(p - 1) * usable < 100 * used"
  proof (cases "p = 1")
    case False
    then show ?thesis using f P [of "p - 1"] by (simp add: not_le)
  qed (simp add: pos(1))
  then show "(usage_percent space - 1) * usable < 100 * used"
    using u f by simp
qed

text \<open>
  Property C37: the usage shown for a target is exact. For values the kernel can report, the
  percentage is the used share of the usable space, rounded up: it is never zero while something is
  used, never above one hundred, and no 64-bit operation on the way wraps around. Inconsistent
  values give zero.
\<close>

theorem usage_percent_rounds_up:
  "let used = unat (capacity_bytes space) - unat (free_bytes space);
       usable = used + unat (available_bytes space)
   in usage_percent space =
        (if space_valid space \<and> used \<noteq> 0 then (100 * used + usable - 1) div usable else 0)"
proof (cases "space_valid space")
  case valid: True
  have u: "unat (used_bytes space) = unat (capacity_bytes space) - unat (free_bytes space)"
    using valid by (auto simp: used_bytes_def space_valid_def unat_sub)
  define x where "x = unat (used_bytes space)"
  define t where "t = x + unat (available_bytes space)"
  have "usage_percent space = (if x \<noteq> 0 then (100 * x + t - 1) div t else 0)"
  proof (cases "x = 0")
    case True
    then have "used_bytes space = 0" by (simp add: x_def unat_eq_0)
    then show ?thesis using True by (simp add: usage_percent_def)
  next
    case False
    then have "used_bytes space \<noteq> 0" by (simp add: x_def unat_eq_0)
    note p = usage_percent_least [OF valid this, folded x_def, folded t_def]
    have "(100 * x + t - 1) div t = usage_percent space"
    proof (rule div_nat_eqI)
      show "t * usage_percent space \<le> 100 * x + t - 1"
        using p(1,3) by (cases "usage_percent space") (auto simp: mult.commute)
      show "100 * x + t - 1 < t * Suc (usage_percent space)"
        using p(2) False by (auto simp: t_def mult.commute)
    qed
    then show ?thesis using False by simp
  qed
  then show ?thesis using valid by (simp add: Let_def x_def t_def u)
next
  case False
  then show ?thesis by (simp add: Let_def usage_percent_def)
qed

end
