(* ===== verification/RunContext.thy ===== *)
theory RunContext
  imports RunExecutorLaws Discovery TargetStorage
begin

text \<open>
  What surrounds the execution of a plan: the interfaces of the backup service,
  backup/planning/BackupPreflight, backup/execution/RunExecutionContext and RunSessionFactory and
  backup/TargetStorageRecorder.
\<close>

section \<open>The interfaces of the service\<close>

datatype TargetCleanupStage = MountUnit | CryptsetupUnit

record TargetCleanupError =
  ce_stage :: TargetCleanupStage
  ce_unit :: string
  ce_exit_code :: int
  ce_message :: string

record LoadedProfile =
  lp_profile :: Profile
  lp_fingerprint :: string
  lp_generation :: string

datatype BackupRunLeaseResult = BackupRunLeaseAcquired | BackupRunLeaseBusy ErrorCode string

record RunIdentity =
  ri_run_id :: RunId
  ri_started_at :: RuntimeTimePoint

record BackupRunStatusDescription =
  sd_profile_name :: string
  sd_source_count :: nat
  sd_started_at :: RuntimeTimePoint
  sd_source_names :: "SourceId \<rightharpoonup> string"
  sd_target_name :: string

record 'w ServicePorts = "'w ActionPorts" +
  sp_get_profile :: "ProfileId \<Rightarrow> ('w, LoadedProfile) port"
  sp_open_event_sink :: "BackupRunStatusDescription \<Rightarrow> ('w, unit) port"
  sp_try_acquire_lease :: "Profile \<Rightarrow> ('w, BackupRunLeaseResult) port"
  sp_release_lease :: "'w \<Rightarrow> 'w"
  sp_open_checkpoint_store :: "ProfileId \<Rightarrow> ('w, unit) port"
  sp_register_active_run :: "CancellationRequest \<Rightarrow> ('w, unit) port"
  sp_close_active_run :: "('w, string option) port" \<comment> \<open>the message of the diagnostic\<close>
  sp_watch_cancellation :: "CancellationRequest \<Rightarrow> ('w, unit) port"
  sp_close_cancellation_watch :: "('w, string option) port"
  sp_clear_cancel_request :: "CancellationRequest \<Rightarrow> ('w, unit) port"
  sp_request_cancel :: "CancellationRequest \<Rightarrow> ('w, CancellationRequestOutcome) port"
  sp_prepare_target :: "Profile \<Rightarrow> TargetMountMode \<Rightarrow> ('w, unit) port"
  sp_close_target :: "'w \<Rightarrow> TargetCleanupError option \<times> 'w" \<comment> \<open>\<open>noexcept\<close>\<close>
  sp_inspect_mounts :: "('w, MountEntry list) port"
  sp_weakly_canonical :: "path \<Rightarrow> path option"
  sp_discover :: "Profile \<Rightarrow> ('w, BackupPlanningSnapshot) port"
  sp_last_success_matches :: "Profile \<Rightarrow> LocalDate \<Rightarrow> string \<Rightarrow> ('w, bool) port"
  sp_write_success :: "Profile \<Rightarrow> RunId \<Rightarrow> LocalDate \<Rightarrow> RuntimeTimePoint \<Rightarrow> string \<Rightarrow> nat \<Rightarrow> ('w, unit) port"
  sp_write_skipped :: "Profile \<Rightarrow> RunId \<Rightarrow> RuntimeTimePoint \<Rightarrow> RuntimeTimePoint \<Rightarrow> nat \<Rightarrow> ('w, unit) port"
  sp_measure_mount :: "path \<Rightarrow> MountEntry \<Rightarrow> ('w, FilesystemSpace) port"
  sp_write_measurement :: "Profile \<Rightarrow> TargetStorageMeasurement \<Rightarrow> ('w, unit) port"
  sp_records_storage :: bool \<comment> \<open>\<open>target_storage_ != nullptr\<close>\<close>
  sp_local_date :: "('w, LocalDate) port"
  sp_generate_run_id :: "RuntimeTimePoint \<Rightarrow> ('w, RunId) port"

definition clock_now :: "('w, 'z) ServicePorts_scheme \<Rightarrow> ('w, RuntimeTimePoint) io" where
  "clock_now ports = callS (Service ClockNow) (ap_now ports)"

definition close_target :: "('w, 'z) ServicePorts_scheme \<Rightarrow> ('w, TargetCleanupError option) io" where
  "close_target ports =
     callS (Service CloseTarget) (\<lambda>w. case sp_close_target ports w of (e, w') \<Rightarrow> (Inr e, w'))"

definition release_lease :: "('w, 'z) ServicePorts_scheme \<Rightarrow> ('w, unit) io" where
  "release_lease ports = callS (Service ReleaseLease) (\<lambda>w. (Inr (), sp_release_lease ports w))"

section \<open>Preflight (BackupPreflight)\<close>

definition throw_if_preflight_cancelled :: "('w, 'z) ServicePorts_scheme \<Rightarrow> ('w, unit) io" where
  "throw_if_preflight_cancelled ports =
     bindS (poll_cancellation ports) (\<lambda>requested.
       if requested then throwS (OperationCancelledError ''backup cancelled during preflight'') else returnS ())"

definition preflight_run :: "('w, 'z) ServicePorts_scheme \<Rightarrow> Profile \<Rightarrow> TargetMountMode \<Rightarrow> ('w, MountEntry) io" where
  \<comment> \<open>on a normal return the session of the target is open; the result is the verified mount\<close>
  "preflight_run ports profile mode =
     bindS (throw_if_preflight_cancelled ports) (\<lambda>_.
     bindS (callS (Service (PrepareTarget mode)) (sp_prepare_target ports profile mode)) (\<lambda>_.
       catchS
         (bindS (throw_if_preflight_cancelled ports) (\<lambda>_.
          bindS (callS (Service InspectMounts) (sp_inspect_mounts ports)) (\<lambda>mounts.
          bindS (liftE (validate_backup_mounts (sp_weakly_canonical ports) profile mounts)) (\<lambda>verified.
          bindS (throw_if_preflight_cancelled ports) (\<lambda>_. returnS verified)))))
         (\<lambda>original_error.
            bindS (close_target ports) (\<lambda>cleanup_error.
              case cleanup_error of
                Some e \<Rightarrow> throwS (ValidationError (ce_message e))
              | None \<Rightarrow> throwS original_error))))"

section \<open>The context of a run (RunExecutionContext)\<close>

datatype RunExecutionContextCloseStage =
    CancellationWatchStage
  | ActiveRunStage
  | CancellationRequestStage
  | TargetSessionStage

type_synonym RunExecutionContextCloseFailure = "RunExecutionContextCloseStage \<times> string"

record RunExecutionContext =
  cx_profile_id :: ProfileId
  cx_run_id :: RunId
  cx_active_run :: bool \<comment> \<open>the pointers: whether the object is held\<close>
  cx_cancellation_watch :: bool
  cx_checkpoints :: bool
  cx_lease :: bool
  cx_target_session :: bool
  cx_verified_target_mount :: "MountEntry option"
  cx_events :: bool
  cx_target_close_attempted :: bool
  cx_target_close_error :: "TargetCleanupError option"
  cx_closed :: bool
  cx_close_failures :: "RunExecutionContextCloseFailure list"

definition cx_request :: "RunExecutionContext \<Rightarrow> CancellationRequest" where
  "cx_request c = \<lparr> cr_profile_id = cx_profile_id c, cr_run_id = cx_run_id c \<rparr>"

definition create_context :: "('w, 'z) ServicePorts_scheme \<Rightarrow> ProfileId \<Rightarrow> RunId \<Rightarrow> ('w, RunExecutionContext) io" where
  \<comment> \<open>the constructor; it owns the lease, which is released, like the registration of the run, when
    a later step throws\<close>
  "create_context ports profile run =
     (let request = \<lparr> cr_profile_id = profile, cr_run_id = run \<rparr> in
      bindS (catchS (callS (Service (OpenCheckpointStore profile)) (sp_open_checkpoint_store ports profile))
               (\<lambda>e. bindS (release_lease ports) (\<lambda>_. throwS e))) (\<lambda>_.
      bindS (catchS (callS (Service (RegisterActiveRun request)) (sp_register_active_run ports request))
               (\<lambda>e. bindS (release_lease ports) (\<lambda>_. throwS e))) (\<lambda>_.
      bindS (catchS (callS (Service (WatchCancellation request)) (sp_watch_cancellation ports request))
               (\<lambda>e. bindS (release_lease ports) (\<lambda>_.
                     bindS (catchS (callS (Service CloseActiveRun) (sp_close_active_run ports)) (\<lambda>_. returnS None)) (\<lambda>_.
                       throwS e)))) (\<lambda>_.
        returnS \<lparr> cx_profile_id = profile, cx_run_id = run, cx_active_run = True,
          cx_cancellation_watch = True, cx_checkpoints = True, cx_lease = True,
          cx_target_session = False, cx_verified_target_mount = None, cx_events = False,
          cx_target_close_attempted = False, cx_target_close_error = None, cx_closed = False,
          cx_close_failures = [] \<rparr>))))"

definition attach_event_sink :: "RunExecutionContext \<Rightarrow> RunExecutionContext" where
  "attach_event_sink c = c\<lparr> cx_events := True \<rparr>"

definition attach_verified_target :: "MountEntry \<Rightarrow> RunExecutionContext \<Rightarrow> RunExecutionContext" where
  "attach_verified_target mount c = c\<lparr> cx_target_session := True, cx_verified_target_mount := Some mount \<rparr>"

definition close_target_session ::
  "('w, 'z) ServicePorts_scheme \<Rightarrow> RunExecutionContext \<Rightarrow> ('w, RunExecutionContext) io" where
  \<comment> \<open>the result of the call is the field \<open>cx_target_close_error\<close>\<close>
  "close_target_session ports c =
     (if cx_target_close_attempted c then returnS c
      else (let c = c\<lparr> cx_target_close_attempted := True \<rparr> in
        bindS (if cx_target_session c
               then bindS (close_target ports) (\<lambda>e.
                 returnS (c\<lparr> cx_target_close_error := e, cx_target_session := False \<rparr>))
               else returnS c) (\<lambda>c.
          returnS (c\<lparr> cx_verified_target_mount := None \<rparr>))))"

definition record_close_failure ::
  "RunExecutionContextCloseStage \<Rightarrow> string \<Rightarrow> RunExecutionContext \<Rightarrow> RunExecutionContext" where
  "record_close_failure stage message c =
     c\<lparr> cx_close_failures := cx_close_failures c @ [(stage, message)] \<rparr>"

definition cleanup_message :: "exn \<Rightarrow> string" where
  "cleanup_message e = (if is_std_exception e then what e else ''unknown cleanup failure'')"

definition close_cancellation_watch ::
  "('w, 'z) ServicePorts_scheme \<Rightarrow> RunExecutionContext \<Rightarrow> ('w, RunExecutionContext) io" where
  "close_cancellation_watch ports c =
     (if \<not> cx_cancellation_watch c then returnS c
      else bindS (catchS
          (bindS (callS (Service CloseCancellationWatch) (sp_close_cancellation_watch ports)) (\<lambda>diagnostic.
             returnS (case diagnostic of None \<Rightarrow> c
               | Some m \<Rightarrow> record_close_failure CancellationWatchStage m c)))
          (\<lambda>e. returnS (record_close_failure CancellationWatchStage (cleanup_message e) c))) (\<lambda>c.
        returnS (c\<lparr> cx_cancellation_watch := False \<rparr>)))"

definition close_active_run ::
  "('w, 'z) ServicePorts_scheme \<Rightarrow> RunExecutionContext \<Rightarrow> ('w, RunExecutionContext) io" where
  "close_active_run ports c =
     (if \<not> cx_active_run c then returnS c
      else bindS (catchS
          (bindS (callS (Service CloseActiveRun) (sp_close_active_run ports)) (\<lambda>diagnostic.
             returnS (case diagnostic of None \<Rightarrow> c | Some m \<Rightarrow> record_close_failure ActiveRunStage m c)))
          (\<lambda>e. returnS (record_close_failure ActiveRunStage (cleanup_message e) c))) (\<lambda>c.
        returnS (c\<lparr> cx_active_run := False \<rparr>)))"

definition clear_cancellation_request ::
  "('w, 'z) ServicePorts_scheme \<Rightarrow> RunExecutionContext \<Rightarrow> ('w, RunExecutionContext) io" where
  "clear_cancellation_request ports c =
     catchS
       (bindS (callS (Service (ClearCancelRequest (cx_request c))) (sp_clear_cancel_request ports (cx_request c))) (\<lambda>_.
          returnS c))
       (\<lambda>e. returnS (record_close_failure CancellationRequestStage (cleanup_message e) c))"

definition collect_target_session_failure ::
  "('w, 'z) ServicePorts_scheme \<Rightarrow> RunExecutionContext \<Rightarrow> ('w, RunExecutionContext) io" where
  "collect_target_session_failure ports c =
     bindS (close_target_session ports c) (\<lambda>c.
       returnS (case cx_target_close_error c of None \<Rightarrow> c
         | Some e \<Rightarrow> record_close_failure TargetSessionStage (ce_message e) c))"

definition release_context_lease ::
  "('w, 'z) ServicePorts_scheme \<Rightarrow> RunExecutionContext \<Rightarrow> ('w, RunExecutionContext) io" where
  "release_context_lease ports c =
     (if cx_lease c then bindS (release_lease ports) (\<lambda>_. returnS (c\<lparr> cx_lease := False \<rparr>)) else returnS c)"

definition close_context ::
  "('w, 'z) ServicePorts_scheme \<Rightarrow> RunExecutionContext \<Rightarrow> ('w, RunExecutionContext) io" where
  \<comment> \<open>\<open>close ()\<close>, also called by the destructor; the failures are in \<open>cx_close_failures\<close>, and their
    report on the standard error stream is left out\<close>
  "close_context ports c =
     (if cx_closed c then returnS c
      else
        bindS (close_cancellation_watch ports (c\<lparr> cx_closed := True \<rparr>)) (\<lambda>c.
        bindS (close_active_run ports (c\<lparr> cx_events := False, cx_checkpoints := False \<rparr>)) (\<lambda>c.
        bindS (clear_cancellation_request ports c) (\<lambda>c.
        bindS (collect_target_session_failure ports c) (\<lambda>c.
          release_context_lease ports c)))))"

section \<open>Sessions (RunSessionFactory)\<close>

definition status_description :: "Profile \<Rightarrow> RuntimeTimePoint \<Rightarrow> BackupRunStatusDescription" where
  \<comment> \<open>\<open>emplace\<close> keeps the first name of an identifier\<close>
  "status_description profile started_at =
     \<lparr> sd_profile_name = profile_name profile,
       sd_source_count = length (filter source_enabled (sources profile)),
       sd_started_at = started_at,
       sd_source_names = map_of (map (\<lambda>s. (source_id s, source_name s)) (sources profile)),
       sd_target_name = mapper_name (target profile) \<rparr>"

definition try_acquire_lease :: "('w, 'z) ServicePorts_scheme \<Rightarrow> Profile \<Rightarrow> ('w, BackupRunLeaseResult) io" where
  "try_acquire_lease ports profile =
     callS (Service (TryAcquireLease (profile_id profile))) (sp_try_acquire_lease ports profile)"

definition session_request_cancel ::
  "('w, 'z) ServicePorts_scheme \<Rightarrow> Profile \<Rightarrow> CancellationRequest \<Rightarrow> ('w, CancellationRequestOutcome) io" where
  \<comment> \<open>the lease that was acquired to test whether a run is active is released on return\<close>
  "session_request_cancel ports profile request =
     bindS (try_acquire_lease ports profile) (\<lambda>lease.
       case lease of
         BackupRunLeaseAcquired \<Rightarrow> bindS (release_lease ports) (\<lambda>_. returnS StaleRun)
       | BackupRunLeaseBusy code m \<Rightarrow> callS (Service (RequestCancel request)) (sp_request_cancel ports request))"

definition session_events ::
  "('w, 'z) ServicePorts_scheme \<Rightarrow> LoadedProfile \<Rightarrow> RunIdentity \<Rightarrow> ('w, unit) io" where
  "session_events ports loaded identity =
     callS (Service (OpenEventSink (profile_id (lp_profile loaded))))
       (sp_open_event_sink ports (status_description (lp_profile loaded) (ri_started_at identity)))"

definition session_fallback_events ::
  "('w, 'z) ServicePorts_scheme \<Rightarrow> ProfileId \<Rightarrow> RunIdentity \<Rightarrow> ('w, unit) io" where
  "session_fallback_events ports profile identity =
     callS (Service (OpenEventSink profile))
       (sp_open_event_sink ports \<lparr> sd_profile_name = profile, sd_source_count = 0,
          sd_started_at = ri_started_at identity, sd_source_names = Map.empty, sd_target_name = [] \<rparr>)"

section \<open>Recording the space of the target (TargetStorageRecorder)\<close>

definition warning_code :: "exn \<Rightarrow> ErrorCode" where
  "warning_code error = (case coded_error error of Some code \<Rightarrow> code | None \<Rightarrow> BackupFailed)"

definition record_measurement ::
  "('w, 'z) ServicePorts_scheme \<Rightarrow> Profile \<Rightarrow> MountEntry \<Rightarrow> ('w, BackupCompletionWarning option) io" where
  "record_measurement ports profile verified =
     catchS
       (bindS (callS (Service (MeasureTarget (mount_point (target profile)) verified))
                 (sp_measure_mount ports (mount_point (target profile)) verified)) (\<lambda>space.
        bindS (clock_now ports) (\<lambda>now.
        bindS (callS (Service WriteMeasurement)
                 (sp_write_measurement ports profile \<lparr> measured_space = space, measured_at = now \<rparr>)) (\<lambda>_.
          returnS None))))
       (\<lambda>error. returnS (Some \<lparr> cw_component = TargetStorageMeasurementWarning,
          cw_error_code = (if is_std_exception error then warning_code error else BackupFailed),
          cw_message = (if is_std_exception error then what error
            else ''unknown target storage measurement error'') \<rparr>))"

end
