(* ===== verification/BackupServiceModel.thy ===== *)
theory BackupServiceModel
  imports RunContext
begin

text \<open>
  The backup service, backup/BackupService: running, validating, planning and cancelling a
  profile. The service works on the context of a run, which survives an exception; so the world
  of its steps is a pair of the context, if there is one, and the world of the interfaces.
\<close>

section \<open>Steps with a context\<close>

type_synonym 'w service_world = "RunExecutionContext option \<times> 'w"

definition liftW :: "('w, 'a) io \<Rightarrow> ('w service_world, 'a) io" where
  \<comment> \<open>a step that does not touch the context\<close>
  "liftW m s =
     (case m \<lparr> trace = trace s, world = snd (world s) \<rparr> of
        (r, t) \<Rightarrow> (r, \<lparr> trace = trace t, world = (fst (world s), world t) \<rparr>))"

definition contextS :: "('w service_world, RunExecutionContext) io" where
  \<comment> \<open>\<open>*context\<close>, used only after the context has been created\<close>
  "contextS s = (Inr (the (fst (world s))), s)"

definition set_contextS :: "RunExecutionContext \<Rightarrow> ('w service_world, unit) io" where
  "set_contextS c s = (Inr (), s\<lparr> world := (Some c, snd (world s)) \<rparr>)"

definition on_context :: "(RunExecutionContext \<Rightarrow> ('w, RunExecutionContext) io) \<Rightarrow> ('w service_world, unit) io" where
  \<comment> \<open>a method call on the context\<close>
  "on_context f = bindS contextS (\<lambda>c. bindS (liftW (f c)) set_contextS)"

definition emitW :: "('w, 'z) ServicePorts_scheme \<Rightarrow> BackupRunEvent \<Rightarrow> ('w service_world, unit) io" where
  "emitW ports event = liftW (emit ports event)"

definition pollW :: "('w, 'z) ServicePorts_scheme \<Rightarrow> ('w service_world, bool) io" where
  "pollW ports = liftW (poll_cancellation ports)"

definition close_contextW :: "('w, 'z) ServicePorts_scheme \<Rightarrow> ('w service_world, unit) io" where
  "close_contextW ports = on_context (close_context ports)"

section \<open>Failures and the target\<close>

definition failure_code :: "exn \<Rightarrow> ErrorCode" where
  "failure_code error = (case coded_error error of Some code \<Rightarrow> code | None \<Rightarrow> BackupFailed)"

definition emit_run_failed ::
  "('w, 'z) ServicePorts_scheme \<Rightarrow> ProfileId \<Rightarrow> RunId \<Rightarrow> ErrorCode \<Rightarrow> string \<Rightarrow> nat \<Rightarrow> OperationKind
   \<Rightarrow> ('w, BackupExecutionResult) io" where
  "emit_run_failed ports profile run code message completed kind =
     bindS (emit ports (RunFailed profile run code message kind)) (\<lambda>_.
       returnS (BackupExecutionFailed profile run code message completed))"

definition close_target_or_fail ::
  "('w, 'z) ServicePorts_scheme \<Rightarrow> ProfileId \<Rightarrow> RunId \<Rightarrow> nat \<Rightarrow> OperationKind
   \<Rightarrow> ('w service_world, BackupExecutionResult option) io" where
  "close_target_or_fail ports profile run completed kind =
     bindS (on_context (close_target_session ports)) (\<lambda>_.
     bindS contextS (\<lambda>c.
       case cx_target_close_error c of
         None \<Rightarrow> returnS None
       | Some e \<Rightarrow>
           bindS (liftW (emit_run_failed ports profile run BackupFailed (ce_message e) completed kind)) (\<lambda>failed.
             returnS (Some failed))))"

definition close_standalone_target_or_throw :: "('w, 'z) ServicePorts_scheme \<Rightarrow> ('w, unit) io" where
  "close_standalone_target_or_throw ports =
     bindS (close_target ports) (\<lambda>e.
       case e of Some error \<Rightarrow> throwS (CodedOperationError BackupFailed (ce_message error)) | None \<Rightarrow> returnS ())"

definition rethrow_planning_failure_after_target_cleanup ::
  "('w, 'z) ServicePorts_scheme \<Rightarrow> exn \<Rightarrow> ('w, 'a) io" where
  "rethrow_planning_failure_after_target_cleanup ports original_error =
     bindS (close_target ports) (\<lambda>cleanup_error.
       case cleanup_error of
         None \<Rightarrow> throwS original_error
       | Some e \<Rightarrow>
           if is_std_exception original_error
           then throwS (CodedOperationError (failure_code original_error)
                  (what original_error @ ''; target cleanup also failed: '' @ ce_message e))
           else throwS (CodedOperationError BackupFailed
                  (''unknown planning failure; target cleanup also failed: '' @ ce_message e)))"

section \<open>Planning without running\<close>

definition build_plan ::
  "('w, 'z) ServicePorts_scheme \<Rightarrow> Profile \<Rightarrow> BackupPlanningSnapshot \<Rightarrow> RunId \<Rightarrow> RuntimeTimePoint
   \<Rightarrow> ('w, BackupRunPlan) io" where
  \<comment> \<open>\<open>BackupPlanBuilder::build\<close> with the token polled\<close>
  "build_plan ports profile snapshot run timestamp =
     bindS (poll_cancellation ports) (\<lambda>cancelled_before.
       if cancelled_before then throwS (OperationCancelledError ''backup cancelled during planning'')
       else bindS (liftE (build_backup_run_plan profile (local_inventory snapshot) (remote_inventory snapshot)
                (pending_markers snapshot) (pending_snapshots snapshot) (profile_state_dir snapshot) run timestamp)) (\<lambda>plan.
            bindS (poll_cancellation ports) (\<lambda>cancelled_after.
              if cancelled_after then throwS (OperationCancelledError ''backup cancelled during planning'')
              else returnS plan)))"

definition discover_target :: "('w, 'z) ServicePorts_scheme \<Rightarrow> Profile \<Rightarrow> ('w, BackupPlanningSnapshot) io" where
  "discover_target ports profile = callS (Service Discover) (sp_discover ports profile)"

definition service_plan :: "('w, 'z) ServicePorts_scheme \<Rightarrow> BackupPlanRequest \<Rightarrow> ('w, BackupRunPlan) io" where
  \<comment> \<open>\<open>BackupService::plan\<close>; the lease is released on every way out\<close>
  "service_plan ports request =
     bindS (clock_now ports) (\<lambda>time.
     bindS (callS (Service GenerateRunId) (sp_generate_run_id ports time)) (\<lambda>run.
     bindS (callS (Service (GetProfile (prq_profile_id request))) (sp_get_profile ports (prq_profile_id request))) (\<lambda>loaded.
     bindS (try_acquire_lease ports (lp_profile loaded)) (\<lambda>lease_result.
       case lease_result of
         BackupRunLeaseBusy code message \<Rightarrow> throwS (CodedOperationError code message)
       | BackupRunLeaseAcquired \<Rightarrow>
           (let body =
              bindS (preflight_run ports (lp_profile loaded)
                       (if prq_mount_target request then MountIfNeeded else RequireMounted)) (\<lambda>_.
              bindS (catchS
                  (bindS (discover_target ports (lp_profile loaded)) (\<lambda>snapshot.
                     build_plan ports (lp_profile loaded) snapshot run time))
                  (rethrow_planning_failure_after_target_cleanup ports)) (\<lambda>plan.
              bindS (close_standalone_target_or_throw ports) (\<lambda>_. returnS plan)))
            in bindS (catchS body (\<lambda>e. bindS (release_lease ports) (\<lambda>_. throwS e))) (\<lambda>plan.
               bindS (release_lease ports) (\<lambda>_. returnS plan)))))))"

section \<open>Starting a run\<close>

definition acquire_run_lease ::
  "('w, 'z) ServicePorts_scheme \<Rightarrow> Profile \<Rightarrow> RunIdentity \<Rightarrow> OperationKind
   \<Rightarrow> ('w, BackupExecutionResult option) io" where
  \<comment> \<open>\<open>Some\<close> is the busy result, \<open>None\<close> the acquired lease\<close>
  "acquire_run_lease ports profile identity kind =
     bindS (try_acquire_lease ports profile) (\<lambda>lease_result.
       case lease_result of
         BackupRunLeaseBusy code message \<Rightarrow>
           bindS (emit_run_failed ports (profile_id profile) (ri_run_id identity) code message 0 kind) (\<lambda>_.
             returnS (Some (BackupExecutionBusy (profile_id profile) (ri_run_id identity) code message)))
       | BackupRunLeaseAcquired \<Rightarrow> returnS None)"

definition record_target_storage ::
  "('w, 'z) ServicePorts_scheme \<Rightarrow> Profile \<Rightarrow> ('w service_world, BackupCompletionWarning list) io" where
  \<comment> \<open>the warnings that would be appended to the list the caller passes, if it passes one\<close>
  "record_target_storage ports profile =
     bindS contextS (\<lambda>c.
       case cx_verified_target_mount c of
         None \<Rightarrow> returnS []
       | Some verified \<Rightarrow>
           if \<not> sp_records_storage ports then returnS []
           else bindS (liftW (record_measurement ports profile verified)) (\<lambda>warning.
                  returnS (case warning of None \<Rightarrow> [] | Some w \<Rightarrow> [w])))"

definition throw_if_cancelled_during_cleanup :: "('w, 'z) ServicePorts_scheme \<Rightarrow> ('w service_world, unit) io" where
  "throw_if_cancelled_during_cleanup ports =
     bindS (pollW ports) (\<lambda>requested.
       if requested then throwS (OperationCancelledError ''backup cancelled during target cleanup'') else returnS ())"

definition finish_validation_if_requested ::
  "('w, 'z) ServicePorts_scheme \<Rightarrow> BackupRequest \<Rightarrow> Profile \<Rightarrow> RunIdentity \<Rightarrow> OperationKind \<Rightarrow> BackupRunPlan
   \<Rightarrow> ('w service_world, BackupExecutionResult option) io" where
  "finish_validation_if_requested ports request profile identity kind plan =
     (if \<not> rq_validate_only request then returnS None
      else
        bindS (record_target_storage ports profile) (\<lambda>_.
        bindS (close_target_or_fail ports (profile_id profile) (ri_run_id identity) 0 kind) (\<lambda>failed.
          case failed of
            Some r \<Rightarrow> bindS (close_contextW ports) (\<lambda>_. returnS (Some r))
          | None \<Rightarrow>
              bindS (throw_if_cancelled_during_cleanup ports) (\<lambda>_.
              bindS (emitW ports (TargetValidationCompleted (profile_id profile) (ri_run_id identity))) (\<lambda>_.
                returnS (Some (BackupExecutionValidated plan)))))))"

definition skip_if_daily_limit_reached ::
  "('w, 'z) ServicePorts_scheme \<Rightarrow> BackupRequest \<Rightarrow> LoadedProfile \<Rightarrow> RunIdentity \<Rightarrow> LocalDate \<Rightarrow> OperationKind
   \<Rightarrow> BackupRunPlan \<Rightarrow> ('w service_world, BackupExecutionResult option) io" where
  "skip_if_daily_limit_reached ports request loaded identity today kind plan =
     (let profile = lp_profile loaded in
      if rq_force request \<or> \<not> daily_limit (settings profile) then returnS None
      else
        bindS (liftW (callS (Service LastSuccessMatches)
                 (sp_last_success_matches ports profile today (lp_fingerprint loaded)))) (\<lambda>matches.
          if \<not> matches then returnS None
          else
            bindS (record_target_storage ports profile) (\<lambda>_.
            bindS (close_target_or_fail ports (profile_id profile) (ri_run_id identity) 0 kind) (\<lambda>failed.
              case failed of
                Some r \<Rightarrow> bindS (close_contextW ports) (\<lambda>_. returnS (Some r))
              | None \<Rightarrow>
                  bindS (throw_if_cancelled_during_cleanup ports) (\<lambda>_.
                  bindS (liftW (clock_now ports)) (\<lambda>now.
                  bindS (liftW (callS (Service (WriteSkipped (ri_run_id identity) (length (plan_sources plan))))
                           (sp_write_skipped ports profile (ri_run_id identity) (ri_started_at identity) now
                              (length (plan_sources plan))))) (\<lambda>_.
                    returnS (Some (BackupExecutionSkipped plan)))))))))"

definition completion_warning :: "BackupCompletionWarningComponent \<Rightarrow> exn \<Rightarrow> BackupCompletionWarning" where
  "completion_warning component error =
     (if is_std_exception error
      then \<lparr> cw_component = component, cw_error_code = failure_code error, cw_message = what error \<rparr>
      else \<lparr> cw_component = component, cw_error_code = BackupFailed,
             cw_message = ''unknown completion metadata error'' \<rparr>)"

definition record_success_ledger_warning ::
  "('w, 'z) ServicePorts_scheme \<Rightarrow> LoadedProfile \<Rightarrow> RunIdentity \<Rightarrow> LocalDate \<Rightarrow> nat
   \<Rightarrow> ('w, BackupCompletionWarning list) io" where
  "record_success_ledger_warning ports loaded identity today source_count =
     catchS
       (bindS (clock_now ports) (\<lambda>now.
        bindS (callS (Service (WriteSuccess (ri_run_id identity) source_count))
                 (sp_write_success ports (lp_profile loaded) (ri_run_id identity) today now
                    (lp_fingerprint loaded) source_count)) (\<lambda>_. returnS [])))
       (\<lambda>error. returnS [completion_warning SuccessLedger error])"

definition record_terminal_status_warning ::
  "('w, 'z) ServicePorts_scheme \<Rightarrow> Profile \<Rightarrow> RunIdentity \<Rightarrow> ('w, BackupCompletionWarning list) io" where
  "record_terminal_status_warning ports profile identity =
     catchS
       (bindS (emit ports (RunCompleted (profile_id profile) (ri_run_id identity))) (\<lambda>_. returnS []))
       (\<lambda>error. returnS [completion_warning TerminalStatus error])"

definition service_execute_plan ::
  "('w, 'z) ServicePorts_scheme \<Rightarrow> LoadedProfile \<Rightarrow> RunIdentity \<Rightarrow> LocalDate \<Rightarrow> OperationKind \<Rightarrow> BackupRunPlan
   \<Rightarrow> ('w service_world, BackupExecutionResult) io" where
  \<comment> \<open>\<open>BackupService::execute_plan\<close>\<close>
  "service_execute_plan ports loaded identity today kind plan =
     (let profile = lp_profile loaded in
      bindS (liftW (execute_backup_run ports plan)) (\<lambda>execution.
        case execution of
          BackupRunExecutionCompleted completed \<Rightarrow>
            bindS (record_target_storage ports profile) (\<lambda>storage_warnings.
            bindS (close_target_or_fail ports (profile_id profile) (ri_run_id identity) completed kind) (\<lambda>failed.
              case failed of
                Some r \<Rightarrow> bindS (close_contextW ports) (\<lambda>_. returnS r)
              | None \<Rightarrow>
                  bindS (throw_if_cancelled_during_cleanup ports) (\<lambda>_.
                  bindS (liftW (record_success_ledger_warning ports loaded identity today (length (plan_sources plan)))) (\<lambda>ledger_warnings.
                  bindS (liftW (record_terminal_status_warning ports profile identity)) (\<lambda>status_warnings.
                  bindS (close_contextW ports) (\<lambda>_.
                    returnS (BackupExecutionCompleted plan completed
                      (storage_warnings @ ledger_warnings @ status_warnings))))))))
        | BackupRunExecutionFailed code message completed \<Rightarrow>
            bindS (record_target_storage ports profile) (\<lambda>_.
            bindS (close_contextW ports) (\<lambda>_.
              returnS (BackupExecutionFailed (profile_id profile) (ri_run_id identity) code message completed)))
        | BackupRunExecutionCancelled completed \<Rightarrow>
            bindS (record_target_storage ports profile) (\<lambda>_.
            bindS (close_contextW ports) (\<lambda>_.
              returnS (BackupExecutionCancelled plan completed)))))"

definition prepare_target_and_plan ::
  "('w, 'z) ServicePorts_scheme \<Rightarrow> Profile \<Rightarrow> RunIdentity \<Rightarrow> ('w service_world, BackupRunPlan) io" where
  "prepare_target_and_plan ports profile identity =
     bindS (liftW (preflight_run ports profile MountIfNeeded)) (\<lambda>verified.
     bindS (on_context (\<lambda>c. returnS (attach_verified_target verified c))) (\<lambda>_.
     bindS (pollW ports) (\<lambda>requested.
       if requested then throwS (OperationCancelledError ''backup cancelled during preflight'')
       else
         bindS (liftW (discover_target ports profile)) (\<lambda>snapshot.
         bindS (liftW (build_plan ports profile snapshot (ri_run_id identity) (ri_started_at identity))) (\<lambda>plan.
         bindS (pollW ports) (\<lambda>requested.
           if requested then throwS (OperationCancelledError ''backup cancelled during planning'')
           else returnS plan))))))"

definition finish_failed_run :: "('w, 'z) ServicePorts_scheme \<Rightarrow> Profile \<Rightarrow> ('w service_world, unit) io" where
  \<comment> \<open>\<open>if (context != nullptr)\<close> at the end of the catch clauses\<close>
  "finish_failed_run ports profile =
     bindS (getsS (\<lambda>s. fst (world s))) (\<lambda>present.
       case present of
         None \<Rightarrow> returnS ()
       | Some c \<Rightarrow>
           bindS (record_target_storage ports profile) (\<lambda>_. close_contextW ports))"

definition empty_plan :: "Profile \<Rightarrow> RunId \<Rightarrow> BackupRunPlan" where
  "empty_plan profile run =
     \<lparr> plan_profile_id = profile_id profile, plan_run_id = run,
       target_mount_point = mount_point (target profile), plan_sources = [] \<rparr>"

definition handle_run_exception ::
  "('w, 'z) ServicePorts_scheme \<Rightarrow> Profile \<Rightarrow> RunIdentity \<Rightarrow> OperationKind \<Rightarrow> exn
   \<Rightarrow> ('w service_world, BackupExecutionResult) io" where
  \<comment> \<open>the catch clauses of \<open>start_loaded_profile\<close>\<close>
  "handle_run_exception ports profile identity kind error =
     (if is_OperationCancelledError error
      then bindS (emitW ports (RunCancelled (profile_id profile) (ri_run_id identity) None 0 None
                    (Some RunnerCancelled) (what error) kind)) (\<lambda>_.
           bindS (finish_failed_run ports profile) (\<lambda>_.
             returnS (BackupExecutionCancelled (empty_plan profile (ri_run_id identity)) 0)))
      else if is_BtrfsBackupError error
      then bindS (liftW (emit_run_failed ports (profile_id profile) (ri_run_id identity)
                    (failure_code error) (what error) 0 kind)) (\<lambda>failed.
           bindS (finish_failed_run ports profile) (\<lambda>_. returnS failed))
      else if is_std_exception error
      then bindS (liftW (emit_run_failed ports (profile_id profile) (ri_run_id identity)
                    BackupFailed (what error) 0 kind)) (\<lambda>_.
           bindS (finish_failed_run ports profile) (\<lambda>_. throwS error))
      else throwS error)"

definition run_loaded_profile ::
  "('w, 'z) ServicePorts_scheme \<Rightarrow> BackupRequest \<Rightarrow> RunIdentity \<Rightarrow> OperationKind \<Rightarrow> LoadedProfile
   \<Rightarrow> ('w service_world, BackupExecutionResult) io" where
  \<comment> \<open>the \<open>try\<close> block of \<open>start_loaded_profile\<close>\<close>
  "run_loaded_profile ports request identity kind loaded =
     (let profile = lp_profile loaded in
      bindS (liftW (acquire_run_lease ports profile identity kind)) (\<lambda>busy.
        case busy of
          Some r \<Rightarrow> returnS r
        | None \<Rightarrow>
            bindS (liftW (create_context ports (profile_id profile) (ri_run_id identity))) (\<lambda>c.
            bindS (set_contextS (attach_event_sink c)) (\<lambda>_.
            bindS (emitW ports (RunStarted (profile_id profile) (ri_run_id identity) kind)) (\<lambda>_.
            bindS (prepare_target_and_plan ports profile identity) (\<lambda>plan.
            bindS (finish_validation_if_requested ports request profile identity kind plan) (\<lambda>validation.
              case validation of
                Some r \<Rightarrow> returnS r
              | None \<Rightarrow>
                  bindS (liftW (callS (Service LocalDateToday) (sp_local_date ports))) (\<lambda>today.
                  bindS (skip_if_daily_limit_reached ports request loaded identity today kind plan) (\<lambda>skipped.
                    case skipped of
                      Some r \<Rightarrow> returnS r
                    | None \<Rightarrow> service_execute_plan ports loaded identity today kind plan)))))))))"

definition destroy_context :: "('w, 'z) ServicePorts_scheme \<Rightarrow> ('w service_world, unit) io" where
  \<comment> \<open>the destructor of the pointer to the context\<close>
  "destroy_context ports =
     bindS (getsS (\<lambda>s. fst (world s))) (\<lambda>present.
       case present of None \<Rightarrow> returnS () | Some c \<Rightarrow> close_contextW ports)"

definition start_loaded_profile ::
  "('w, 'z) ServicePorts_scheme \<Rightarrow> BackupRequest \<Rightarrow> RunIdentity \<Rightarrow> OperationKind \<Rightarrow> LoadedProfile
   \<Rightarrow> ('w service_world, BackupExecutionResult) io" where
  "start_loaded_profile ports request identity kind loaded =
     bindS (catchS
        (catchS (run_loaded_profile ports request identity kind loaded)
           (handle_run_exception ports (lp_profile loaded) identity kind))
        (\<lambda>e. bindS (destroy_context ports) (\<lambda>_. throwS e))) (\<lambda>r.
     bindS (destroy_context ports) (\<lambda>_. returnS r))"

definition service_start ::
  "('w, 'z) ServicePorts_scheme \<Rightarrow> BackupRequest \<Rightarrow> ('w service_world, BackupExecutionResult) io" where
  \<comment> \<open>\<open>BackupService::start\<close>, in a world without a context\<close>
  "service_start ports request =
     bindS (liftW (clock_now ports)) (\<lambda>started_at.
     bindS (liftW (callS (Service GenerateRunId) (sp_generate_run_id ports started_at))) (\<lambda>run.
       let identity = \<lparr> ri_run_id = run, ri_started_at = started_at \<rparr>;
           kind = (if rq_validate_only request then TargetValidation else Backup)
       in bindS (catchS
            (bindS (liftW (callS (Service (GetProfile (rq_profile_id request)))
                (sp_get_profile ports (rq_profile_id request)))) (\<lambda>loaded. returnS (Inr loaded)))
            (\<lambda>error.
               if is_BtrfsBackupError error
               then bindS (liftW (session_fallback_events ports (rq_profile_id request) identity)) (\<lambda>_.
                    bindS (liftW (emit_run_failed ports (rq_profile_id request) run (failure_code error)
                             (what error) 0 kind)) (\<lambda>failed. returnS (Inl failed)))
               else throwS error)) (\<lambda>profile_result.
          case profile_result of
            Inl failed \<Rightarrow> returnS failed
          | Inr loaded \<Rightarrow>
              bindS (liftW (session_events ports loaded identity)) (\<lambda>_.
                start_loaded_profile ports request identity kind loaded))))"

section \<open>Cancelling a run\<close>

definition service_cancel :: "('w, 'z) ServicePorts_scheme \<Rightarrow> CancellationRequest \<Rightarrow> ('w, CancelBackupResult) io" where
  "service_cancel ports request =
     bindS (callS (Service (GetProfile (cr_profile_id request))) (sp_get_profile ports (cr_profile_id request))) (\<lambda>loaded.
       let profile = profile_id (lp_profile loaded); run = cr_run_id request
       in bindS (session_request_cancel ports (lp_profile loaded) \<lparr> cr_profile_id = profile, cr_run_id = run \<rparr>) (\<lambda>outcome.
          returnS (case outcome of
              Accepted \<Rightarrow> CancellationAccepted profile run
            | StaleRun \<Rightarrow> CancellationStaleRun profile run
            | RunMismatch \<Rightarrow> CancellationRunMismatch profile run)))"

end
