(* ===== verification/ServiceLaws.thy ===== *)
theory ServiceLaws
  imports BackupServiceModel
begin

text \<open>
  What the service guarantees around a run: the context is closed on every way out and releases
  everything it holds exactly once, a prepared target is closed, one terminal event is reported, and
  success is recorded only for a run that completed.
\<close>

section \<open>The trace logic for steps with a context\<close>

lemma traceS_liftW: "traceS m R \<Longrightarrow> traceS (liftW m) R"
  unfolding traceS_def liftW_def
  by (auto split: prod.splits) (metis fst_conv run_state.select_convs(1) snd_conv)

lemma traceS_contextS: "(\<And>c. R (Inr c) []) \<Longrightarrow> traceS contextS R"
  by (simp add: traceS_def contextS_def)

lemma traceS_set_contextS: "R (Inr ()) [] \<Longrightarrow> traceS (set_contextS c) R"
  by (simp add: traceS_def set_contextS_def)

lemma traceS_gets: "(\<And>x. R (Inr x) []) \<Longrightarrow> traceS (getsS f) R"
  by (simp add: traceS_def getsS_def)

lemmas service_calls = emitW_def pollW_def clock_now_def close_target_def release_lease_def
  discover_target_def try_acquire_lease_def session_events_def session_fallback_events_def port_calls

section \<open>Closing the context\<close>

definition close_calls :: "RunExecutionContext \<Rightarrow> RunCall list" where
  \<comment> \<open>the calls of \<open>close ()\<close>\<close>
  "close_calls c =
     (if cx_closed c then []
      else map Service (
        (if cx_cancellation_watch c then [CloseCancellationWatch] else [])
        @ (if cx_active_run c then [CloseActiveRun] else [])
        @ [ClearCancelRequest (cx_request c)]
        @ (if cx_target_session c \<and> \<not> cx_target_close_attempted c then [CloseTarget] else [])
        @ (if cx_lease c then [ReleaseLease] else [])))"

definition released :: "RunExecutionContext \<Rightarrow> bool" where
  \<comment> \<open>closed, and nothing is held any more\<close>
  "released c \<longleftrightarrow> cx_closed c \<and> \<not> cx_cancellation_watch c \<and> \<not> cx_active_run c \<and> \<not> cx_checkpoints c
     \<and> \<not> cx_events c \<and> \<not> cx_lease c \<and> \<not> cx_target_session c"

definition context_wf :: "RunExecutionContext \<Rightarrow> bool" where
  \<comment> \<open>a closed context is released, and a session is not held after it was closed\<close>
  "context_wf c \<longleftrightarrow> (cx_closed c \<longrightarrow> released c) \<and> (cx_target_close_attempted c \<longrightarrow> \<not> cx_target_session c)"

definition held :: "RunExecutionContext \<Rightarrow> bool list \<times> CancellationRequest" where
  \<comment> \<open>what a context holds, without its diagnostics\<close>
  "held c = ([cx_closed c, cx_active_run c, cx_cancellation_watch c, cx_checkpoints c, cx_events c, cx_lease c,
     cx_target_session c, cx_target_close_attempted c], cx_request c)"

lemmas held_simps = held_def cx_request_def record_close_failure_def

lemma close_calls_held: "held c = held d \<Longrightarrow> close_calls c = close_calls d"
  by (simp add: held_def close_calls_def)

lemma traceS_close_watch:
  "traceS (close_cancellation_watch ports c) (\<lambda>r cs.
     cs = (if cx_cancellation_watch c then [Service CloseCancellationWatch] else [])
     \<and> (\<exists>c'. r = Inr c' \<and> held c' = held (c\<lparr> cx_cancellation_watch := False \<rparr>)))"
  unfolding close_cancellation_watch_def
  by (auto intro!: traceS_bind traceS_catch traceS_call traceS_return simp: held_simps split: sum.split option.split)

lemma traceS_close_active:
  "traceS (close_active_run ports c) (\<lambda>r cs.
     cs = (if cx_active_run c then [Service CloseActiveRun] else [])
     \<and> (\<exists>c'. r = Inr c' \<and> held c' = held (c\<lparr> cx_active_run := False \<rparr>)))"
  unfolding close_active_run_def
  by (auto intro!: traceS_bind traceS_catch traceS_call traceS_return simp: held_simps split: sum.split option.split)

lemma traceS_clear_request:
  "traceS (clear_cancellation_request ports c) (\<lambda>r cs.
     cs = [Service (ClearCancelRequest (cx_request c))] \<and> (\<exists>c'. r = Inr c' \<and> held c' = held c))"
  unfolding clear_cancellation_request_def
  by (auto intro!: traceS_bind traceS_catch traceS_call traceS_return simp: held_simps split: sum.split)

lemma traceS_close_target: "(\<And>e. R (Inr e) [Service CloseTarget]) \<Longrightarrow> traceS (close_target ports) R"
  by (auto simp: close_target_def traceS_def callS_def split: prod.splits)

lemma traceS_release_lease: "R (Inr ()) [Service ReleaseLease] \<Longrightarrow> traceS (release_lease ports) R"
  by (simp add: release_lease_def traceS_def callS_def)

definition session_closed :: "RunExecutionContext \<Rightarrow> RunExecutionContext" where
  "session_closed c = (if cx_target_close_attempted c then c
     else c\<lparr> cx_target_close_attempted := True, cx_target_session := False \<rparr>)"

lemma traceS_close_session:
  "traceS (close_target_session ports c) (\<lambda>r cs.
     cs = (if cx_target_session c \<and> \<not> cx_target_close_attempted c then [Service CloseTarget] else [])
     \<and> (\<exists>c'. r = Inr c' \<and> held c' = held (session_closed c)))"
  unfolding close_target_session_def session_closed_def Let_def
  by (auto intro!: traceS_bind traceS_close_target traceS_return simp: held_simps split: sum.split)

lemma traceS_collect_session:
  "traceS (collect_target_session_failure ports c) (\<lambda>r cs.
     cs = (if cx_target_session c \<and> \<not> cx_target_close_attempted c then [Service CloseTarget] else [])
     \<and> (\<exists>c'. r = Inr c' \<and> held c' = held (session_closed c)))"
  unfolding collect_target_session_failure_def
  by (auto intro!: traceS_bind traceS_mono [OF traceS_close_session] traceS_return simp: held_simps
      split: sum.split option.split)

lemma traceS_close_context:
  assumes "context_wf c"
  shows "traceS (close_context ports c) (\<lambda>r cs. cs = close_calls c \<and> (\<exists>c'. r = Inr c' \<and> released c'
     \<and> (cx_closed c \<longrightarrow> c' = c)))"
proof (cases "cx_closed c")
  case True
  then show ?thesis
    using assms by (auto simp: close_context_def close_calls_def context_wf_def intro: traceS_return)
next
  case False
  show ?thesis
    using assms False
    unfolding close_context_def release_context_lease_def close_calls_def released_def context_wf_def
    by (auto intro!: traceS_bind traceS_mono [OF traceS_close_watch] traceS_mono [OF traceS_close_active]
        traceS_mono [OF traceS_clear_request] traceS_mono [OF traceS_collect_session] traceS_release_lease traceS_return
        simp: held_def session_closed_def cx_request_def split: sum.split if_splits)
qed

section \<open>The context survives every way out\<close>

abbreviation contextOf :: "'w service_world run_state \<Rightarrow> RunExecutionContext option" where
  "contextOf s \<equiv> fst (world s)"

definition keeps :: "(RunExecutionContext option \<Rightarrow> bool) \<Rightarrow> ('w service_world, 'a) io \<Rightarrow> bool" where
  \<comment> \<open>a step keeps a property of the context, whether it returns or throws\<close>
  "keeps P m \<longleftrightarrow> hoareS (\<lambda>s. P (contextOf s)) m (\<lambda>_ s. P (contextOf s)) (\<lambda>_ s. P (contextOf s))"

lemma keeps_return: "keeps P (returnS x)"
  by (simp add: keeps_def hoareS_def run_simps)

lemma keeps_throw: "keeps P (throwS e)"
  by (simp add: keeps_def hoareS_def run_simps)

lemma keeps_liftW: "keeps P (liftW m)"
  by (auto simp: keeps_def hoareS_def liftW_def split: prod.splits sum.splits)

lemma keeps_gets: "keeps P (getsS f)"
  by (simp add: keeps_def hoareS_def run_simps)

lemma keeps_contextS: "keeps P contextS"
  by (simp add: keeps_def hoareS_def contextS_def)

lemma keeps_bind: "keeps P m \<Longrightarrow> (\<And>x. keeps P (f x)) \<Longrightarrow> keeps P (bindS m f)"
  unfolding keeps_def by (rule hoareS_bind)

lemma keeps_catch: "keeps P m \<Longrightarrow> (\<And>e. keeps P (h e)) \<Longrightarrow> keeps P (catchS m h)"
  unfolding keeps_def by (rule hoareS_catch)

lemma hoareS_on_context:
  fixes f :: "RunExecutionContext \<Rightarrow> ('w, RunExecutionContext) io"
  assumes "\<And>c s r t. P (Some c) \<Longrightarrow> f c s = (r, t) \<Longrightarrow> \<exists>c'. r = Inr c' \<and> Q (Some c')"
  shows "hoareS (\<lambda>s. contextOf s \<noteq> None \<and> P (contextOf s)) (on_context f) (\<lambda>_ s. Q (contextOf s)) (\<lambda>_ s. E (contextOf s))"
  unfolding hoareS_def
proof (intro allI impI)
  fix s :: "'w service_world run_state"
  assume "contextOf s \<noteq> None \<and> P (contextOf s)"
  then obtain c where c: "contextOf s = Some c" "P (Some c)" by auto
  obtain r t where f: "f c \<lparr> trace = trace s, world = snd (world s) \<rparr> = (r, t)"
    by (rule prod.exhaust)
  then obtain c' where "r = Inr c'" "Q (Some c')"
    using assms c(2) by blast
  then show "case on_context f s of (Inl e, s') \<Rightarrow> E (contextOf s') | (Inr x, s') \<Rightarrow> Q (contextOf s')"
    using c f by (simp add: on_context_def bindS_def contextS_def liftW_def set_contextS_def)
qed

definition wf_context :: "RunExecutionContext option \<Rightarrow> bool" where
  "wf_context present \<longleftrightarrow> (\<exists>c. present = Some c \<and> context_wf c)"

lemma close_context_released:
  "context_wf c \<Longrightarrow> close_context ports c s = (r, t) \<Longrightarrow> \<exists>c'. r = Inr c' \<and> released c'"
  using traceS_D [OF traceS_close_context] by blast

lemma close_session_wf:
  assumes "context_wf c" and "close_target_session ports c s = (r, t)"
  shows "\<exists>c'. r = Inr c' \<and> context_wf c'"
proof -
  obtain c' where "r = Inr c'" "held c' = held (session_closed c)"
    using traceS_D [OF traceS_close_session assms(2)] by blast
  then show ?thesis
    using assms(1) by (auto simp: held_def session_closed_def context_wf_def released_def split: if_splits)
qed

lemma released_wf: "released c \<Longrightarrow> context_wf c"
  by (simp add: context_wf_def released_def)

lemma keeps_wf_on_context:
  assumes "\<And>c s r t. context_wf c \<Longrightarrow> f c s = (r, t) \<Longrightarrow> \<exists>c'. r = Inr c' \<and> context_wf c'"
  shows "keeps wf_context (on_context f)"
  unfolding keeps_def
  by (rule hoareS_weaken [OF hoareS_on_context [where P = wf_context and Q = wf_context and E = wf_context]])
    (auto simp: wf_context_def dest: assms)

lemma keeps_wf_close: "keeps wf_context (close_contextW ports)"
  unfolding close_contextW_def
  by (rule keeps_wf_on_context) (blast dest: close_context_released intro: released_wf)

lemma keeps_wf_close_session: "keeps wf_context (on_context (close_target_session ports))"
  by (rule keeps_wf_on_context) (rule close_session_wf)

lemma keeps_any: "keeps wf_context m \<Longrightarrow> keeps (\<lambda>c. c = None) m \<Longrightarrow> keeps (\<lambda>c. c = None \<or> wf_context c) m"
  unfolding keeps_def hoareS_def by (fastforce split: prod.splits sum.splits)

lemmas keeps_rules = keeps_return keeps_throw keeps_liftW keeps_gets keeps_contextS keeps_bind keeps_catch
  keeps_wf_close keeps_wf_close_session

lemma keeps_wf_steps:
  "keeps wf_context (record_target_storage ports profile)"
  "keeps wf_context (close_target_or_fail ports pid rid n kind)"
  "keeps wf_context (throw_if_cancelled_during_cleanup ports)"
  unfolding record_target_storage_def close_target_or_fail_def throw_if_cancelled_during_cleanup_def pollW_def
  by (auto intro!: keeps_rules split: option.split)

lemma keeps_wf_parts:
  "keeps wf_context (finish_validation_if_requested ports request profile identity kind plan)"
  "keeps wf_context (skip_if_daily_limit_reached ports request loaded identity today kind plan)"
  "keeps wf_context (service_execute_plan ports loaded identity today kind plan)"
  unfolding finish_validation_if_requested_def skip_if_daily_limit_reached_def service_execute_plan_def
    emitW_def Let_def
  by (auto intro!: keeps_rules keeps_wf_steps split: option.split BackupRunExecutionResult.split)

definition fresh :: "RunExecutionContext \<Rightarrow> bool" where
  "fresh c \<longleftrightarrow> \<not> cx_closed c \<and> \<not> cx_target_close_attempted c"

lemma fresh_wf: "fresh c \<Longrightarrow> context_wf c"
  by (simp add: fresh_def context_wf_def)

definition fresh_context :: "RunExecutionContext option \<Rightarrow> bool" where
  "fresh_context present \<longleftrightarrow> (\<exists>c. present = Some c \<and> fresh c)"

abbreviation known :: "RunExecutionContext option \<Rightarrow> bool" where
  "known present \<equiv> present = None \<or> wf_context present"

lemma fresh_known: "fresh_context c \<Longrightarrow> wf_context c"
  by (auto simp: fresh_context_def wf_context_def fresh_wf)

lemma create_context_fresh: "traceS (create_context ports pid rid) (\<lambda>r cs. case r of Inr c \<Rightarrow> fresh c | Inl e \<Rightarrow> True)"
  unfolding create_context_def Let_def service_calls
  by (auto intro!: traceS_bind traceS_catch traceS_call traceS_return traceS_throw simp: fresh_def split: sum.split)

lemma hoareS_liftW:
  assumes "traceS m (\<lambda>r cs. case r of Inr x \<Rightarrow> Q x | Inl e \<Rightarrow> True)"
  shows "hoareS (\<lambda>s. P (contextOf s)) (liftW m) (\<lambda>x s. P (contextOf s) \<and> Q x) (\<lambda>e s. P (contextOf s))"
proof (rule hoareS_I)
  fix s x t
  assume p: "P (contextOf s)" and "liftW m s = (Inr x, t)"
  then obtain u where u: "m \<lparr> trace = trace s, world = snd (world s) \<rparr> = (Inr x, u)" "contextOf t = contextOf s"
    by (auto simp: liftW_def split: prod.splits)
  show "P (contextOf t) \<and> Q x"
    using p traceS_D [OF assms u(1)] u(2) by auto
qed (auto simp: liftW_def split: prod.splits)

lemma hoareS_set_context: "hoareS (\<lambda>s. P (Some c)) (set_contextS c) (\<lambda>_ s. P (contextOf s)) E"
  by (simp add: hoareS_def set_contextS_def)

lemma prepare_target_wf:
  "hoareS (\<lambda>s. fresh_context (contextOf s)) (prepare_target_and_plan ports profile identity)
     (\<lambda>_ s. wf_context (contextOf s)) (\<lambda>_ s. wf_context (contextOf s))"
proof -
  have pre: "hoareS (\<lambda>s. fresh_context (contextOf s)) (liftW (preflight_run ports profile MountIfNeeded))
      (\<lambda>x s. fresh_context (contextOf s)) (\<lambda>e s. wf_context (contextOf s))"
    using keeps_liftW [of fresh_context] unfolding keeps_def
    by (rule hoareS_weaken) (auto dest: fresh_known)
  have attach: "hoareS (\<lambda>s. fresh_context (contextOf s)) (on_context (\<lambda>c. returnS (attach_verified_target verified c)))
      (\<lambda>_ s. wf_context (contextOf s)) (\<lambda>_ s. wf_context (contextOf s))" for verified
    by (rule hoareS_weaken [OF hoareS_on_context [where P = fresh_context and Q = wf_context and E = wf_context]])
      (auto simp: returnS_def fresh_context_def wf_context_def context_wf_def fresh_def attach_verified_target_def)
  show ?thesis
    unfolding prepare_target_and_plan_def
    by (rule hoareS_bind [OF pre], rule hoareS_bind [OF attach], unfold keeps_def [symmetric] pollW_def)
      (auto intro!: keeps_rules)
qed

lemma keeps_weaken:
  "keeps P m \<Longrightarrow> (\<And>c. P c \<Longrightarrow> Q c) \<Longrightarrow> hoareS (\<lambda>s. P (contextOf s)) m (\<lambda>_ s. Q (contextOf s)) (\<lambda>_ s. Q (contextOf s))"
  unfolding keeps_def by (erule hoareS_weaken) auto

lemma keeps_known: "keeps wf_context m \<Longrightarrow>
   hoareS (\<lambda>s. wf_context (contextOf s)) m (\<lambda>_ s. known (contextOf s)) (\<lambda>_ s. known (contextOf s))"
  by (erule keeps_weaken) auto

lemma hoareS_lift_none:
  "hoareS (\<lambda>s. contextOf s = None) (liftW m) (\<lambda>_ s. contextOf s = None) (\<lambda>_ s. known (contextOf s))"
  using keeps_liftW [of "\<lambda>present. present = None" m] unfolding keeps_def by (rule hoareS_weaken) auto

lemma hoareS_create_context:
  "hoareS (\<lambda>s. contextOf s = None) (liftW (create_context ports pid rid))
     (\<lambda>c s. contextOf s = None \<and> fresh c) (\<lambda>_ s. known (contextOf s))"
  by (rule hoareS_weaken [OF hoareS_liftW [where P = "\<lambda>present. present = None", OF create_context_fresh]]) auto

lemma hoareS_attach_sink:
  "hoareS (\<lambda>s. contextOf s = None \<and> fresh c) (set_contextS (attach_event_sink c))
     (\<lambda>_ s. fresh_context (contextOf s)) (\<lambda>_ s. known (contextOf s))"
  by (rule hoareS_weaken [OF hoareS_set_context [where P = fresh_context]])
    (auto simp: fresh_context_def fresh_def attach_event_sink_def)

lemma hoareS_emit_fresh:
  "hoareS (\<lambda>s. fresh_context (contextOf s)) (emitW ports e)
     (\<lambda>_ s. fresh_context (contextOf s)) (\<lambda>_ s. known (contextOf s))"
  using keeps_liftW [of fresh_context] unfolding keeps_def emitW_def
  by (rule hoareS_weaken) (auto dest: fresh_known)

lemma hoareS_prepared:
  "hoareS (\<lambda>s. fresh_context (contextOf s)) (prepare_target_and_plan ports profile identity)
     (\<lambda>_ s. wf_context (contextOf s)) (\<lambda>_ s. known (contextOf s))"
  by (rule hoareS_weaken [OF prepare_target_wf]) auto

lemma hoareS_return_known: "(\<And>s. P s \<Longrightarrow> known (contextOf s)) \<Longrightarrow> hoareS P (returnS x) (\<lambda>_ s. known (contextOf s)) E"
  by (simp add: hoareS_def run_simps)

lemma run_loaded_profile_known:
  "hoareS (\<lambda>s. contextOf s = None) (run_loaded_profile ports request identity kind loaded)
     (\<lambda>_ s. known (contextOf s)) (\<lambda>_ s. known (contextOf s))"
proof -
  have decided: "keeps wf_context (bindS (finish_validation_if_requested ports request (lp_profile loaded) identity kind plan)
      (\<lambda>validation. case validation of Some r \<Rightarrow> returnS r
        | None \<Rightarrow> bindS (liftW (callS (Service LocalDateToday) (sp_local_date ports))) (\<lambda>today.
            bindS (skip_if_daily_limit_reached ports request loaded identity today kind plan) (\<lambda>skipped.
              case skipped of Some r \<Rightarrow> returnS r
              | None \<Rightarrow> service_execute_plan ports loaded identity today kind plan))))" for plan
    by (auto intro!: keeps_rules keeps_wf_parts split: option.split)
  have created: "hoareS (\<lambda>s. contextOf s = None)
      (bindS (liftW (create_context ports (profile_id (lp_profile loaded)) (ri_run_id identity))) (\<lambda>c.
       bindS (set_contextS (attach_event_sink c)) (\<lambda>_.
       bindS (emitW ports (RunStarted (profile_id (lp_profile loaded)) (ri_run_id identity) kind)) (\<lambda>_.
       bindS (prepare_target_and_plan ports (lp_profile loaded) identity) (\<lambda>plan.
       bindS (finish_validation_if_requested ports request (lp_profile loaded) identity kind plan)
      (\<lambda>validation. case validation of Some r \<Rightarrow> returnS r
        | None \<Rightarrow> bindS (liftW (callS (Service LocalDateToday) (sp_local_date ports))) (\<lambda>today.
            bindS (skip_if_daily_limit_reached ports request loaded identity today kind plan) (\<lambda>skipped.
              case skipped of Some r \<Rightarrow> returnS r
              | None \<Rightarrow> service_execute_plan ports loaded identity today kind plan))))))))
      (\<lambda>_ s. known (contextOf s)) (\<lambda>_ s. known (contextOf s))"
    by (rule hoareS_bind [OF hoareS_create_context], rule hoareS_bind [OF hoareS_attach_sink],
        rule hoareS_bind [OF hoareS_emit_fresh], rule hoareS_bind [OF hoareS_prepared], rule keeps_known [OF decided])
  show ?thesis
    unfolding run_loaded_profile_def Let_def
  proof (rule hoareS_bind [OF hoareS_lift_none], goal_cases)
    case (1 busy)
    then show ?case using created by (cases busy) (auto intro: hoareS_return_known)
  qed
qed

lemma keeps_if_context:
  fixes m :: "('w service_world, unit) io"
  assumes "keeps wf_context m"
  shows "keeps known (bindS (getsS (\<lambda>s. fst (world s))) (\<lambda>present. case present of None \<Rightarrow> returnS () | Some c \<Rightarrow> m))"
  unfolding keeps_def
proof (rule hoareS_I)
  fix s t x and e
  assume k: "known (contextOf (s :: 'w service_world run_state))"
  note m = assms [unfolded keeps_def]
  show "known (contextOf t)"
    if "bindS (getsS (\<lambda>s. fst (world s))) (\<lambda>present. case present of None \<Rightarrow> returnS () | Some c \<Rightarrow> m) s = (Inr x, t)"
    using that k hoareS_Inr [OF m, of s x t]
    by (cases "contextOf s") (auto simp: bindS_def getsS_def returnS_def)
  show "known (contextOf t)"
    if "bindS (getsS (\<lambda>s. fst (world s))) (\<lambda>present. case present of None \<Rightarrow> returnS () | Some c \<Rightarrow> m) s = (Inl e, t)"
    using that k hoareS_Inl [OF m, of s e t]
    by (cases "contextOf s") (auto simp: bindS_def getsS_def returnS_def)
qed

lemma handle_run_exception_known: "keeps known (handle_run_exception ports profile identity kind e)"
proof -
  have "keeps known (finish_failed_run ports profile)"
    unfolding finish_failed_run_def by (rule keeps_if_context) (auto intro!: keeps_rules keeps_wf_steps)
  then show ?thesis
    unfolding handle_run_exception_def emitW_def
    by (auto intro!: keeps_return keeps_throw keeps_liftW keeps_bind)
qed

abbreviation settled :: "RunExecutionContext option \<Rightarrow> bool" where
  "settled present \<equiv> present = None \<or> (\<exists>c. present = Some c \<and> released c)"

lemma settled_known: "released c \<Longrightarrow> wf_context (Some c)"
  by (simp add: wf_context_def released_wf)

lemma destroy_context_settled:
  fixes ports :: "('w, 'z) ServicePorts_scheme"
  shows "hoareS (\<lambda>s. known (contextOf s)) (destroy_context ports) (\<lambda>_ s. settled (contextOf s)) (\<lambda>_ s. settled (contextOf s))"
proof (rule hoareS_I)
  have close: "hoareS (\<lambda>s. contextOf s \<noteq> None \<and> wf_context (contextOf s)) (close_contextW ports)
      (\<lambda>_ s. settled (contextOf s)) (\<lambda>_ s. settled (contextOf s))"
    unfolding close_contextW_def
    by (rule hoareS_on_context) (auto simp: wf_context_def dest: close_context_released)
  fix s t :: "'w service_world run_state" and x e
  assume k: "known (contextOf s)"
  show "settled (contextOf t)" if "destroy_context ports s = (Inr x, t)"
    using that k hoareS_Inr [OF close, of s x t]
    by (cases "contextOf s") (auto simp: destroy_context_def bindS_def getsS_def returnS_def wf_context_def)
  show "settled (contextOf t)" if "destroy_context ports s = (Inl e, t)"
    using that k hoareS_Inl [OF close, of s e t]
    by (cases "contextOf s") (auto simp: destroy_context_def bindS_def getsS_def returnS_def wf_context_def)
qed

lemma start_loaded_profile_settled:
  "hoareS (\<lambda>s. contextOf s = None) (start_loaded_profile ports request identity kind loaded)
     (\<lambda>_ s. settled (contextOf s)) (\<lambda>_ s. settled (contextOf s))"
proof -
  have body: "hoareS (\<lambda>s. contextOf s = None)
      (catchS (run_loaded_profile ports request identity kind loaded)
         (handle_run_exception ports (lp_profile loaded) identity kind))
      (\<lambda>_ s. known (contextOf s)) (\<lambda>_ s. known (contextOf s))"
    by (rule hoareS_catch [OF run_loaded_profile_known])
      (use handle_run_exception_known in \<open>simp add: keeps_def\<close>)
  have leave: "hoareS (\<lambda>s. known (contextOf s)) (bindS (destroy_context ports) (\<lambda>_. m))
      (\<lambda>_ s. settled (contextOf s)) (\<lambda>_ s. settled (contextOf s))"
    if "\<And>P. keeps P m" for m :: "('a service_world, BackupExecutionResult) io"
    by (rule hoareS_bind [OF destroy_context_settled]) (use that in \<open>simp add: keeps_def\<close>)
  show ?thesis
    unfolding start_loaded_profile_def
    by (rule hoareS_bind [where R = "\<lambda>_ s. known (contextOf s)"], rule hoareS_catch [OF body],
        rule hoareS_weaken [OF leave [OF keeps_throw]])
      (auto intro: leave keeps_return settled_known)
qed

lemma settled_liftW:
  "hoareS (\<lambda>s. contextOf s = None) (liftW m) (\<lambda>_ s. contextOf s = None) (\<lambda>_ s. settled (contextOf s))"
  using keeps_liftW [of "\<lambda>present. present = None" m] unfolding keeps_def by (rule hoareS_weaken) auto

lemma settled_return: "hoareS (\<lambda>s. contextOf s = None) (returnS x) (\<lambda>_ s. settled (contextOf s)) E"
  by (simp add: hoareS_def run_simps)

lemma start_profile_none:
  "keeps P (catchS (bindS (liftW m) (\<lambda>loaded. returnS (Inr loaded)))
     (\<lambda>error. if is_BtrfsBackupError error
        then bindS (liftW (a error)) (\<lambda>_. bindS (liftW (b error)) (\<lambda>failed. returnS (Inl failed))) else throwS error))"
  by (auto intro!: keeps_rules)

text \<open>
  Property C24: nothing stays behind. Starting a run, whatever it does and however it ends, with a
  result or with an exception, leaves either no context or one that has been closed: the
  cancellation watch, the registration of the run, the checkpoint store, the event sink, the target
  session and the lease have all been given up.
\<close>

theorem service_start_releases:
  "case service_start ports request \<lparr> trace = tr, world = (None, w) \<rparr> of
     (r, t) \<Rightarrow> settled (fst (world t))"
proof -
  have "hoareS (\<lambda>s. contextOf s = None) (service_start ports request)
      (\<lambda>_ s. settled (contextOf s)) (\<lambda>_ s. settled (contextOf s))"
    unfolding service_start_def Let_def
    by (rule hoareS_bind [OF settled_liftW], rule hoareS_bind [OF settled_liftW],
        rule hoareS_bind [where R = "\<lambda>_ s. contextOf s = None"],
        rule hoareS_weaken [OF start_profile_none [where P = "\<lambda>present. present = None", unfolded keeps_def]])
      (auto split: sum.split intro!: hoareS_bind [OF settled_liftW] start_loaded_profile_settled
        simp: settled_return)
  then show ?thesis
    unfolding hoareS_def by (force split: prod.splits sum.splits)
qed

end
