(* ===== verification/ServiceEvents.thy ===== *)
theory ServiceEvents
  imports ServiceLaws
begin

text \<open>
  What the service reports and records about a run: one terminal event that agrees with the result,
  success in the ledger only after the whole plan was executed and the target was closed, no change
  of the repository by a validation, and the fate of the target session in the preflight.
\<close>

section \<open>Calls of the parts\<close>

abbreviation ends :: "RunCall list \<Rightarrow> RunCall list" where
  "ends cs \<equiv> filter ends_run cs"

fun writes_success :: "RunCall \<Rightarrow> bool" where
  "writes_success (Service (WriteSuccess r n)) = True"
| "writes_success c = False"

fun changes_repository :: "RunCall \<Rightarrow> bool" where
  "changes_repository (Repository c) = True"
| "changes_repository c = False"

fun quiet :: "RunCall \<Rightarrow> bool" where
  \<comment> \<open>neither a report, nor a record of success, nor work on the repository\<close>
  "quiet (Emit e) = False"
| "quiet (WriteCheckpoint c) = False"
| "quiet (Polled b) = True"
| "quiet (Repository c) = False"
| "quiet (Service c) = (case c of WriteSuccess r n \<Rightarrow> False | _ \<Rightarrow> True)"

lemma quiet_facts:
  assumes "list_all quiet cs"
  shows "ends cs = []" and "filter writes_success cs = []" and "filter progress_call cs = []"
    and "filter completes_action cs = []" and "filter changes_repository cs = []"
proof -
  have "\<not> ends_run c \<and> \<not> writes_success c \<and> \<not> progress_call c \<and> \<not> completes_action c \<and> \<not> changes_repository c"
    if "quiet c" for c
    using that by (cases c rule: writes_success.cases) auto
  then show "ends cs = []" "filter writes_success cs = []" "filter progress_call cs = []"
    "filter completes_action cs = []" "filter changes_repository cs = []"
    using assms by (auto simp: list_all_iff filter_empty_conv)
qed

lemma only_on_context: "(\<And>c. traceS (f c) (only P)) \<Longrightarrow> traceS (on_context f) (only P)"
  unfolding on_context_def
  by (auto intro!: only_bind traceS_liftW traceS_contextS traceS_set_contextS)

lemma only_contextS: "traceS contextS (only P)"
  by (rule traceS_contextS) simp

lemma only_gets: "traceS (getsS f) (only P)"
  by (rule traceS_gets) simp

lemma only_set_contextS: "traceS (set_contextS c) (only P)"
  by (rule traceS_set_contextS) simp

lemmas quiet_rules = only_return only_throw only_lift only_call only_poll only_bind only_catch traceS_liftW
  only_on_context only_contextS only_gets only_set_contextS

lemma preflight_quiet: "traceS (preflight_run ports profile mode) (only quiet)"
  unfolding preflight_run_def throw_if_preflight_cancelled_def service_calls
  by (auto intro!: quiet_rules split: option.split)

lemma planning_quiet:
  "traceS (discover_target ports profile) (only quiet)"
  "traceS (build_plan ports profile snapshot run timestamp) (only quiet)"
  unfolding build_plan_def service_calls by (auto intro!: quiet_rules)

lemma context_quiet:
  "traceS (create_context ports pid rid) (only quiet)"
  "traceS (close_target_session ports c) (only quiet)"
  "traceS (close_context ports c) (only quiet)"
  unfolding create_context_def close_context_def close_cancellation_watch_def close_active_run_def
    clear_cancellation_request_def collect_target_session_failure_def close_target_session_def
    release_context_lease_def Let_def service_calls
  by (auto intro!: quiet_rules split: option.split)

lemma close_contextW_quiet: "traceS (close_contextW ports) (only quiet)"
  unfolding close_contextW_def by (auto intro!: quiet_rules context_quiet)

lemma record_measurement_quiet: "traceS (record_measurement ports profile verified) (only quiet)"
  unfolding record_measurement_def service_calls by (auto intro!: quiet_rules)

text \<open>The steps between the end of the execution and the result do not throw.\<close>

definition calm :: "exn + 'a \<Rightarrow> RunCall list \<Rightarrow> bool" where
  "calm r cs \<longleftrightarrow> list_all quiet cs \<and> \<not> isl r"

lemma calm_facts:
  "calm r cs \<Longrightarrow> list_all quiet cs" "calm (Inl e) cs \<longleftrightarrow> False" "calm (Inr x) cs \<longleftrightarrow> list_all quiet cs"
  by (auto simp: calm_def)

lemma close_session_calm: "traceS (close_target_session ports c) calm"
  by (rule traceS_mono [OF traceS_conj [OF traceS_close_session context_quiet(2)]]) (auto simp: calm_def)

lemma close_context_calm: "traceS (close_context ports c) calm"
proof -
  have "traceS (close_context ports c) (\<lambda>r cs. \<not> isl r)"
    unfolding close_context_def release_context_lease_def
    by (auto intro!: traceS_bind traceS_mono [OF traceS_close_watch] traceS_mono [OF traceS_close_active]
        traceS_mono [OF traceS_clear_request] traceS_mono [OF traceS_collect_session] traceS_release_lease traceS_return
        split: sum.split)
  from traceS_conj [OF context_quiet(3) this] show ?thesis
    by (rule traceS_mono) (simp add: calm_def)
qed

lemma on_context_calm:
  assumes "\<And>c. traceS (f c) calm"
  shows "traceS (on_context f) calm"
  unfolding on_context_def
  by (auto intro!: traceS_bind traceS_contextS traceS_liftW traceS_set_contextS traceS_mono [OF assms]
      simp: calm_def split: sum.split)

lemma close_contextW_calm: "traceS (close_contextW ports) calm"
  unfolding close_contextW_def by (rule on_context_calm) (rule close_context_calm)

lemma record_target_storage_calm: "traceS (record_target_storage ports profile) calm"
proof -
  have "traceS (record_measurement ports profile verified) (\<lambda>r cs. \<not> isl r)" for verified
    unfolding record_measurement_def service_calls
    by (auto intro!: traceS_bind traceS_catch traceS_call traceS_return split: sum.split)
  from traceS_conj [OF record_measurement_quiet this]
  have m: "traceS (record_measurement ports profile verified) calm" for verified
    by (rule traceS_mono) (simp add: calm_def)
  show ?thesis
    unfolding record_target_storage_def
    by (auto intro!: traceS_bind traceS_contextS traceS_liftW traceS_return traceS_mono [OF m]
        simp: calm_facts split: sum.split option.split)
qed

section \<open>The account of a run\<close>

fun success_recorded :: "exn + BackupExecutionResult \<Rightarrow> RunCall list \<Rightarrow> bool" where
  \<comment> \<open>a completed run has gone through its whole plan and has then recorded its success, or says in
    a warning that it could not; no other run records success\<close>
  "success_recorded (Inr (BackupExecutionCompleted plan n warnings)) cs \<longleftrightarrow>
     filter progress_call cs = run_script plan \<and> n = completed_actions cs
     \<and> (filter writes_success cs = [Service (WriteSuccess (plan_run_id plan) (length (plan_sources plan)))]
        \<or> filter writes_success cs = [] \<and> list_ex (\<lambda>w. cw_component w = SuccessLedger) warnings)"
| "success_recorded r cs \<longleftrightarrow> filter writes_success cs = []"

fun result_end :: "BackupExecutionResult \<Rightarrow> RunCall list \<Rightarrow> bool" where
  \<comment> \<open>the terminal reports that belong to a result\<close>
  "result_end (BackupExecutionCompleted plan n warnings) es \<longleftrightarrow>
     es = [Emit (RunCompleted (plan_profile_id plan) (plan_run_id plan))]"
| "result_end (BackupExecutionCancelled plan n) es \<longleftrightarrow>
     (\<exists>s i k c m kind. es = [Emit (RunCancelled (plan_profile_id plan) (plan_run_id plan) s i k c m kind)])"
| "result_end (BackupExecutionFailed profile run code message n) es \<longleftrightarrow>
     (\<exists>kind. es = [Emit (RunFailed profile run code message kind)])"
| "result_end (BackupExecutionBusy profile run code message) es \<longleftrightarrow>
     (\<exists>kind. es = [Emit (RunFailed profile run code message kind)])"
| "result_end (BackupExecutionValidated plan) es \<longleftrightarrow>
     es = [Emit (TargetValidationCompleted (plan_profile_id plan) (plan_run_id plan))]"
| "result_end (BackupExecutionSkipped plan) es \<longleftrightarrow> es = []"

definition accounted :: "bool \<Rightarrow> exn + BackupExecutionResult \<Rightarrow> RunCall list \<Rightarrow> bool" where
  \<comment> \<open>inside the \<open>try\<close> block: an exception leaves before any terminal report; \<open>k\<close> says that the
    event sink does not throw\<close>
  "accounted k r cs \<longleftrightarrow> success_recorded r cs
     \<and> (if k then (case r of Inr res \<Rightarrow> result_end res (ends cs) | Inl e \<Rightarrow> ends cs = []) else True)"

lemma accounted_Inl: "accounted k (Inl e) cs \<longleftrightarrow> filter writes_success cs = [] \<and> (if k then ends cs = [] else True)"
  by (simp add: accounted_def)

lemma traceS_emit_either:
  assumes "\<And>r. (sink_reports ports \<Longrightarrow> r = Inr ()) \<Longrightarrow> R r [Emit e]"
  shows "traceS (emit ports e) R"
proof (cases "sink_reports ports")
  case True
  then show ?thesis using assms by (auto intro: traceS_emit)
next
  case False
  then show ?thesis using assms by (auto simp: port_calls intro: traceS_call)
qed

lemma list_all_each_call: "each_call P before cs \<Longrightarrow> (\<And>b c. P b c \<Longrightarrow> Q c) \<Longrightarrow> list_all Q cs"
  by (induction P before cs rule: each_call.induct) auto

lemma reports_end_ends:
  "reports_end plan res cs \<Longrightarrow> (case res of
     BackupRunExecutionCompleted n \<Rightarrow> ends cs = []
   | BackupRunExecutionCancelled n \<Rightarrow> \<exists>s i k c m.
       ends cs = [Emit (RunCancelled (plan_profile_id plan) (plan_run_id plan) s i k c m Backup)]
   | BackupRunExecutionFailed c m n \<Rightarrow> ends cs = [Emit (RunFailed (plan_profile_id plan) (plan_run_id plan) c m Backup)])"
  by (cases res) (auto simp: list_all_iff filter_empty_conv)

definition executed :: "bool \<Rightarrow> BackupRunPlan \<Rightarrow> exn + BackupRunExecutionResult \<Rightarrow> RunCall list \<Rightarrow> bool" where
  \<comment> \<open>the account of the execution of the plan\<close>
  "executed k plan r cs \<longleftrightarrow> filter writes_success cs = []
     \<and> (case r of Inr (BackupRunExecutionCompleted n) \<Rightarrow> filter progress_call cs = run_script plan \<and> n = completed_actions cs
        | _ \<Rightarrow> True)
     \<and> (if k then (case r of Inl e \<Rightarrow> ends cs = []
          | Inr (BackupRunExecutionCompleted n) \<Rightarrow> ends cs = []
          | Inr (BackupRunExecutionCancelled n) \<Rightarrow>
              \<exists>s i k c m. ends cs = [Emit (RunCancelled (plan_profile_id plan) (plan_run_id plan) s i k c m Backup)]
          | Inr (BackupRunExecutionFailed c m n) \<Rightarrow>
              ends cs = [Emit (RunFailed (plan_profile_id plan) (plan_run_id plan) c m Backup)]) else True)"

lemma execute_backup_run_executed:
  fixes ports :: "('w, 'z) ActionPorts_scheme"
  shows "traceS (execute_backup_run ports plan) (executed (sink_reports ports) plan)"
proof -
  have "\<not> writes_success c" if "opens_or_caused plan before c" for before c
    using that by (cases c rule: writes_success.cases) (auto simp: opens_or_caused_def caused_by_some_def)
  then have w: "traceS (execute_backup_run ports plan) (\<lambda>r cs. filter writes_success cs = [])"
    by (intro traceS_mono [OF execute_backup_run_caused])
       (drule list_all_each_call [where Q = "\<lambda>c. \<not> writes_success c"], auto simp: filter_empty_conv list_all_iff)
  have e: "traceS (execute_backup_run ports plan) (\<lambda>r cs. sink_reports ports \<longrightarrow>
      (case r of Inr res \<Rightarrow> reports_end plan res cs | Inl e \<Rightarrow> no_end cs))"
    using execute_backup_run_reports [of ports plan]
    by (cases "sink_reports ports") (auto elim: traceS_mono intro: traceS_mono [OF w])
  show ?thesis
    by (rule traceS_mono [OF traceS_conj [OF execute_backup_run_follows traceS_conj [OF w e]]])
       (auto simp: executed_def filter_empty_conv list_all_iff dest!: reports_end_ends
         split: sum.splits BackupRunExecutionResult.splits)
qed

lemma close_target_or_fail_accounted:
  fixes ports :: "('w, 'z) ServicePorts_scheme"
  shows "traceS (close_target_or_fail ports profile run n kind) (\<lambda>r cs.
    filter writes_success cs = [] \<and> filter progress_call cs = [] \<and> filter completes_action cs = []
    \<and> (case r of
        Inr (Some res) \<Rightarrow> \<exists>p q c m. res = BackupExecutionFailed p q c m n \<and> ends cs = [Emit (RunFailed p q c m kind)]
      | Inr None \<Rightarrow> ends cs = [] | Inl e \<Rightarrow> \<not> sink_reports ports))"
  unfolding close_target_or_fail_def emit_run_failed_def
  by (auto intro!: traceS_bind traceS_mono [OF on_context_calm [OF close_session_calm]] traceS_contextS traceS_liftW
      traceS_emit_either traceS_return simp: calm_facts quiet_facts split: sum.split option.split)

lemma completion_warning_component: "cw_component (completion_warning component error) = component"
  by (simp add: completion_warning_def)

lemma service_execute_plan_accounted:
  fixes ports :: "('w, 'z) ServicePorts_scheme"
  assumes "plan_run_id plan = ri_run_id identity" and "plan_profile_id plan = profile_id (lp_profile loaded)"
  shows "traceS (service_execute_plan ports loaded identity today kind plan) (accounted (sink_reports ports))"
  using assms
  unfolding service_execute_plan_def Let_def throw_if_cancelled_during_cleanup_def record_success_ledger_warning_def
    record_terminal_status_warning_def pollW_def poll_cancellation_def clock_now_def
  by (auto intro!: traceS_bind traceS_catch traceS_liftW traceS_mono [OF execute_backup_run_executed] traceS_call traceS_poll traceS_throw
      traceS_mono [OF record_target_storage_calm] traceS_mono [OF close_contextW_calm] traceS_mono [OF close_target_or_fail_accounted]
      traceS_emit_either traceS_return
      simp: calm_facts quiet_facts accounted_def executed_def completion_warning_component
      split: sum.split option.split BackupRunExecutionResult.split)

text \<open>The steps before the execution.\<close>

lemma build_plan_ids:
  "traceS (build_plan ports profile snapshot run timestamp) (\<lambda>r cs. list_all quiet cs
     \<and> (case r of Inr plan \<Rightarrow> plan_run_id plan = run \<and> plan_profile_id plan = profile_id profile | Inl e \<Rightarrow> True))"
proof -
  have ids: "plan_run_id plan = run \<and> plan_profile_id plan = profile_id profile"
    if "build_backup_run_plan profile locals remotes markers pending state_dir run timestamp = Inr plan"
    for locals remotes markers pending state_dir plan
    using that by (auto simp: build_backup_run_plan_def Let_def result_simps split: sum.splits)
  show ?thesis
    unfolding build_plan_def service_calls
    by (auto intro!: traceS_bind traceS_poll traceS_lift traceS_throw traceS_return dest!: ids split: sum.split)
qed

lemma prepare_target_and_plan_quiet:
  "traceS (prepare_target_and_plan ports profile identity) (\<lambda>r cs. list_all quiet cs
     \<and> (case r of Inr plan \<Rightarrow> plan_run_id plan = ri_run_id identity \<and> plan_profile_id plan = profile_id profile | Inl e \<Rightarrow> True))"
  unfolding prepare_target_and_plan_def pollW_def poll_cancellation_def
  by (auto intro!: traceS_bind traceS_liftW traceS_mono [OF preflight_quiet] traceS_mono [OF planning_quiet(1)]
      traceS_mono [OF build_plan_ids] traceS_mono [OF only_on_context [where P = quiet, OF only_return]]
      traceS_poll traceS_throw traceS_return split: sum.split)

definition finished :: "bool \<Rightarrow> exn + BackupExecutionResult option \<Rightarrow> RunCall list \<Rightarrow> bool" where
  \<comment> \<open>a step that may end the run early: with a result, with an exception, or not at all\<close>
  "finished k r cs \<longleftrightarrow> filter writes_success cs = [] \<and> filter progress_call cs = [] \<and> filter completes_action cs = []
     \<and> (case r of Inr (Some res) \<Rightarrow> (\<forall>plan n ws. res \<noteq> BackupExecutionCompleted plan n ws) \<and> result_end res (ends cs)
        | Inr None \<Rightarrow> ends cs = [] | Inl e \<Rightarrow> if k then ends cs = [] else True)"

lemma finish_validation_finished:
  fixes ports :: "('w, 'z) ServicePorts_scheme"
  assumes "plan_run_id plan = ri_run_id identity" and "plan_profile_id plan = profile_id profile"
  shows "traceS (finish_validation_if_requested ports request profile identity kind plan) (finished (sink_reports ports))"
  using assms
  unfolding finish_validation_if_requested_def throw_if_cancelled_during_cleanup_def pollW_def poll_cancellation_def emitW_def
  by (auto intro!: traceS_bind traceS_liftW traceS_poll traceS_throw
      traceS_mono [OF record_target_storage_calm] traceS_mono [OF close_contextW_calm] traceS_mono [OF close_target_or_fail_accounted]
      traceS_emit_either traceS_return
      simp: calm_facts quiet_facts finished_def split: sum.split option.split)

lemma skip_finished:
  fixes ports :: "('w, 'z) ServicePorts_scheme"
  assumes "plan_run_id plan = ri_run_id identity" and "plan_profile_id plan = profile_id (lp_profile loaded)"
  shows "traceS (skip_if_daily_limit_reached ports request loaded identity today kind plan) (finished (sink_reports ports))"
  using assms
  unfolding skip_if_daily_limit_reached_def Let_def throw_if_cancelled_during_cleanup_def pollW_def poll_cancellation_def clock_now_def
  by (auto intro!: traceS_bind traceS_liftW traceS_poll traceS_throw traceS_call
      traceS_mono [OF record_target_storage_calm] traceS_mono [OF close_contextW_calm] traceS_mono [OF close_target_or_fail_accounted]
      traceS_return
      simp: calm_facts quiet_facts finished_def split: sum.split option.split)

lemma acquire_run_lease_finished:
  fixes ports :: "('w, 'z) ServicePorts_scheme"
  shows "traceS (acquire_run_lease ports profile identity kind) (finished (sink_reports ports))"
  unfolding acquire_run_lease_def emit_run_failed_def try_acquire_lease_def
  by (auto intro!: traceS_bind traceS_call traceS_emit_either traceS_return
      simp: finished_def split: sum.split BackupRunLeaseResult.split)

lemma accounted_append:
  assumes "filter writes_success cs = []" and "filter progress_call cs = []" and "filter completes_action cs = []"
    and "ends cs = []"
  shows "accounted k r (cs @ ds) = accounted k r ds"
  using assms unfolding accounted_def by (cases "(r, ds)" rule: success_recorded.cases) auto

lemma finished_accounted:
  "finished k (Inr (Some res)) cs \<Longrightarrow> accounted k (Inr res) cs" "finished k (Inl e) cs \<Longrightarrow> accounted k (Inl e) cs"
  unfolding finished_def accounted_def by (cases res; auto)+

lemma finished_None:
  "finished k (Inr None) cs \<longleftrightarrow> filter writes_success cs = [] \<and> filter progress_call cs = [] \<and> filter completes_action cs = []
     \<and> ends cs = []"
  by (auto simp: finished_def)

lemma traceS_finished:
  \<comment> \<open>the run goes on only if the step has not finished it\<close>
  assumes "traceS m (finished k)" and "traceS next_step (accounted k)"
  shows "traceS (bindS m (\<lambda>x. case x of Some r \<Rightarrow> returnS r | None \<Rightarrow> next_step)) (accounted k)"
  by (rule traceS_bind, rule traceS_mono [OF assms(1)])
     (auto intro!: traceS_return traceS_mono [OF assms(2)] simp: finished_accounted finished_None accounted_append
       split: sum.split option.split)

lemma traceS_before_account:
  \<comment> \<open>steps that neither report the progress or the end of the run nor record success\<close>
  assumes "traceS m (\<lambda>r cs. filter writes_success cs = [] \<and> filter progress_call cs = [] \<and> filter completes_action cs = []
      \<and> ends cs = [] \<and> Q r)"
    and "\<And>x. Q (Inr x) \<Longrightarrow> traceS (f x) (accounted k)"
  shows "traceS (bindS m f) (accounted k)"
  by (rule traceS_bind, rule traceS_mono [OF assms(1)])
     (auto intro!: traceS_mono [OF assms(2)] simp: accounted_Inl accounted_append split: sum.split)

lemma run_loaded_profile_accounted:
  fixes ports :: "('w, 'z) ServicePorts_scheme"
  shows "traceS (run_loaded_profile ports request identity kind loaded) (accounted (sink_reports ports))"
  unfolding run_loaded_profile_def Let_def
proof (intro traceS_finished traceS_liftW acquire_run_lease_finished
    traceS_before_account [where Q = "\<lambda>_. True" and m = "liftW (create_context p i j)" for p i j]
    traceS_before_account [where Q = "\<lambda>_. True" and m = "set_contextS c" for c]
    traceS_before_account [where Q = "\<lambda>_. True" and m = "emitW p i" for p i]
    traceS_before_account [where Q = "\<lambda>_. True" and m = "liftW (callS c p)" for c p]
    traceS_before_account [where m = "prepare_target_and_plan ports (lp_profile loaded) identity"
      and Q = "\<lambda>r. case r of Inr plan \<Rightarrow> plan_run_id plan = ri_run_id identity \<and> plan_profile_id plan = profile_id (lp_profile loaded)
        | Inl e \<Rightarrow> True"]
    finish_validation_finished skip_finished service_execute_plan_accounted, goal_cases)
qed (auto intro!: traceS_call traceS_set_contextS traceS_liftW traceS_mono [OF context_quiet(1)] traceS_emit_either
    traceS_mono [OF prepare_target_and_plan_quiet] simp: emitW_def quiet_facts)

text \<open>The catch clauses and the owner of the context.\<close>

fun exception_end :: "exn \<Rightarrow> RunCall list \<Rightarrow> bool" where
  \<comment> \<open>an exception leaves without a terminal report or after a report of the failure\<close>
  "exception_end e es \<longleftrightarrow> es = [] \<or> (\<exists>p q kind. es = [Emit (RunFailed p q BackupFailed (what e) kind)])"

definition concluded :: "bool \<Rightarrow> exn + BackupExecutionResult \<Rightarrow> RunCall list \<Rightarrow> bool" where
  "concluded k r cs \<longleftrightarrow> success_recorded r cs
     \<and> (if k then (case r of Inr res \<Rightarrow> result_end res (ends cs) | Inl e \<Rightarrow> exception_end e (ends cs)) else True)"

lemma finish_failed_run_calm: "traceS (finish_failed_run ports profile) calm"
  unfolding finish_failed_run_def
  by (auto intro!: traceS_bind traceS_gets traceS_return traceS_mono [OF record_target_storage_calm]
      traceS_mono [OF close_contextW_calm] simp: calm_facts split: sum.split option.split) (simp add: calm_def)

lemma destroy_context_calm: "traceS (destroy_context ports) calm"
  unfolding destroy_context_def
  by (auto intro!: traceS_bind traceS_gets traceS_return traceS_mono [OF close_contextW_calm]
      simp: calm_facts split: option.split)

lemma handle_run_exception_concluded:
  fixes ports :: "('w, 'z) ServicePorts_scheme"
  assumes "accounted (sink_reports ports) (Inl error) cs"
  shows "traceS (handle_run_exception ports profile identity kind error)
    (\<lambda>r ds. concluded (sink_reports ports) r (cs @ ds))"
  using assms
  unfolding handle_run_exception_def emit_run_failed_def emitW_def
  by (auto intro!: traceS_bind traceS_liftW traceS_emit_either traceS_mono [OF finish_failed_run_calm] traceS_return traceS_throw
      simp: calm_facts quiet_facts concluded_def accounted_def empty_plan_def split: sum.split)

lemma concluded_quiet: "list_all quiet ds \<Longrightarrow> concluded k r (cs @ ds) = concluded k r cs"
  unfolding concluded_def
  by (cases "(r, cs)" rule: success_recorded.cases) (auto simp: quiet_facts)

lemma accounted_concluded: "accounted k (Inr res) cs \<Longrightarrow> concluded k (Inr res) cs"
  by (auto simp: accounted_def concluded_def)

lemma start_loaded_profile_concluded:
  fixes ports :: "('w, 'z) ServicePorts_scheme"
  shows "traceS (start_loaded_profile ports request identity kind loaded) (concluded (sink_reports ports))"
proof -
  have "traceS (catchS (run_loaded_profile ports request identity kind loaded)
      (handle_run_exception ports (lp_profile loaded) identity kind)) (concluded (sink_reports ports))"
    by (rule traceS_catch, rule traceS_mono [OF run_loaded_profile_accounted])
       (auto intro: handle_run_exception_concluded accounted_concluded split: sum.split)
  then show ?thesis
    unfolding start_loaded_profile_def
    by (auto intro!: traceS_bind traceS_catch traceS_mono [OF destroy_context_calm] traceS_return traceS_throw
        elim!: traceS_mono simp: calm_facts concluded_quiet split: sum.split)
qed

lemma success_recorded_Cons: "quiet c \<Longrightarrow> success_recorded r (c # cs) = success_recorded r cs"
  using quiet_facts [of "[c]"] by (cases "(r, cs)" rule: success_recorded.cases) (auto split: if_splits)

lemma service_start_concluded:
  fixes ports :: "('w, 'z) ServicePorts_scheme"
  shows "traceS (service_start ports request) (concluded (sink_reports ports))"
  unfolding service_start_def Let_def clock_now_def session_events_def session_fallback_events_def emit_run_failed_def
  by (auto intro!: traceS_bind traceS_catch traceS_liftW traceS_call traceS_emit_either traceS_mono [OF start_loaded_profile_concluded]
      traceS_return traceS_throw
      simp: concluded_def success_recorded_Cons split: sum.split)

section \<open>Properties\<close>

text \<open>
  Property C23: a run of the service ends with one report, and the result agrees with it. If the
  event sink does not throw, \<open>start\<close> reports a terminal event exactly once, with the ids, the code and
  the message of the result it returns: a completion for a completed run, a failure for a failed run
  and for a busy profile, a cancellation for a cancelled one, a validation for a validated target. A
  run that is skipped because of the daily limit reports none. An exception leaves without such a
  report or after a report of the failure with the message of the exception.
\<close>

theorem service_end_reported:
  assumes "sink_reports ports"
  shows "case service_start ports request s of
     (r, t) \<Rightarrow> \<exists>cs. trace t = trace s @ cs
       \<and> (case r of Inr res \<Rightarrow> result_end res (ends cs) | Inl e \<Rightarrow> exception_end e (ends cs))"
proof -
  have "traceS (service_start ports request)
      (\<lambda>r cs. case r of Inr res \<Rightarrow> result_end res (ends cs) | Inl e \<Rightarrow> exception_end e (ends cs))"
    by (rule traceS_mono [OF service_start_concluded]) (simp add: concluded_def assms split: sum.splits)
  then show ?thesis by (rule traceS_case)
qed

text \<open>A world in which everything succeeds: the target is mounted as the profile asks for it.\<close>

definition sample_mounts :: "MountEntry list" where
  "sample_mounts =
     [\<lparr> me_source = ''/dev/sdb1'', me_target = ''/'', me_fstype = ''btrfs'', me_root = ''/'', me_options = ''rw'',
        me_mount_id = 1, me_device_id = ''0:1'', me_filesystem_uuid = ''v'' \<rparr>,
      \<lparr> me_source = ''/dev/mapper/m'', me_target = ''/mnt'', me_fstype = ''btrfs'', me_root = ''/'',
        me_options = ''rw,nodev,nosuid,noexec,nosymfollow'',
        me_mount_id = 2, me_device_id = ''0:2'', me_filesystem_uuid = ''u'' \<rparr>]"

definition mounted_profile :: Profile where
  "mounted_profile = sample_profile\<lparr> target := (target sample_profile)\<lparr> btrfs_uuid := ''u'' \<rparr> \<rparr>"

definition calm_service :: "bool \<Rightarrow> unit ServicePorts" where
  "calm_service cancel = ActionPorts.extend (calm_ports cancel) (ServicePorts.fields
     (\<lambda>p w. (Inr \<lparr> lp_profile = mounted_profile, lp_fingerprint = ''f'', lp_generation = ''g'' \<rparr>, w))
     (\<lambda>d w. (Inr (), w)) (\<lambda>p w. (Inr BackupRunLeaseAcquired, w)) (\<lambda>w. w) (\<lambda>p w. (Inr (), w))
     (\<lambda>r w. (Inr (), w)) (\<lambda>w. (Inr None, w)) (\<lambda>r w. (Inr (), w)) (\<lambda>w. (Inr None, w)) (\<lambda>r w. (Inr (), w))
     (\<lambda>r w. (Inr Accepted, w)) (\<lambda>p m w. (Inr (), w)) (\<lambda>w. (None, w)) (\<lambda>w. (Inr sample_mounts, w)) Some
     (\<lambda>p w. (Inr \<lparr> local_inventory = Map.empty, remote_inventory = Map.empty, pending_markers = Map.empty,
        pending_snapshots = Map.empty, profile_state_dir = ''/state'' \<rparr>, w))
     (\<lambda>p d f w. (Inr False, w)) (\<lambda>p r d t f n w. (Inr (), w)) (\<lambda>p r a b n w. (Inr (), w))
     (\<lambda>p m w. (Inr undefined, w)) (\<lambda>p m w. (Inr (), w)) False (\<lambda>w. (Inr undefined, w)) (\<lambda>t w. (Inr ''r'', w)))"

lemma calm_service_reports: "sink_reports (calm_service cancel)"
  by (simp add: sink_reports_def calm_service_def calm_ports_def ActionPorts.defs)

definition sample_request :: BackupRequest where
  "sample_request = \<lparr> rq_profile_id = ''p'', rq_force = False, rq_validate_only = True \<rparr>"

theorem service_end_reported_witness:
  "case service_start (calm_service False) sample_request \<lparr> trace = [], world = (None, ()) \<rparr> of
     (Inr (BackupExecutionValidated plan), t) \<Rightarrow> ends (trace t) = [Emit (TargetValidationCompleted ''p'' ''r'')]
   | _ \<Rightarrow> False"
proof -
  have "case fst (service_start (calm_service False) sample_request \<lparr> trace = [], world = (None, ()) \<rparr>) of
      Inr (BackupExecutionValidated plan) \<Rightarrow> plan_profile_id plan = ''p'' \<and> plan_run_id plan = ''r'' | _ \<Rightarrow> False"
    by code_simp
  with service_end_reported [OF calm_service_reports [of False], where request = sample_request and s = "\<lparr> trace = [], world = (None, ()) \<rparr>"]
  show ?thesis
    by (auto split: prod.splits sum.splits BackupExecutionResult.splits)
qed

text \<open>
  Property C1: only a completed run is recorded as a success. The ledger of successes, on which the
  daily limit rests, is written only when \<open>start\<close> returns that the run has been completed, once and for
  the run and the number of sources of its plan; and then every action of every source was executed
  and reported, the whole script of the plan was gone through, and the count of the result is the
  number of the actions. If the ledger was not asked, the result carries a warning that says so.
\<close>

theorem success_only_if_completed:
  "case service_start ports request s of (r, t) \<Rightarrow> \<exists>cs. trace t = trace s @ cs \<and> success_recorded r cs"
proof -
  have "traceS (service_start ports request) success_recorded"
    by (rule traceS_mono [OF service_start_concluded]) (simp add: concluded_def)
  then show ?thesis by (rule traceS_case)
qed

lemma preflight_poll: "traceS (throw_if_preflight_cancelled ports) (\<lambda>r cs. \<exists>b. cs = [Polled b])"
  unfolding throw_if_preflight_cancelled_def poll_cancellation_def
  by (auto intro!: traceS_bind traceS_poll traceS_throw traceS_return)

definition verified_mount :: "Profile \<Rightarrow> MountEntry \<Rightarrow> bool" where
  \<comment> \<open>a writable btrfs mount with the restricting options and with the file system the profile names\<close>
  "verified_mount profile m \<longleftrightarrow> me_fstype m = ''btrfs''
     \<and> list_all (has_mount_option (me_options m)) [''rw'', ''nodev'', ''nosuid'', ''noexec'', ''nosymfollow'']
     \<and> me_filesystem_uuid m \<noteq> [] \<and> map to_lower (me_filesystem_uuid m) = btrfs_uuid (target profile)"

lemma validate_backup_mounts_verified:
  assumes "validate_backup_mounts canonical profile mounts = Inr m"
  shows "verified_mount profile m"
proof -
  have options: "missing_mount_option options = None
      \<longleftrightarrow> list_all (has_mount_option options) [''nodev'', ''nosuid'', ''noexec'', ''nosymfollow'']" for options
    by (auto simp: missing_mount_option_def find_None_iff list_all_iff)
  from assms show ?thesis
    unfolding validate_backup_mounts_def validate_backup_target_mount_def Let_def
    by (auto simp: result_simps options verified_mount_def split: option.splits if_splits sum.splits)
qed

lemma preflight_checks:
  "traceS (bindS (throw_if_preflight_cancelled ports) (\<lambda>_.
          bindS (callS (Service InspectMounts) (sp_inspect_mounts ports)) (\<lambda>mounts.
          bindS (liftE (validate_backup_mounts (sp_weakly_canonical ports) profile mounts)) (\<lambda>verified.
          bindS (throw_if_preflight_cancelled ports) (\<lambda>_. returnS verified)))))
     (\<lambda>r cs. Service CloseTarget \<notin> set cs
        \<and> (case r of Inl e \<Rightarrow> True
           | Inr verified \<Rightarrow> verified_mount profile verified))"
  by (auto intro!: traceS_bind traceS_mono [OF preflight_poll] traceS_return traceS_call traceS_lift split: sum.split)
     (erule validate_backup_mounts_verified)

definition preflight_outcome ::
  "Profile \<Rightarrow> TargetMountMode \<Rightarrow> exn + MountEntry \<Rightarrow> RunCall list \<Rightarrow> bool" where
  "preflight_outcome profile mode r cs \<longleftrightarrow> (case r of
     Inr verified \<Rightarrow> Service CloseTarget \<notin> set cs \<and> Service (PrepareTarget mode) \<in> set cs
       \<and> verified_mount profile verified
   | Inl e \<Rightarrow>
       (\<exists>b. cs = [Polled b]) \<or> (\<exists>b. cs = [Polled b, Service (PrepareTarget mode)])
       \<or> (\<exists>b ds. cs = [Polled b, Service (PrepareTarget mode)] @ ds @ [Service CloseTarget]
           \<and> Service CloseTarget \<notin> set ds))"

lemma preflight_outcomeI:
  "preflight_outcome profile mode (Inl e) [Polled b]"
  "preflight_outcome profile mode (Inl e) [Polled b, Service (PrepareTarget mode)]"
  "Service CloseTarget \<notin> set ds
   \<Longrightarrow> preflight_outcome profile mode (Inl e) (Polled b # Service (PrepareTarget mode) # ds @ [Service CloseTarget])"
  "Service CloseTarget \<notin> set ds \<Longrightarrow> verified_mount profile verified
   \<Longrightarrow> preflight_outcome profile mode (Inr verified) (Polled b # Service (PrepareTarget mode) # ds)"
  by (auto simp: preflight_outcome_def)

lemma preflight_run_outcome: "traceS (preflight_run ports profile mode) (preflight_outcome profile mode)"
  unfolding preflight_run_def
  by (rule traceS_bind, rule traceS_mono [OF preflight_poll])
     (auto intro!: traceS_bind [of "callS c p" for c p] traceS_bind [of "close_target p" for p] traceS_catch traceS_throw traceS_call
       traceS_mono [OF preflight_checks] traceS_close_target preflight_outcomeI split: sum.split option.split)

text \<open>
  Property C30: a target that fails its preflight is closed again. If the preflight returns, the target
  has been prepared and is left open, and the mount it returns is a writable btrfs mount with the
  restricting options and with the UUID of the profile. If the preflight was cancelled before it
  prepared the target, or preparing failed, there is nothing to close; if anything after that fails,
  closing the target, once, is the last thing the preflight does.
\<close>

theorem preflight_closes_failed_target:
  "case preflight_run ports profile mode s of
     (r, t) \<Rightarrow> \<exists>cs. trace t = trace s @ cs
       \<and> (case r of
            Inr verified \<Rightarrow> Service CloseTarget \<notin> set cs \<and> Service (PrepareTarget mode) \<in> set cs
              \<and> verified_mount profile verified
          | Inl e \<Rightarrow>
              (\<exists>b. cs = [Polled b]) \<or> (\<exists>b. cs = [Polled b, Service (PrepareTarget mode)])
              \<or> (\<exists>b ds. cs = [Polled b, Service (PrepareTarget mode)] @ ds @ [Service CloseTarget]
                  \<and> Service CloseTarget \<notin> set ds))"
  by (rule traceS_case [OF preflight_run_outcome [unfolded preflight_outcome_def]])

end
