(* ===== verification/StorageTopology.thy ===== *)
theory StorageTopology
  imports Core "HOL-Library.Word"
begin

text \<open>
  The storage devices the provisioning works on, provisioning/StorageTopology, the plans to prepare
  a device, provisioning/DevicePreparationPlan, and the marker of configured targets,
  provisioning/ConfiguredBackupTargetMarker. Sizes and sector numbers keep their machine width.
\<close>

type_synonym sectors = "64 word"
type_synonym u32 = "32 word"

section \<open>Devices and regions (StorageTopology)\<close>

datatype PartitionTableType = NoTable | Gpt | Mbr | UnsupportedTable

record SafetyBlocker =
  bl_code :: string
  bl_detail :: string

record StableBlockDeviceIdentity =
  display_path :: string
  major_minor :: string
  sysfs_path :: string
  wwn :: string
  serial :: string
  serial_short :: string
  identity_size_bytes :: sectors

record PartitionTableDescription =
  table_type :: PartitionTableType
  table_identifier :: string

record FilesystemDescription =
  fs_type :: string
  fs_version :: string
  fs_label :: string
  fs_uuid :: string

record ExistingPartition =
  pt_candidate_id :: string
  pt_identity :: StableBlockDeviceIdentity
  pt_partition_uuid :: "string option"
  pt_partition_label :: "string option"
  pt_partition_number :: u32
  pt_start_sector :: sectors
  pt_sector_count :: sectors
  pt_filesystem :: FilesystemDescription
  pt_mount_points :: "string list"
  pt_holders :: "string list"
  pt_active_swap :: bool
  pt_blockers :: "SafetyBlocker list"
  pt_configured_backup_target :: bool
  pt_suitable_for_reformat :: bool
  pt_suitable_for_adoption :: bool

record UnallocatedRegion =
  fr_id :: string
  fr_start_sector :: sectors
  fr_sector_count :: sectors
  fr_blockers :: "SafetyBlocker list"
  fr_suitable_for_backup_partition :: bool

datatype StorageRegion = PartitionRegion ExistingPartition | FreeRegion UnallocatedRegion

record StorageDevice =
  dv_candidate_id :: string
  dv_identity :: StableBlockDeviceIdentity
  dv_display_name :: string
  dv_transport :: string
  dv_size_bytes :: sectors
  dv_logical_sector_size :: u32
  dv_physical_sector_size :: u32
  dv_removable :: bool
  dv_read_only :: bool
  dv_hotplug :: bool
  dv_system_device :: bool
  dv_partition_table :: PartitionTableDescription
  dv_filesystem :: FilesystemDescription
  dv_regions :: "StorageRegion list"
  dv_mount_points :: "string list"
  dv_holders :: "string list"
  dv_active_swap :: bool
  dv_blockers :: "SafetyBlocker list"

record StorageTopology =
  tp_generation :: string
  tp_devices :: "StorageDevice list"

fun partition_table_type_name :: "PartitionTableType \<Rightarrow> string" where
  "partition_table_type_name NoTable = ''none''"
| "partition_table_type_name Gpt = ''gpt''"
| "partition_table_type_name Mbr = ''mbr''"
| "partition_table_type_name UnsupportedTable = ''unsupported''"

fun region_start_sector :: "StorageRegion \<Rightarrow> sectors" where
  "region_start_sector (PartitionRegion p) = pt_start_sector p"
| "region_start_sector (FreeRegion r) = fr_start_sector r"

fun region_partition :: "StorageRegion \<Rightarrow> ExistingPartition option" where
  \<comment> \<open>\<open>std::get_if<ExistingPartition>\<close>\<close>
  "region_partition (PartitionRegion p) = Some p"
| "region_partition (FreeRegion r) = None"

fun region_free :: "StorageRegion \<Rightarrow> UnallocatedRegion option" where
  "region_free (PartitionRegion p) = None"
| "region_free (FreeRegion r) = Some r"

definition partitions :: "StorageDevice \<Rightarrow> ExistingPartition list" where
  \<comment> \<open>the partitions in the order a loop over the regions meets them\<close>
  "partitions device = List.map_filter region_partition (dv_regions device)"

definition free_regions :: "StorageDevice \<Rightarrow> UnallocatedRegion list" where
  "free_regions device = List.map_filter region_free (dv_regions device)"

section \<open>Plans (DevicePreparationPlan)\<close>

datatype ProvisioningMode =
    EraseWholeDevice
  | ReformatExistingPartition
  | CreatePartitionInUnallocatedSpace
  | AdoptExistingTarget

datatype PredictedRegionKind = PredictedExistingPartition | PredictedUnallocated | PredictedBackupPartition

record PredictedStorageRegion =
  pr_id :: string
  pr_kind :: PredictedRegionKind
  pr_start_sector :: sectors
  pr_sector_count :: sectors
  pr_partition_number :: "u32 option"
  pr_display_path :: string
  pr_partition_label :: string
  pr_filesystem_type :: string
  pr_geometry_exact :: bool
  pr_encrypted :: bool
  pr_changed :: bool
  pr_data_will_be_erased :: bool

definition default_PredictedStorageRegion :: PredictedStorageRegion where
  "default_PredictedStorageRegion =
     \<lparr> pr_id = [], pr_kind = PredictedUnallocated, pr_start_sector = 0, pr_sector_count = 0,
       pr_partition_number = None, pr_display_path = [], pr_partition_label = [], pr_filesystem_type = [],
       pr_geometry_exact = True, pr_encrypted = False, pr_changed = False, pr_data_will_be_erased = False \<rparr>"

record StorageLayout =
  ly_device_id :: string
  ly_size_bytes :: sectors
  ly_logical_sector_size :: u32
  ly_partition_table_type :: PartitionTableType
  ly_regions :: "PredictedStorageRegion list"

record PlannedPartitionGeometry =
  gm_start_sector :: sectors
  gm_sector_count :: sectors
  gm_partition_number :: u32

datatype PlannedStorageOperation =
    BackupPartitionTable string
  | EraseDeviceSignatures string
  | ErasePartitionSignatures string
  | CreateGptPartitionTable string
  | CreateBackupPartition string "string option" "PlannedPartitionGeometry option"
  | FormatLuks2 "string option"
  | OpenLuksMapping
  | FormatBtrfs
  | VerifyPreparedTarget
  | PublishProfile

record SafetyWarning =
  wn_code :: string
  wn_detail :: string

datatype DestructiveScopeKind = NoScope | WholeDeviceScope | ExistingPartitionScope | UnallocatedRegionScope

record DestructiveScope =
  sc_kind :: DestructiveScopeKind
  sc_device_id :: string
  sc_partition_id :: "string option"
  sc_free_region_id :: "string option"

definition require_identifier :: "string \<Rightarrow> string \<Rightarrow> unit result" where
  "require_identifier v message = (if v = [] then Inl (ValidationError message) else Inr ())"

definition make_DestructiveScope ::
  "DestructiveScopeKind \<Rightarrow> string \<Rightarrow> string option \<Rightarrow> string option \<Rightarrow> DestructiveScope result" where
  "make_DestructiveScope kind device part free_region =
     bindE (require_identifier device ''destructive scope device identifier is empty'') (\<lambda>_.
       Inr \<lparr> sc_kind = kind, sc_device_id = device, sc_partition_id = part, sc_free_region_id = free_region \<rparr>)"

definition whole_device :: "string \<Rightarrow> DestructiveScope result" where
  "whole_device device = make_DestructiveScope WholeDeviceScope device None None"

definition existing_partition :: "string \<Rightarrow> string \<Rightarrow> DestructiveScope result" where
  "existing_partition device part =
     bindE (require_identifier part ''destructive scope partition identifier is empty'') (\<lambda>_.
       make_DestructiveScope ExistingPartitionScope device (Some part) None)"

definition unallocated_region :: "string \<Rightarrow> string \<Rightarrow> DestructiveScope result" where
  "unallocated_region device free_region =
     bindE (require_identifier free_region ''destructive scope free-region identifier is empty'') (\<lambda>_.
       make_DestructiveScope UnallocatedRegionScope device None (Some free_region))"

definition adoption :: "string \<Rightarrow> string \<Rightarrow> DestructiveScope result" where
  "adoption device part =
     bindE (require_identifier part ''adoption scope partition identifier is empty'') (\<lambda>_.
       make_DestructiveScope NoScope device (Some part) None)"

record DevicePreparationPlan =
  dp_id :: string
  dp_topology_generation :: string
  dp_mode :: ProvisioningMode
  dp_device_id :: string
  dp_partition_id :: "string option"
  dp_free_region_id :: "string option"
  dp_inspection_id :: "string option"
  dp_before :: StorageLayout
  dp_after :: StorageLayout
  dp_operations :: "PlannedStorageOperation list"
  dp_warnings :: "SafetyWarning list"
  dp_destructive_scope :: DestructiveScope

definition contradictory_target :: "DevicePreparationPlan \<Rightarrow> string option" where
  \<comment> \<open>the checks of the target against the mode; the mode is always one of the four\<close>
  "contradictory_target plan =
     (let scope = dp_destructive_scope plan in
      case dp_mode plan of
        EraseWholeDevice \<Rightarrow>
          if dp_partition_id plan \<noteq> None \<or> dp_free_region_id plan \<noteq> None \<or> dp_inspection_id plan \<noteq> None
             \<or> sc_kind scope \<noteq> WholeDeviceScope
          then Some ''whole-device preparation plan has a contradictory target'' else None
      | ReformatExistingPartition \<Rightarrow>
          if dp_partition_id plan = None \<or> dp_free_region_id plan \<noteq> None \<or> dp_inspection_id plan \<noteq> None
             \<or> sc_kind scope \<noteq> ExistingPartitionScope \<or> sc_partition_id scope \<noteq> dp_partition_id plan
          then Some ''partition preparation plan has a contradictory target'' else None
      | CreatePartitionInUnallocatedSpace \<Rightarrow>
          if dp_partition_id plan \<noteq> None \<or> dp_free_region_id plan = None \<or> dp_inspection_id plan \<noteq> None
             \<or> sc_kind scope \<noteq> UnallocatedRegionScope \<or> sc_free_region_id scope \<noteq> dp_free_region_id plan
          then Some ''free-space preparation plan has a contradictory target'' else None
      | AdoptExistingTarget \<Rightarrow>
          if dp_partition_id plan = None \<or> dp_free_region_id plan \<noteq> None \<or> dp_inspection_id plan = None
             \<or> dp_inspection_id plan = Some [] \<or> sc_kind scope \<noteq> NoScope \<or> sc_partition_id scope \<noteq> dp_partition_id plan
          then Some ''adoption preparation plan has a contradictory target'' else None)"

definition validate_plan :: "DevicePreparationPlan \<Rightarrow> unit result" where
  "validate_plan plan =
     bindE (require_identifier (dp_id plan) ''device preparation plan identifier is empty'') (\<lambda>_.
     bindE (require_identifier (dp_topology_generation plan) ''device preparation topology generation is empty'') (\<lambda>_.
     bindE (require_identifier (dp_device_id plan) ''device preparation device identifier is empty'') (\<lambda>_.
     bindE (requireE (sc_device_id (dp_destructive_scope plan) = dp_device_id plan)
              (ValidationError ''device preparation scope selects a different device'')) (\<lambda>_.
       case contradictory_target plan of Some message \<Rightarrow> Inl (ValidationError message) | None \<Rightarrow> Inr ()))))"

fun provisioning_mode_name :: "ProvisioningMode \<Rightarrow> string" where
  "provisioning_mode_name EraseWholeDevice = ''erase-whole-device''"
| "provisioning_mode_name ReformatExistingPartition = ''reformat-existing-partition''"
| "provisioning_mode_name CreatePartitionInUnallocatedSpace = ''create-partition-in-unallocated-space''"
| "provisioning_mode_name AdoptExistingTarget = ''adopt-existing-target''"

definition provisioning_mode_from_name :: "string \<Rightarrow> ProvisioningMode option" where
  "provisioning_mode_from_name name =
     (if name = ''erase-whole-device'' then Some EraseWholeDevice
      else if name = ''reformat-existing-partition'' then Some ReformatExistingPartition
      else if name = ''create-partition-in-unallocated-space'' then Some CreatePartitionInUnallocatedSpace
      else if name = ''adopt-existing-target'' then Some AdoptExistingTarget
      else None)"

fun predicted_region_kind_name :: "PredictedRegionKind \<Rightarrow> string" where
  "predicted_region_kind_name PredictedExistingPartition = ''existing-partition''"
| "predicted_region_kind_name PredictedUnallocated = ''unallocated''"
| "predicted_region_kind_name PredictedBackupPartition = ''backup-partition''"

lemma provisioning_mode_roundtrip: "provisioning_mode_from_name (provisioning_mode_name mode) = Some mode"
  by (cases mode) (simp_all add: provisioning_mode_from_name_def)

section \<open>Configured targets (ConfiguredBackupTargetMarker)\<close>

record ConfiguredBackupTargetIdentity =
  ct_partition_uuid :: string
  ct_luks_uuid :: string

definition matches_target :: "ExistingPartition \<Rightarrow> ConfiguredBackupTargetIdentity \<Rightarrow> bool" where
  "matches_target part ct \<longleftrightarrow>
     ct_partition_uuid ct \<noteq> [] \<and> pt_partition_uuid part = Some (ct_partition_uuid ct)
     \<or> ct_luks_uuid ct \<noteq> [] \<and> fs_type (pt_filesystem part) = ''crypto_LUKS''
       \<and> fs_uuid (pt_filesystem part) = ct_luks_uuid ct"

definition add_configured_target_blocker :: "ExistingPartition \<Rightarrow> ExistingPartition" where
  "add_configured_target_blocker part =
     (let blocker = \<lparr> bl_code = ''configured-backup-target'', bl_detail = display_path (pt_identity part) \<rparr>
      in part\<lparr> pt_blockers := (if blocker \<in> set (pt_blockers part) then pt_blockers part
                                    else pt_blockers part @ [blocker]),
                    pt_configured_backup_target := True,
                    pt_suitable_for_reformat := False, pt_suitable_for_adoption := False \<rparr>)"

fun mark_region :: "ConfiguredBackupTargetIdentity list \<Rightarrow> StorageRegion \<Rightarrow> StorageRegion" where
  "mark_region targets (PartitionRegion p) =
     PartitionRegion (if list_ex (matches_target p) targets then add_configured_target_blocker p else p)"
| "mark_region targets (FreeRegion r) = FreeRegion r"

definition mark_configured_targets :: "ConfiguredBackupTargetIdentity list \<Rightarrow> StorageTopology \<Rightarrow> StorageTopology" where
  \<comment> \<open>\<open>ConfiguredBackupTargetMarker::apply\<close>\<close>
  "mark_configured_targets targets topology =
     topology\<lparr> tp_devices := map (\<lambda>d. d\<lparr> dv_regions := map (mark_region targets) (dv_regions d) \<rparr>) (tp_devices topology) \<rparr>"

lemma marked_partition:
  assumes "p \<in> set (partitions d)" and "d \<in> set (tp_devices (mark_configured_targets targets topology))"
    and "list_ex (matches_target p) targets"
  shows "pt_configured_backup_target p"
proof -
  obtain d0 where d0: "d = d0\<lparr> dv_regions := map (mark_region targets) (dv_regions d0) \<rparr>"
    using assms(2) by (auto simp: mark_configured_targets_def)
  then obtain r where r: "r \<in> set (dv_regions d0)" "region_partition (mark_region targets r) = Some p"
    using assms(1) by (auto simp: partitions_def List.map_filter_def)
  have same: "matches_target (add_configured_target_blocker q) = matches_target q" for q
    by (simp add: fun_eq_iff add_configured_target_blocker_def matches_target_def Let_def)
  from r(2) obtain q where q: "p = (if list_ex (matches_target q) targets then add_configured_target_blocker q else q)"
    by (cases r) auto
  show ?thesis
  proof (cases "list_ex (matches_target q) targets")
    case True
    then show ?thesis using q by (simp add: add_configured_target_blocker_def Let_def)
  next
    case False
    then show ?thesis using q assms(3) by simp
  qed
qed

end
