(* ===== verification/Provisioning.thy ===== *)
theory Provisioning
  imports StorageTopology
begin

text \<open>
  The inspection that a device is still safe to change, provisioning/StorageSafetyInspector, and the
  builder of preparation plans, provisioning/DevicePreparationPlanBuilder, with what they guarantee
  together: nothing in use is erased, and a planned layout loses no sector.
\<close>

section \<open>The safety inspection (StorageSafetyInspector)\<close>

definition add_blocker :: "SafetyBlocker list \<Rightarrow> string \<Rightarrow> string \<Rightarrow> SafetyBlocker list" where
  "add_blocker result code detail =
     (if \<lparr> bl_code = code, bl_detail = detail \<rparr> \<in> set result then result
      else result @ [\<lparr> bl_code = code, bl_detail = detail \<rparr>])"

definition add_blockers :: "SafetyBlocker list \<Rightarrow> SafetyBlocker list \<Rightarrow> SafetyBlocker list" where
  "add_blockers result blockers = foldl (\<lambda>r b. add_blocker r (bl_code b) (bl_detail b)) result blockers"

definition same_identity :: "StableBlockDeviceIdentity \<Rightarrow> StableBlockDeviceIdentity \<Rightarrow> bool" where
  "same_identity expected current \<longleftrightarrow>
     display_path expected = display_path current \<and> major_minor expected = major_minor current
     \<and> sysfs_path expected = sysfs_path current \<and> wwn expected = wwn current
     \<and> serial expected = serial current \<and> serial_short expected = serial_short current
     \<and> identity_size_bytes expected = identity_size_bytes current"

definition expected_device :: "StorageTopology \<Rightarrow> string \<Rightarrow> StorageDevice option" where
  "expected_device topology i = find (\<lambda>d. dv_candidate_id d = i) (tp_devices topology)"

definition current_device :: "StorageTopology \<Rightarrow> StorageDevice \<Rightarrow> StorageDevice option" where
  "current_device topology expected =
     find (\<lambda>d. major_minor (dv_identity d) = major_minor (dv_identity expected)) (tp_devices topology)"

definition expected_partition :: "StorageDevice \<Rightarrow> string \<Rightarrow> ExistingPartition option" where
  "expected_partition device i = find (\<lambda>p. pt_candidate_id p = i) (partitions device)"

definition current_partition :: "StorageDevice \<Rightarrow> ExistingPartition \<Rightarrow> ExistingPartition option" where
  "current_partition device expected =
     find (\<lambda>p. pt_partition_number p = pt_partition_number expected) (partitions device)"

definition expected_free_region :: "StorageDevice \<Rightarrow> string \<Rightarrow> UnallocatedRegion option" where
  "expected_free_region device i = find (\<lambda>r. fr_id r = i) (free_regions device)"

definition current_free_region :: "StorageDevice \<Rightarrow> UnallocatedRegion \<Rightarrow> UnallocatedRegion option" where
  "current_free_region device expected =
     find (\<lambda>r. fr_start_sector r = fr_start_sector expected \<and> fr_sector_count r = fr_sector_count expected)
       (free_regions device)"

definition inspect_device_identity ::
  "SafetyBlocker list \<Rightarrow> StorageDevice \<Rightarrow> StorageDevice \<Rightarrow> bool \<Rightarrow> SafetyBlocker list" where
  "inspect_device_identity result expected current require_writable =
     (let r1 = (if \<not> same_identity (dv_identity expected) (dv_identity current)
                then add_blocker result ''block-device-identity-changed'' (display_path (dv_identity expected)) else result);
          r2 = (if dv_logical_sector_size expected \<noteq> dv_logical_sector_size current
                   \<or> dv_physical_sector_size expected \<noteq> dv_physical_sector_size current
                then add_blocker r1 ''sector-size-changed'' (display_path (dv_identity expected)) else r1);
          r3 = (if dv_partition_table expected \<noteq> dv_partition_table current
                then add_blocker r2 ''partition-table-changed'' (display_path (dv_identity expected)) else r2);
          r4 = (if require_writable \<and> dv_read_only current
                then add_blocker r3 ''read-only-device'' (display_path (dv_identity current)) else r3)
      in add_blockers r4 (dv_blockers current))"

definition inspect_partition_state ::
  "SafetyBlocker list \<Rightarrow> ExistingPartition \<Rightarrow> ExistingPartition \<Rightarrow> SafetyBlocker list" where
  "inspect_partition_state result expected current =
     (let r1 = (if \<not> same_identity (pt_identity expected) (pt_identity current)
                   \<or> pt_partition_uuid expected \<noteq> pt_partition_uuid current
                   \<or> pt_partition_number expected \<noteq> pt_partition_number current
                   \<or> pt_start_sector expected \<noteq> pt_start_sector current
                   \<or> pt_sector_count expected \<noteq> pt_sector_count current
                then add_blocker result ''partition-identity-changed'' (display_path (pt_identity expected)) else result);
          r2 = (if pt_filesystem expected \<noteq> pt_filesystem current
                then add_blocker r1 ''partition-signature-changed'' (display_path (pt_identity expected)) else r1);
          r3 = add_blockers r2 (pt_blockers current);
          r4 = foldl (\<lambda>r m. add_blocker r ''mounted-filesystem'' m) r3 (pt_mount_points current);
          r5 = (if pt_active_swap current
                then add_blocker r4 ''active-swap'' (display_path (pt_identity current)) else r4);
          r6 = foldl (\<lambda>r h. add_blocker r ''block-holder'' h) r5 (pt_holders current)
      in if pt_configured_backup_target current
         then add_blocker r6 ''configured-backup-target'' (display_path (pt_identity current)) else r6)"

definition inspect_all_partitions ::
  "SafetyBlocker list \<Rightarrow> StorageDevice \<Rightarrow> StorageDevice \<Rightarrow> SafetyBlocker list" where
  \<comment> \<open>the two loops over the regions of the current and of the expected device\<close>
  "inspect_all_partitions result expected_parent current_parent =
     foldl (\<lambda>r expected_child.
         case current_partition current_parent expected_child of
           None \<Rightarrow> add_blocker r ''block-partition-missing'' (display_path (pt_identity expected_child))
         | Some current_child \<Rightarrow> inspect_partition_state r expected_child current_child)
       (foldl (\<lambda>r p. inspect_partition_state r p p) result (partitions current_parent))
       (partitions expected_parent)"

definition inspect_generation :: "SafetyBlocker list \<Rightarrow> StorageTopology \<Rightarrow> StorageTopology \<Rightarrow> SafetyBlocker list" where
  "inspect_generation result expected current =
     (if tp_generation expected \<noteq> tp_generation current
      then add_blocker result ''topology-generation-changed'' [] else result)"

definition inspect_free_region ::
  "SafetyBlocker list \<Rightarrow> StorageDevice \<Rightarrow> StorageDevice \<Rightarrow> UnallocatedRegion \<Rightarrow> SafetyBlocker list" where
  \<comment> \<open>the branch of an unallocated region after the planned region was found\<close>
  "inspect_free_region result expected_parent current_parent expected_region =
     (let r1 = (case current_free_region current_parent expected_region of
          None \<Rightarrow> add_blocker result ''unallocated-region-changed'' []
        | Some current_region \<Rightarrow>
            (let r = add_blockers result (fr_blockers current_region)
             in if \<not> fr_suitable_for_backup_partition current_region
                then add_blocker r ''unallocated-region-unsuitable'' [] else r))
      in inspect_all_partitions r1 expected_parent current_parent)"

definition inspect_existing_partition ::
  "SafetyBlocker list \<Rightarrow> StorageDevice \<Rightarrow> StorageDevice \<Rightarrow> DevicePreparationPlan \<Rightarrow> SafetyBlocker list" where
  \<comment> \<open>the rest of the function, after the branches of a whole device and of an unallocated region\<close>
  "inspect_existing_partition result expected_parent current_parent plan =
     (let kind = sc_kind (dp_destructive_scope plan);
          existing_partition_scope = (kind = ExistingPartitionScope
            \<or> dp_mode plan = AdoptExistingTarget \<and> kind = NoScope)
      in case dp_partition_id plan of
           None \<Rightarrow> add_blocker result ''unsupported-destructive-scope'' []
         | Some i \<Rightarrow>
             if \<not> existing_partition_scope then add_blocker result ''unsupported-destructive-scope'' []
             else case expected_partition expected_parent i of
               None \<Rightarrow> add_blocker result ''planned-partition-missing'' []
             | Some expected_target \<Rightarrow>
                 (case current_partition current_parent expected_target of
                    None \<Rightarrow> add_blocker result ''block-partition-missing'' (display_path (pt_identity expected_target))
                  | Some current_target \<Rightarrow> inspect_partition_state result expected_target current_target))"

definition inspect_storage ::
  "StorageTopology \<Rightarrow> StorageTopology \<Rightarrow> DevicePreparationPlan \<Rightarrow> SafetyBlocker list" where
  \<comment> \<open>\<open>StorageSafetyInspector::inspect\<close>\<close>
  "inspect_storage expected current plan =
     (case expected_device expected (dp_device_id plan) of
        None \<Rightarrow> add_blocker [] ''planned-device-missing'' []
      | Some expected_parent \<Rightarrow>
          (case current_device current expected_parent of
             None \<Rightarrow> add_blocker [] ''block-device-missing'' (display_path (dv_identity expected_parent))
           | Some current_parent \<Rightarrow>
               (let result = inspect_device_identity [] expected_parent current_parent
                      (dp_mode plan \<noteq> AdoptExistingTarget)
                in case sc_kind (dp_destructive_scope plan) of
                     WholeDeviceScope \<Rightarrow>
                       inspect_all_partitions (inspect_generation result expected current) expected_parent current_parent
                   | UnallocatedRegionScope \<Rightarrow>
                       (let result = inspect_generation result expected current in
                        case dp_free_region_id plan of
                          None \<Rightarrow> add_blocker result ''planned-free-region-missing'' []
                        | Some i \<Rightarrow>
                            (case expected_free_region expected_parent i of
                               None \<Rightarrow> add_blocker result ''planned-free-region-missing'' []
                             | Some expected_region \<Rightarrow>
                                 inspect_free_region result expected_parent current_parent expected_region))
                   | _ \<Rightarrow> inspect_existing_partition result expected_parent current_parent plan)))"

section \<open>When the inspection finds nothing\<close>

lemma add_blocker_not_Nil [simp]: "add_blocker r c d \<noteq> []" "[] \<noteq> add_blocker r c d"
  by (auto simp: add_blocker_def)

lemma add_blockers_Nil [simp]: "add_blockers r bs = [] \<longleftrightarrow> r = [] \<and> bs = []"
  by (induction bs arbitrary: r) (auto simp: add_blockers_def)

lemma foldl_Nil_iff:
  assumes "\<And>r x. f r x = [] \<longleftrightarrow> r = [] \<and> P x"
  shows "foldl f r xs = [] \<longleftrightarrow> r = [] \<and> list_all P xs"
  by (induction xs arbitrary: r) (auto simp: assms)

lemma foldl_add_blocker_Nil [simp]: "foldl (\<lambda>r m. add_blocker r c m) r ms = [] \<longleftrightarrow> r = [] \<and> ms = []"
  by (induction ms arbitrary: r) auto

definition idle_partition :: "ExistingPartition \<Rightarrow> bool" where
  \<comment> \<open>not in use and not protected\<close>
  "idle_partition p \<longleftrightarrow> pt_blockers p = [] \<and> pt_mount_points p = [] \<and> \<not> pt_active_swap p \<and> pt_holders p = []
     \<and> \<not> pt_configured_backup_target p"

definition unchanged_partition :: "ExistingPartition \<Rightarrow> ExistingPartition \<Rightarrow> bool" where
  "unchanged_partition expected current \<longleftrightarrow>
     pt_identity expected = pt_identity current \<and> pt_partition_uuid expected = pt_partition_uuid current
     \<and> pt_partition_number expected = pt_partition_number current \<and> pt_start_sector expected = pt_start_sector current
     \<and> pt_sector_count expected = pt_sector_count current \<and> pt_filesystem expected = pt_filesystem current"

lemma same_identity_eq: "same_identity a b \<longleftrightarrow> a = b"
  by (auto simp: same_identity_def)

lemma inspect_partition_state_Nil [simp]:
  "inspect_partition_state r e c = [] \<longleftrightarrow> r = [] \<and> unchanged_partition e c \<and> idle_partition c"
  by (auto simp: inspect_partition_state_def unchanged_partition_def idle_partition_def same_identity_eq Let_def)

lemma unchanged_partition_refl [simp]: "unchanged_partition p p"
  by (simp add: unchanged_partition_def)

definition unchanged_device :: "bool \<Rightarrow> StorageDevice \<Rightarrow> StorageDevice \<Rightarrow> bool" where
  "unchanged_device writable expected current \<longleftrightarrow>
     dv_identity expected = dv_identity current \<and> dv_logical_sector_size expected = dv_logical_sector_size current
     \<and> dv_physical_sector_size expected = dv_physical_sector_size current
     \<and> dv_partition_table expected = dv_partition_table current
     \<and> \<not> (writable \<and> dv_read_only current) \<and> dv_blockers current = []"

lemma inspect_device_identity_Nil [simp]:
  "inspect_device_identity r e c w = [] \<longleftrightarrow> r = [] \<and> unchanged_device w e c"
  by (auto simp: inspect_device_identity_def unchanged_device_def same_identity_eq Let_def)

definition still_there :: "StorageDevice \<Rightarrow> ExistingPartition \<Rightarrow> bool" where
  "still_there current_parent p \<longleftrightarrow>
     (case current_partition current_parent p of None \<Rightarrow> False
      | Some c \<Rightarrow> unchanged_partition p c \<and> idle_partition c)"

lemma inspect_all_partitions_Nil [simp]:
  "inspect_all_partitions r e c = [] \<longleftrightarrow> r = [] \<and> list_all idle_partition (partitions c) \<and> list_all (still_there c) (partitions e)"
proof -
  have "(case current_partition c p of
           None \<Rightarrow> add_blocker r ''block-partition-missing'' (display_path (pt_identity p))
         | Some q \<Rightarrow> inspect_partition_state r p q) = [] \<longleftrightarrow> r = [] \<and> still_there c p" for r p
    by (auto simp: still_there_def split: option.split)
  note expected = foldl_Nil_iff [of "\<lambda>r p. case current_partition c p of
           None \<Rightarrow> add_blocker r ''block-partition-missing'' (display_path (pt_identity p))
         | Some q \<Rightarrow> inspect_partition_state r p q", OF this]
  have current: "foldl (\<lambda>r p. inspect_partition_state r p p) r ps = [] \<longleftrightarrow> r = [] \<and> list_all idle_partition ps" for r ps
    by (rule foldl_Nil_iff) simp
  show ?thesis unfolding inspect_all_partitions_def by (simp add: expected current)
qed

lemma inspect_generation_Nil [simp]:
  "inspect_generation r e c = [] \<longleftrightarrow> r = [] \<and> tp_generation e = tp_generation c"
  by (auto simp: inspect_generation_def)

definition cleared :: "StorageTopology \<Rightarrow> StorageTopology \<Rightarrow> DevicePreparationPlan \<Rightarrow> bool" where
  \<comment> \<open>the device is the one of the plan, and what the plan touches is there, unchanged and idle\<close>
  "cleared expected current plan \<longleftrightarrow>
     (\<exists>e c. expected_device expected (dp_device_id plan) = Some e \<and> current_device current e = Some c
        \<and> unchanged_device (dp_mode plan \<noteq> AdoptExistingTarget) e c
        \<and> (case sc_kind (dp_destructive_scope plan) of
             WholeDeviceScope \<Rightarrow> tp_generation expected = tp_generation current
               \<and> list_all idle_partition (partitions c) \<and> list_all (still_there c) (partitions e)
           | UnallocatedRegionScope \<Rightarrow> tp_generation expected = tp_generation current
               \<and> list_all idle_partition (partitions c) \<and> list_all (still_there c) (partitions e)
               \<and> (\<exists>i planned found. dp_free_region_id plan = Some i \<and> expected_free_region e i = Some planned
                    \<and> current_free_region c planned = Some found
                    \<and> fr_blockers found = [] \<and> fr_suitable_for_backup_partition found)
           | kind \<Rightarrow> (kind = ExistingPartitionScope \<or> dp_mode plan = AdoptExistingTarget)
               \<and> (\<exists>i planned. dp_partition_id plan = Some i \<and> expected_partition e i = Some planned
                    \<and> still_there c planned)))"

lemma inspect_existing_partition_Nil:
  "inspect_existing_partition r e c plan = [] \<longleftrightarrow> r = []
     \<and> (sc_kind (dp_destructive_scope plan) = ExistingPartitionScope
        \<or> dp_mode plan = AdoptExistingTarget \<and> sc_kind (dp_destructive_scope plan) = NoScope)
     \<and> (\<exists>i planned. dp_partition_id plan = Some i \<and> expected_partition e i = Some planned \<and> still_there c planned)"
  by (auto simp: inspect_existing_partition_def still_there_def Let_def split: option.split)

lemma inspect_free_region_Nil:
  "inspect_free_region r e c planned = [] \<longleftrightarrow> r = [] \<and> list_all idle_partition (partitions c)
     \<and> list_all (still_there c) (partitions e)
     \<and> (\<exists>found. current_free_region c planned = Some found
          \<and> fr_blockers found = [] \<and> fr_suitable_for_backup_partition found)"
  by (auto simp: inspect_free_region_def Let_def split: option.split)

lemma inspect_storage_Nil: "inspect_storage expected current plan = [] \<longleftrightarrow> cleared expected current plan"
  unfolding inspect_storage_def cleared_def Let_def
  by (auto simp: inspect_existing_partition_Nil inspect_free_region_Nil
      split: option.split DestructiveScopeKind.split)

definition endangered_partitions ::
  "StorageTopology \<Rightarrow> StorageTopology \<Rightarrow> DevicePreparationPlan \<Rightarrow> ExistingPartition list" where
  \<comment> \<open>the partitions whose data the plan destroys\<close>
  "endangered_partitions expected current plan =
     (case expected_device expected (dp_device_id plan) of None \<Rightarrow> []
      | Some e \<Rightarrow>
          (case current_device current e of None \<Rightarrow> []
           | Some c \<Rightarrow>
               (case sc_kind (dp_destructive_scope plan) of
                  WholeDeviceScope \<Rightarrow> partitions c
                | ExistingPartitionScope \<Rightarrow>
                    (case Option.bind (dp_partition_id plan) (expected_partition e) of None \<Rightarrow> []
                     | Some p \<Rightarrow> (case current_partition c p of None \<Rightarrow> [] | Some q \<Rightarrow> [q]))
                | _ \<Rightarrow> [])))"

lemma cleared_endangered:
  "cleared expected current plan \<Longrightarrow> list_all idle_partition (endangered_partitions expected current plan)"
  unfolding cleared_def endangered_partitions_def
  by (auto simp: still_there_def split: DestructiveScopeKind.splits option.splits)

lemma endangered_in_topology:
  assumes "p \<in> set (endangered_partitions expected current plan)"
  shows "\<exists>d \<in> set (tp_devices current). p \<in> set (partitions d)"
proof (cases "expected_device expected (dp_device_id plan)")
  case None
  then show ?thesis using assms by (simp add: endangered_partitions_def)
next
  case (Some e)
  note e = Some
  show ?thesis
  proof (cases "current_device current e")
    case None
    then show ?thesis using assms e by (simp add: endangered_partitions_def)
  next
    case (Some c)
    have "p \<in> set (partitions c)"
    proof (cases "sc_kind (dp_destructive_scope plan) = ExistingPartitionScope")
      case True
      then obtain q where "current_partition c q = Some p"
        using assms e Some by (cases "Option.bind (dp_partition_id plan) (expected_partition e)")
          (auto simp: endangered_partitions_def split: option.splits)
      then show ?thesis by (auto simp: current_partition_def dest!: find_Some_iff_member)
    next
      case False
      then show ?thesis
        using assms e Some by (cases "sc_kind (dp_destructive_scope plan)") (simp_all add: endangered_partitions_def)
    qed
    moreover have "c \<in> set (tp_devices current)"
      using Some by (auto simp: current_device_def dest!: find_Some_iff_member)
    ultimately show ?thesis by blast
  qed
qed

section \<open>Building a plan (DevicePreparationPlanBuilder)\<close>

fun predicted_region :: "StorageRegion \<Rightarrow> PredictedStorageRegion" where
  "predicted_region (PartitionRegion p) =
     default_PredictedStorageRegion\<lparr> pr_start_sector := pt_start_sector p, pr_sector_count := pt_sector_count p,
       pr_id := pt_candidate_id p, pr_kind := PredictedExistingPartition,
       pr_partition_number := Some (pt_partition_number p), pr_display_path := display_path (pt_identity p),
       pr_partition_label := (case pt_partition_label p of None \<Rightarrow> [] | Some l \<Rightarrow> l),
       pr_filesystem_type := fs_type (pt_filesystem p) \<rparr>"
| "predicted_region (FreeRegion r) =
     default_PredictedStorageRegion\<lparr> pr_start_sector := fr_start_sector r, pr_sector_count := fr_sector_count r,
       pr_id := fr_id r, pr_kind := PredictedUnallocated \<rparr>"

definition current_layout :: "StorageDevice \<Rightarrow> StorageLayout" where
  "current_layout device =
     \<lparr> ly_device_id = dv_candidate_id device, ly_size_bytes = dv_size_bytes device,
       ly_logical_sector_size = dv_logical_sector_size device,
       ly_partition_table_type = table_type (dv_partition_table device),
       ly_regions = map predicted_region (dv_regions device) \<rparr>"

definition planned_backup_partition :: "PlannedPartitionGeometry \<Rightarrow> PredictedStorageRegion" where
  "planned_backup_partition geometry =
     default_PredictedStorageRegion\<lparr> pr_id := ''planned-backup-partition'', pr_kind := PredictedBackupPartition,
       pr_start_sector := gm_start_sector geometry, pr_sector_count := gm_sector_count geometry,
       pr_partition_number := Some (gm_partition_number geometry), pr_partition_label := ''btrfs-backup'',
       pr_filesystem_type := ''btrfs'', pr_geometry_exact := True, pr_encrypted := True, pr_changed := True \<rparr>"

definition warning_of_blocker :: "SafetyBlocker \<Rightarrow> SafetyWarning" where
  "warning_of_blocker blocker = \<lparr> wn_code = bl_code blocker, wn_detail = bl_detail blocker \<rparr>"

definition erase_whole_device_plan ::
  "StorageTopology \<Rightarrow> StorageDevice \<Rightarrow> string \<Rightarrow> PlannedPartitionGeometry \<Rightarrow> DevicePreparationPlan result" where
  "erase_whole_device_plan topology device plan_id geometry =
     (let sectors_total = (if dv_logical_sector_size device = 0 then 0
            else dv_size_bytes device div ucast (dv_logical_sector_size device));
          layout = current_layout device;
          before = layout\<lparr> ly_regions := map (\<lambda>r. r\<lparr> pr_data_will_be_erased := pr_kind r = PredictedExistingPartition \<rparr>)
                     (ly_regions layout) \<rparr>;
          after = \<lparr> ly_device_id = dv_candidate_id device, ly_size_bytes = dv_size_bytes device,
            ly_logical_sector_size = dv_logical_sector_size device, ly_partition_table_type = Gpt,
            ly_regions = [planned_backup_partition geometry] \<rparr>
      in if gm_partition_number geometry = 0 \<or> gm_sector_count geometry = 0 \<or> gm_start_sector geometry \<ge> sectors_total
            \<or> gm_sector_count geometry > sectors_total - gm_start_sector geometry
         then Inl (ValidationError ''planned whole-device partition geometry is invalid'')
         else bindE (whole_device (dv_candidate_id device)) (\<lambda>scope.
           let plan = \<lparr> dp_id = plan_id, dp_topology_generation = tp_generation topology, dp_mode = EraseWholeDevice,
             dp_device_id = dv_candidate_id device, dp_partition_id = None, dp_free_region_id = None,
             dp_inspection_id = None, dp_before = before, dp_after = after,
             dp_operations =
               [BackupPartitionTable (dv_candidate_id device), EraseDeviceSignatures (dv_candidate_id device),
                CreateGptPartitionTable (dv_candidate_id device),
                CreateBackupPartition (dv_candidate_id device) None (Some geometry),
                FormatLuks2 None, OpenLuksMapping, FormatBtrfs, VerifyPreparedTarget, PublishProfile],
             dp_warnings = \<lparr> wn_code = ''erase-whole-device'', wn_detail = display_path (dv_identity device) \<rparr>
               # map warning_of_blocker (dv_blockers device),
             dp_destructive_scope = scope \<rparr>
           in bindE (validate_plan plan) (\<lambda>_. Inr plan)))"

fun update_first :: "('a \<Rightarrow> bool) \<Rightarrow> ('a \<Rightarrow> 'a) \<Rightarrow> 'a list \<Rightarrow> 'a list" where
  \<comment> \<open>\<open>std::ranges::find\<close> and an assignment through the iterator\<close>
  "update_first P f [] = []"
| "update_first P f (x # xs) = (if P x then f x # xs else x # update_first P f xs)"

definition reformat_partition_plan ::
  "StorageTopology \<Rightarrow> StorageDevice \<Rightarrow> ExistingPartition \<Rightarrow> string \<Rightarrow> DevicePreparationPlan result" where
  "reformat_partition_plan topology device part plan_id =
     (let layout = current_layout device;
          is_target = (\<lambda>r. pr_id r = pt_candidate_id part);
          before = layout\<lparr> ly_regions := update_first is_target (\<lambda>r. r\<lparr> pr_data_will_be_erased := True \<rparr>) (ly_regions layout) \<rparr>;
          after = layout\<lparr> ly_regions := update_first is_target (\<lambda>r. r\<lparr> pr_kind := PredictedBackupPartition,
            pr_filesystem_type := ''btrfs'', pr_partition_label := ''btrfs-backup'', pr_encrypted := True,
            pr_changed := True \<rparr>) (ly_regions layout) \<rparr>
      in bindE (existing_partition (dv_candidate_id device) (pt_candidate_id part)) (\<lambda>scope.
           let plan = \<lparr> dp_id = plan_id, dp_topology_generation = tp_generation topology,
             dp_mode = ReformatExistingPartition, dp_device_id = dv_candidate_id device,
             dp_partition_id = Some (pt_candidate_id part), dp_free_region_id = None, dp_inspection_id = None,
             dp_before = before, dp_after = after,
             dp_operations =
               [ErasePartitionSignatures (pt_candidate_id part), FormatLuks2 (Some (pt_candidate_id part)),
                OpenLuksMapping, FormatBtrfs, VerifyPreparedTarget, PublishProfile],
             dp_warnings = \<lparr> wn_code = ''erase-existing-partition'', wn_detail = display_path (pt_identity part) \<rparr>
               # map warning_of_blocker (pt_blockers part),
             dp_destructive_scope = scope \<rparr>
           in bindE (validate_plan plan) (\<lambda>_. Inr plan)))"

definition free_space_geometry_error :: "StorageDevice \<Rightarrow> UnallocatedRegion \<Rightarrow> PlannedPartitionGeometry \<Rightarrow> string option" where
  \<comment> \<open>the checks; \<open>max_word - x\<close> is \<open>numeric_limits<uint64_t>::max() - x\<close>\<close>
  "free_space_geometry_error device free_region geometry =
     (if table_type (dv_partition_table device) \<noteq> Gpt then Some ''creating a backup partition requires GPT''
      else if \<not> fr_suitable_for_backup_partition free_region \<or> fr_blockers free_region \<noteq> [] \<or> fr_sector_count free_region = 0
      then Some ''unallocated region is not suitable for a backup partition''
      else if gm_sector_count geometry = 0 \<or> gm_partition_number geometry = 0
        \<or> fr_start_sector free_region > - 1 - fr_sector_count free_region
        \<or> gm_start_sector geometry > - 1 - gm_sector_count geometry
      then Some ''planned partition geometry is invalid''
      else if gm_start_sector geometry < fr_start_sector free_region
        \<or> gm_start_sector geometry + gm_sector_count geometry > fr_start_sector free_region + fr_sector_count free_region
      then Some ''planned partition geometry exceeds the selected free region''
      else None)"

definition free_space_replacements :: "UnallocatedRegion \<Rightarrow> PlannedPartitionGeometry \<Rightarrow> PredictedStorageRegion list" where
  "free_space_replacements free_region geometry =
     (let free_end = fr_start_sector free_region + fr_sector_count free_region;
          partition_end = gm_start_sector geometry + gm_sector_count geometry
      in (if gm_start_sector geometry > fr_start_sector free_region
          then [default_PredictedStorageRegion\<lparr> pr_id := fr_id free_region @ '':before'', pr_kind := PredictedUnallocated,
                  pr_start_sector := fr_start_sector free_region,
                  pr_sector_count := gm_start_sector geometry - fr_start_sector free_region \<rparr>] else [])
         @ [planned_backup_partition geometry]
         @ (if partition_end < free_end
            then [default_PredictedStorageRegion\<lparr> pr_id := fr_id free_region @ '':after'', pr_kind := PredictedUnallocated,
                  pr_start_sector := partition_end, pr_sector_count := free_end - partition_end \<rparr>] else []))"

definition create_partition_in_free_space_plan ::
  "StorageTopology \<Rightarrow> StorageDevice \<Rightarrow> UnallocatedRegion \<Rightarrow> string \<Rightarrow> PlannedPartitionGeometry
   \<Rightarrow> DevicePreparationPlan result" where
  "create_partition_in_free_space_plan topology device free_region plan_id geometry =
     (case free_space_geometry_error device free_region geometry of
        Some message \<Rightarrow> Inl (ValidationError message)
      | None \<Rightarrow>
          (let before = current_layout device;
               leading = takeWhile (\<lambda>r. pr_id r \<noteq> fr_id free_region) (ly_regions before);
               trailing = drop (length leading + 1) (ly_regions before);
               after = before\<lparr> ly_regions := leading @ free_space_replacements free_region geometry @ trailing \<rparr>
           in bindE (unallocated_region (dv_candidate_id device) (fr_id free_region)) (\<lambda>scope.
                let plan = \<lparr> dp_id = plan_id, dp_topology_generation = tp_generation topology,
                  dp_mode = CreatePartitionInUnallocatedSpace, dp_device_id = dv_candidate_id device,
                  dp_partition_id = None, dp_free_region_id = Some (fr_id free_region), dp_inspection_id = None,
                  dp_before = before, dp_after = after,
                  dp_operations =
                    [BackupPartitionTable (dv_candidate_id device),
                     CreateBackupPartition (dv_candidate_id device) (Some (fr_id free_region)) (Some geometry),
                     FormatLuks2 None, OpenLuksMapping, FormatBtrfs, VerifyPreparedTarget, PublishProfile],
                  dp_warnings = [\<lparr> wn_code = ''create-partition-in-unallocated-space'',
                    wn_detail = display_path (dv_identity device) \<rparr>],
                  dp_destructive_scope = scope \<rparr>
                in bindE (validate_plan plan) (\<lambda>_. Inr plan))))"

definition adopt_existing_target_plan ::
  "StorageTopology \<Rightarrow> StorageDevice \<Rightarrow> ExistingPartition \<Rightarrow> string \<Rightarrow> string \<Rightarrow> DevicePreparationPlan result" where
  "adopt_existing_target_plan topology device part plan_id inspection_id =
     (if \<not> pt_suitable_for_adoption part \<or> inspection_id = []
      then Inl (ValidationError ''storage partition requires a valid existing target inspection'')
      else bindE (adoption (dv_candidate_id device) (pt_candidate_id part)) (\<lambda>scope.
        let plan = \<lparr> dp_id = plan_id, dp_topology_generation = tp_generation topology, dp_mode = AdoptExistingTarget,
          dp_device_id = dv_candidate_id device, dp_partition_id = Some (pt_candidate_id part),
          dp_free_region_id = None, dp_inspection_id = Some inspection_id,
          dp_before = current_layout device, dp_after = current_layout device,
          dp_operations = [VerifyPreparedTarget, PublishProfile], dp_warnings = [],
          dp_destructive_scope = scope \<rparr>
        in bindE (validate_plan plan) (\<lambda>_. Inr plan)))"

fun find_partition_device :: "string \<Rightarrow> StorageDevice list \<Rightarrow> (StorageDevice \<times> ExistingPartition) option" where
  \<comment> \<open>the loop over the devices for a partition\<close>
  "find_partition_device i [] = None"
| "find_partition_device i (d # ds) =
     (case expected_partition d i of Some p \<Rightarrow> Some (d, p) | None \<Rightarrow> find_partition_device i ds)"

fun find_free_region_device :: "string \<Rightarrow> StorageDevice list \<Rightarrow> (StorageDevice \<times> UnallocatedRegion) option" where
  "find_free_region_device i [] = None"
| "find_free_region_device i (d # ds) =
     (case expected_free_region d i of Some r \<Rightarrow> Some (d, r) | None \<Rightarrow> find_free_region_device i ds)"

definition build_preparation_plan ::
  "StorageTopology \<Rightarrow> string \<Rightarrow> string \<Rightarrow> ProvisioningMode \<Rightarrow> string \<Rightarrow> string option
   \<Rightarrow> PlannedPartitionGeometry option \<Rightarrow> DevicePreparationPlan result" where
  \<comment> \<open>\<open>DevicePreparationPlanBuilder::build\<close>\<close>
  "build_preparation_plan topology expected_generation selected mode plan_id inspection_id partition_geometry =
     (if tp_generation topology = [] \<or> tp_generation topology \<noteq> expected_generation
      then Inl (ValidationError ''storage topology generation changed'')
      else if plan_id = [] then Inl (ValidationError ''device preparation plan identifier is empty'')
      else if mode = AdoptExistingTarget \<and> inspection_id = None
      then Inl (ValidationError ''existing target inspection identifier is required'')
      else case mode of
        EraseWholeDevice \<Rightarrow>
          (case partition_geometry of
             None \<Rightarrow> Inl (ValidationError ''planned whole-device partition geometry is required'')
           | Some geometry \<Rightarrow>
               (case expected_device topology selected of
                  None \<Rightarrow> Inl (ValidationError ''storage device candidate is unavailable'')
                | Some device \<Rightarrow> erase_whole_device_plan topology device plan_id geometry))
      | CreatePartitionInUnallocatedSpace \<Rightarrow>
          (case partition_geometry of
             None \<Rightarrow> Inl (ValidationError ''planned partition geometry is required'')
           | Some geometry \<Rightarrow>
               (case find_free_region_device selected (tp_devices topology) of
                  None \<Rightarrow> Inl (ValidationError ''unallocated storage region candidate is unavailable'')
                | Some (device, free_region) \<Rightarrow>
                    create_partition_in_free_space_plan topology device free_region plan_id geometry))
      | _ \<Rightarrow>
          (case find_partition_device selected (tp_devices topology) of
             None \<Rightarrow> Inl (ValidationError ''storage partition candidate is unavailable'')
           | Some (device, part) \<Rightarrow>
               if mode = ReformatExistingPartition then reformat_partition_plan topology device part plan_id
               else adopt_existing_target_plan topology device part plan_id
                      (case inspection_id of None \<Rightarrow> [] | Some i \<Rightarrow> i)))"

section \<open>A new partition takes its sectors from the free region only\<close>

fun tiled :: "nat \<Rightarrow> PredictedStorageRegion list \<Rightarrow> nat \<Rightarrow> bool" where
  \<comment> \<open>the regions follow one another without gap or overlap from one sector to another\<close>
  "tiled a [] b \<longleftrightarrow> a = b"
| "tiled a (r # rs) b \<longleftrightarrow> unat (pr_start_sector r) = a \<and> 0 < unat (pr_sector_count r)
     \<and> tiled (a + unat (pr_sector_count r)) rs b"

lemma no_carry: "\<not> x > - 1 - y \<longleftrightarrow> unat x + unat y < 2 ^ 64" for x y :: sectors
proof -
  have "unat (- 1 - y) = 2 ^ 64 - 1 - unat y"
    by (simp add: unat_sub unsigned_minus_1_eq_mask mask_eq_exp_minus_1)
  moreover have "unat y < 2 ^ LENGTH(64)"
    by (rule unsigned_less)
  ultimately show ?thesis by (simp add: word_less_nat_alt) linarith
qed

lemma unat_no_carry: "\<not> x > - 1 - y \<Longrightarrow> unat (x + y) = unat x + unat y" for x y :: sectors
  using no_carry by (simp add: unat_word_ariths(1))

lemma free_space_replacements_tile:
  assumes "free_space_geometry_error device r g = None"
  shows "tiled (unat (fr_start_sector r)) (free_space_replacements r g)
    (unat (fr_start_sector r) + unat (fr_sector_count r))"
proof -
  have ok: "\<not> fr_start_sector r > - 1 - fr_sector_count r" "\<not> gm_start_sector g > - 1 - gm_sector_count g"
    "fr_start_sector r \<le> gm_start_sector g" "gm_sector_count g \<noteq> 0"
    "gm_start_sector g + gm_sector_count g \<le> fr_start_sector r + fr_sector_count r"
    using assms by (auto simp: free_space_geometry_error_def split: if_splits)
  note ends = unat_no_carry [OF ok(1)] unat_no_carry [OF ok(2)]
  have "0 < unat (gm_sector_count g)" using ok(4) by (simp add: unat_gt_0)
  moreover have "unat (gm_start_sector g - fr_start_sector r) = unat (gm_start_sector g) - unat (fr_start_sector r)"
    using ok(3) by (rule unat_sub)
  moreover have "unat (fr_start_sector r + fr_sector_count r - (gm_start_sector g + gm_sector_count g))
      = unat (fr_start_sector r + fr_sector_count r) - unat (gm_start_sector g + gm_sector_count g)"
    using ok(5) by (rule unat_sub)
  ultimately show ?thesis
    using ok(3,5) by (simp add: free_space_replacements_def planned_backup_partition_def Let_def word_less_nat_alt
        word_le_nat_alt ends)
qed

lemma takeWhile_at:
  assumes "distinct (map f (xs @ x # ys))"
  shows "takeWhile (\<lambda>r. f r \<noteq> f x) (xs @ x # ys) = xs"
  using assms by (induction xs) auto

section \<open>Operations within the scope of the plan\<close>

fun within_scope :: "DestructiveScope \<Rightarrow> PlannedStorageOperation \<Rightarrow> bool" where
  "within_scope scope (BackupPartitionTable d) \<longleftrightarrow> d = sc_device_id scope"
| "within_scope scope (EraseDeviceSignatures d) \<longleftrightarrow> sc_kind scope = WholeDeviceScope \<and> d = sc_device_id scope"
| "within_scope scope (CreateGptPartitionTable d) \<longleftrightarrow> sc_kind scope = WholeDeviceScope \<and> d = sc_device_id scope"
| "within_scope scope (ErasePartitionSignatures p) \<longleftrightarrow>
     sc_kind scope = ExistingPartitionScope \<and> sc_partition_id scope = Some p"
| "within_scope scope (CreateBackupPartition d r g) \<longleftrightarrow> d = sc_device_id scope \<and> g \<noteq> None
     \<and> (sc_kind scope = WholeDeviceScope \<and> r = None
        \<or> sc_kind scope = UnallocatedRegionScope \<and> r \<noteq> None \<and> r = sc_free_region_id scope)"
| "within_scope scope (FormatLuks2 p) \<longleftrightarrow> sc_kind scope \<noteq> NoScope \<and> p = sc_partition_id scope"
| "within_scope scope OpenLuksMapping \<longleftrightarrow> sc_kind scope \<noteq> NoScope"
| "within_scope scope FormatBtrfs \<longleftrightarrow> sc_kind scope \<noteq> NoScope"
| "within_scope scope VerifyPreparedTarget \<longleftrightarrow> True"
| "within_scope scope PublishProfile \<longleftrightarrow> True"

definition sound_plan :: "ProvisioningMode \<Rightarrow> DevicePreparationPlan result \<Rightarrow> bool" where
  "sound_plan mode r \<longleftrightarrow> (case r of
     Inl e \<Rightarrow> \<exists>m. e = ValidationError m
   | Inr plan \<Rightarrow> validate_plan plan = Inr () \<and> dp_mode plan = mode
       \<and> list_all (within_scope (dp_destructive_scope plan)) (dp_operations plan))"

lemma validation_errors:
  "require_identifier v m = Inl e \<Longrightarrow> \<exists>m. e = ValidationError m"
  "validate_plan plan = Inl e \<Longrightarrow> \<exists>m. e = ValidationError m"
  by (auto simp: validate_plan_def require_identifier_def result_simps split: if_splits option.splits)

lemmas scope_defs = whole_device_def existing_partition_def unallocated_region_def adoption_def make_DestructiveScope_def

lemma kinds_of_plans_sound:
  "sound_plan EraseWholeDevice (erase_whole_device_plan topology device plan_id geometry)"
  "sound_plan ReformatExistingPartition (reformat_partition_plan topology device part plan_id)"
  "sound_plan CreatePartitionInUnallocatedSpace (create_partition_in_free_space_plan topology device r plan_id geometry)"
  "sound_plan AdoptExistingTarget (adopt_existing_target_plan topology device part plan_id inspection)"
  unfolding sound_plan_def erase_whole_device_plan_def reformat_partition_plan_def
    create_partition_in_free_space_plan_def adopt_existing_target_plan_def scope_defs Let_def
  by (auto simp: result_simps dest: validation_errors split: sum.split option.split)

section \<open>Concrete inputs\<close>

definition sample_identity :: StableBlockDeviceIdentity where
  "sample_identity = \<lparr> display_path = ''/dev/sdb'', major_minor = ''8:16'', sysfs_path = ''/sys/b'', wwn = ''w'',
     serial = ''s'', serial_short = ''s'', identity_size_bytes = 51200 \<rparr>"

definition sample_partition :: ExistingPartition where
  "sample_partition = \<lparr> pt_candidate_id = ''p1'', pt_identity = sample_identity\<lparr> display_path := ''/dev/sdb1'' \<rparr>,
     pt_partition_uuid = Some ''pu'', pt_partition_label = None, pt_partition_number = 1, pt_start_sector = 8,
     pt_sector_count = 32, pt_filesystem = \<lparr> fs_type = ''ext4'', fs_version = [], fs_label = [], fs_uuid = ''fu'' \<rparr>,
     pt_mount_points = [], pt_holders = [], pt_active_swap = False, pt_blockers = [],
     pt_configured_backup_target = False, pt_suitable_for_reformat = True, pt_suitable_for_adoption = False \<rparr>"

definition sample_region :: UnallocatedRegion where
  "sample_region = \<lparr> fr_id = ''f1'', fr_start_sector = 40, fr_sector_count = 60, fr_blockers = [],
     fr_suitable_for_backup_partition = True \<rparr>"

definition sample_device :: StorageDevice where
  "sample_device = \<lparr> dv_candidate_id = ''d1'', dv_identity = sample_identity, dv_display_name = ''disk'',
     dv_transport = ''usb'', dv_size_bytes = 51200, dv_logical_sector_size = 512, dv_physical_sector_size = 512,
     dv_removable = True, dv_read_only = False, dv_hotplug = True, dv_system_device = False,
     dv_partition_table = \<lparr> table_type = Gpt, table_identifier = ''t'' \<rparr>,
     dv_filesystem = \<lparr> fs_type = [], fs_version = [], fs_label = [], fs_uuid = [] \<rparr>,
     dv_regions = [PartitionRegion sample_partition, FreeRegion sample_region],
     dv_mount_points = [], dv_holders = [], dv_active_swap = False, dv_blockers = [] \<rparr>"

definition sample_topology :: StorageTopology where
  "sample_topology = \<lparr> tp_generation = ''g1'', tp_devices = [sample_device] \<rparr>"

definition sample_geometry :: PlannedPartitionGeometry where
  "sample_geometry = \<lparr> gm_start_sector = 48, gm_sector_count = 20, gm_partition_number = 2 \<rparr>"

definition sample_target :: ConfiguredBackupTargetIdentity where
  "sample_target = \<lparr> ct_partition_uuid = ''other'', ct_luks_uuid = ''lu'' \<rparr>"

section \<open>Properties\<close>

text \<open>
  Property C20: the safety inspection reports nothing exactly when everything is as planned. It finds
  no blocker if and only if the planned device is there with the same identity, sector sizes and
  partition table, writable unless a target is only adopted, and without blockers; what the plan
  touches is there and unchanged; and every partition the plan could destroy, or all partitions of a
  device whose partition table is to be changed, is unmounted, no swap space, held by no other
  device, no configured target and without blockers.
\<close>

theorem inspect_storage_iff: "inspect_storage expected current plan = [] \<longleftrightarrow> cleared expected current plan"
  by (rule inspect_storage_Nil)

text \<open>
  Property C6: a plan that passes the inspection destroys nothing in use and no configured target. If
  the current devices are inspected after the configured targets have been marked, and no blocker is
  found, then no partition whose data the plan destroys is mounted, used as swap space or held by
  another device, and none has the partition or LUKS UUID of a configured target.
\<close>

theorem inspected_plan_spares_targets:
  assumes "inspect_storage expected (mark_configured_targets targets current) plan = []"
  shows "list_all (\<lambda>p. pt_mount_points p = [] \<and> \<not> pt_active_swap p \<and> pt_holders p = []
      \<and> \<not> list_ex (matches_target p) targets)
    (endangered_partitions expected (mark_configured_targets targets current) plan)"
proof -
  let ?marked = "mark_configured_targets targets current"
  have idle: "list_all idle_partition (endangered_partitions expected ?marked plan)"
    using assms by (intro cleared_endangered) (simp add: inspect_storage_Nil)
  have "\<not> list_ex (matches_target p) targets"
    if "p \<in> set (endangered_partitions expected ?marked plan)" for p
    using endangered_in_topology [OF that] marked_partition idle that by (auto simp: list_all_iff idle_partition_def)
  then show ?thesis using idle by (auto simp: list_all_iff idle_partition_def)
qed

theorem inspected_plan_spares_targets_witness:
  "case build_preparation_plan sample_topology ''g1'' ''p1'' ReformatExistingPartition ''plan'' None None of
     Inl e \<Rightarrow> False
   | Inr plan \<Rightarrow>
       (let marked = mark_configured_targets [sample_target] sample_topology
        in inspect_storage sample_topology marked plan = []
          \<and> endangered_partitions sample_topology marked plan = [sample_partition]
          \<and> \<not> list_ex (matches_target sample_partition) [sample_target])"
proof -
  obtain plan where plan: "build_preparation_plan sample_topology ''g1'' ''p1'' ReformatExistingPartition ''plan'' None None = Inr plan"
    and clear: "inspect_storage sample_topology (mark_configured_targets [sample_target] sample_topology) plan = []"
    and endangered: "endangered_partitions sample_topology (mark_configured_targets [sample_target] sample_topology) plan
      = [sample_partition]"
  proof -
    have "case build_preparation_plan sample_topology ''g1'' ''p1'' ReformatExistingPartition ''plan'' None None of
       Inl e \<Rightarrow> False
     | Inr plan \<Rightarrow> inspect_storage sample_topology (mark_configured_targets [sample_target] sample_topology) plan = []
         \<and> endangered_partitions sample_topology (mark_configured_targets [sample_target] sample_topology) plan
           = [sample_partition]"
      by code_simp
    then show ?thesis using that by (auto split: sum.splits)
  qed
  from inspected_plan_spares_targets [OF clear] show ?thesis
    by (simp add: plan clear endangered)
qed

text \<open>
  Property C22: a partition created in free space takes its sectors from the free region and from
  nothing else. If the identifiers of the regions of a device are distinct and a plan is built, the
  planned layout keeps all other regions as they are, and in place of the free region stand the rest
  of the free space before it, the new partition with the requested geometry, and the rest after it,
  without gap, overlap or overflow.
\<close>

theorem free_space_plan_tiles:
  assumes "create_partition_in_free_space_plan topology device r plan_id geometry = Inr plan"
    and "FreeRegion r \<in> set (dv_regions device)"
    and "distinct (map pr_id (map predicted_region (dv_regions device)))"
  shows "\<exists>leading trailing. ly_regions (dp_before plan) = leading @ [predicted_region (FreeRegion r)] @ trailing
    \<and> ly_regions (dp_after plan) = leading @ free_space_replacements r geometry @ trailing
    \<and> planned_backup_partition geometry \<in> set (free_space_replacements r geometry)
    \<and> tiled (unat (fr_start_sector r)) (free_space_replacements r geometry)
        (unat (fr_start_sector r) + unat (fr_sector_count r))"
proof -
  obtain xs ys where regions: "dv_regions device = xs @ FreeRegion r # ys"
    using assms(2) by (auto simp: in_set_conv_decomp)
  have lead: "takeWhile (\<lambda>q. pr_id q \<noteq> fr_id r) (map predicted_region (dv_regions device)) = map predicted_region xs"
    using takeWhile_at [of pr_id "map predicted_region xs" "predicted_region (FreeRegion r)" "map predicted_region ys"]
      assms(3) by (simp add: regions)
  have none: "free_space_geometry_error device r geometry = None"
    using assms(1) by (auto simp: create_partition_in_free_space_plan_def split: option.splits)
  have "ly_regions (dp_before plan) = map predicted_region xs @ [predicted_region (FreeRegion r)] @ map predicted_region ys
    \<and> ly_regions (dp_after plan) = map predicted_region xs @ free_space_replacements r geometry @ map predicted_region ys"
    using assms(1) lead none
    by (auto simp: create_partition_in_free_space_plan_def current_layout_def regions Let_def result_simps)
  then show ?thesis
    using free_space_replacements_tile [OF none] by (auto simp: free_space_replacements_def Let_def)
qed

theorem free_space_plan_tiles_witness:
  "case create_partition_in_free_space_plan sample_topology sample_device sample_region ''plan'' sample_geometry of
     Inl e \<Rightarrow> False
   | Inr plan \<Rightarrow> tiled 40 (free_space_replacements sample_region sample_geometry) 100
       \<and> (\<exists>leading trailing. ly_regions (dp_after plan)
            = leading @ free_space_replacements sample_region sample_geometry @ trailing)"
proof -
  obtain plan where plan: "create_partition_in_free_space_plan sample_topology sample_device sample_region ''plan'' sample_geometry = Inr plan"
  proof -
    have "\<not> isl (create_partition_in_free_space_plan sample_topology sample_device sample_region ''plan'' sample_geometry)"
      by code_simp
    then show ?thesis using that by (cases "create_partition_in_free_space_plan sample_topology sample_device sample_region ''plan'' sample_geometry") auto
  qed
  have "FreeRegion sample_region \<in> set (dv_regions sample_device)"
    and "distinct (map pr_id (map predicted_region (dv_regions sample_device)))"
    by (simp_all add: sample_device_def sample_partition_def sample_region_def)
  moreover have "fr_start_sector sample_region = 40" "fr_sector_count sample_region = 60"
    by (simp_all add: sample_region_def)
  ultimately show ?thesis
    using free_space_plan_tiles [OF plan] by (auto simp: plan)
qed

text \<open>
  Property C38: a plan that was built is consistent, and its operations stay within its destructive
  scope. Building fails with a validation error or returns a plan that passes \<open>validate\<close> and has the
  requested mode; signatures of a device are erased and a partition table is created only when the
  scope is the whole device, signatures of a partition only when the scope is that partition, a
  partition is created only on the device of the scope, and adopting a target formats nothing.
\<close>

theorem built_plan_within_scope:
  "sound_plan mode (build_preparation_plan topology generation selected mode plan_id inspection geometry)"
  unfolding build_preparation_plan_def
  by (auto simp: kinds_of_plans_sound sound_plan_def [of _ "Inl e" for e] split: option.split ProvisioningMode.split)

end
