(* ===== verification/RestoreCatalog.thy ===== *)
theory RestoreCatalog
  imports PathLaws RuntimeTime
begin

text \<open>
  The catalogue of a repository as the restore reads it, restore/RepositoryCatalog, and the walk
  through a snapshot that follows no symbolic link, restore/SnapshotBrowser. Errors of a restore have
  their own codes, restore/RestoreError. What the file system says about a path is an argument.
\<close>

section \<open>Errors (RestoreError)\<close>

datatype RestoreErrorCode =
    RepositoryNotFound
  | RepositoryMetadataInvalid
  | RepositoryFormatUnsupported
  | CatalogInvalid
  | SnapshotNotFound
  | SnapshotIdentityMismatch
  | PathInvalid
  | PathTraversal
  | SymlinkRejected
  | MountBoundaryRejected
  | DestinationExists
  | DestinationUnsafe
  | InsufficientSpace
  | RestoreCancelled
  | CopyFailed
  | VerificationFailed
  | CleanupIncomplete
  | RollbackIncomplete

fun restore_error_code_name :: "RestoreErrorCode \<Rightarrow> string" where
  "restore_error_code_name RepositoryNotFound = ''repository-not-found''"
| "restore_error_code_name RepositoryMetadataInvalid = ''repository-metadata-invalid''"
| "restore_error_code_name RepositoryFormatUnsupported = ''repository-format-unsupported''"
| "restore_error_code_name CatalogInvalid = ''catalog-invalid''"
| "restore_error_code_name SnapshotNotFound = ''snapshot-not-found''"
| "restore_error_code_name SnapshotIdentityMismatch = ''snapshot-identity-mismatch''"
| "restore_error_code_name PathInvalid = ''path-invalid''"
| "restore_error_code_name PathTraversal = ''path-traversal''"
| "restore_error_code_name SymlinkRejected = ''symlink-rejected''"
| "restore_error_code_name MountBoundaryRejected = ''mount-boundary-rejected''"
| "restore_error_code_name DestinationExists = ''destination-exists''"
| "restore_error_code_name DestinationUnsafe = ''destination-unsafe''"
| "restore_error_code_name InsufficientSpace = ''insufficient-space''"
| "restore_error_code_name RestoreCancelled = ''cancelled''"
| "restore_error_code_name CopyFailed = ''copy-failed''"
| "restore_error_code_name VerificationFailed = ''verification-failed''"
| "restore_error_code_name CleanupIncomplete = ''cleanup-incomplete''"
| "restore_error_code_name RollbackIncomplete = ''rollback-incomplete''"

datatype restore_exn =
    RestoreError RestoreErrorCode string
  | OtherStdException string
  | ForeignException

type_synonym 'a restore_result = "restore_exn + 'a"

section \<open>The file system as far as it is asked\<close>

datatype FileType = NotFoundType | RegularType | DirectoryType | SymlinkType | OtherType

datatype FsError = NoSuchFile | OtherFsError

type_synonym symlink_status = "path \<Rightarrow> FileType \<times> FsError option"

section \<open>Relative paths\<close>

definition check_component :: "string \<Rightarrow> string \<Rightarrow> unit restore_result" where
  \<comment> \<open>the body of the loop over the components\<close>
  "check_component v component =
     (if component = ''..''
      then Inl (RestoreError PathTraversal (''restore path contains '' @ [CHR 0x27] @ ''..'' @ [CHR 0x27] @ '': '' @ v))
      else if component = [] \<or> component = ''.''
      then Inl (RestoreError PathInvalid (''restore path is not canonical: '' @ v))
      else Inr ())"

definition validate_relative_path :: "string \<Rightarrow> path restore_result" where
  "validate_relative_path v =
     (if v = [] \<or> CHR 0x00 \<in> set v then Inl (RestoreError PathInvalid ''restore path is empty or contains NUL'')
      else if path_eq v ''.'' then Inr v
      else if is_absolute v then Inl (RestoreError PathTraversal (''restore path must be relative: '' @ v))
      else bindE (mapE (check_component v) (path_elements v)) (\<lambda>_.
           if \<not> path_eq (lexically_normal v) v
           then Inl (RestoreError PathInvalid (''restore path is not canonical: '' @ v))
           else Inr v))"

definition RelativeRestorePath :: "string \<Rightarrow> path restore_result" where
  "RelativeRestorePath v = validate_relative_path v"

definition relative_path_empty :: "path \<Rightarrow> bool" where
  "relative_path_empty p \<longleftrightarrow> path_eq p ''.''"

section \<open>The catalogue\<close>

record RepositoryIdentity =
  ry_repository_id :: string
  ry_target_filesystem_uuid :: string
  ry_created_at :: RuntimeTimePoint
  ry_features :: "string list"

record CatalogSnapshot =
  cs_snapshot_id :: string
  cs_host_id :: string
  cs_profile_id :: string
  cs_source_id :: string
  cs_repository_path :: path
  cs_created_at :: RuntimeTimePoint
  cs_uuid :: string
  cs_received_uuid :: string
  cs_parent_uuid :: string
  cs_verified :: bool

record RepositoryCatalog =
  rc_root :: path
  rc_identity :: RepositoryIdentity
  rc_generation :: nat
  rc_snapshots :: "CatalogSnapshot list"

definition catalog_order :: "CatalogSnapshot \<Rightarrow> CatalogSnapshot \<Rightarrow> bool" where
  "catalog_order left right =
     (if cs_created_at left \<noteq> cs_created_at right then cs_created_at left > cs_created_at right
      else string_less (cs_snapshot_id left) (cs_snapshot_id right))"

fun check_entries :: "string set \<Rightarrow> CatalogSnapshot list \<Rightarrow> unit restore_result" where
  \<comment> \<open>the loop of the constructor\<close>
  "check_entries ids [] = Inr ()"
| "check_entries ids (entry # rest) =
     (if cs_snapshot_id entry = [] \<or> cs_host_id entry = [] \<or> cs_profile_id entry = [] \<or> cs_source_id entry = []
         \<or> cs_uuid entry = [] \<or> \<not> cs_verified entry
      then Inl (RestoreError CatalogInvalid ''catalog contains an incomplete or unverified snapshot'')
      else if cs_snapshot_id entry \<in> ids
      then Inl (RestoreError CatalogInvalid (''duplicate snapshot id: '' @ cs_snapshot_id entry))
      else check_entries (insert (cs_snapshot_id entry) ids) rest)"

definition make_RepositoryCatalog ::
  "path \<Rightarrow> RepositoryIdentity \<Rightarrow> nat \<Rightarrow> CatalogSnapshot list \<Rightarrow> RepositoryCatalog restore_result" where
  "make_RepositoryCatalog root identity generation snapshots =
     bindE (check_entries {} snapshots) (\<lambda>_.
       Inr \<lparr> rc_root = root, rc_identity = identity, rc_generation = generation,
             rc_snapshots = std_sort catalog_order snapshots \<rparr>)"

definition catalog_snapshot :: "RepositoryCatalog \<Rightarrow> string \<Rightarrow> CatalogSnapshot restore_result" where
  "catalog_snapshot catalog i =
     (case find (\<lambda>s. cs_snapshot_id s = i) (rc_snapshots catalog) of
        None \<Rightarrow> Inl (RestoreError SnapshotNotFound (''snapshot not found: '' @ i))
      | Some s \<Rightarrow> Inr s)"

fun walk_version :: "symlink_status \<Rightarrow> path \<Rightarrow> string list \<Rightarrow> path restore_result" where
  \<comment> \<open>the inner loop of \<open>find_versions\<close>: the path it stops at\<close>
  "walk_version status candidate [] = Inr candidate"
| "walk_version status candidate (component # rest) =
     (let next_candidate = path_append candidate component;
          (kind, error) = status next_candidate
      in if error = None \<and> kind = SymlinkType
         then Inl (RestoreError SymlinkRejected ''version path traverses a symbolic link'')
         else if error \<noteq> None \<or> kind = NotFoundType then Inr next_candidate
         else walk_version status next_candidate rest)"

fun versions_in :: "symlink_status \<Rightarrow> RepositoryCatalog \<Rightarrow> string \<Rightarrow> string \<Rightarrow> string \<Rightarrow> path
   \<Rightarrow> CatalogSnapshot list \<Rightarrow> CatalogSnapshot list restore_result" where
  "versions_in status catalog host profile source relative [] = Inr []"
| "versions_in status catalog host profile source relative (s # rest) =
     (if cs_host_id s \<noteq> host \<or> cs_profile_id s \<noteq> profile \<or> cs_source_id s \<noteq> source
      then versions_in status catalog host profile source relative rest
      else bindE (walk_version status (path_append (rc_root catalog) (cs_repository_path s)) (path_elements relative)) (\<lambda>candidate.
           bindE (versions_in status catalog host profile source relative rest) (\<lambda>others.
             let (kind, error) = status candidate
             in Inr (if error = None \<and> kind \<noteq> NotFoundType then s # others else others))))"

definition find_versions ::
  "symlink_status \<Rightarrow> RepositoryCatalog \<Rightarrow> string \<Rightarrow> string \<Rightarrow> string \<Rightarrow> path \<Rightarrow> CatalogSnapshot list restore_result" where
  "find_versions status catalog host profile source relative =
     versions_in status catalog host profile source relative (rc_snapshots catalog)"

section \<open>Browsing a snapshot (SnapshotBrowser)\<close>

fun walk_without_symlinks :: "symlink_status \<Rightarrow> path \<Rightarrow> path \<Rightarrow> string list \<Rightarrow> path restore_result" where
  "walk_without_symlinks status shown current [] = Inr current"
| "walk_without_symlinks status shown current (component # rest) =
     (let next_current = path_append current component;
          (kind, error) = status next_current
      in if error \<noteq> None \<or> kind = NotFoundType
         then Inl (RestoreError PathInvalid (''snapshot path does not exist: '' @ shown))
         else if kind = SymlinkType
         then Inl (RestoreError SymlinkRejected (''snapshot path traverses a symbolic link: '' @ shown))
         else walk_without_symlinks status shown next_current rest)"

definition resolve_without_symlinks ::
  "symlink_status \<Rightarrow> RepositoryCatalog \<Rightarrow> CatalogSnapshot \<Rightarrow> path \<Rightarrow> path restore_result" where
  "resolve_without_symlinks status catalog snapshot relative =
     walk_without_symlinks status relative (path_append (rc_root catalog) (cs_repository_path snapshot))
       (path_elements relative)"

definition resolve_regular_file ::
  "symlink_status \<Rightarrow> RepositoryCatalog \<Rightarrow> string \<Rightarrow> path \<Rightarrow> path restore_result" where
  "resolve_regular_file status catalog i relative =
     bindE (catalog_snapshot catalog i) (\<lambda>snapshot.
     bindE (resolve_without_symlinks status catalog snapshot relative) (\<lambda>file.
       let (kind, error) = status file
       in if error \<noteq> None \<or> kind \<noteq> RegularType
          then Inl (RestoreError PathInvalid (''snapshot path is not a regular file: '' @ relative))
          else Inr file))"

datatype SnapshotEntryType = FileEntry | DirectoryEntry | SymlinkEntry | OtherEntry

record SnapshotEntry =
  se_name :: string
  se_type :: SnapshotEntryType
  se_size :: nat

fun entry_type :: "FileType \<Rightarrow> SnapshotEntryType" where
  "entry_type RegularType = FileEntry"
| "entry_type DirectoryType = DirectoryEntry"
| "entry_type SymlinkType = SymlinkEntry"
| "entry_type _ = OtherEntry"

record DirectoryItem = \<comment> \<open>\<open>std::filesystem::directory_entry\<close>\<close>
  di_path :: path
  di_status :: "FileType \<times> FsError option"
  di_file_size :: nat

definition list_entry :: "DirectoryItem \<Rightarrow> SnapshotEntry restore_result" where
  \<comment> \<open>the body of the loop over the directory\<close>
  "list_entry item =
     (case di_status item of
        (kind, Some e) \<Rightarrow> Inl (RestoreError PathInvalid (''could not inspect snapshot entry: '' @ di_path item))
      | (kind, None) \<Rightarrow> Inr \<lparr> se_name = filename (di_path item), se_type = entry_type kind,
          se_size = (if kind = RegularType then di_file_size item else 0) \<rparr>)"

definition list_snapshot ::
  "symlink_status \<Rightarrow> symlink_status \<Rightarrow> (path \<Rightarrow> DirectoryItem list restore_result) \<Rightarrow> RepositoryCatalog
   \<Rightarrow> string \<Rightarrow> path \<Rightarrow> SnapshotEntry list restore_result" where
  \<comment> \<open>\<open>SnapshotBrowser::list\<close>; \<open>followed\<close> is \<open>std::filesystem::status\<close>\<close>
  "list_snapshot status followed directory_iterator catalog i relative =
     bindE (catalog_snapshot catalog i) (\<lambda>snapshot.
     bindE (resolve_without_symlinks status catalog snapshot relative) (\<lambda>directory.
       let (kind, error) = followed directory
       in if kind \<noteq> DirectoryType \<or> error \<noteq> None
          then Inl (RestoreError PathInvalid (''snapshot path is not a directory: '' @ relative))
          else bindE (directory_iterator directory) (\<lambda>items.
               bindE (mapE list_entry items) (\<lambda>entries.
                 Inr (std_sort (\<lambda>a b. string_less (se_name a) (se_name b)) entries)))))"

section \<open>A relative path does not leave its root\<close>

lemma validate_relative_path_plain:
  assumes "validate_relative_path v = Inr p" and "\<not> relative_path_empty p"
  shows "p = v" and "\<not> is_absolute p" and "\<forall>n \<in> set (path_names p). plain_name n" and "path_elements p = path_names p"
proof -
  from assms show p: "p = v" and abs: "\<not> is_absolute p"
    by (auto simp: validate_relative_path_def relative_path_empty_def result_simps split: if_splits)
  have "\<exists>us. mapE (check_component v) (path_elements v) = Inr us"
    using assms by (auto simp: validate_relative_path_def relative_path_empty_def result_simps split: if_splits)
  then have "\<forall>n \<in> set (path_elements v). n \<noteq> ''..'' \<and> n \<noteq> [] \<and> n \<noteq> ''.''"
    unfolding mapE_check_iff by (auto simp: check_component_def split: if_splits)
  then show "\<forall>n \<in> set (path_names p). plain_name n"
    using path_names_elems [of _ v] p by (auto simp: path_elements_def plain_name_def segment_def)
  show "path_elements p = path_names p" using abs by (simp add: path_elements_def)
qed

fun real_entries :: "symlink_status \<Rightarrow> path \<Rightarrow> string list \<Rightarrow> bool" where
  \<comment> \<open>every step from \<open>current\<close> along the names meets something that exists and is no symbolic link\<close>
  "real_entries status current [] \<longleftrightarrow> True"
| "real_entries status current (n # ns) \<longleftrightarrow>
     snd (status (path_append current n)) = None
     \<and> fst (status (path_append current n)) \<notin> {SymlinkType, NotFoundType}
     \<and> real_entries status (path_append current n) ns"

lemma walk_without_symlinks_real:
  "walk_without_symlinks status shown current ns = Inr p
   \<Longrightarrow> p = foldl path_append current ns \<and> real_entries status current ns"
  by (induction ns arbitrary: current) (auto simp: Let_def split: prod.splits if_splits)

lemma foldl_path_append_clean:
  assumes "clean_path root" and "\<forall>n \<in> set ns. plain_name n"
  shows "clean_path (foldl path_append root ns) \<and> path_names (foldl path_append root ns) = path_names root @ ns"
  using assms by (induction ns arbitrary: root) (auto simp: clean_path_append)

lemma foldl_path_append_within:
  assumes "clean_path root" and "\<forall>n \<in> set ns. plain_name n"
  shows "path_is_within (foldl path_append root ns) root"
  using foldl_path_append_clean [OF assms] assms(1) by (auto simp: path_is_within_clean_iff)

interpretation catalog_age: strict_weak_order catalog_order
proof
  show "catalog_order x y \<Longrightarrow> \<not> catalog_order y x" for x y
    by (auto simp: catalog_order_def text_order.less_asym split: if_splits)
  show "\<not> catalog_order x y \<Longrightarrow> \<not> catalog_order y z \<Longrightarrow> \<not> catalog_order x z" for x y z
    using text_order.not_less_trans by (auto simp: catalog_order_def split: if_splits)
qed

lemma check_entries_iff:
  "check_entries ids es = Inr () \<longleftrightarrow>
     list_all (\<lambda>e. cs_snapshot_id e \<noteq> [] \<and> cs_host_id e \<noteq> [] \<and> cs_profile_id e \<noteq> [] \<and> cs_source_id e \<noteq> []
       \<and> cs_uuid e \<noteq> [] \<and> cs_verified e) es
     \<and> distinct (map cs_snapshot_id es) \<and> set (map cs_snapshot_id es) \<inter> ids = {}"
  by (induction ids es rule: check_entries.induct) auto

section \<open>Properties\<close>

text \<open>
  A catalogue that could be made holds only verified snapshots, from the newest to the
  oldest, and finds each of them by its identifier. Making it fails exactly when an entry is
  incomplete or not verified or when two entries have the same identifier.
\<close>

theorem catalog_sorted_and_complete:
  "case make_RepositoryCatalog root identity generation snapshots of
     Inl e \<Rightarrow> \<not> (list_all (\<lambda>s. cs_snapshot_id s \<noteq> [] \<and> cs_host_id s \<noteq> [] \<and> cs_profile_id s \<noteq> []
         \<and> cs_source_id s \<noteq> [] \<and> cs_uuid s \<noteq> [] \<and> cs_verified s) snapshots \<and> distinct (map cs_snapshot_id snapshots))
   | Inr catalog \<Rightarrow> mset (rc_snapshots catalog) = mset snapshots \<and> list_all cs_verified snapshots
       \<and> sorted_wrt (\<lambda>a b. cs_created_at a \<ge> cs_created_at b) (rc_snapshots catalog)
       \<and> list_all (\<lambda>s. catalog_snapshot catalog (cs_snapshot_id s) = Inr s) snapshots"
proof (cases "check_entries {} snapshots")
  case (Inl e)
  then have "\<not> check_entries {} snapshots = Inr ()" by simp
  then show ?thesis
    unfolding check_entries_iff using Inl by (simp add: make_RepositoryCatalog_def)
next
  case (Inr u)
  then have ok: "list_all cs_verified snapshots" "distinct (map cs_snapshot_id snapshots)"
    using check_entries_iff [of "{}" snapshots] by (auto simp: list_all_iff)
  have sorted: "sorted_wrt (\<lambda>a b. cs_created_at a \<ge> cs_created_at b) (std_sort catalog_order snapshots)"
    by (rule sorted_wrt_mono_rel [OF _ catalog_age.sorted_std_sort]) (auto simp: catalog_order_def split: if_splits)
  have found: "find (\<lambda>t. cs_snapshot_id t = cs_snapshot_id s) (std_sort catalog_order snapshots) = Some s"
    if "s \<in> set snapshots" for s
  proof -
    have "find (\<lambda>t. cs_snapshot_id t = cs_snapshot_id s) (std_sort catalog_order snapshots) \<noteq> None"
      using that by (auto simp: find_None_iff)
    then obtain t where t: "find (\<lambda>t. cs_snapshot_id t = cs_snapshot_id s) (std_sort catalog_order snapshots) = Some t"
      by blast
    from find_Some_iff_member [OF this] have "t \<in> set snapshots" "cs_snapshot_id t = cs_snapshot_id s" by simp_all
    then have "t = s" using ok(2) that by (simp add: distinct_map inj_on_def)
    then show ?thesis using t by simp
  qed
  have "list_all (\<lambda>s. catalog_snapshot \<lparr> rc_root = root, rc_identity = identity, rc_generation = generation,
      rc_snapshots = std_sort catalog_order snapshots \<rparr> (cs_snapshot_id s) = Inr s) snapshots"
    by (simp add: list_all_iff catalog_snapshot_def found)
  then show ?thesis
    using Inr ok sorted by (simp add: make_RepositoryCatalog_def)
qed

text \<open>
  Property C39: browsing stays inside a snapshot and follows no symbolic link. If a relative path was
  accepted and names something below the snapshot, the path that is resolved lies inside the snapshot
  directory, and every step of it from there exists and is no symbolic link; a path with a parent
  reference or an absolute path is not accepted.
\<close>

theorem browse_stays_inside:
  assumes "clean_path (path_append (rc_root catalog) (cs_repository_path snapshot))"
    and "RelativeRestorePath text = Inr relative" and "\<not> relative_path_empty relative"
    and "resolve_without_symlinks status catalog snapshot relative = Inr file"
  shows "path_is_within file (path_append (rc_root catalog) (cs_repository_path snapshot))
    \<and> real_entries status (path_append (rc_root catalog) (cs_repository_path snapshot)) (path_names relative)
    \<and> ''..'' \<notin> set (path_names relative)"
proof -
  note plain = validate_relative_path_plain [OF assms(2) [unfolded RelativeRestorePath_def] assms(3)]
  have "file = foldl path_append (path_append (rc_root catalog) (cs_repository_path snapshot)) (path_names relative)
      \<and> real_entries status (path_append (rc_root catalog) (cs_repository_path snapshot)) (path_names relative)"
    using assms(4) walk_without_symlinks_real by (simp add: resolve_without_symlinks_def plain(4))
  then show ?thesis
    using foldl_path_append_within [OF assms(1) plain(3)] plain(3) by (auto simp: plain_name_def)
qed

definition sample_snapshot :: CatalogSnapshot where
  "sample_snapshot = \<lparr> cs_snapshot_id = ''s'', cs_host_id = ''h'', cs_profile_id = ''p'', cs_source_id = ''home'',
     cs_repository_path = ''home/s'', cs_created_at = 0, cs_uuid = ''u'', cs_received_uuid = [], cs_parent_uuid = [],
     cs_verified = True \<rparr>"

definition sample_catalog :: RepositoryCatalog where
  "sample_catalog = \<lparr> rc_root = ''/mnt'', rc_identity = \<lparr> ry_repository_id = ''i'', ry_target_filesystem_uuid = ''t'',
     ry_created_at = 0, ry_features = [] \<rparr>, rc_generation = 1, rc_snapshots = [sample_snapshot] \<rparr>"

theorem browse_stays_inside_witness:
  "path_is_within ''/mnt/home/s/a/b'' ''/mnt/home/s''
   \<and> resolve_without_symlinks (\<lambda>p. (DirectoryType, None)) sample_catalog sample_snapshot ''a/b'' = Inr ''/mnt/home/s/a/b''"
proof -
  have "clean_path (path_append (rc_root sample_catalog) (cs_repository_path sample_snapshot))"
    and "RelativeRestorePath ''a/b'' = Inr ''a/b''" and "\<not> relative_path_empty ''a/b''"
    and r: "resolve_without_symlinks (\<lambda>p. (DirectoryType, None)) sample_catalog sample_snapshot ''a/b'' = Inr ''/mnt/home/s/a/b''"
    by code_simp+
  from browse_stays_inside [OF this] have "path_is_within ''/mnt/home/s/a/b''
      (path_append (rc_root sample_catalog) (cs_repository_path sample_snapshot))" by simp
  moreover have "path_append (rc_root sample_catalog) (cs_repository_path sample_snapshot) = ''/mnt/home/s''"
    by code_simp
  ultimately show ?thesis using r by simp
qed

end
