(* ===== verification/RestoreEngine.thy ===== *)
theory RestoreEngine
  imports RestoreCatalog
begin

text \<open>
  Planning and executing a restore, restore/RestorePlan and restore/RestoreEngine. The operations on
  the file system are an interface: a record of functions on a world. What a move and a removal do to
  the trees of the world is the contract of that interface, stated as a predicate.
\<close>

section \<open>Plans (RestorePlan)\<close>

datatype RestoreKind = RestoreFiles | RestoreSubvolume | RestoreDrill

datatype ExistingDestinationPolicy = FailIfExists | ReplaceExisting

record RestoreRequest =
  rr_transaction_id :: string
  rr_snapshot_id :: string
  rr_source_path :: path
  rr_destination :: path
  rr_kind :: RestoreKind
  rr_existing_destination :: ExistingDestinationPolicy

record RestorePlan =
  rp_transaction_id :: string
  rp_snapshot_id :: string
  rp_snapshot_uuid :: string
  rp_source :: path
  rp_destination :: path
  rp_staging :: path
  rp_previous :: path
  rp_kind :: RestoreKind
  rp_existing_destination :: ExistingDestinationPolicy
  rp_destination_exists :: bool

fun common_prefix :: "'a list \<Rightarrow> 'a list \<Rightarrow> nat" where
  "common_prefix (x # xs) (y # ys) = (if x = y then 1 + common_prefix xs ys else 0)"
| "common_prefix xs ys = 0"

definition lexically_relative :: "path \<Rightarrow> path \<Rightarrow> path" where
  \<comment> \<open>\<open>std::filesystem::path::lexically_relative\<close>\<close>
  "lexically_relative p base =
     (if is_absolute p \<noteq> is_absolute base then []
      else let k = common_prefix (path_elements p) (path_elements base);
               a = drop k (path_elements p); b = drop k (path_elements base);
               n = int (length (filter (\<lambda>e. e \<noteq> [] \<and> e \<noteq> ''.'' \<and> e \<noteq> ''..'') b))
                   - int (length (filter (\<lambda>e. e = ''..'') b))
           in if a = [] \<and> b = [] then ''.''
              else if n < 0 then []
              else if n = 0 \<and> (a = [] \<or> hd a = []) then ''.''
              else path_of_names False (replicate (nat n) ''..'' @ a))"

definition is_pinned_descriptor_component :: "(nat \<Rightarrow> FileType option) \<Rightarrow> path \<Rightarrow> bool" where
  \<comment> \<open>\<open>descriptor_type\<close> is the type \<open>fstat\<close> reports, if it succeeds\<close>
  "is_pinned_descriptor_component descriptor_type p =
     (let relative = lexically_relative p ''/proc/self/fd''
      in if relative = [] \<or> is_absolute relative then False
         else let descriptor_text = hd (path_elements relative)
              in if descriptor_text = [] \<or> \<not> list_all is_digit descriptor_text then False
                 else let descriptor = foldl (\<lambda>v c. 10 * v + digit_val c) 0 descriptor_text
                      in descriptor < 2 ^ 31
                         \<and> descriptor_type descriptor \<in> {Some DirectoryType, Some RegularType})"

definition valid_transaction_id :: "string \<Rightarrow> bool" where
  "valid_transaction_id v \<longleftrightarrow> v \<noteq> [] \<and> length v \<le> 64
     \<and> list_all (\<lambda>c. c \<in> set ''ABCDEFGHIJKLMNOPQRSTUVWXYZabcdefghijklmnopqrstuvwxyz0123456789-_'') v"

fun check_destination_parents :: "symlink_status \<Rightarrow> path \<Rightarrow> string list \<Rightarrow> unit restore_result" where
  "check_destination_parents status current [] = Inr ()"
| "check_destination_parents status current (component # rest) =
     (let next_current = path_append current component;
          (kind, error) = status next_current
      in if error = None \<and> kind = SymlinkType
         then Inl (RestoreError SymlinkRejected (''restore destination traverses a symbolic link: '' @ next_current))
         else if error = Some OtherFsError
         then Inl (RestoreError DestinationUnsafe (''restore destination cannot be inspected: '' @ next_current))
         else check_destination_parents status next_current rest)"

definition validate_destination :: "symlink_status \<Rightarrow> path \<Rightarrow> unit restore_result" where
  "validate_destination status destination =
     (if \<not> is_absolute destination \<or> \<not> path_eq (lexically_normal destination) destination
         \<or> path_eq destination ''/'' \<or> path_eq destination ''/home''
      then Inl (RestoreError DestinationUnsafe
        ''restore destination must be a canonical absolute path outside / and /home'')
      else check_destination_parents status [] (path_elements (fs_parent_path destination)))"

fun reject_links :: "symlink_status \<Rightarrow> bool \<Rightarrow> RestoreErrorCode \<Rightarrow> path \<Rightarrow> string list \<Rightarrow> unit restore_result" where
  "reject_links status pinned code current [] = Inr ()"
| "reject_links status pinned code current (component # rest) =
     (let next_current = path_append current component;
          (kind, error) = status next_current
      in if error \<noteq> None then Inl (RestoreError code (''restore path cannot be inspected: '' @ next_current))
         else if kind = SymlinkType
           \<and> \<not> (pinned \<and> (path_eq next_current ''/proc/self'' \<or> path_eq (fs_parent_path next_current) ''/proc/self/fd''))
         then Inl (RestoreError SymlinkRejected (''restore path traverses a symbolic link: '' @ next_current))
         else reject_links status pinned code next_current rest)"

definition reject_symlink_components ::
  "symlink_status \<Rightarrow> (nat \<Rightarrow> FileType option) \<Rightarrow> path \<Rightarrow> RestoreErrorCode \<Rightarrow> unit restore_result" where
  "reject_symlink_components status descriptor_type p code =
     reject_links status (is_pinned_descriptor_component descriptor_type p) code [] (path_elements p)"

definition validate_source ::
  "symlink_status \<Rightarrow> symlink_status \<Rightarrow> (nat \<Rightarrow> FileType option) \<Rightarrow> path \<Rightarrow> unit restore_result" where
  \<comment> \<open>\<open>followed\<close> is \<open>std::filesystem::status\<close>, which follows links\<close>
  "validate_source status followed descriptor_type source =
     bindE (reject_symlink_components status descriptor_type source PathInvalid) (\<lambda>_.
       let (kind, error) = (if path_eq (fs_parent_path source) ''/proc/self/fd'' then followed source else status source)
       in if error \<noteq> None \<or> kind \<noteq> RegularType \<and> kind \<noteq> DirectoryType
          then Inl (RestoreError PathInvalid ''restore source is not a regular file or directory'')
          else if kind = SymlinkType then Inl (RestoreError SymlinkRejected ''restore source is a symbolic link'')
          else Inr ())"

definition build_restore_plan ::
  "symlink_status \<Rightarrow> symlink_status \<Rightarrow> (nat \<Rightarrow> FileType option) \<Rightarrow> CatalogSnapshot \<Rightarrow> RestoreRequest \<Rightarrow> path
   \<Rightarrow> RestorePlan restore_result" where
  "build_restore_plan status followed descriptor_type snapshot request source =
     bindE (requireE (valid_transaction_id (rr_transaction_id request))
              (RestoreError PathInvalid ''restore transaction id is invalid'')) (\<lambda>_.
     bindE (validate_destination status (rr_destination request)) (\<lambda>_.
     bindE (validate_source status followed descriptor_type source) (\<lambda>_.
       let (kind, error) = status (rr_destination request);
           destination_exists = (kind \<noteq> NotFoundType);
           stem = ''.btrfs-backup-restore-'' @ rr_transaction_id request;
           parent = fs_parent_path (rr_destination request)
       in if error = Some OtherFsError
          then Inl (RestoreError DestinationUnsafe ''restore destination cannot be inspected'')
          else if destination_exists \<and> rr_existing_destination request = FailIfExists
          then Inl (RestoreError DestinationExists (''restore destination already exists: '' @ rr_destination request))
          else Inr \<lparr> rp_transaction_id = rr_transaction_id request, rp_snapshot_id = rr_snapshot_id request,
            rp_snapshot_uuid = cs_uuid snapshot, rp_source = source, rp_destination = rr_destination request,
            rp_staging = path_append parent (stem @ ''.staging''), rp_previous = path_append parent (stem @ ''.previous''),
            rp_kind = rr_kind request, rp_existing_destination = rr_existing_destination request,
            rp_destination_exists = destination_exists \<rparr>)))"

definition plan_restore ::
  "symlink_status \<Rightarrow> symlink_status \<Rightarrow> (nat \<Rightarrow> FileType option) \<Rightarrow> RepositoryCatalog \<Rightarrow> RestoreRequest
   \<Rightarrow> RestorePlan restore_result" where
  \<comment> \<open>\<open>RestorePlanner::plan\<close>\<close>
  "plan_restore status followed descriptor_type catalog request =
     bindE (catalog_snapshot catalog (rr_snapshot_id request)) (\<lambda>snapshot.
       build_restore_plan status followed descriptor_type snapshot request
         (path_append (path_append (rc_root catalog) (cs_repository_path snapshot)) (rr_source_path request)))"

definition plan_from_pinned_source ::
  "symlink_status \<Rightarrow> symlink_status \<Rightarrow> (nat \<Rightarrow> FileType option) \<Rightarrow> RepositoryCatalog \<Rightarrow> RestoreRequest \<Rightarrow> path
   \<Rightarrow> RestorePlan restore_result" where
  "plan_from_pinned_source status followed descriptor_type catalog request source =
     bindE (requireE (path_eq (fs_parent_path source) ''/proc/self/fd'' \<and> is_pinned_descriptor_component descriptor_type source)
              (RestoreError PathInvalid ''restore source is not a pinned descriptor'')) (\<lambda>_.
     bindE (catalog_snapshot catalog (rr_snapshot_id request)) (\<lambda>snapshot.
       build_restore_plan status followed descriptor_type snapshot request source))"

section \<open>Execution (RestoreEngine)\<close>

record RestoreStatistics =
  st_files :: nat
  st_directories :: nat
  st_bytes :: nat

datatype RestorePhase = CheckingSpace | Copying

record RestoreResult =
  re_transaction_id :: string
  re_statistics :: RestoreStatistics
  re_drill :: bool
  re_committed :: bool

record 'w RestoreOperations =
  ro_cancellation_requested :: "'w \<Rightarrow> bool \<times> 'w"
  ro_phase :: "RestorePhase \<Rightarrow> ('w, restore_exn, unit) run" \<comment> \<open>the phase sink; without one, nothing\<close>
  ro_exists :: "path \<Rightarrow> ('w, restore_exn, bool) run"
  ro_ensure_sufficient_space :: "path \<Rightarrow> path \<Rightarrow> ('w, restore_exn, unit) run"
  ro_prepare_copy_root :: "path \<Rightarrow> path \<Rightarrow> ('w, restore_exn, unit) run"
  ro_create_subvolume_root :: "path \<Rightarrow> ('w, restore_exn, unit) run"
  ro_copy_and_verify :: "path \<Rightarrow> path \<Rightarrow> ('w, restore_exn, RestoreStatistics) run"
  ro_move :: "path \<Rightarrow> path \<Rightarrow> ('w, restore_exn, unit) run"
  ro_remove_owned_tree :: "path \<Rightarrow> ('w, restore_exn, unit) run"

record 'w restore_state =
  staging_created :: bool
  previous_moved :: bool
  committed :: bool
  rs_world :: 'w

definition opR :: "('w, restore_exn, 'a) run \<Rightarrow> ('w restore_state, restore_exn, 'a) run" where
  \<comment> \<open>an operation of the interface; the local variables stay\<close>
  "opR m s = (case m (rs_world s) of (r, w) \<Rightarrow> (r, s\<lparr> rs_world := w \<rparr>))"

definition throw_if_restore_cancelled :: "('w, 'z) RestoreOperations_scheme \<Rightarrow> ('w, restore_exn, unit) run" where
  "throw_if_restore_cancelled ops w =
     (case ro_cancellation_requested ops w of
        (requested, w') \<Rightarrow> ((if requested then Inl (RestoreError RestoreCancelled ''restore was cancelled'') else Inr ()), w'))"

definition commit_restore ::
  "('w, 'z) RestoreOperations_scheme \<Rightarrow> RestorePlan \<Rightarrow> ('w restore_state, restore_exn, unit) run" where
  \<comment> \<open>the moves and the removal of the replaced tree\<close>
  "commit_restore ops plan =
     bindS (opR (ro_exists ops (rp_destination plan))) (\<lambda>present.
     bindS (if \<not> present then returnS ()
            else if rp_existing_destination plan \<noteq> ReplaceExisting
            then throwS (RestoreError DestinationExists ''restore destination appeared before commit'')
            else bindS (opR (ro_move ops (rp_destination plan) (rp_previous plan))) (\<lambda>_.
                   modifyS (\<lambda>s. s\<lparr> previous_moved := True \<rparr>))) (\<lambda>_.
     bindS (opR (ro_move ops (rp_staging plan) (rp_destination plan))) (\<lambda>_.
     bindS (modifyS (\<lambda>s. s\<lparr> staging_created := False, committed := True \<rparr>)) (\<lambda>_.
     bindS (getsS previous_moved) (\<lambda>moved.
       if moved then opR (ro_remove_owned_tree ops (rp_previous plan)) else returnS ())))))"

definition prepare_staging :: "('w, 'z) RestoreOperations_scheme \<Rightarrow> RestorePlan \<Rightarrow> ('w, restore_exn, unit) run" where
  "prepare_staging ops plan =
     (if rp_kind plan = RestoreSubvolume then ro_create_subvolume_root ops (rp_staging plan)
      else ro_prepare_copy_root ops (rp_source plan) (rp_staging plan))"

definition finish_restore ::
  "('w, 'z) RestoreOperations_scheme \<Rightarrow> RestorePlan \<Rightarrow> RestoreStatistics \<Rightarrow> ('w restore_state, restore_exn, RestoreResult) run" where
  \<comment> \<open>from the verified copy to the result\<close>
  "finish_restore ops plan statistics =
     (if rp_kind plan = RestoreDrill
       then bindS (opR (ro_remove_owned_tree ops (rp_staging plan))) (\<lambda>_.
              returnS \<lparr> re_transaction_id = rp_transaction_id plan, re_statistics = statistics, re_drill = True,
                        re_committed = False \<rparr>)
       else bindS (commit_restore ops plan) (\<lambda>_.
              returnS \<lparr> re_transaction_id = rp_transaction_id plan, re_statistics = statistics, re_drill = False,
                        re_committed = True \<rparr>))"

definition attempt_restore ::
  "('w, 'z) RestoreOperations_scheme \<Rightarrow> RestorePlan \<Rightarrow> ('w restore_state, restore_exn, RestoreResult) run" where
  \<comment> \<open>the \<open>try\<close> block\<close>
  "attempt_restore ops plan =
     bindS (opR (ro_phase ops CheckingSpace)) (\<lambda>_.
     bindS (opR (ro_ensure_sufficient_space ops (rp_source plan) (rp_staging plan))) (\<lambda>_.
     bindS (opR (throw_if_restore_cancelled ops)) (\<lambda>_.
     bindS (opR (ro_phase ops Copying)) (\<lambda>_.
     bindS (opR (prepare_staging ops plan)) (\<lambda>_.
     bindS (modifyS (\<lambda>s. s\<lparr> staging_created := True \<rparr>)) (\<lambda>_.
     bindS (opR (ro_copy_and_verify ops (rp_source plan) (rp_staging plan))) (\<lambda>statistics.
     bindS (opR (throw_if_restore_cancelled ops)) (\<lambda>_.
       finish_restore ops plan statistics))))))))"

definition when_exists ::
  "('w, 'z) RestoreOperations_scheme \<Rightarrow> bool \<Rightarrow> path \<Rightarrow> ('w, restore_exn, unit) run \<Rightarrow> ('w restore_state, restore_exn, unit) run" where
  \<comment> \<open>\<open>if (flag && operations_.exists (path)) step\<close>\<close>
  "when_exists ops flag p step =
     (if \<not> flag then returnS ()
      else bindS (opR (ro_exists ops p)) (\<lambda>present. if present then opR step else returnS ()))"

definition rollback_steps ::
  "('w, 'z) RestoreOperations_scheme \<Rightarrow> RestorePlan \<Rightarrow> ('w restore_state, restore_exn, unit) run" where
  "rollback_steps ops plan =
     bindS (getsS (\<lambda>s. (committed s, previous_moved s, staging_created s))) (\<lambda>(c, p, t).
     bindS (when_exists ops c (rp_destination plan) (ro_remove_owned_tree ops (rp_destination plan))) (\<lambda>_.
     bindS (when_exists ops p (rp_previous plan) (ro_move ops (rp_previous plan) (rp_destination plan))) (\<lambda>_.
       when_exists ops t (rp_staging plan) (ro_remove_owned_tree ops (rp_staging plan)))))"

fun std_message :: "restore_exn \<Rightarrow> string option" where
  "std_message (RestoreError c m) = Some m"
| "std_message (OtherStdException m) = Some m"
| "std_message ForeignException = None"

definition rollback_restore ::
  "('w, 'z) RestoreOperations_scheme \<Rightarrow> RestorePlan \<Rightarrow> restore_exn \<Rightarrow> ('w restore_state, restore_exn, 'a) run" where
  \<comment> \<open>the catch clause\<close>
  "rollback_restore ops plan failure =
     bindS (catchS (bindS (rollback_steps ops plan) (\<lambda>_. returnS []))
              (\<lambda>e. case std_message e of Some m \<Rightarrow> returnS m | None \<Rightarrow> throwS e)) (\<lambda>rollback_error.
       if rollback_error \<noteq> []
       then throwS (RestoreError RollbackIncomplete (''restore rollback incomplete: '' @ rollback_error))
       else throwS failure)"

definition execute_restore ::
  "('w, 'z) RestoreOperations_scheme \<Rightarrow> RestorePlan \<Rightarrow> ('w, restore_exn, RestoreResult) run" where
  \<comment> \<open>\<open>RestoreExecutor::execute\<close>\<close>
  "execute_restore ops plan =
     bindS (throw_if_restore_cancelled ops) (\<lambda>_.
     bindS (ro_exists ops (rp_staging plan)) (\<lambda>staging_present.
     bindS (if staging_present then returnS True else ro_exists ops (rp_previous plan)) (\<lambda>present.
       if present
       then throwS (RestoreError DestinationUnsafe ''restore transaction artifacts already exist'')
       else (\<lambda>w. case catchS (attempt_restore ops plan) (rollback_restore ops plan)
                \<lparr> staging_created = False, previous_moved = False, committed = False, rs_world = w \<rparr> of
              (r, s) \<Rightarrow> (r, rs_world s)))))"

end
