(* ===== verification/RestoreLaws.thy ===== *)
theory RestoreLaws
  imports RestoreEngine
begin

text \<open>
  What the execution of a restore guarantees: it replaces the destination as a whole or leaves it
  alone, as long as the replaced tree can be removed. The proofs compute the weakest preconditions of
  the steps of the engine over the contract of the file-system operations.
\<close>

lemma wpS_opR: "wpS (opR m) Q E s \<longleftrightarrow>
    wpS m (\<lambda>x w. Q x (s\<lparr> rs_world := w \<rparr>)) (\<lambda>e w. E e (s\<lparr> rs_world := w \<rparr>)) (rs_world s)"
  by (auto simp: wpS_def opR_def split: prod.split sum.split)

section \<open>The contract of the operations\<close>

datatype place = Destination | Staging | Previous

fun place_path :: "RestorePlan \<Rightarrow> place \<Rightarrow> path" where
  "place_path plan Destination = rp_destination plan"
| "place_path plan Staging = rp_staging plan"
| "place_path plan Previous = rp_previous plan"

definition restore_contract ::
  "('w, 'z) RestoreOperations_scheme \<Rightarrow> RestorePlan \<Rightarrow> ('w \<Rightarrow> place \<Rightarrow> 't option) \<Rightarrow> bool" where
  \<comment> \<open>\<open>tree\<close> is what stands at the three places. Questions change nothing; preparing and copying touch the
    staging place only; a move happens as a whole or not at all; a removal touches its place only, but
    one that fails may leave anything there\<close>
  "restore_contract ops plan tree \<longleftrightarrow>
     (\<forall>w. tree (snd (ro_cancellation_requested ops w)) = tree w)
     \<and> (\<forall>f w. tree (snd (ro_phase ops f w)) = tree w)
     \<and> (\<forall>p w. fst (ro_exists ops (place_path plan p) w) = Inr (tree w p \<noteq> None)
          \<and> tree (snd (ro_exists ops (place_path plan p) w)) = tree w)
     \<and> (\<forall>w. tree (snd (ro_ensure_sufficient_space ops (rp_source plan) (rp_staging plan) w)) = tree w)
     \<and> (\<forall>w. \<exists>t. tree (snd (ro_prepare_copy_root ops (rp_source plan) (rp_staging plan) w)) = (tree w)(Staging := t))
     \<and> (\<forall>w. \<exists>t. tree (snd (ro_create_subvolume_root ops (rp_staging plan) w)) = (tree w)(Staging := t))
     \<and> (\<forall>w. \<exists>t. tree (snd (ro_copy_and_verify ops (rp_source plan) (rp_staging plan) w)) = (tree w)(Staging := t))
     \<and> (\<forall>a b w. a \<noteq> b \<longrightarrow> (case ro_move ops (place_path plan a) (place_path plan b) w of
            (Inr _, w') \<Rightarrow> tree w' = (tree w)(b := tree w a, a := None)
          | (Inl _, w') \<Rightarrow> tree w' = tree w))
     \<and> (\<forall>p w. case ro_remove_owned_tree ops (place_path plan p) w of
            (Inr _, w') \<Rightarrow> tree w' = (tree w)(p := None)
          | (Inl _, w') \<Rightarrow> \<exists>t. tree w' = (tree w)(p := t))"

lemma wpS_pure:
  assumes "tree (snd (m w)) = tree w" and "\<And>x w'. tree w' = tree w \<Longrightarrow> Q x w'" and "\<And>e w'. tree w' = tree w \<Longrightarrow> E e w'"
  shows "wpS m Q E w"
  using assms by (cases "m w"; cases "fst (m w)") (auto simp: wpS_def)

lemma wpS_staging:
  assumes "\<exists>t. tree (snd (m w)) = (tree w)(Staging := t)"
    and "\<And>x w' t. m w = (Inr x, w') \<Longrightarrow> tree w' = (tree w)(Staging := t) \<Longrightarrow> Q x w'"
    and "\<And>e w' t. tree w' = (tree w)(Staging := t) \<Longrightarrow> E e w'"
  shows "wpS m Q E w"
  using assms by (cases "m w"; cases "fst (m w)") (auto simp: wpS_def)

lemma wpS_exists:
  assumes "restore_contract ops plan tree" and "\<And>w'. tree w' = tree w \<Longrightarrow> Q (tree w p \<noteq> None) w'"
  shows "wpS (ro_exists ops (place_path plan p)) Q E w"
proof -
  have "fst (ro_exists ops (place_path plan p) w) = Inr (tree w p \<noteq> None)"
    and "tree (snd (ro_exists ops (place_path plan p) w)) = tree w"
    using assms(1) unfolding restore_contract_def by blast+
  then show ?thesis using assms(2) by (cases "ro_exists ops (place_path plan p) w") (simp add: wpS_def)
qed

lemma wpS_move:
  assumes "restore_contract ops plan tree" and "a \<noteq> b"
    and "\<And>x w'. tree w' = (tree w)(b := tree w a, a := None) \<Longrightarrow> Q x w'" and "\<And>e w'. tree w' = tree w \<Longrightarrow> E e w'"
  shows "wpS (ro_move ops (place_path plan a) (place_path plan b)) Q E w"
proof -
  have "case ro_move ops (place_path plan a) (place_path plan b) w of
      (Inr _, w') \<Rightarrow> tree w' = (tree w)(b := tree w a, a := None) | (Inl _, w') \<Rightarrow> tree w' = tree w"
    using assms(1,2) by (simp add: restore_contract_def)
  then show ?thesis using assms(3,4)
    by (cases "ro_move ops (place_path plan a) (place_path plan b) w";
        cases "fst (ro_move ops (place_path plan a) (place_path plan b) w)") (simp_all add: wpS_def)
qed

lemma wpS_remove:
  assumes "restore_contract ops plan tree"
    and "\<And>x w'. tree w' = (tree w)(p := None) \<Longrightarrow> Q x w'"
    and "\<And>e w' t. ro_remove_owned_tree ops (place_path plan p) w = (Inl e, w') \<Longrightarrow> tree w' = (tree w)(p := t) \<Longrightarrow> E e w'"
  shows "wpS (ro_remove_owned_tree ops (place_path plan p)) Q E w"
proof -
  have "case ro_remove_owned_tree ops (place_path plan p) w of
      (Inr _, w') \<Rightarrow> tree w' = (tree w)(p := None) | (Inl _, w') \<Rightarrow> \<exists>t. tree w' = (tree w)(p := t)"
    using assms(1) by (simp add: restore_contract_def)
  then show ?thesis using assms(2,3)
    by (cases "ro_remove_owned_tree ops (place_path plan p) w";
        cases "fst (ro_remove_owned_tree ops (place_path plan p) w)") (auto simp: wpS_def)
qed

lemma contract_pure:
  assumes "restore_contract ops plan tree"
  shows "tree (snd (throw_if_restore_cancelled ops w)) = tree w"
    and "tree (snd (ro_phase ops f w)) = tree w"
    and "tree (snd (ro_ensure_sufficient_space ops (rp_source plan) (rp_staging plan) w)) = tree w"
  using assms unfolding restore_contract_def throw_if_restore_cancelled_def
  by (simp_all split: prod.split) (metis snd_conv)

lemma contract_staging:
  assumes "restore_contract ops plan tree"
  shows "\<exists>t. tree (snd (prepare_staging ops plan w)) = (tree w)(Staging := t)"
    and "\<exists>t. tree (snd (ro_copy_and_verify ops (rp_source plan) (rp_staging plan) w)) = (tree w)(Staging := t)"
  using assms unfolding restore_contract_def prepare_staging_def by simp_all

lemmas wpS_existsD = wpS_exists [where p = Destination, unfolded place_path.simps]
lemmas wpS_existsS = wpS_exists [where p = Staging, unfolded place_path.simps]
lemmas wpS_existsP = wpS_exists [where p = Previous, unfolded place_path.simps]
lemmas wpS_moveDP = wpS_move [where a = Destination and b = Previous, unfolded place_path.simps, simplified]
lemmas wpS_moveSD = wpS_move [where a = Staging and b = Destination, unfolded place_path.simps, simplified]
lemmas wpS_movePD = wpS_move [where a = Previous and b = Destination, unfolded place_path.simps, simplified]
lemmas wpS_removeD = wpS_remove [where p = Destination, unfolded place_path.simps]
lemmas wpS_removeS = wpS_remove [where p = Staging, unfolded place_path.simps]
lemmas wpS_removeP = wpS_remove [where p = Previous, unfolded place_path.simps]

section \<open>The destination is replaced as a whole or left alone\<close>

definition removal_failed :: "('w, 'z) RestoreOperations_scheme \<Rightarrow> RestorePlan \<Rightarrow> bool" where
  \<comment> \<open>the replaced tree could not be removed\<close>
  "removal_failed ops plan \<longleftrightarrow> (\<exists>w e w'. ro_remove_owned_tree ops (rp_previous plan) w = (Inl e, w'))"

lemma removal_failedI: "ro_remove_owned_tree ops (rp_previous plan) w = (Inl e, w') \<Longrightarrow> removal_failed ops plan"
  unfolding removal_failed_def by blast

definition failed_state ::
  "('w, 'z) RestoreOperations_scheme \<Rightarrow> RestorePlan \<Rightarrow> ('w \<Rightarrow> place \<Rightarrow> 't option) \<Rightarrow> 't option \<Rightarrow> 'w restore_state \<Rightarrow> bool" where
  "failed_state ops plan tree old s \<longleftrightarrow>
     \<not> committed s \<and> \<not> previous_moved s \<and> tree (rs_world s) Destination = old
     \<or> \<not> committed s \<and> previous_moved s \<and> tree (rs_world s) Previous = old \<and> old \<noteq> None
     \<or> removal_failed ops plan"

lemma failed_state_untouched:
  "\<not> committed s \<Longrightarrow> \<not> previous_moved s \<Longrightarrow> tree (rs_world s) Destination = old \<Longrightarrow> failed_state ops plan tree old s"
  by (simp add: failed_state_def)

lemma commit_restore_wp:
  assumes "restore_contract ops plan tree" and "\<not> committed s" and "\<not> previous_moved s"
    and "tree (rs_world s) Destination = old" and "tree (rs_world s) Previous = None"
    and "tree (rs_world s) Staging = new"
  shows "wpS (commit_restore ops plan)
    (\<lambda>_ t. tree (rs_world t) Destination = new \<and> tree (rs_world t) Staging = None \<and> tree (rs_world t) Previous = None)
    (\<lambda>e t. failed_state ops plan tree old t) s"
  unfolding commit_restore_def
  using assms(2-6)
  by (auto simp: wpS_opR failed_state_def intro!: wpS_existsD [OF assms(1)] wpS_moveDP [OF assms(1)] wpS_moveSD [OF assms(1)]
      wpS_removeP [OF assms(1)])
     (erule removal_failedI)

lemma rollback_restore_wp:
  assumes "restore_contract ops plan tree" and "failed_state ops plan tree old s"
  shows "wpS (rollback_restore ops plan failure) (\<lambda>_ t. False)
    (\<lambda>e t. tree (rs_world t) Destination = old \<or> tree (rs_world t) Previous = old \<or> removal_failed ops plan) s"
  using assms(2)
  unfolding rollback_restore_def rollback_steps_def when_exists_def failed_state_def
  by (auto simp: wpS_opR intro!: wpS_existsD [OF assms(1)] wpS_existsS [OF assms(1)] wpS_existsP [OF assms(1)]
      wpS_movePD [OF assms(1)] wpS_removeD [OF assms(1)] wpS_removeS [OF assms(1)] split: option.split)

definition restored ::
  "('w, 'z) RestoreOperations_scheme \<Rightarrow> RestorePlan \<Rightarrow> ('w \<Rightarrow> place \<Rightarrow> 't option) \<Rightarrow> 't option \<Rightarrow> RestoreResult \<Rightarrow> 'w \<Rightarrow> bool" where
  \<comment> \<open>a drill leaves everything as it was; any other restore has put the verified copy in place\<close>
  "restored ops plan tree old res w' \<longleftrightarrow> tree w' Staging = None \<and> tree w' Previous = None
     \<and> (if rp_kind plan = RestoreDrill then \<not> re_committed res \<and> tree w' Destination = old
        else re_committed res \<and> (\<exists>w1 w2. ro_copy_and_verify ops (rp_source plan) (rp_staging plan) w1 = (Inr (re_statistics res), w2)
          \<and> tree w' Destination = tree w2 Staging))"

lemma wpS_questions:
  assumes c: "restore_contract ops plan tree"
    and "\<And>x w'. tree w' = tree w \<Longrightarrow> Q x w'" and "\<And>e w'. tree w' = tree w \<Longrightarrow> E e w'"
  shows "wpS (throw_if_restore_cancelled ops) Q E w" and "wpS (ro_phase ops f) Q E w"
    and "wpS (ro_ensure_sufficient_space ops (rp_source plan) (rp_staging plan)) Q E w"
  using contract_pure [OF c] assms(2,3) by (auto intro: wpS_pure [where tree = tree])

lemma wpS_prepare:
  assumes c: "restore_contract ops plan tree"
    and "\<And>x w' t. tree w' = (tree w)(Staging := t) \<Longrightarrow> Q x w'" and "\<And>e w' t. tree w' = (tree w)(Staging := t) \<Longrightarrow> E e w'"
  shows "wpS (prepare_staging ops plan) Q E w"
  using contract_staging(1) [OF c] assms(2,3) by (rule wpS_staging [where tree = tree])

lemma wpS_copy:
  assumes c: "restore_contract ops plan tree"
    and "\<And>x w' t. ro_copy_and_verify ops (rp_source plan) (rp_staging plan) w = (Inr x, w')
      \<Longrightarrow> tree w' = (tree w)(Staging := t) \<Longrightarrow> Q x w'"
    and "\<And>e w' t. tree w' = (tree w)(Staging := t) \<Longrightarrow> E e w'"
  shows "wpS (ro_copy_and_verify ops (rp_source plan) (rp_staging plan)) Q E w"
  using contract_staging(2) [OF c] assms(2,3) by (rule wpS_staging [where tree = tree])

lemma finish_restore_wp:
  assumes c: "restore_contract ops plan tree" and "\<not> committed s" and "\<not> previous_moved s"
    and "tree (rs_world s) Destination = old" and "tree (rs_world s) Previous = None"
    and copied: "ro_copy_and_verify ops (rp_source plan) (rp_staging plan) w1 = (Inr statistics, w2)"
    and "tree (rs_world s) Staging = tree w2 Staging"
  shows "wpS (finish_restore ops plan statistics)
    (\<lambda>res t. restored ops plan tree old res (rs_world t)) (\<lambda>e t. failed_state ops plan tree old t) s"
proof (cases "rp_kind plan = RestoreDrill")
  case True
  then show ?thesis
    using assms(2-5) by (auto simp: finish_restore_def wpS_opR restored_def failed_state_def intro!: wpS_removeS [OF c])
next
  case False
  then show ?thesis
    using commit_restore_wp [OF c assms(2,3,4,5,7)] copied
    by (fastforce simp: finish_restore_def restored_def elim!: wpS_mono)
qed

lemma attempt_restore_wp:
  assumes c: "restore_contract ops plan tree" and "\<not> committed s" and "\<not> previous_moved s"
    and "tree (rs_world s) Destination = old" and "tree (rs_world s) Previous = None"
  shows "wpS (attempt_restore ops plan) (\<lambda>res t. restored ops plan tree old res (rs_world t))
    (\<lambda>e t. failed_state ops plan tree old t) s"
  unfolding attempt_restore_def
  using assms(2-5)
  by (auto simp: wpS_opR intro!: wpS_questions [OF c] wpS_prepare [OF c] wpS_copy [OF c] failed_state_untouched)
     (rule finish_restore_wp [OF c], simp, simp, simp, simp, assumption, simp)

lemma execute_restore_wp:
  assumes c: "restore_contract ops plan tree"
  shows "wpS (execute_restore ops plan) (restored ops plan tree (tree w Destination))
    (\<lambda>e w'. tree w' Destination = tree w Destination \<or> tree w' Previous = tree w Destination \<or> removal_failed ops plan) w"
proof -
  have run: "wpS (\<lambda>w. case catchS (attempt_restore ops plan) (rollback_restore ops plan)
          \<lparr> staging_created = False, previous_moved = False, committed = False, rs_world = w \<rparr> of (r, s) \<Rightarrow> (r, rs_world s))
      (restored ops plan tree old)
      (\<lambda>e w'. tree w' Destination = old \<or> tree w' Previous = old \<or> removal_failed ops plan) w1"
    if "tree w1 Previous = None" "tree w1 Destination = old" for w1 old
  proof -
    let ?s = "\<lparr> staging_created = False, previous_moved = False, committed = False, rs_world = w1 \<rparr>"
    have "wpS (catchS (attempt_restore ops plan) (rollback_restore ops plan))
        (\<lambda>res t. restored ops plan tree old res (rs_world t))
        (\<lambda>e t. tree (rs_world t) Destination = old \<or> tree (rs_world t) Previous = old \<or> removal_failed ops plan) ?s"
      unfolding wpS_catch
      by (rule wpS_mono [OF attempt_restore_wp [OF c, where old = old]])
         (auto simp: that intro!: wpS_mono [OF rollback_restore_wp [OF c]])
    then show ?thesis by (auto simp: wpS_def split: prod.splits sum.splits)
  qed
  show ?thesis
    unfolding execute_restore_def
    by (auto intro!: wpS_questions [OF c] wpS_existsS [OF c] wpS_existsP [OF c] run)
qed

section \<open>A concrete disk\<close>

definition disk_operations :: "path option \<Rightarrow> (path \<Rightarrow> string option) RestoreOperations" where
  \<comment> \<open>trees are texts; the tree at the path \<open>stuck\<close> can be removed only in part\<close>
  "disk_operations stuck =
     \<lparr> ro_cancellation_requested = \<lambda>w. (False, w), ro_phase = \<lambda>f w. (Inr (), w),
       ro_exists = \<lambda>p w. (Inr (w p \<noteq> None), w), ro_ensure_sufficient_space = \<lambda>a b w. (Inr (), w),
       ro_prepare_copy_root = \<lambda>a p w. (Inr (), w(p \<mapsto> [])), ro_create_subvolume_root = \<lambda>p w. (Inr (), w(p \<mapsto> [])),
       ro_copy_and_verify = \<lambda>a p w. (Inr \<lparr> st_files = 1, st_directories = 0, st_bytes = 3 \<rparr>, w(p \<mapsto> ''new'')),
       ro_move = \<lambda>a b w. (case w a of None \<Rightarrow> (Inl (RestoreError CopyFailed ''missing''), w)
         | Some t \<Rightarrow> (Inr (), w(b \<mapsto> t, a := None))),
       ro_remove_owned_tree = \<lambda>p w. if stuck = Some p
         then (Inl (RestoreError CleanupIncomplete ''could not clean restore staging''), w(p \<mapsto> ''partial''))
         else (Inr (), w(p := None)) \<rparr>"

definition sample_restore :: RestorePlan where
  "sample_restore = \<lparr> rp_transaction_id = ''t'', rp_snapshot_id = ''s'', rp_snapshot_uuid = ''u'', rp_source = ''/mnt/a'',
     rp_destination = ''/d/a'', rp_staging = ''/d/t.staging'', rp_previous = ''/d/t.previous'', rp_kind = RestoreFiles,
     rp_existing_destination = ReplaceExisting, rp_destination_exists = True \<rparr>"

lemma disk_operations_contract:
  "restore_contract (disk_operations stuck) sample_restore (\<lambda>w p. w (place_path sample_restore p))"
proof -
  have inj: "place_path sample_restore a = place_path sample_restore b \<longleftrightarrow> a = b" for a b
    by (cases a; cases b) (simp_all add: sample_restore_def)
  have upd: "(\<lambda>p. (w(place_path sample_restore a := t)) (place_path sample_restore p))
      = (\<lambda>p. w (place_path sample_restore p))(a := t)" for w :: "path \<Rightarrow> string option" and a t
    by (auto simp: fun_eq_iff inj)
  have staging: "(\<lambda>p. (w(rp_staging sample_restore := t)) (place_path sample_restore p))
      = (\<lambda>p. w (place_path sample_restore p))(Staging := t)" for w :: "path \<Rightarrow> string option" and t
    using upd [of w Staging t] by simp
  show ?thesis
    unfolding restore_contract_def disk_operations_def
    by (auto simp: upd staging fun_upd_twist simp del: fun_upd_apply split: option.split)
qed

section \<open>Properties\<close>




end
