(* ===== verification/RestorePlanLaws.thy ===== *)
theory RestorePlanLaws
  imports RestoreEngine
begin

text \<open>
  What an accepted restore plan guarantees about its paths: the destination lies in a directory that
  is reached without a symbolic link, and the two working trees are siblings of the destination, on
  the file system where the moves of the engine happen.
\<close>

section \<open>Walks without symbolic links\<close>

fun no_links :: "symlink_status \<Rightarrow> path \<Rightarrow> string list \<Rightarrow> bool" where
  \<comment> \<open>no step from \<open>current\<close> along the names meets a symbolic link\<close>
  "no_links status current [] \<longleftrightarrow> True"
| "no_links status current (n # ns) \<longleftrightarrow>
     status (path_append current n) \<noteq> (SymlinkType, None) \<and> no_links status (path_append current n) ns"

lemma check_destination_parents_no_links:
  "check_destination_parents status current ns = Inr () \<Longrightarrow> no_links status current ns"
  by (induction ns arbitrary: current) (auto simp: Let_def split: prod.splits if_splits)

lemma reject_links_no_links:
  "reject_links status False code current ns = Inr () \<Longrightarrow> no_links status current ns"
  by (induction ns arbitrary: current) (auto simp: Let_def split: prod.splits if_splits)

section \<open>The working trees\<close>

definition restore_stem :: "string \<Rightarrow> string" where
  "restore_stem transaction = ''.btrfs-backup-restore-'' @ transaction"

lemma transaction_plain:
  assumes "valid_transaction_id t"
  shows "plain_name (restore_stem t @ ''.staging'')" and "plain_name (restore_stem t @ ''.previous'')"
proof -
  have "CHR ''/'' \<notin> set t"
  proof
    assume "CHR ''/'' \<in> set t"
    with assms have "CHR ''/'' \<in> set ''ABCDEFGHIJKLMNOPQRSTUVWXYZabcdefghijklmnopqrstuvwxyz0123456789-_''"
      unfolding valid_transaction_id_def list_all_iff by blast
    moreover have "CHR ''/'' \<notin> set ''ABCDEFGHIJKLMNOPQRSTUVWXYZabcdefghijklmnopqrstuvwxyz0123456789-_''" by code_simp
    ultimately show False by blast
  qed
  then show "plain_name (restore_stem t @ ''.staging'')" and "plain_name (restore_stem t @ ''.previous'')"
    by (simp_all add: plain_name_def restore_stem_def)
qed

lemma build_restore_plan_Inr:
  assumes "build_restore_plan status followed descriptor_type snapshot request source = Inr plan"
  shows "valid_transaction_id (rr_transaction_id request)" and "validate_destination status (rr_destination request) = Inr ()"
    and "validate_source status followed descriptor_type source = Inr ()"
    and "rp_destination plan = rr_destination request" and "rp_source plan = source"
    and "rp_staging plan = path_append (fs_parent_path (rr_destination request)) (restore_stem (rr_transaction_id request) @ ''.staging'')"
    and "rp_previous plan = path_append (fs_parent_path (rr_destination request)) (restore_stem (rr_transaction_id request) @ ''.previous'')"
    and "rp_destination_exists plan \<longrightarrow> rp_existing_destination plan = ReplaceExisting"
  using assms
  by (cases "rr_existing_destination request";
      auto simp: build_restore_plan_def restore_stem_def requireE_def bindE_eq_Inr_iff Let_def split: prod.splits if_splits)+

lemma validate_destination_Inr:
  assumes "validate_destination status p = Inr ()"
  shows "is_absolute p" and "path_names p \<noteq> []" and "path_names p \<noteq> [''home'']"
    and "no_links status [] (path_elements (fs_parent_path p))"
proof -
  have home: "path_elements ''/home'' = [''/'', ''home'']" "path_elements ''/'' = [''/'']" by code_simp+
  from assms show "is_absolute p" and "path_names p \<noteq> []" and "path_names p \<noteq> [''home'']"
    by (auto simp: validate_destination_def path_eq_def path_elements_def [of p] home split: if_splits)
  show "no_links status [] (path_elements (fs_parent_path p))"
    using assms by (auto simp: validate_destination_def intro: check_destination_parents_no_links split: if_splits)
qed

lemma validate_source_no_links:
  assumes "validate_source status followed descriptor_type source = Inr ()"
  shows "is_pinned_descriptor_component descriptor_type source \<or> no_links status [] (path_elements source)"
  using assms
  by (auto simp: validate_source_def reject_symlink_components_def bindE_eq_Inr_iff intro: reject_links_no_links)

lemma distinct_working_trees:
  assumes "clean_path d" and "path_names d \<noteq> []" and "clean_path p" and "path_names p = butlast (path_names d)"
    and "plain_name (s @ ''.staging'')" and "plain_name (s @ ''.previous'')" and "take (length s) (last (path_names d)) \<noteq> s"
  shows "distinct [d, path_append p (s @ ''.staging''), path_append p (s @ ''.previous'')]"
proof -
  have st: "path_names (path_append p (s @ ''.staging'')) = butlast (path_names d) @ [s @ ''.staging'']"
    and pr: "path_names (path_append p (s @ ''.previous'')) = butlast (path_names d) @ [s @ ''.previous'']"
    using clean_path_append(2) [OF assms(3)] assms(4-6) by simp_all
  have "path_append p (s @ ''.staging'') \<noteq> path_append p (s @ ''.previous'')"
  proof
    assume "path_append p (s @ ''.staging'') = path_append p (s @ ''.previous'')"
    then have "butlast (path_names d) @ [s @ ''.staging''] = butlast (path_names d) @ [s @ ''.previous'']"
      using st pr by simp
    then show False by simp
  qed
  moreover have "d \<noteq> path_append p (s @ e)" if "path_names (path_append p (s @ e)) = butlast (path_names d) @ [s @ e]" for e
  proof
    assume "d = path_append p (s @ e)"
    then have "last (path_names d) = s @ e" using that by (metis last_snoc)
    then show False using assms(7) by simp
  qed
  ultimately show ?thesis using st pr by auto
qed

section \<open>Properties\<close>


definition sample_restore_request :: "path \<Rightarrow> RestoreRequest" where
  "sample_restore_request destination = \<lparr> rr_transaction_id = ''t1'', rr_snapshot_id = ''s1'', rr_source_path = ''docs'',
     rr_destination = destination, rr_kind = RestoreFiles, rr_existing_destination = ReplaceExisting \<rparr>"

definition sample_restore_catalog :: RepositoryCatalog where
  "sample_restore_catalog = \<lparr> rc_root = ''/mnt/b'',
     rc_identity = \<lparr> ry_repository_id = ''r'', ry_target_filesystem_uuid = ''f'', ry_created_at = 0, ry_features = [] \<rparr>,
     rc_generation = 1, rc_snapshots = [\<lparr> cs_snapshot_id = ''s1'', cs_host_id = ''h'', cs_profile_id = ''p'', cs_source_id = ''x'',
       cs_repository_path = ''snap'', cs_created_at = 0, cs_uuid = ''u'', cs_received_uuid = ''v'', cs_parent_uuid = [],
       cs_verified = True \<rparr>] \<rparr>"


text \<open>
  A trailing separator escapes the checks of the destination. The destination \<open>/home/\<close>
  is accepted although \<open>/home\<close> is refused, and for a destination written with a trailing separator
  the working trees are planned inside the destination itself and not beside it.
\<close>

theorem restore_destination_trailing_separator:
  "validate_destination (\<lambda>p. (DirectoryType, None)) ''/home'' \<noteq> Inr ()
   \<and> validate_destination (\<lambda>p. (DirectoryType, None)) ''/home/'' = Inr ()
   \<and> (case plan_restore (\<lambda>p. (DirectoryType, None)) (\<lambda>p. (DirectoryType, None)) (\<lambda>d. None) sample_restore_catalog
        (sample_restore_request ''/srv/data/'') of
       Inl e \<Rightarrow> False
     | Inr plan \<Rightarrow> rp_destination plan = ''/srv/data/''
         \<and> rp_staging plan = ''/srv/data/.btrfs-backup-restore-t1.staging'')"
  by code_simp

end
