(* ===== verification/StateFiles.thy ===== *)
theory StateFiles
  imports PendingRecovery
begin

text \<open>
  The small text files in which a profile keeps its state (state/query/RunState): the last success, the
  active run, the request to cancel it and the pending markers (state/persistence/FilePendingMarkerStore).
  A file is a sequence of lines \<open>key=value\<close>. The operations on files are an interface
  (state/persistence/PersistentDocumentOperations); what they do to the contents is its contract.
\<close>

section \<open>The document interface\<close>

record 'w DocumentFiles =
  df_is_regular_file :: "path \<Rightarrow> 'w \<Rightarrow> bool" \<comment> \<open>\<open>fs::is_regular_file\<close> without an error\<close>
  df_content :: "path \<Rightarrow> 'w \<Rightarrow> string" \<comment> \<open>what an \<open>std::ifstream\<close> on the path yields\<close>
  df_ensure_directory :: "path \<Rightarrow> nat \<Rightarrow> ('w, exn, unit) run"
  df_write_atomically :: "path \<Rightarrow> string \<Rightarrow> nat \<Rightarrow> ('w, exn, unit) run"
  df_remove_durably :: "path \<Rightarrow> ('w, exn, unit) run"

definition file_at :: "('w, 'z) DocumentFiles_scheme \<Rightarrow> path \<Rightarrow> 'w \<Rightarrow> string option" where
  "file_at files p w = (if df_is_regular_file files p w then Some (df_content files p w) else None)"

definition faithful_files :: "('w, 'z) DocumentFiles_scheme \<Rightarrow> bool" where
  \<comment> \<open>a write that returns has put the data at its path and nothing elsewhere; a removal that returns has
    removed its path; a failure leaves the old or the new file; making a directory changes no file\<close>
  "faithful_files files \<longleftrightarrow>
     (\<forall>p m w q. file_at files q (snd (df_ensure_directory files p m w)) = file_at files q w)
     \<and> (\<forall>p d m w. case df_write_atomically files p d m w of
          (Inr u, w') \<Rightarrow> (\<lambda>q. file_at files q w') = (\<lambda>q. file_at files q w)(p := Some d)
        | (Inl e, w') \<Rightarrow> (\<lambda>q. file_at files q w') = (\<lambda>q. file_at files q w)
            \<or> (\<lambda>q. file_at files q w') = (\<lambda>q. file_at files q w)(p := Some d))
     \<and> (\<forall>p w. case df_remove_durably files p w of
          (Inr u, w') \<Rightarrow> (\<lambda>q. file_at files q w') = (\<lambda>q. file_at files q w)(p := None)
        | (Inl e, w') \<Rightarrow> (\<lambda>q. file_at files q w') = (\<lambda>q. file_at files q w)
            \<or> (\<lambda>q. file_at files q w') = (\<lambda>q. file_at files q w)(p := None))"

definition private_state_file_permissions :: nat where
  "private_state_file_permissions = 384" \<comment> \<open>0600\<close>

definition private_state_directory_permissions :: nat where
  "private_state_directory_permissions = 448" \<comment> \<open>0700\<close>

section \<open>Lines of keys and values\<close>

fun split_first :: "char \<Rightarrow> string \<Rightarrow> (string \<times> string) option" where
  \<comment> \<open>what stands before and after the first occurrence of a character\<close>
  "split_first c [] = None"
| "split_first c (x # xs) = (if x = c then Some ([], xs) else map_option (\<lambda>(a, b). (x # a, b)) (split_first c xs))"

lemma split_first_length: "split_first c s = Some (a, b) \<Longrightarrow> length b < length s"
  by (induction s arbitrary: a b) (auto split: if_splits)

function getlines :: "string \<Rightarrow> string list" where
  \<comment> \<open>the loop \<open>while (std::getline (stream, line))\<close>\<close>
  "getlines s = (if s = [] then []
     else case split_first (CHR 0x0A) s of None \<Rightarrow> [s] | Some (line, rest) \<Rightarrow> line # getlines rest)"
  by auto
termination
  by (relation "measure length") (auto dest: split_first_length)

declare getlines.simps [simp del]

definition emplace_line :: "(string \<rightharpoonup> string) \<Rightarrow> string \<Rightarrow> (string \<rightharpoonup> string)" where
  \<comment> \<open>\<open>emplace\<close> keeps the value of a key that is already there\<close>
  "emplace_line values line =
     (case split_first (CHR ''='') line of
        None \<Rightarrow> values
      | Some (key, v) \<Rightarrow> if values key = None then values(key \<mapsto> v) else values)"

definition parse_state_document :: "string \<Rightarrow> (string \<rightharpoonup> string)" where
  "parse_state_document document = foldl emplace_line Map.empty (getlines document)"

definition read_state_file :: "('w, 'z) DocumentFiles_scheme \<Rightarrow> path \<Rightarrow> 'w \<Rightarrow> (string \<rightharpoonup> string)" where
  "read_state_file files p w = parse_state_document (df_content files p w)"

definition get_value :: "(string \<rightharpoonup> string) \<Rightarrow> string \<Rightarrow> string" where
  "get_value values key = (case values key of None \<Rightarrow> [] | Some v \<Rightarrow> v)"

definition lower :: "string \<Rightarrow> string" where
  "lower v = map to_lower v"

definition require_non_empty :: "string \<Rightarrow> string \<Rightarrow> unit result" where
  "require_non_empty v field = requireE (v \<noteq> []) (ValidationError (field @ '' is required''))"

definition require_absolute_path :: "string \<Rightarrow> string \<Rightarrow> unit result" where
  "require_absolute_path v field =
     bindE (require_non_empty v field) (\<lambda>_.
       requireE (hd v = CHR ''/'') (ValidationError (field @ '' must be an absolute path'')))"

definition state_line :: "string \<times> string \<Rightarrow> string" where
  "state_line kv = fst kv @ ''='' @ snd kv @ [CHR 0x0A]"

section \<open>The last success\<close>

record SuccessState =
  ss_date :: LocalDate
  ss_timestamp :: RuntimeTimePoint
  ss_run_id :: RunId
  ss_profile_id :: ProfileId
  ss_profile_name :: string
  ss_source_count :: int
  ss_target_luks_uuid :: LuksUuid
  ss_config_fingerprint :: string

definition last_success_matches ::
  "('w, 'z) DocumentFiles_scheme \<Rightarrow> path \<Rightarrow> LocalDate \<Rightarrow> LuksUuid \<Rightarrow> string \<Rightarrow> 'w \<Rightarrow> bool" where
  "last_success_matches files profile_state_dir today target_luks_uuid config_fingerprint w =
     (let state_file = path_append profile_state_dir ''last-success''
      in if \<not> df_is_regular_file files state_file w then False
         else let values = read_state_file files state_file w
              in get_value values ''date'' = format_local_date today
                 \<and> lower (get_value values ''target_luks_uuid'') = lower target_luks_uuid
                 \<and> get_value values ''config_fingerprint'' = config_fingerprint)"

definition parse_last_success_timestamp :: "string \<Rightarrow> string option" where
  "parse_last_success_timestamp document =
     (let timestamp = get_value (parse_state_document document) ''timestamp''
      in if timestamp = [] then None else Some timestamp)"

definition success_lines :: "(RuntimeTimePoint \<Rightarrow> string) \<Rightarrow> SuccessState \<Rightarrow> (string \<times> string) list" where
  \<comment> \<open>\<open>format_local_timestamp\<close> depends on the time zone of the host\<close>
  "success_lines format_local_timestamp state =
     [(''date'', format_local_date (ss_date state)), (''timestamp'', format_local_timestamp (ss_timestamp state)),
      (''run_id'', ss_run_id state), (''profile_id'', ss_profile_id state), (''profile_name'', ss_profile_name state),
      (''source_count'', int_text (ss_source_count state)), (''target_luks_uuid'', ss_target_luks_uuid state),
      (''config_fingerprint'', ss_config_fingerprint state)]"

definition write_success_state ::
  "('w, 'z) DocumentFiles_scheme \<Rightarrow> (RuntimeTimePoint \<Rightarrow> string) \<Rightarrow> path \<Rightarrow> SuccessState \<Rightarrow> ('w, exn, unit) run" where
  "write_success_state files format_local_timestamp profile_state_dir state =
     bindS (liftE (require_non_empty (ss_profile_name state) ''profile_name'')) (\<lambda>_.
     bindS (liftE (requireE (ss_source_count state \<ge> 0) (ValidationError ''source_count must be non-negative''))) (\<lambda>_.
     bindS (df_ensure_directory files profile_state_dir private_state_directory_permissions) (\<lambda>_.
       df_write_atomically files (path_append profile_state_dir ''last-success'')
         (concat (map state_line (success_lines format_local_timestamp state))) private_state_file_permissions)))"

section \<open>The active run and the request to cancel it\<close>

definition cancel_request_path :: "path \<Rightarrow> path" where
  "cancel_request_path profile_state_dir = path_append profile_state_dir ''cancel-request''"

definition active_run_path :: "path \<Rightarrow> path" where
  "active_run_path profile_state_dir = path_append profile_state_dir ''active-run''"

definition write_active_run :: "('w, 'z) DocumentFiles_scheme \<Rightarrow> path \<Rightarrow> RunId \<Rightarrow> ('w, exn, unit) run" where
  "write_active_run files profile_state_dir run =
     bindS (df_ensure_directory files profile_state_dir private_state_directory_permissions) (\<lambda>_.
       df_write_atomically files (active_run_path profile_state_dir) (''run_id='' @ run @ [CHR 0x0A])
         private_state_file_permissions)"

definition active_run :: "('w, 'z) DocumentFiles_scheme \<Rightarrow> path \<Rightarrow> ('w, exn, RunId option) run" where
  \<comment> \<open>the constructor of the identifier throws for a text that is none\<close>
  "active_run files profile_state_dir w =
     (let p = active_run_path profile_state_dir
      in if \<not> df_is_regular_file files p w then (Inr None, w)
         else let run = get_value (read_state_file files p w) ''run_id''
              in if run = [] then (Inr None, w)
                 else (bindE (make_RunId run) (\<lambda>r. Inr (Some r)), w))"

definition clear_active_run :: "('w, 'z) DocumentFiles_scheme \<Rightarrow> path \<Rightarrow> RunId \<Rightarrow> ('w, exn, unit) run" where
  "clear_active_run files profile_state_dir run =
     bindS (active_run files profile_state_dir) (\<lambda>current.
       if current = Some run then df_remove_durably files (active_run_path profile_state_dir) else returnS ())"

definition write_cancel_request :: "('w, 'z) DocumentFiles_scheme \<Rightarrow> path \<Rightarrow> RunId \<Rightarrow> ('w, exn, unit) run" where
  "write_cancel_request files profile_state_dir run =
     bindS (df_ensure_directory files profile_state_dir private_state_directory_permissions) (\<lambda>_.
       df_write_atomically files (cancel_request_path profile_state_dir) (''run_id='' @ run @ [CHR 0x0A])
         private_state_file_permissions)"

definition any_cancel_requested :: "('w, 'z) DocumentFiles_scheme \<Rightarrow> path \<Rightarrow> 'w \<Rightarrow> bool" where
  "any_cancel_requested files profile_state_dir w = df_is_regular_file files (cancel_request_path profile_state_dir) w"

definition cancel_requested :: "('w, 'z) DocumentFiles_scheme \<Rightarrow> path \<Rightarrow> RunId \<Rightarrow> 'w \<Rightarrow> bool" where
  "cancel_requested files profile_state_dir run w =
     (let p = cancel_request_path profile_state_dir
      in if \<not> df_is_regular_file files p w then False
         else get_value (read_state_file files p w) ''run_id'' = run)"

definition clear_any_cancel_request :: "('w, 'z) DocumentFiles_scheme \<Rightarrow> path \<Rightarrow> ('w, exn, unit) run" where
  "clear_any_cancel_request files profile_state_dir = df_remove_durably files (cancel_request_path profile_state_dir)"

definition clear_cancel_request :: "('w, 'z) DocumentFiles_scheme \<Rightarrow> path \<Rightarrow> RunId \<Rightarrow> ('w, exn, unit) run" where
  "clear_cancel_request files profile_state_dir run =
     bindS (getsS (cancel_requested files profile_state_dir run)) (\<lambda>requested.
       if requested then clear_any_cancel_request files profile_state_dir else returnS ())"

section \<open>Pending markers\<close>

definition state_pending_marker_path :: "path \<Rightarrow> SourceId \<Rightarrow> path" where
  "state_pending_marker_path profile_state_dir source = path_append profile_state_dir (''pending-'' @ source)"

definition marker_lines :: "PendingMarker \<Rightarrow> (string \<times> string) list" where
  "marker_lines marker =
     [(''source_name'', pm_source_id marker), (''local_snapshot_path'', pm_local_snapshot_path marker),
      (''final_snapshot_path'', pm_final_snapshot_path marker), (''run_id'', pm_run_id marker),
      (''timestamp'', format_utc_iso_timestamp (pm_timestamp marker))]"

definition write_pending_marker :: "('w, 'z) DocumentFiles_scheme \<Rightarrow> path \<Rightarrow> PendingMarker \<Rightarrow> ('w, exn, unit) run" where
  "write_pending_marker files profile_state_dir marker =
     bindS (liftE (require_absolute_path (pm_local_snapshot_path marker) ''local_snapshot_path'')) (\<lambda>_.
     bindS (liftE (require_absolute_path (pm_final_snapshot_path marker) ''final_snapshot_path'')) (\<lambda>_.
     bindS (df_ensure_directory files profile_state_dir private_state_directory_permissions) (\<lambda>_.
       df_write_atomically files (state_pending_marker_path profile_state_dir (pm_source_id marker))
         (concat (map state_line (marker_lines marker))) private_state_file_permissions)))"

definition read_pending_marker_field :: "('w, 'z) DocumentFiles_scheme \<Rightarrow> path \<Rightarrow> string \<Rightarrow> 'w \<Rightarrow> string" where
  "read_pending_marker_field files marker field w = get_value (read_state_file files marker w) field"

definition clear_pending_marker :: "('w, 'z) DocumentFiles_scheme \<Rightarrow> path \<Rightarrow> ('w, exn, unit) run" where
  "clear_pending_marker files marker = df_remove_durably files marker"

definition read_pending_marker ::
  "('w, 'z) DocumentFiles_scheme \<Rightarrow> path \<Rightarrow> SourceId \<Rightarrow> ('w, exn, PendingMarker option) run" where
  \<comment> \<open>\<open>FilePendingMarkerStore::read\<close>\<close>
  "read_pending_marker files profile_state_dir source w =
     (let p = state_pending_marker_path profile_state_dir source; field = (\<lambda>f. read_pending_marker_field files p f w)
      in if \<not> df_is_regular_file files p w then (Inr None, w)
         else case parse_utc_timestamp (field ''timestamp'') of
           None \<Rightarrow> (Inr None, w)
         | Some timestamp \<Rightarrow>
             (bindE (make_SourceId (field ''source_name'')) (\<lambda>source_id.
              bindE (make_RunId (field ''run_id'')) (\<lambda>run.
                Inr (Some \<lparr> pm_source_id = source_id, pm_local_snapshot_path = field ''local_snapshot_path'',
                  pm_final_snapshot_path = field ''final_snapshot_path'', pm_run_id = run, pm_timestamp = timestamp \<rparr>))), w))"

end
