(* ===== verification/StateFileLaws.thy ===== *)
theory StateFileLaws
  imports StateFiles
begin

text \<open>
  What is written to a state file is read back: the general round trip of lines, and the success state
  and the pending markers on top of it.
\<close>

section \<open>Lines\<close>

definition one_line :: "string \<Rightarrow> bool" where
  "one_line s \<longleftrightarrow> CHR 0x0A \<notin> set s"

lemma one_line_simps [simp]:
  "one_line []" "one_line (c # s) \<longleftrightarrow> c \<noteq> CHR 0x0A \<and> one_line s" "one_line (s @ t) \<longleftrightarrow> one_line s \<and> one_line t"
  by (auto simp: one_line_def)

lemma one_line_digits: "list_all is_digit s \<Longrightarrow> one_line s"
  by (auto simp: one_line_def list_all_iff is_digit_def)

lemma one_line_nat_text [simp]: "one_line (nat_text n)"
  by (rule one_line_digits [OF nat_text_digits])

lemma one_line_int_text [simp]: "one_line (int_text i)"
  by (simp add: int_text_def)

lemma one_line_setw [simp]: "one_line s \<Longrightarrow> one_line (setw_fill0 n s)"
  by (auto simp: setw_fill0_def one_line_def)

lemma one_line_format_utc [simp]: "one_line (format_utc t c)"
  by (simp add: format_utc_def Let_def)

lemma one_line_format_local_date [simp]: "one_line (format_local_date d)"
  by (simp add: format_local_date_def)

lemma one_line_identifier: "identifier_re s \<Longrightarrow> one_line s"
  by (cases s) (auto simp: one_line_def list_all_iff identifier_char_def is_ascii_alnum_def is_digit_def)

lemma one_line_run_id: "run_id_re s \<Longrightarrow> one_line s"
  by (cases s) (auto simp: one_line_def list_all_iff identifier_char_def is_ascii_alnum_def is_digit_def)

lemma split_first_append: "c \<notin> set a \<Longrightarrow> split_first c (a @ c # b) = Some (a, b)"
  by (induction a) auto

lemma getlines_Nil [simp]: "getlines [] = []"
  by (simp add: getlines.simps)

lemma getlines_line: "one_line l \<Longrightarrow> getlines (l @ CHR 0x0A # rest) = l # getlines rest"
  by (subst getlines.simps) (simp add: one_line_def split_first_append)

definition plain_lines :: "(string \<times> string) list \<Rightarrow> bool" where
  \<comment> \<open>no line of a value, and no key with an equals sign, breaks the format\<close>
  "plain_lines kvs \<longleftrightarrow> list_all (\<lambda>(k, v). one_line k \<and> CHR ''='' \<notin> set k \<and> one_line v) kvs"

lemma getlines_state_lines:
  "plain_lines kvs \<Longrightarrow> getlines (concat (map state_line kvs)) = map (\<lambda>(k, v). k @ CHR ''='' # v) kvs"
proof (induction kvs)
  case (Cons kv kvs)
  obtain k v where kv: "kv = (k, v)" by (cases kv)
  have line: "getlines ((k @ CHR ''='' # v) @ CHR 0x0A # concat (map state_line kvs))
      = (k @ CHR ''='' # v) # getlines (concat (map state_line kvs))"
    using Cons.prems by (intro getlines_line) (simp add: plain_lines_def kv)
  have "state_line kv = (k @ CHR ''='' # v) @ [CHR 0x0A]" by (simp add: state_line_def kv)
  then show ?case using Cons line by (simp add: plain_lines_def kv)
qed simp

lemma foldl_emplace_line:
  "plain_lines kvs \<Longrightarrow> foldl emplace_line m (map (\<lambda>(k, v). k @ CHR ''='' # v) kvs) = map_of kvs ++ m"
proof (induction kvs arbitrary: m)
  case (Cons kv kvs)
  obtain k v where kv: "kv = (k, v)" by (cases kv)
  have "split_first (CHR ''='') (k @ CHR ''='' # v) = Some (k, v)"
    using Cons.prems split_first_append [of "CHR ''=''" k v] by (simp add: plain_lines_def kv)
  then have "emplace_line m (k @ CHR ''='' # v) = (if m k = None then m(k \<mapsto> v) else m)"
    by (simp add: emplace_line_def)
  then show ?case
    using Cons.IH Cons.prems by (auto simp: kv plain_lines_def map_add_def fun_eq_iff split: option.split)
qed simp

lemma parse_state_document_lines:
  "plain_lines kvs \<Longrightarrow> parse_state_document (concat (map state_line kvs)) = map_of kvs"
  by (simp add: parse_state_document_def getlines_state_lines foldl_emplace_line)

section \<open>Reading what was written\<close>

lemma file_at_SomeD: "file_at files p w = Some d \<Longrightarrow> df_is_regular_file files p w \<and> df_content files p w = d"
  by (auto simp: file_at_def split: if_splits)

lemma faithful_write:
  assumes "faithful_files files" and "df_write_atomically files p d m w = (Inr u, w')"
  shows "file_at files p w' = Some d" and "q \<noteq> p \<Longrightarrow> file_at files q w' = file_at files q w"
proof -
  have eq: "(\<lambda>q. file_at files q w') = (\<lambda>q. file_at files q w)(p := Some d)"
    using assms(1) [unfolded faithful_files_def, THEN conjunct2, THEN conjunct1, THEN spec, of p, THEN spec, of d, THEN spec, of m,
        THEN spec, of w] assms(2)
    by simp
  show "file_at files p w' = Some d" using fun_cong [OF eq, of p] by simp
  show "q \<noteq> p \<Longrightarrow> file_at files q w' = file_at files q w" using fun_cong [OF eq, of q] by simp
qed

lemma faithful_ensure:
  assumes "faithful_files files" and "df_ensure_directory files p m w = (r, w')"
  shows "file_at files q w' = file_at files q w"
  using assms by (simp add: faithful_files_def) (metis snd_conv)

lemma faithful_remove:
  assumes "faithful_files files" and "df_remove_durably files p w = (Inr u, w')"
  shows "file_at files p w' = None" and "q \<noteq> p \<Longrightarrow> file_at files q w' = file_at files q w"
proof -
  have eq: "(\<lambda>q. file_at files q w') = (\<lambda>q. file_at files q w)(p := None)"
    using assms(1) [unfolded faithful_files_def, THEN conjunct2, THEN conjunct2, THEN spec, of p, THEN spec, of w] assms(2)
    by simp
  show "file_at files p w' = None" using fun_cong [OF eq, of p] by simp
  show "q \<noteq> p \<Longrightarrow> file_at files q w' = file_at files q w" using fun_cong [OF eq, of q] by simp
qed

lemma make_success_lines:
  assumes "run_id_re (ss_run_id s)" and "identifier_re (ss_profile_id s)" and "one_line (ss_profile_name s)"
    and "one_line (ss_target_luks_uuid s)" and "one_line (ss_config_fingerprint s)" and "\<And>t. one_line (local_text t)"
  shows "plain_lines (success_lines local_text s)"
  using assms by (simp add: plain_lines_def success_lines_def one_line_identifier one_line_run_id)

lemma format_local_date_inject:
  assumes "date_ok a" and "0 \<le> ld_year a" and "ld_year a \<le> 9999" and "date_ok b" and "0 \<le> ld_year b" and "ld_year b \<le> 9999"
  shows "format_local_date a = format_local_date b \<longleftrightarrow> a = b"
  using parse_local_date_format [OF assms(1-3)] parse_local_date_format [OF assms(4-6)] by (metis option.inject)

section \<open>A disk in memory\<close>

definition memory_files :: "(path \<Rightarrow> string option) DocumentFiles" where
  "memory_files = \<lparr> df_is_regular_file = \<lambda>p w. w p \<noteq> None, df_content = \<lambda>p w. (case w p of None \<Rightarrow> [] | Some d \<Rightarrow> d),
     df_ensure_directory = \<lambda>p m w. (Inr (), w), df_write_atomically = \<lambda>p d m w. (Inr (), w(p \<mapsto> d)),
     df_remove_durably = \<lambda>p w. (Inr (), w(p := None)) \<rparr>"

lemma file_at_memory [simp]: "file_at memory_files p w = w p"
  by (auto simp: file_at_def memory_files_def split: option.split)

lemma memory_operations [simp]:
  "df_ensure_directory memory_files p m w = (Inr (), w)" "df_write_atomically memory_files p d m w = (Inr (), w(p \<mapsto> d))"
  "df_remove_durably memory_files p w = (Inr (), w(p := None))"
  by (simp_all add: memory_files_def)

lemma faithful_memory_files: "faithful_files memory_files"
  by (simp add: faithful_files_def fun_eq_iff)

section \<open>Properties\<close>


definition sample_state_marker :: PendingMarker where
  "sample_state_marker = \<lparr> pm_source_id = ''home'', pm_local_snapshot_path = ''/s/home-1'', pm_final_snapshot_path = ''/t/home-1'',
     pm_run_id = ''r1'', pm_timestamp = 1500000000 \<rparr>"


text \<open>
  The record of the last success decides whether a backup was made today. After a success
  was recorded, asking with a date, a target and a configuration answers yes exactly for the recorded
  date, the recorded target up to the case of its identifier, and the recorded configuration, if the
  name of the profile has no line break.
\<close>

theorem last_success_roundtrip:
  assumes "faithful_files files" and "write_success_state files local_text state s w = (Inr (), w')"
    and "run_id_re (ss_run_id s)" and "identifier_re (ss_profile_id s)" and "one_line (ss_profile_name s)"
    and "one_line (ss_target_luks_uuid s)" and "one_line (ss_config_fingerprint s)" and "\<And>t. one_line (local_text t)"
    and "date_ok (ss_date s)" and "0 \<le> ld_year (ss_date s)" and "ld_year (ss_date s) \<le> 9999"
    and "date_ok today" and "0 \<le> ld_year today" and "ld_year today \<le> 9999"
  shows "last_success_matches files state today uuid fingerprint w' \<longleftrightarrow>
    today = ss_date s \<and> lower uuid = lower (ss_target_luks_uuid s) \<and> fingerprint = ss_config_fingerprint s"
proof -
  obtain w1 where "df_write_atomically files (path_append state ''last-success'')
      (concat (map state_line (success_lines local_text s))) private_state_file_permissions w1 = (Inr (), w')"
    using assms(2) by (auto simp: write_success_state_def run_simps)
  from file_at_SomeD [OF faithful_write(1) [OF assms(1) this]]
  have doc: "df_is_regular_file files (path_append state ''last-success'') w'"
    "df_content files (path_append state ''last-success'') w' = concat (map state_line (success_lines local_text s))"
    by simp_all
  then have fields: "parse_state_document (df_content files (path_append state ''last-success'') w') = map_of (success_lines local_text s)"
    using parse_state_document_lines [OF make_success_lines [OF assms(3-8)]] by simp
  show ?thesis
    using format_local_date_inject [OF assms(9-14)]
    by (auto simp: last_success_matches_def read_state_file_def doc(1) fields get_value_def success_lines_def Let_def)
qed

definition sample_success :: SuccessState where
  "sample_success = \<lparr> ss_date = \<lparr> ld_year = 2026, ld_month = 3, ld_day = 1 \<rparr>, ss_timestamp = 0, ss_run_id = ''r1'',
     ss_profile_id = ''p1'', ss_profile_name = ''Home'', ss_source_count = 1, ss_target_luks_uuid = ''ab'', ss_config_fingerprint = ''f'' \<rparr>"

theorem last_success_roundtrip_witness:
  "\<exists>w'. write_success_state memory_files (\<lambda>t. ''now'') ''/v'' sample_success Map.empty = (Inr (), w')
     \<and> last_success_matches memory_files ''/v'' \<lparr> ld_year = 2026, ld_month = 3, ld_day = 1 \<rparr> ''AB'' ''f'' w'
     \<and> \<not> last_success_matches memory_files ''/v'' \<lparr> ld_year = 2026, ld_month = 3, ld_day = 2 \<rparr> ''ab'' ''f'' w'"
proof -
  let ?w = "[''/v/last-success'' \<mapsto> concat (map state_line (success_lines (\<lambda>t. ''now'') sample_success))]"
  have wrote: "write_success_state memory_files (\<lambda>t. ''now'') ''/v'' sample_success Map.empty = (Inr (), ?w)"
    by (simp add: write_success_state_def run_simps bindS_def require_non_empty_def
        sample_success_def path_append_def is_absolute_def)
  have ok: "run_id_re (ss_run_id sample_success)" "identifier_re (ss_profile_id sample_success)" "one_line (ss_profile_name sample_success)"
    "one_line (ss_target_luks_uuid sample_success)" "one_line (ss_config_fingerprint sample_success)"
    "date_ok (ss_date sample_success)" "0 \<le> ld_year (ss_date sample_success)" "ld_year (ss_date sample_success) \<le> 9999"
    "date_ok \<lparr> ld_year = 2026, ld_month = 3, ld_day = 1 \<rparr>" "date_ok \<lparr> ld_year = 2026, ld_month = 3, ld_day = 2 \<rparr>"
    "lower ''AB'' = lower ''ab''"
    by code_simp+
  have "last_success_matches memory_files ''/v'' today uuid ''f'' ?w \<longleftrightarrow>
      today = ss_date sample_success \<and> lower uuid = lower ''ab''"
    if "date_ok today" "0 \<le> ld_year today" "ld_year today \<le> 9999" for today uuid
    using last_success_roundtrip [OF faithful_memory_files wrote ok(1-5) _ ok(6-8) that, of uuid "''f''"]
    by (simp add: sample_success_def)
  then show ?thesis using wrote ok(9-11) by (auto simp: sample_success_def)
qed

end
