(* ===== verification/CancellationProtocol.thy ===== *)
theory CancellationProtocol
  imports StateFileLaws Discovery RunEvents "HOL-Library.Transitive_Closure_Table"
begin

text \<open>
  Cancelling a run through files: registration of the active run and the request to cancel it
  (state/persistence/FileRunStateRepository, state/cancellation/FileActiveRunRegistration). The
  canceller and the run are different processes, so the operations interleave. The protocol is a step
  relation on the two files; the code of a canceller refines the sequence of its steps.
\<close>

section \<open>The code\<close>

record ActiveRunRegistration =
  ar_directory :: path
  ar_run_id :: RunId
  ar_closed :: bool
  ar_close_diagnostic :: "string option"

definition close_registration ::
  "('w, 'z) DocumentFiles_scheme \<Rightarrow> ActiveRunRegistration \<Rightarrow> ('w, exn, ActiveRunRegistration) run" where
  \<comment> \<open>\<open>FileActiveRunRegistration::close\<close>\<close>
  "close_registration files registration =
     (if ar_closed registration then returnS registration
      else catchS
        (bindS (clear_active_run files (ar_directory registration) (ar_run_id registration)) (\<lambda>_.
           returnS (registration\<lparr> ar_closed := True \<rparr>)))
        (\<lambda>e. returnS (registration\<lparr> ar_closed := True,
           ar_close_diagnostic := Some (if is_std_exception e then what e else ''unknown active run cleanup failure'') \<rparr>)))"

definition register_active_run ::
  "('w, 'z) DocumentFiles_scheme \<Rightarrow> ApplicationPaths \<Rightarrow> CancellationRequest \<Rightarrow> ('w, exn, ActiveRunRegistration) run" where
  \<comment> \<open>an exception destroys the registration, which closes it\<close>
  "register_active_run files app_paths request =
     (let directory = application_profile_state_dir app_paths (cr_profile_id request);
          registration = \<lparr> ar_directory = directory, ar_run_id = cr_run_id request, ar_closed = False, ar_close_diagnostic = None \<rparr>
      in catchS
           (bindS (clear_any_cancel_request files directory) (\<lambda>_.
            bindS (write_active_run files directory (cr_run_id request)) (\<lambda>_. returnS registration)))
           (\<lambda>e. bindS (close_registration files registration) (\<lambda>_. throwS e)))"

definition repository_clear_cancel_request ::
  "('w, 'z) DocumentFiles_scheme \<Rightarrow> ApplicationPaths \<Rightarrow> CancellationRequest \<Rightarrow> ('w, exn, unit) run" where
  "repository_clear_cancel_request files app_paths request =
     clear_cancel_request files (application_profile_state_dir app_paths (cr_profile_id request)) (cr_run_id request)"

definition confirm_cancel ::
  "('w, 'z) DocumentFiles_scheme \<Rightarrow> ApplicationPaths \<Rightarrow> CancellationRequest \<Rightarrow> ('w, exn, CancellationRequestOutcome) run" where
  \<comment> \<open>the rest of \<open>request_cancel\<close> after the request was written\<close>
  "confirm_cancel files app_paths request =
     bindS (active_run files (application_profile_state_dir app_paths (cr_profile_id request))) (\<lambda>confirmed.
       if confirmed = None
       then bindS (repository_clear_cancel_request files app_paths request) (\<lambda>_. returnS StaleRun)
       else if confirmed \<noteq> Some (cr_run_id request)
       then bindS (repository_clear_cancel_request files app_paths request) (\<lambda>_. returnS RunMismatch)
       else returnS Accepted)"

definition repository_request_cancel ::
  "('w, 'z) DocumentFiles_scheme \<Rightarrow> ApplicationPaths \<Rightarrow> CancellationRequest \<Rightarrow> ('w, exn, CancellationRequestOutcome) run" where
  "repository_request_cancel files app_paths request =
     (let directory = application_profile_state_dir app_paths (cr_profile_id request); run = cr_run_id request
      in bindS (active_run files directory) (\<lambda>active.
           if active = None then returnS StaleRun
           else if active \<noteq> Some run then returnS RunMismatch
           else bindS (write_cancel_request files directory run) (\<lambda>_. confirm_cancel files app_paths request)))"

definition repository_cancel_requested ::
  "('w, 'z) DocumentFiles_scheme \<Rightarrow> ApplicationPaths \<Rightarrow> CancellationRequest \<Rightarrow> 'w \<Rightarrow> bool" where
  "repository_cancel_requested files app_paths request w =
     cancel_requested files (application_profile_state_dir app_paths (cr_profile_id request)) (cr_run_id request) w"

section \<open>The protocol\<close>

record mailbox = \<comment> \<open>what the two files say\<close>
  active_file :: "RunId option"
  request_file :: "RunId option"

datatype request_pc =
    CheckActive
  | WriteRequest
  | ConfirmActive
  | CheckOwn CancellationRequestOutcome
  | RemoveOwn CancellationRequestOutcome
  | Answered CancellationRequestOutcome

fun request_step :: "RunId \<Rightarrow> request_pc \<times> mailbox \<Rightarrow> request_pc \<times> mailbox" where
  \<comment> \<open>one access of a canceller to the files\<close>
  "request_step r (CheckActive, b) =
     (case active_file b of None \<Rightarrow> (Answered StaleRun, b)
      | Some a \<Rightarrow> (if a = r then WriteRequest else Answered RunMismatch, b))"
| "request_step r (WriteRequest, b) = (ConfirmActive, b\<lparr> request_file := Some r \<rparr>)"
| "request_step r (ConfirmActive, b) =
     (case active_file b of None \<Rightarrow> (CheckOwn StaleRun, b)
      | Some a \<Rightarrow> (if a = r then Answered Accepted else CheckOwn RunMismatch, b))"
| "request_step r (CheckOwn out, b) = (if request_file b = Some r then RemoveOwn out else Answered out, b)"
| "request_step r (RemoveOwn out, b) = (Answered out, b\<lparr> request_file := None \<rparr>)"
| "request_step r (Answered out, b) = (Answered out, b)"

datatype run_pc = Idle | Registering RunId | Running RunId

record cancel_system =
  box :: mailbox
  runner :: run_pc \<comment> \<open>the lease of the profile admits one run at a time\<close>
  started :: "RunId set"
  cancelled_runs :: "RunId set" \<comment> \<open>runs whose watch has seen a request\<close>
  requests :: "(RunId \<times> request_pc) list"

datatype cancel_action = Start RunId | Register | Poll | Finish | Crash | Ask RunId | Proceed nat

fun act :: "cancel_action \<Rightarrow> cancel_system \<Rightarrow> cancel_system option" where
  "act (Start r) s = (if runner s = Idle \<and> r \<notin> started s
     then Some (s\<lparr> runner := Registering r, started := insert r (started s), box := (box s)\<lparr> request_file := None \<rparr> \<rparr>) else None)"
| "act Register s = (case runner s of
     Registering r \<Rightarrow> Some (s\<lparr> runner := Running r, box := (box s)\<lparr> active_file := Some r \<rparr> \<rparr>) | _ \<Rightarrow> None)"
| "act Poll s = (case runner s of
     Running r \<Rightarrow> Some (if request_file (box s) = Some r then s\<lparr> cancelled_runs := insert r (cancelled_runs s) \<rparr> else s) | _ \<Rightarrow> None)"
| "act Finish s = (case runner s of
     Running r \<Rightarrow> Some (s\<lparr> runner := Idle, box := (box s)\<lparr> active_file := None \<rparr> \<rparr>) | _ \<Rightarrow> None)"
| "act Crash s = (case runner s of Idle \<Rightarrow> None | _ \<Rightarrow> Some (s\<lparr> runner := Idle \<rparr>))"
| "act (Ask r) s = Some (s\<lparr> requests := requests s @ [(r, CheckActive)] \<rparr>)"
| "act (Proceed i) s = (if i < length (requests s)
     then case requests s ! i of (r, pc) \<Rightarrow> case request_step r (pc, box s) of
            (pc', b) \<Rightarrow> Some (s\<lparr> box := b, requests := (requests s)[i := (r, pc')] \<rparr>)
     else None)"

inductive cancel_step :: "cancel_system \<Rightarrow> cancel_system \<Rightarrow> bool" where
  "act a s = Some t \<Longrightarrow> cancel_step s t"

definition fresh_system :: cancel_system where
  "fresh_system = \<lparr> box = \<lparr> active_file = None, request_file = None \<rparr>, runner = Idle, started = {}, cancelled_runs = {}, requests = [] \<rparr>"

fun perform :: "cancel_action list \<Rightarrow> cancel_system \<Rightarrow> cancel_system option" where
  "perform [] s = Some s"
| "perform (a # as) s = Option.bind (act a s) (perform as)"

lemma perform_reachable: "perform as s = Some t \<Longrightarrow> cancel_step\<^sup>*\<^sup>* s t"
  by (induction as arbitrary: s)
    (auto simp: bind_eq_Some_conv intro: converse_rtranclp_into_rtranclp cancel_step.intros)

section \<open>Nobody is cancelled unasked\<close>

lemma request_step_box:
  assumes "request_step r (pc, b) = (pc', b')"
  shows "active_file b' = active_file b" and "request_file b' \<in> {request_file b, Some r, None}"
  using assms by (cases pc; auto split: option.splits if_splits)+

lemma map_fst_update:
  "i < length xs \<Longrightarrow> xs ! i = (r, pc) \<Longrightarrow> map fst (xs[i := (r, pc')]) = map fst xs"
  by (simp add: map_update list_update_same_conv)

definition asked :: "cancel_system \<Rightarrow> RunId \<Rightarrow> bool" where
  "asked s r \<longleftrightarrow> (\<exists>pc. (r, pc) \<in> set (requests s))"

lemma asked_iff: "asked s r \<longleftrightarrow> r \<in> set (map fst (requests s))"
  by (force simp: asked_def)

definition only_asked :: "cancel_system \<Rightarrow> bool" where
  "only_asked s \<longleftrightarrow> (\<forall>r. request_file (box s) = Some r \<longrightarrow> asked s r) \<and> (\<forall>r \<in> cancelled_runs s. asked s r)"

lemma proceedE:
  assumes "act (Proceed i) s = Some t"
  obtains r pc pc' b where "i < length (requests s)" and "requests s ! i = (r, pc)" and "request_step r (pc, box s) = (pc', b)"
    and "t = s\<lparr> box := b, requests := (requests s)[i := (r, pc')] \<rparr>"
  using assms by (auto split: if_splits prod.splits)

lemma act_only_asked: "act a s = Some t \<Longrightarrow> only_asked s \<Longrightarrow> only_asked t"
proof (cases a)
  case (Proceed i)
  assume "act a s = Some t" "only_asked s"
  then obtain r pc pc' b where i: "i < length (requests s)" "requests s ! i = (r, pc)" "request_step r (pc, box s) = (pc', b)"
    and t: "t = s\<lparr> box := b, requests := (requests s)[i := (r, pc')] \<rparr>"
    using proceedE [of i s t] Proceed by blast
  have same: "asked t q \<longleftrightarrow> asked s q" for q
    using map_fst_update [OF i(1,2), of pc'] by (simp add: asked_iff t)
  have "asked s r"
    using i(1,2) nth_mem [of i "requests s"] by (force simp: asked_def)
  then show ?thesis
    using \<open>only_asked s\<close> request_step_box(2) [OF i(3)] unfolding only_asked_def same by (auto simp: t)
qed (fastforce simp: only_asked_def asked_def split: if_splits run_pc.splits)+

section \<open>An accepted request is kept\<close>

fun past :: "request_pc \<Rightarrow> bool" where
  \<comment> \<open>the canceller has seen its run active\<close>
  "past CheckActive = False"
| "past (Answered out) = (out = Accepted)"
| "past _ = True"

definition bookkept :: "cancel_system \<Rightarrow> bool" where
  "bookkept s \<longleftrightarrow> (\<forall>(q, pc) \<in> set (requests s). past pc \<longrightarrow> q \<in> started s)
     \<and> (\<forall>r. active_file (box s) = Some r \<longrightarrow> r \<in> started s)
     \<and> (\<forall>r. runner s = Registering r \<longrightarrow> r \<in> started s \<and> active_file (box s) \<noteq> Some r
          \<and> (\<forall>(q, pc) \<in> set (requests s). q = r \<longrightarrow> \<not> past pc))
     \<and> (\<forall>r. runner s = Running r \<longrightarrow> active_file (box s) = Some r)"

lemma request_step_past:
  "request_step r (pc, b) = (pc', b') \<Longrightarrow> past pc' \<Longrightarrow> past pc \<or> active_file b = Some r"
  by (cases pc) (auto split: option.splits if_splits)

lemma act_bookkept: "act a s = Some t \<Longrightarrow> bookkept s \<Longrightarrow> bookkept t"
proof (cases a)
  case (Proceed i)
  assume "act a s = Some t" and s: "bookkept s"
  then obtain r pc pc' b where i: "i < length (requests s)" "requests s ! i = (r, pc)" "request_step r (pc, box s) = (pc', b)"
    and t: "t = s\<lparr> box := b, requests := (requests s)[i := (r, pc')] \<rparr>"
    using proceedE [of i s t] Proceed by blast
  have old: "(r, pc) \<in> set (requests s)" using i(1,2) nth_mem by force
  have elems: "x \<in> set (requests t) \<Longrightarrow> x = (r, pc') \<or> x \<in> set (requests s)" for x
    using set_update_subset_insert [of "requests s" i "(r, pc')"] by (auto simp: t)
  have new: "past pc' \<Longrightarrow> past pc \<or> active_file (box s) = Some r" using request_step_past [OF i(3)] .
  have k: "past p \<Longrightarrow> (q, p) \<in> set (requests s) \<Longrightarrow> q \<in> started s" "active_file (box s) = Some q \<Longrightarrow> q \<in> started s"
    "runner s = Registering q \<Longrightarrow> q \<in> started s \<and> active_file (box s) \<noteq> Some q"
    "runner s = Registering q \<Longrightarrow> (q, p) \<in> set (requests s) \<Longrightarrow> \<not> past p"
    "runner s = Running q \<Longrightarrow> active_file (box s) = Some q" for q p
    using s unfolding bookkept_def by blast+
  have b: "box t = b" "runner t = runner s" "started t = started s" "active_file b = active_file (box s)"
    using request_step_box(1) [OF i(3)] by (simp_all add: t)
  have "past p \<Longrightarrow> (q, p) \<in> set (requests t) \<Longrightarrow> q \<in> started s" for q p
    using elems [of "(q, p)"] k(1,2) new old by blast
  moreover have "runner s = Registering q \<Longrightarrow> (q, p) \<in> set (requests t) \<Longrightarrow> \<not> past p" for q p
    using elems [of "(q, p)"] k(3,4) new old by blast
  ultimately show ?thesis
    unfolding bookkept_def b using k(2,3,5) by blast
next
  case (Start r)
  assume "act a s = Some t" and s: "bookkept s"
  then have t: "r \<notin> started s" "t = s\<lparr> runner := Registering r, started := insert r (started s), box := (box s)\<lparr> request_file := None \<rparr> \<rparr>"
    using Start by (auto split: if_splits)
  then show ?thesis using s unfolding bookkept_def by auto
qed (fastforce simp: bookkept_def split: if_splits run_pc.splits)+

definition settled :: "cancel_system \<Rightarrow> bool" where
  "settled s \<longleftrightarrow> (\<forall>(q, pc) \<in> set (requests s). \<exists>out. pc = Answered out)"

inductive orderly :: "cancel_system \<Rightarrow> bool" where
  \<comment> \<open>executions in which a run registers while no canceller is half way\<close>
  orderly_fresh: "orderly fresh_system"
| orderly_act: "orderly s \<Longrightarrow> act a s = Some t \<Longrightarrow> (a = Register \<Longrightarrow> settled s) \<Longrightarrow> orderly t"

fun in_line :: "RunId \<Rightarrow> RunId \<times> request_pc \<Rightarrow> bool" where
  "in_line r (q, CheckActive) = True"
| "in_line r (q, Answered out) = True"
| "in_line r (q, WriteRequest) = (q = r)"
| "in_line r (q, ConfirmActive) = (q = r)"
| "in_line r (q, pc) = False"

definition kept :: "cancel_system \<Rightarrow> bool" where
  "kept s \<longleftrightarrow> (\<forall>r. runner s = Running r \<longrightarrow> (\<forall>x \<in> set (requests s). in_line r x)
     \<and> (\<forall>pc. (r, pc) \<in> set (requests s) \<longrightarrow> pc \<in> {ConfirmActive, Answered Accepted} \<longrightarrow> request_file (box s) = Some r))"

lemma request_step_in_line:
  assumes "request_step q (pc, b) = (pc', b')" and "in_line r (q, pc)" and "active_file b = Some r"
    and "q = r \<Longrightarrow> pc \<in> {ConfirmActive, Answered Accepted} \<Longrightarrow> request_file b = Some r"
  shows "in_line r (q, pc')" and "q = r \<Longrightarrow> pc' \<in> {ConfirmActive, Answered Accepted} \<Longrightarrow> request_file b' = Some r"
    and "request_file b = Some r \<Longrightarrow> request_file b' = Some r"
  using assms by (cases pc; auto split: if_splits)+

lemma act_kept:
  assumes "act a s = Some t" and "kept s" and "bookkept s" and "a = Register \<Longrightarrow> settled s"
  shows "kept t"
proof (cases a)
  case (Proceed i)
  then obtain q pc pc' b where i: "i < length (requests s)" "requests s ! i = (q, pc)" "request_step q (pc, box s) = (pc', b)"
    and t: "t = s\<lparr> box := b, requests := (requests s)[i := (q, pc')] \<rparr>"
    using proceedE [of i s t] assms(1) by blast
  have old: "(q, pc) \<in> set (requests s)" using i(1,2) nth_mem by force
  have elems: "x \<in> set (requests t) \<Longrightarrow> x = (q, pc') \<or> x \<in> set (requests s)" for x
    using set_update_subset_insert [of "requests s" i "(q, pc')"] by (auto simp: t)
  show ?thesis
    unfolding kept_def
  proof (intro allI impI conjI ballI)
    fix r assume "runner t = Running r"
    then have r: "runner s = Running r" by (simp add: t)
    have active: "active_file (box s) = Some r" using assms(3) r by (simp add: bookkept_def)
    have line: "in_line r (q, pc)" and written: "q = r \<Longrightarrow> pc \<in> {ConfirmActive, Answered Accepted} \<Longrightarrow> request_file (box s) = Some r"
      using assms(2) r old by (auto simp: kept_def)
    note step = request_step_in_line [OF i(3) line active written]
    show "in_line r x" if "x \<in> set (requests t)" for x
      using elems [OF that] step(1) assms(2) r by (auto simp: kept_def)
    show "request_file (box t) = Some r" if "(r, pc1) \<in> set (requests t)" "pc1 \<in> {ConfirmActive, Answered Accepted}" for pc1
      using elems [OF that(1)] that(2) step(2,3) assms(2) r unfolding kept_def by (auto simp: t)
  qed
next
  case Register
  then obtain r where "runner s = Registering r" and t: "t = s\<lparr> runner := Running r, box := (box s)\<lparr> active_file := Some r \<rparr> \<rparr>"
    using assms(1) by (auto split: run_pc.splits)
  moreover have "settled s" using assms(4) Register .
  ultimately show ?thesis
    using assms(3) unfolding kept_def bookkept_def settled_def by (fastforce simp: t)
qed (use assms(1,2) in \<open>auto simp: kept_def split: if_splits run_pc.splits\<close>)

lemma perform_orderly: "perform as s = Some t \<Longrightarrow> Register \<notin> set as \<Longrightarrow> orderly s \<Longrightarrow> orderly t"
  by (induction as arbitrary: s) (auto simp: bind_eq_Some_conv simp del: act.simps intro: orderly_act)

lemma orderly_kept: "orderly s \<Longrightarrow> bookkept s \<and> kept s"
proof (induction rule: orderly.induct)
  case orderly_fresh
  then show ?case by (simp add: bookkept_def kept_def fresh_system_def)
next
  case (orderly_act s a t)
  then show ?case using act_bookkept act_kept by blast
qed

section \<open>The code of a canceller\<close>

definition mailbox_of :: "('w, 'z) DocumentFiles_scheme \<Rightarrow> path \<Rightarrow> 'w \<Rightarrow> mailbox" where
  "mailbox_of files directory w =
     \<lparr> active_file = (case fst (active_run files directory w) of Inr a \<Rightarrow> a | Inl e \<Rightarrow> None),
       request_file = map_option (\<lambda>d. get_value (parse_state_document d) ''run_id'') (file_at files (cancel_request_path directory) w) \<rparr>"

lemma cancel_requested_mailbox:
  "cancel_requested files directory r w \<longleftrightarrow> request_file (mailbox_of files directory w) = Some r"
  by (simp add: cancel_requested_def mailbox_of_def file_at_def read_state_file_def Let_def)

lemma state_paths_differ: "active_run_path d \<noteq> cancel_request_path d"
  by (simp add: active_run_path_def cancel_request_path_def path_append_def is_absolute_def)

lemma active_run_cong:
  assumes "file_at files (active_run_path d) w' = file_at files (active_run_path d) w"
  shows "fst (active_run files d w') = fst (active_run files d w)"
  using assms by (auto simp: active_run_def file_at_def read_state_file_def Let_def split: if_splits)

lemma active_run_snd [simp]: "snd (active_run files d w) = w"
  by (simp add: active_run_def Let_def)

lemma parse_run_id_line: "run_id_re r \<Longrightarrow> get_value (parse_state_document (''run_id='' @ r @ [CHR 0x0A])) ''run_id'' = r"
  using parse_state_document_lines [of "[(''run_id'', r)]"]
  by (simp add: plain_lines_def state_line_def one_line_run_id get_value_def)

lemma write_cancel_request_mailbox:
  assumes "faithful_files files" and "run_id_re r" and "write_cancel_request files d r w = (Inr (), w')"
  shows "mailbox_of files d w' = (mailbox_of files d w)\<lparr> request_file := Some r \<rparr>"
proof -
  obtain w1 where w1: "df_ensure_directory files d private_state_directory_permissions w = (Inr (), w1)"
    "df_write_atomically files (cancel_request_path d) (''run_id='' @ r @ [CHR 0x0A]) private_state_file_permissions w1 = (Inr (), w')"
    using assms(3) by (auto simp: write_cancel_request_def run_simps)
  have "file_at files (active_run_path d) w' = file_at files (active_run_path d) w"
    using faithful_write(2) [OF assms(1) w1(2) state_paths_differ] faithful_ensure [OF assms(1) w1(1)] by simp
  from active_run_cong [OF this] show ?thesis
    using faithful_write(1) [OF assms(1) w1(2)] parse_run_id_line [OF assms(2)] by (simp add: mailbox_of_def)
qed

lemma clear_cancel_request_mailbox:
  assumes "faithful_files files" and "clear_cancel_request files d r w = (Inr (), w')"
  shows "mailbox_of files d w' = (if request_file (mailbox_of files d w) = Some r
    then (mailbox_of files d w)\<lparr> request_file := None \<rparr> else mailbox_of files d w)"
proof (cases "request_file (mailbox_of files d w) = Some r")
  case True
  then have remove: "df_remove_durably files (cancel_request_path d) w = (Inr (), w')"
    using assms(2) by (simp add: clear_cancel_request_def clear_any_cancel_request_def bindS_def getsS_apply cancel_requested_mailbox)
  have "file_at files (active_run_path d) w' = file_at files (active_run_path d) w"
    using faithful_remove(2) [OF assms(1) remove state_paths_differ] .
  from active_run_cong [OF this] show ?thesis
    using True faithful_remove(1) [OF assms(1) remove] by (simp add: mailbox_of_def)
next
  case False
  then show ?thesis
    using assms(2) by (simp add: clear_cancel_request_def bindS_def getsS_apply returnS_apply cancel_requested_mailbox)
qed

lemma bind_active_run:
  "bindS (active_run files d) f w = (Inr x, w') \<Longrightarrow> f (active_file (mailbox_of files d w)) w = (Inr x, w')"
  using active_run_snd [of files d w]
  by (cases "active_run files d w") (auto simp: bindS_def mailbox_of_def split: sum.splits)

lemma confirm_cancel_steps:
  assumes "faithful_files files" and "confirm_cancel files app_paths request w = (Inr out, w')"
    and "d = application_profile_state_dir app_paths (cr_profile_id request)"
  shows "(request_step (cr_run_id request) ^^ 3) (ConfirmActive, mailbox_of files d w) = (Answered out, mailbox_of files d w')"
proof -
  define a where "a = active_file (mailbox_of files d w)"
  have rest: "(if a = None then bindS (repository_clear_cancel_request files app_paths request) (\<lambda>_. returnS StaleRun)
       else if a \<noteq> Some (cr_run_id request)
       then bindS (repository_clear_cancel_request files app_paths request) (\<lambda>_. returnS RunMismatch)
       else returnS Accepted) w = (Inr out, w')"
    using assms(2,3) bind_active_run by (fastforce simp: confirm_cancel_def a_def)
  have clear: "mailbox_of files d w2 = (if request_file (mailbox_of files d w) = Some (cr_run_id request)
      then (mailbox_of files d w)\<lparr> request_file := None \<rparr> else mailbox_of files d w)"
    if "repository_clear_cancel_request files app_paths request w = (Inr (), w2)" for w2
    using clear_cancel_request_mailbox [OF assms(1)] that assms(3) by (simp add: repository_clear_cancel_request_def)
  show ?thesis
    using rest clear a_def [symmetric] by (cases a) (auto simp: run_simps numeral_3_eq_3 split: if_splits)
qed

section \<open>Properties\<close>

text \<open>
  Property C27: cancelling a run follows its protocol. Whatever the files say when it starts, the code
  that requests a cancellation answers as the abstract canceller does that is run alone, and leaves the
  two files as it does; the second half of the code does so from any state of the files in between,
  which other processes may have changed since the request was written.
\<close>

theorem request_cancel_refines:
  assumes "faithful_files files" and "run_id_re (cr_run_id request)"
    and "d = application_profile_state_dir app_paths (cr_profile_id request)"
  shows "(case repository_request_cancel files app_paths request w of
      (Inr out, w') \<Rightarrow> (request_step (cr_run_id request) ^^ 5) (CheckActive, mailbox_of files d w) = (Answered out, mailbox_of files d w')
    | (Inl e, w') \<Rightarrow> True)
   \<and> (case confirm_cancel files app_paths request w of
      (Inr out, w') \<Rightarrow> (request_step (cr_run_id request) ^^ 3) (ConfirmActive, mailbox_of files d w) = (Answered out, mailbox_of files d w')
    | (Inl e, w') \<Rightarrow> True)"
proof -
  have confirm: "confirm_cancel files app_paths request w1 = (Inr out, w')
      \<Longrightarrow> (request_step (cr_run_id request) ^^ 3) (ConfirmActive, mailbox_of files d w1) = (Answered out, mailbox_of files d w')"
    for w1 out w' by (rule confirm_cancel_steps [OF assms(1) _ assms(3)])
  have answered: "(request_step (cr_run_id request) ^^ n) (Answered out, b) = (Answered out, b)" for n out b
    by (induction n) simp_all
  have request: "(request_step (cr_run_id request) ^^ 5) (CheckActive, mailbox_of files d w) = (Answered out, mailbox_of files d w')"
    if "repository_request_cancel files app_paths request w = (Inr out, w')" for out w'
  proof -
    let ?r = "cr_run_id request"
    define a where "a = active_file (mailbox_of files d w)"
    have rest: "(if a = None then returnS StaleRun else if a \<noteq> Some ?r then returnS RunMismatch
         else bindS (write_cancel_request files d ?r) (\<lambda>_. confirm_cancel files app_paths request)) w = (Inr out, w')"
      using that assms(3) bind_active_run by (fastforce simp: repository_request_cancel_def Let_def a_def)
    have split: "(request_step ?r ^^ 5) x = (request_step ?r ^^ 4) (request_step ?r x)"
      "(request_step ?r ^^ 5) x = (request_step ?r ^^ 3) (request_step ?r (request_step ?r x))" for x
      by (simp_all add: eval_nat_numeral funpow_swap1)
    show ?thesis
    proof (cases "a = Some ?r")
      case True
      then obtain w1 where w1: "write_cancel_request files d ?r w = (Inr (), w1)" "confirm_cancel files app_paths request w1 = (Inr out, w')"
        using rest by (auto simp: run_simps)
      show ?thesis
        using confirm [OF w1(2)] True a_def [symmetric] write_cancel_request_mailbox [OF assms(1,2) w1(1)] by (simp add: split(2))
    next
      case False
      then show ?thesis
        using rest a_def [symmetric] by (cases a) (auto simp: split(1) answered run_simps)
    qed
  qed
  show ?thesis using request confirm by (auto split: prod.split sum.split)
qed

definition sample_paths :: ApplicationPaths where
  "sample_paths = \<lparr> state_root = ''/v'', status_root = ''/s'', history_root = ''/h'', target_mount_root = ''/m'' \<rparr>"

definition sample_cancel :: CancellationRequest where
  "sample_cancel = \<lparr> cr_profile_id = ''p'', cr_run_id = ''a'' \<rparr>"

theorem request_cancel_refines_witness:
  "fst (repository_request_cancel memory_files sample_paths sample_cancel [''/v/profiles/p/active-run'' \<mapsto> ''run_id=a'' @ [CHR 0x0A]]) = Inr Accepted
   \<and> (request_step ''a'' ^^ 5) (CheckActive, mailbox_of memory_files ''/v/profiles/p'' [''/v/profiles/p/active-run'' \<mapsto> ''run_id=a'' @ [CHR 0x0A]])
     = (Answered Accepted, mailbox_of memory_files ''/v/profiles/p'' (snd (repository_request_cancel memory_files sample_paths sample_cancel
         [''/v/profiles/p/active-run'' \<mapsto> ''run_id=a'' @ [CHR 0x0A]])))"
proof -
  let ?w = "[''/v/profiles/p/active-run'' \<mapsto> ''run_id=a'' @ [CHR 0x0A]]"
  have "fst (repository_request_cancel memory_files sample_paths sample_cancel ?w) = Inr Accepted" by code_simp
  moreover have "run_id_re (cr_run_id sample_cancel)" by code_simp
  moreover have "''/v/profiles/p'' = application_profile_state_dir sample_paths (cr_profile_id sample_cancel)" by code_simp
  moreover have "cr_run_id sample_cancel = ''a''" by code_simp
  ultimately show ?thesis
    using request_cancel_refines [OF faithful_memory_files, of sample_cancel "''/v/profiles/p''" sample_paths ?w]
    by (cases "repository_request_cancel memory_files sample_paths sample_cancel ?w") simp
qed

text \<open>
  Property C14: no run is cancelled that nobody asked to cancel. However runs and any number of
  cancellers interleave, crashes included, a run whose watch has seen a request is one that a canceller
  named, and the request file never names another.
\<close>

theorem no_spurious_cancellation:
  assumes "cancel_step\<^sup>*\<^sup>* fresh_system s"
  shows "(\<forall>r \<in> cancelled_runs s. asked s r) \<and> (\<forall>r. request_file (box s) = Some r \<longrightarrow> asked s r)"
proof -
  have "only_asked s"
    using assms
  proof (induction rule: rtranclp_induct)
    case base
    then show ?case by (simp add: only_asked_def fresh_system_def)
  next
    case (step s t)
    then show ?case by (auto elim: cancel_step.cases intro: act_only_asked)
  qed
  then show ?thesis by (simp add: only_asked_def)
qed

theorem no_spurious_cancellation_witness:
  "\<exists>s. cancel_step\<^sup>*\<^sup>* fresh_system s \<and> cancelled_runs s = {''a''} \<and> asked s ''a''"
proof -
  let ?as = "[Start ''a'', Register, Ask ''a'', Proceed 0, Proceed 0, Proceed 0, Poll]"
  obtain s where s: "perform ?as fresh_system = Some s" "cancelled_runs s = {''a''}"
    by (simp add: fresh_system_def)
  then show ?thesis
    using no_spurious_cancellation [OF perform_reachable [OF s(1)]] perform_reachable [OF s(1)] by auto
qed

text \<open>
  Property C13: an accepted cancellation arrives. In every execution in which a run registers only while
  no canceller is half way, a request for the active run that was answered with acceptance stands in the
  request file, and the next poll of the run cancels it.
\<close>

theorem accepted_cancellation_arrives:
  assumes "orderly s" and "runner s = Running r" and "(r, Answered Accepted) \<in> set (requests s)"
  shows "\<exists>t. act Poll s = Some t \<and> r \<in> cancelled_runs t"
  using orderly_kept [OF assms(1)] assms(2,3) by (auto simp: kept_def)

theorem accepted_cancellation_arrives_witness:
  "\<exists>s t. orderly s \<and> act Poll s = Some t \<and> ''a'' \<in> cancelled_runs t"
proof -
  obtain s0 where s0: "perform [Start ''a'', Register] fresh_system = Some s0" by (simp add: fresh_system_def)
  obtain s1 where s1: "act (Start ''a'') fresh_system = Some s1" "act Register s1 = Some s0" "settled s1"
    using s0 by (auto simp: fresh_system_def settled_def)
  have "orderly s0"
    using s1 orderly_act [OF orderly_act [OF orderly_fresh s1(1)] s1(2)] by simp
  moreover obtain s where s: "perform [Ask ''a'', Proceed 0, Proceed 0, Proceed 0] s0 = Some s"
    "runner s = Running ''a''" "(''a'', Answered Accepted) \<in> set (requests s)"
    using s0 by (auto simp: fresh_system_def)
  ultimately have "orderly s" using perform_orderly [OF s(1)] by simp
  then show ?thesis using accepted_cancellation_arrives [OF _ s(2,3)] by blast
qed

text \<open>
  Property C29: without that order an accepted cancellation can be lost. A canceller of an old run that
  was delayed after its check overwrites the request for the new run and then removes it: the canceller
  of the new run was told that its request was accepted, no canceller is left, and the run goes on.
\<close>

theorem accepted_cancellation_lost:
  "\<exists>s. cancel_step\<^sup>*\<^sup>* fresh_system s \<and> runner s = Running ''b'' \<and> (''b'', Answered Accepted) \<in> set (requests s)
     \<and> settled s \<and> ''b'' \<notin> cancelled_runs s \<and> request_file (box s) = None"
proof -
  let ?as = "[Start ''a'', Register, Ask ''a'', Proceed 0, Finish, Start ''b'', Register, Ask ''b'', Proceed 1, Proceed 1, Proceed 1,
    Proceed 0, Proceed 0, Proceed 0, Proceed 0]"
  obtain s where "perform ?as fresh_system = Some s" "runner s = Running ''b''" "(''b'', Answered Accepted) \<in> set (requests s)"
    "settled s" "''b'' \<notin> cancelled_runs s" "request_file (box s) = None"
    by (simp add: fresh_system_def settled_def)
  then show ?thesis using perform_reachable by blast
qed

end
