(* ===== verification/RunStatusModel.thy ===== *)
theory RunStatusModel
  imports RunEvents
begin

text \<open>
  The status of a run as it is shown to users, state/model/RunStatus, with the conditions every status
  that is written has to meet.
\<close>

section \<open>Data\<close>

datatype RunState =
    RunningState
  | ValidatingState
  | ValidatedState
  | SucceededState
  | FailedState
  | CancelledState
  | SkippedState

datatype RunPhase =
    RunStartedPhase
  | SourceStartedPhase
  | RecoverPendingPhase
  | CleanupIncomingPhase
  | BeforeSnapshotHookPhase
  | CreateSnapshotPhase
  | AfterSnapshotHookPhase
  | SendReceivePhase
  | SizingPhase
  | TransferringPhase
  | VerifyReceivedPhase
  | CommitReceivedPhase
  | ApplyRemoteRetentionPhase
  | ApplyLocalRetentionPhase
  | CleanupSourcePhase
  | SourceCompletedPhase
  | SucceededPhase
  | FailedPhase
  | CancelledPhase
  | SkippedPhase
  | ValidatingTargetPhase
  | ValidatedPhase

datatype ProgressAccuracy = Indeterminate | Estimated | Exact

datatype StatusOperationKind = BackupOperation | TargetValidationOperation

datatype RunDetailValue = DetailBool bool | DetailInt int | DetailUnsigned u64 | DetailString string

type_synonym RunDetails = "(string \<times> RunDetailValue) list" \<comment> \<open>a map, in the order of its keys\<close>

record RunProgress =
  pg_processed_bytes :: u64
  pg_estimated_bytes :: "u64 option"
  pg_run_processed_bytes :: u64
  pg_speed_bps :: u64
  pg_eta_seconds :: "int option"
  pg_source_percent :: "int option"
  pg_overall_percent :: "int option"
  pg_accuracy :: ProgressAccuracy

record RunError =
  er_code :: ErrorCode
  er_message :: string
  er_recoverable :: bool
  er_suggested_action :: string

record RunStatus =
  rs_profile_id :: ProfileId
  rs_profile_name :: string
  rs_run_id :: RunId
  rs_operation_kind :: StatusOperationKind
  rs_state :: RunState
  rs_phase :: RunPhase
  rs_message :: string
  rs_current_source_name :: string
  rs_target_name :: string
  rs_source_index :: int
  rs_source_count :: int
  rs_started_at :: RuntimeTimePoint
  rs_updated_at :: RuntimeTimePoint
  rs_finished_at :: "RuntimeTimePoint option"
  rs_error :: "RunError option"
  rs_details :: RunDetails
  rs_can_cancel :: bool
  rs_progress :: RunProgress
  rs_exit_code :: int

section \<open>Validation\<close>

definition terminal :: "RunState \<Rightarrow> bool" where
  "terminal state \<longleftrightarrow> state \<noteq> RunningState \<and> state \<noteq> ValidatingState"

fun terminal_phase_matches :: "RunState \<Rightarrow> RunPhase \<Rightarrow> bool" where
  "terminal_phase_matches ValidatedState phase = (phase = ValidatedPhase)"
| "terminal_phase_matches SucceededState phase = (phase = SucceededPhase)"
| "terminal_phase_matches FailedState phase =
     (phase \<noteq> ValidatedPhase \<and> phase \<noteq> SucceededPhase \<and> phase \<noteq> CancelledPhase \<and> phase \<noteq> SkippedPhase)"
| "terminal_phase_matches CancelledState phase = (phase = CancelledPhase)"
| "terminal_phase_matches SkippedState phase = (phase = SkippedPhase)"
| "terminal_phase_matches RunningState phase = True"
| "terminal_phase_matches ValidatingState phase = True"

definition is_terminal_phase :: "RunPhase \<Rightarrow> bool" where
  "is_terminal_phase phase \<longleftrightarrow> phase = ValidatedPhase \<or> phase = SucceededPhase \<or> phase = FailedPhase
     \<or> phase = CancelledPhase \<or> phase = SkippedPhase"

definition validate_run_status :: "RunStatus \<Rightarrow> unit result" where
  "validate_run_status status =
     (let is_terminal = terminal (rs_state status);
          has_terminal_error = (rs_state status = FailedState \<or> rs_state status = CancelledState)
      in if is_terminal \<noteq> (rs_finished_at status \<noteq> None)
         then Inl (ValidationError (if is_terminal then ''terminal run status requires finishedAt''
                                    else ''active run status must not contain finishedAt''))
         else if is_terminal \<and> \<not> terminal_phase_matches (rs_state status) (rs_phase status)
         then Inl (ValidationError ''terminal run state and phase do not match'')
         else if rs_state status = ValidatingState \<and> rs_phase status \<noteq> ValidatingTargetPhase
         then Inl (ValidationError ''validating run status requires validatingTarget phase'')
         else if rs_state status = RunningState \<and> is_terminal_phase (rs_phase status)
         then Inl (ValidationError ''running run status must not use a terminal phase'')
         else if has_terminal_error \<and> rs_error status = None
         then Inl (ValidationError ''failed or cancelled run status requires an error'')
         else if is_terminal \<and> \<not> has_terminal_error \<and> rs_error status \<noteq> None
         then Inl (ValidationError ''successful terminal run status must not contain an error'')
         else if is_terminal \<and> rs_can_cancel status
         then Inl (ValidationError ''terminal run status cannot be cancelled'')
         else Inr ())"

section \<open>Names\<close>

fun run_state_name :: "RunState \<Rightarrow> string" where
  "run_state_name RunningState = ''running''"
| "run_state_name ValidatingState = ''validating''"
| "run_state_name ValidatedState = ''validated''"
| "run_state_name SucceededState = ''succeeded''"
| "run_state_name FailedState = ''failed''"
| "run_state_name CancelledState = ''cancelled''"
| "run_state_name SkippedState = ''skipped''"

fun run_phase_name :: "RunPhase \<Rightarrow> string" where
  "run_phase_name RunStartedPhase = ''run-started''"
| "run_phase_name SourceStartedPhase = ''source-started''"
| "run_phase_name RecoverPendingPhase = ''recover-pending''"
| "run_phase_name CleanupIncomingPhase = ''cleanup-incoming''"
| "run_phase_name BeforeSnapshotHookPhase = ''before-snapshot-hook''"
| "run_phase_name CreateSnapshotPhase = ''create-snapshot''"
| "run_phase_name AfterSnapshotHookPhase = ''after-snapshot-hook''"
| "run_phase_name SendReceivePhase = ''send-receive''"
| "run_phase_name SizingPhase = ''sizing''"
| "run_phase_name TransferringPhase = ''transferring''"
| "run_phase_name VerifyReceivedPhase = ''verify-received''"
| "run_phase_name CommitReceivedPhase = ''commit-received''"
| "run_phase_name ApplyRemoteRetentionPhase = ''apply-remote-retention''"
| "run_phase_name ApplyLocalRetentionPhase = ''apply-local-retention''"
| "run_phase_name CleanupSourcePhase = ''cleanup-source''"
| "run_phase_name SourceCompletedPhase = ''source-completed''"
| "run_phase_name SucceededPhase = ''succeeded''"
| "run_phase_name FailedPhase = ''failed''"
| "run_phase_name CancelledPhase = ''cancelled''"
| "run_phase_name SkippedPhase = ''skipped''"
| "run_phase_name ValidatingTargetPhase = ''validating-target''"
| "run_phase_name ValidatedPhase = ''validated''"

fun progress_accuracy_name :: "ProgressAccuracy \<Rightarrow> string" where
  "progress_accuracy_name Indeterminate = ''indeterminate''"
| "progress_accuracy_name Estimated = ''estimated''"
| "progress_accuracy_name Exact = ''exact''"

section \<open>What validation means\<close>

lemma validate_run_status_iff:
  "validate_run_status status = Inr () \<longleftrightarrow>
     (terminal (rs_state status) \<longleftrightarrow> rs_finished_at status \<noteq> None)
     \<and> (terminal (rs_state status) \<longrightarrow> terminal_phase_matches (rs_state status) (rs_phase status) \<and> \<not> rs_can_cancel status
          \<and> (rs_error status = None \<longleftrightarrow> rs_state status \<noteq> FailedState \<and> rs_state status \<noteq> CancelledState))
     \<and> (rs_state status = ValidatingState \<longrightarrow> rs_phase status = ValidatingTargetPhase)
     \<and> (rs_state status = RunningState \<longrightarrow> \<not> is_terminal_phase (rs_phase status))"
  by (cases "rs_state status") (simp_all add: validate_run_status_def terminal_def Let_def)

end
