(* ===== verification/StatusBuilder.thy ===== *)
theory StatusBuilder
  imports RunStatusModel
begin

text \<open>
  The status that belongs to an event of a run, state/projection/RunStatusBuilder, and the names of
  state/persistence/BackupRunSerialization. The clock is an argument. A percentage is computed in
  \<open>long double\<close>; the number of digits of its significand depends on the platform and is an argument too.
\<close>

section \<open>Names (BackupRunSerialization)\<close>

fun backup_run_action_kind_name :: "BackupRunActionKind \<Rightarrow> string" where
  "backup_run_action_kind_name RecoverPending = ''recover-pending''"
| "backup_run_action_kind_name CleanupIncoming = ''cleanup-incoming''"
| "backup_run_action_kind_name BeforeSnapshotHook = ''before-snapshot-hook''"
| "backup_run_action_kind_name CreateSnapshot = ''create-snapshot''"
| "backup_run_action_kind_name AfterSnapshotHook = ''after-snapshot-hook''"
| "backup_run_action_kind_name SendReceive = ''send-receive''"
| "backup_run_action_kind_name VerifyReceived = ''verify-received''"
| "backup_run_action_kind_name CommitReceived = ''commit-received''"
| "backup_run_action_kind_name ApplyRemoteRetention = ''apply-remote-retention''"
| "backup_run_action_kind_name ApplyLocalRetention = ''apply-local-retention''"
| "backup_run_action_kind_name CleanupSource = ''cleanup-source''"

fun backup_run_event_kind_name :: "BackupRunEventKind \<Rightarrow> string" where
  "backup_run_event_kind_name RunStartedKind = ''run-started''"
| "backup_run_event_kind_name SourceStartedKind = ''source-started''"
| "backup_run_event_kind_name ActionStartedKind = ''action-started''"
| "backup_run_event_kind_name TransferProgressKind = ''transfer-progress''"
| "backup_run_event_kind_name ActionCompletedKind = ''action-completed''"
| "backup_run_event_kind_name ActionFailedKind = ''action-failed''"
| "backup_run_event_kind_name CheckpointWrittenKind = ''checkpoint-written''"
| "backup_run_event_kind_name SourceCompletedKind = ''source-completed''"
| "backup_run_event_kind_name TargetValidationCompletedKind = ''target-validation-completed''"
| "backup_run_event_kind_name RunCompletedKind = ''run-completed''"
| "backup_run_event_kind_name RunFailedKind = ''run-failed''"
| "backup_run_event_kind_name RunCancelledKind = ''run-cancelled''"

fun operation_kind_name :: "OperationKind \<Rightarrow> string" where
  "operation_kind_name Backup = ''backup''"
| "operation_kind_name TargetValidation = ''target-validation''"
| "operation_kind_name Planning = ''planning''"

section \<open>Context and events\<close>

record BackupRunStatusContext =
  bc_status_root :: path
  bc_history_root :: path
  bc_profile_name :: string
  bc_source_count :: int
  bc_started_at :: RuntimeTimePoint
  bc_source_names :: "SourceId \<rightharpoonup> string"
  bc_target_name :: string

record RunEventData =
  ed_kind :: BackupRunEventKind
  ed_operation_kind :: OperationKind
  ed_profile_id :: ProfileId
  ed_run_id :: RunId
  ed_source_id :: "SourceId option"
  ed_source_index :: int
  ed_action_kind :: "BackupRunActionKind option"
  ed_transfer_stage :: BackupTransferStage
  ed_bytes_transferred :: u64
  ed_bytes_produced :: u64
  ed_bytes_total_estimated :: u64
  ed_run_bytes_transferred :: u64
  ed_delta_bytes :: u64
  ed_elapsed_ms :: u64
  ed_speed_bps :: u64
  ed_error_code :: "ErrorCode option"
  ed_message :: string

definition event_projection_data :: "BackupRunEvent \<Rightarrow> RunEventData" where
  "event_projection_data event =
     (let data = \<lparr> ed_kind = backup_run_event_kind event, ed_operation_kind = backup_run_event_operation_kind event,
            ed_profile_id = backup_run_event_profile_id event, ed_run_id = backup_run_event_run_id event,
            ed_source_id = backup_run_event_source_id event, ed_source_index = backup_run_event_source_index event,
            ed_action_kind = backup_run_event_action_kind event, ed_transfer_stage = Transferring,
            ed_bytes_transferred = 0, ed_bytes_produced = 0, ed_bytes_total_estimated = 0, ed_run_bytes_transferred = 0,
            ed_delta_bytes = 0, ed_elapsed_ms = 0, ed_speed_bps = 0, ed_error_code = None, ed_message = [] \<rparr>
      in case event of
           TransferProgress p r s i t \<Rightarrow> data\<lparr> ed_transfer_stage := tp_stage t, ed_bytes_transferred := tp_bytes_transferred t,
             ed_bytes_produced := tp_bytes_produced t, ed_bytes_total_estimated := tp_bytes_total_estimated t,
             ed_run_bytes_transferred := tp_run_bytes_transferred t, ed_delta_bytes := tp_delta_bytes t,
             ed_elapsed_ms := tp_elapsed_ms t, ed_speed_bps := tp_speed_bps t, ed_message := tp_message t \<rparr>
         | ActionFailed p r s i a c m \<Rightarrow> data\<lparr> ed_error_code := c, ed_message := m \<rparr>
         | RunFailed p r c m k \<Rightarrow> data\<lparr> ed_error_code := Some c, ed_message := m \<rparr>
         | RunCancelled p r s i a c m k \<Rightarrow> data\<lparr> ed_error_code := c, ed_message := m \<rparr>
         | _ \<Rightarrow> data)"

fun phase_for_action :: "BackupRunActionKind \<Rightarrow> RunPhase" where
  "phase_for_action RecoverPending = RecoverPendingPhase"
| "phase_for_action CleanupIncoming = CleanupIncomingPhase"
| "phase_for_action BeforeSnapshotHook = BeforeSnapshotHookPhase"
| "phase_for_action CreateSnapshot = CreateSnapshotPhase"
| "phase_for_action AfterSnapshotHook = AfterSnapshotHookPhase"
| "phase_for_action SendReceive = SendReceivePhase"
| "phase_for_action VerifyReceived = VerifyReceivedPhase"
| "phase_for_action CommitReceived = CommitReceivedPhase"
| "phase_for_action ApplyRemoteRetention = ApplyRemoteRetentionPhase"
| "phase_for_action ApplyLocalRetention = ApplyLocalRetentionPhase"
| "phase_for_action CleanupSource = CleanupSourcePhase"

fun phase_for_event :: "BackupRunEventKind \<Rightarrow> RunPhase" where
  "phase_for_event RunStartedKind = RunStartedPhase"
| "phase_for_event SourceStartedKind = SourceStartedPhase"
| "phase_for_event TransferProgressKind = TransferringPhase"
| "phase_for_event SourceCompletedKind = SourceCompletedPhase"
| "phase_for_event TargetValidationCompletedKind = ValidatedPhase"
| "phase_for_event RunCompletedKind = SucceededPhase"
| "phase_for_event RunFailedKind = FailedPhase"
| "phase_for_event RunCancelledKind = CancelledPhase"
| "phase_for_event _ = RunStartedPhase"

definition failed_action_is_recoverable :: "BackupRunActionKind \<Rightarrow> bool" where
  "failed_action_is_recoverable kind \<longleftrightarrow> kind = BeforeSnapshotHook \<or> kind = AfterSnapshotHook"

definition suggested_action_for_failed_action :: "BackupRunActionKind \<Rightarrow> string" where
  "suggested_action_for_failed_action kind =
     (if kind = BeforeSnapshotHook \<or> kind = AfterSnapshotHook then ''inspect-hook-program'' else ''inspect-run-history'')"

section \<open>Progress\<close>

definition clamp_int :: "int \<Rightarrow> int \<Rightarrow> int \<Rightarrow> int" where
  \<comment> \<open>\<open>std::clamp\<close>\<close>
  "clamp_int v lo hi = (if v < lo then lo else if hi < v then hi else v)"

definition estimated_overall_progress :: "BackupRunStatusContext \<Rightarrow> RunEventData \<Rightarrow> int \<Rightarrow> int" where
  "estimated_overall_progress context event source_progress =
     (if bc_source_count context \<le> 0 then - 1
      else if ed_kind event = RunCompletedKind \<or> ed_kind event = TargetValidationCompletedKind then 100
      else if ed_kind event = SourceCompletedKind \<and> ed_source_index event > 0
      then clamp_int (ed_source_index event) 0 (bc_source_count context) * 100 div bc_source_count context
      else if ed_kind event = TransferProgressKind \<and> source_progress < 0 then - 1
      else if ed_source_id event \<noteq> None \<and> ed_source_index event > 0
      then (clamp_int (ed_source_index event - 1) 0 (bc_source_count context) * 100
            + (if source_progress \<ge> 0 then clamp_int source_progress 0 100 else 0)) div bc_source_count context
      else 0)"

fun bit_width :: "nat \<Rightarrow> nat" where
  "bit_width n = (if n = 0 then 0 else Suc (bit_width (n div 2)))"

declare bit_width.simps [simp del]

definition round_significand :: "nat \<Rightarrow> nat \<Rightarrow> nat" where
  \<comment> \<open>the nearest number with a significand of \<open>digits\<close> bits, ties to the even one\<close>
  "round_significand digits n =
     (let e = bit_width n - digits; q = n div 2 ^ e; r = n mod 2 ^ e
      in (if 2 * r > 2 ^ e \<or> 2 * r = 2 ^ e \<and> odd q then q + 1 else q) * 2 ^ e)"

definition truncated_quotient :: "nat \<Rightarrow> nat \<Rightarrow> nat \<Rightarrow> nat" where
  \<comment> \<open>the integral part of the rounded quotient: the next integer if the quotient is within half a unit of it\<close>
  "truncated_quotient digits x y =
     (let f = x div y
      in if f = 0 then (if 2 * x \<ge> y \<and> (y - x) * 2 ^ (digits + 1) \<le> y then 1 else 0)
         else if ((f + 1) * y - x) * 2 ^ (digits + 1 - bit_width f) \<le> y then f + 1 else f)"

definition estimated_source_progress :: "nat \<Rightarrow> RunEventData \<Rightarrow> int" where
  "estimated_source_progress digits event =
     (if ed_bytes_total_estimated event = 0 then - 1
      else if ed_bytes_transferred event \<ge> ed_bytes_total_estimated event then 100
      else int (truncated_quotient digits (round_significand digits (unat (ed_bytes_transferred event) * 100))
                  (unat (ed_bytes_total_estimated event))))"

definition estimated_eta_seconds :: "RunEventData \<Rightarrow> int" where
  "estimated_eta_seconds event =
     (if ed_bytes_total_estimated event = 0 \<or> ed_speed_bps event = 0
         \<or> ed_bytes_transferred event \<ge> ed_bytes_total_estimated event then - 1
      else let remaining = ed_bytes_total_estimated event - ed_bytes_transferred event;
               seconds = remaining div ed_speed_bps event + (if remaining mod ed_speed_bps event = 0 then 0 else 1)
           in if seconds > 2147483647 then 2147483647 else uint seconds)"

definition progress_accuracy_from_name :: "string \<Rightarrow> ProgressAccuracy" where
  "progress_accuracy_from_name name =
     (if name = ''exact'' then Exact else if name = ''estimated'' then Estimated else Indeterminate)"

definition action_name_for_event :: "RunEventData \<Rightarrow> string" where
  "action_name_for_event event =
     (case ed_action_kind event of Some kind \<Rightarrow> backup_run_action_kind_name kind | None \<Rightarrow> ''unknown'')"

definition message_for_event :: "RunEventData \<Rightarrow> string" where
  "message_for_event event =
     (if ed_message event \<noteq> [] then ed_message event
      else case ed_kind event of
        RunStartedKind \<Rightarrow>
          if ed_operation_kind event = TargetValidation then ''Target validation started.'' else ''Backup run started.''
      | SourceStartedKind \<Rightarrow> ''Backup source started.''
      | ActionStartedKind \<Rightarrow> ''Backup action started: '' @ action_name_for_event event @ ''.''
      | TransferProgressKind \<Rightarrow> ''Backup transfer is running.''
      | ActionCompletedKind \<Rightarrow> ''Backup action completed: '' @ action_name_for_event event @ ''.''
      | ActionFailedKind \<Rightarrow> ''Backup action failed: '' @ action_name_for_event event @ ''.''
      | CheckpointWrittenKind \<Rightarrow> ''Backup checkpoint written.''
      | SourceCompletedKind \<Rightarrow> ''Backup source completed.''
      | TargetValidationCompletedKind \<Rightarrow> ''Target validation completed.''
      | RunCompletedKind \<Rightarrow> ''Backup completed.''
      | RunFailedKind \<Rightarrow>
          if ed_operation_kind event = TargetValidation then ''Target validation failed.'' else ''Backup failed.''
      | RunCancelledKind \<Rightarrow>
          if ed_operation_kind event = TargetValidation then ''Target validation cancelled.'' else ''Backup cancelled.'')"

section \<open>The status of an event\<close>

definition event_phase :: "RunEventData \<Rightarrow> RunPhase" where
  \<comment> \<open>the phase before the state is decided\<close>
  "event_phase event =
     (case ed_action_kind event of
        Some kind \<Rightarrow>
          if ed_kind event \<in> {ActionStartedKind, ActionCompletedKind, ActionFailedKind, RunFailedKind, CheckpointWrittenKind}
          then phase_for_action kind
          else if ed_kind event = TransferProgressKind
          then (if ed_transfer_stage event = Sizing then SizingPhase else TransferringPhase)
          else phase_for_event (ed_kind event)
      | None \<Rightarrow>
          if ed_kind event = TransferProgressKind
          then (if ed_transfer_stage event = Sizing then SizingPhase else TransferringPhase)
          else phase_for_event (ed_kind event))"

definition event_outcome :: "RunEventData \<Rightarrow> RuntimeTimePoint \<Rightarrow> RunState \<times> RunPhase \<times> int \<times> RuntimeTimePoint option" where
  \<comment> \<open>state, phase, exit code and time of the end\<close>
  "event_outcome event updated_at =
     (if ed_kind event = RunStartedKind \<and> ed_operation_kind event = TargetValidation
      then (ValidatingState, ValidatingTargetPhase, 0, None)
      else if ed_kind event = RunFailedKind then (FailedState, event_phase event, 1, Some updated_at)
      else if ed_kind event = RunCompletedKind then (SucceededState, SucceededPhase, 0, Some updated_at)
      else if ed_kind event = TargetValidationCompletedKind then (ValidatedState, ValidatedPhase, 0, Some updated_at)
      else if ed_kind event = RunCancelledKind then (CancelledState, CancelledPhase, 130, Some updated_at)
      else (RunningState, event_phase event, 0, None))"

definition event_progress :: "nat \<Rightarrow> BackupRunStatusContext \<Rightarrow> RunEventData \<Rightarrow> int \<Rightarrow> RunProgress" where
  "event_progress digits context event minimum_overall_progress =
     (let transfer = (ed_kind event = TransferProgressKind);
          source_progress = (if transfer then estimated_source_progress digits event else - 1);
          estimated = estimated_overall_progress context event source_progress;
          overall_progress = (if estimated \<ge> 0 \<and> minimum_overall_progress \<ge> 0 \<and> ed_kind event \<noteq> RunStartedKind
            then max estimated minimum_overall_progress else estimated);
          progress_accuracy = (if transfer then (if source_progress \<ge> 0 then ''exact'' else ''indeterminate'')
            else if overall_progress \<ge> 0 then ''estimated'' else ''indeterminate'');
          bytes_processed = (if transfer then ed_bytes_transferred event else 0);
          bytes_total_estimated = (if transfer then ed_bytes_total_estimated event else 0);
          run_bytes = (if transfer then ed_run_bytes_transferred event else 0);
          run_bytes_processed = (if run_bytes = 0 then bytes_processed else run_bytes);
          eta_seconds = (if transfer then estimated_eta_seconds event else - 1)
      in \<lparr> pg_processed_bytes = bytes_processed,
           pg_estimated_bytes = (if bytes_total_estimated = 0 then None else Some bytes_total_estimated),
           pg_run_processed_bytes = run_bytes_processed,
           pg_speed_bps = (if transfer then ed_speed_bps event else 0),
           pg_eta_seconds = (if eta_seconds < 0 then None else Some eta_seconds),
           pg_source_percent = (if source_progress < 0 then None else Some source_progress),
           pg_overall_percent = (if overall_progress < 0 then None else Some overall_progress),
           pg_accuracy = progress_accuracy_from_name progress_accuracy \<rparr>)"

definition source_id_text :: "RunEventData \<Rightarrow> string" where
  "source_id_text event = (case ed_source_id event of Some s \<Rightarrow> s | None \<Rightarrow> [])"

definition action_details :: "RunEventData \<Rightarrow> RunDetails" where
  "action_details event =
     [(''action'', DetailString (case ed_action_kind event of Some kind \<Rightarrow> backup_run_action_kind_name kind | None \<Rightarrow> [])),
      (''sourceId'', DetailString (source_id_text event))]"

definition event_details :: "RunEventData \<Rightarrow> RunDetails" where
  "event_details event =
     (case ed_kind event of
        TransferProgressKind \<Rightarrow>
          [(''bytesProduced'', DetailUnsigned (ed_bytes_produced event)),
           (''bytesTotalEstimated'', DetailUnsigned (ed_bytes_total_estimated event)),
           (''bytesTransferred'', DetailUnsigned (ed_bytes_transferred event)),
           (''deltaBytes'', DetailUnsigned (ed_delta_bytes event)), (''elapsedMs'', DetailUnsigned (ed_elapsed_ms event)),
           (''speedBps'', DetailUnsigned (ed_speed_bps event))]
      | ActionFailedKind \<Rightarrow> action_details event
      | RunFailedKind \<Rightarrow> action_details event
      | RunCancelledKind \<Rightarrow> action_details event
      | _ \<Rightarrow> [])"

definition event_error :: "RunEventData \<Rightarrow> RunError option" where
  "event_error event =
     (if ed_kind event = RunFailedKind then
        (let code = (case ed_error_code event of Some c \<Rightarrow> c | None \<Rightarrow> BackupFailed);
             (recoverable, suggested_action) =
               (if code = RepositoryRecoveryRequired then (True, ''run-backup-recovery'')
                else case ed_action_kind event of
                  Some kind \<Rightarrow> (failed_action_is_recoverable kind, suggested_action_for_failed_action kind)
                | None \<Rightarrow> (True, if code = ConfigurationChanged \<or> code = RunnerProfileBusy \<or> code = RunnerTargetBusy
                                then ''run-backup-again'' else ''inspect-run-history''))
         in Some \<lparr> er_code = code, er_message = ed_message event, er_recoverable = recoverable,
                   er_suggested_action = suggested_action \<rparr>)
      else if ed_kind event = RunCancelledKind then
        Some \<lparr> er_code = RunnerCancelled, er_message = message_for_event event, er_recoverable = True,
               er_suggested_action = ''run-backup-again'' \<rparr>
      else None)"

definition status_for_event ::
  "nat \<Rightarrow> RuntimeTimePoint \<Rightarrow> BackupRunStatusContext \<Rightarrow> RunEventData \<Rightarrow> int \<Rightarrow> RunStatus" where
  \<comment> \<open>\<open>updated_at\<close> is the time of the system clock\<close>
  "status_for_event digits updated_at context event minimum_overall_progress =
     (let (state, phase, exit_code, finished_at) = event_outcome event updated_at
      in \<lparr> rs_profile_id = ed_profile_id event, rs_profile_name = bc_profile_name context, rs_run_id = ed_run_id event,
           rs_operation_kind = (if ed_operation_kind event = TargetValidation then TargetValidationOperation else BackupOperation),
           rs_state = state, rs_phase = phase, rs_message = message_for_event event,
           rs_current_source_name = (case Option.bind (ed_source_id event) (bc_source_names context) of
             Some name \<Rightarrow> name | None \<Rightarrow> source_id_text event),
           rs_target_name = bc_target_name context, rs_source_index = ed_source_index event,
           rs_source_count = bc_source_count context, rs_started_at = bc_started_at context, rs_updated_at = updated_at,
           rs_finished_at = finished_at, rs_error = event_error event, rs_details = event_details event,
           rs_can_cancel = (state = RunningState \<or> state = ValidatingState),
           rs_progress = event_progress digits context event minimum_overall_progress, rs_exit_code = exit_code \<rparr>)"

section \<open>Rounding\<close>

lemma bit_width_upper: "n < 2 ^ bit_width n"
proof (induction n rule: bit_width.induct)
  case (1 n)
  show ?case
  proof (cases "n = 0")
    case False
    then have "n div 2 < 2 ^ bit_width (n div 2)" using 1 by blast
    then have "n < 2 * 2 ^ bit_width (n div 2)" by linarith
    then show ?thesis using False by (simp add: bit_width.simps [of n])
  qed (simp add: bit_width.simps)
qed

lemma bit_width_le: "n < 2 ^ k \<Longrightarrow> bit_width n \<le> k"
proof (induction n arbitrary: k rule: bit_width.induct)
  case (1 n)
  show ?case
  proof (cases "n = 0")
    case False
    then obtain k' where k: "k = Suc k'" using 1(2) by (cases k) auto
    then have "n div 2 < 2 ^ k'" using 1(2) by auto
    then show ?thesis using 1(1) False k by (simp add: bit_width.simps [of n])
  qed (simp add: bit_width.simps)
qed

lemma round_significand_upper:
  "round_significand digits n \<le> n + 2 ^ (bit_width n - digits - 1)"
proof -
  let ?e = "bit_width n - digits"
  show ?thesis
  proof (cases "?e = 0")
    case False
    have split: "n = n div 2 ^ ?e * 2 ^ ?e + n mod 2 ^ ?e" by (rule div_mult_mod_eq [symmetric])
    have half: "2 ^ ?e = 2 * (2 :: nat) ^ (?e - 1)" using False by (cases ?e) auto
    show ?thesis
      using split half by (auto simp: round_significand_def Let_def algebra_simps)
  qed (simp add: round_significand_def)
qed

lemma source_progress_bounds:
  assumes "64 \<le> digits"
  shows "- 1 \<le> estimated_source_progress digits event" and "estimated_source_progress digits event \<le> 100"
proof -
  let ?a = "unat (ed_bytes_transferred event)" and ?b = "unat (ed_bytes_total_estimated event)"
  have "truncated_quotient digits (round_significand digits (?a * 100)) ?b \<le> 100" if "?a < ?b"
  proof -
    have "?b < 2 ^ 64" using unsigned_less [where w = "ed_bytes_total_estimated event"] by simp
    then have "?a * 100 < 2 ^ 71" using that by simp
    then have "bit_width (?a * 100) - digits - 1 \<le> 6" using bit_width_le [of "?a * 100" 71] assms by simp
    then have "(2 :: nat) ^ (bit_width (?a * 100) - digits - 1) \<le> 2 ^ 6" by (rule power_increasing) simp
    then have "round_significand digits (?a * 100) < 100 * ?b"
      using round_significand_upper [of digits "?a * 100"] that by simp
    then have "round_significand digits (?a * 100) div ?b < 100" by (simp add: less_mult_imp_div_less)
    then show ?thesis by (auto simp: truncated_quotient_def Let_def)
  qed
  then show "- 1 \<le> estimated_source_progress digits event" and "estimated_source_progress digits event \<le> 100"
    by (auto simp: estimated_source_progress_def word_le_nat_alt not_le)
qed

lemma eta_seconds_bounds: "- 1 \<le> estimated_eta_seconds event" and "estimated_eta_seconds event \<le> 2147483647"
proof -
  have "- 1 \<le> uint w" for w :: u64 by (rule order_trans [of _ 0]) simp_all
  then show "- 1 \<le> estimated_eta_seconds event" and "estimated_eta_seconds event \<le> 2147483647"
    by (auto simp: estimated_eta_seconds_def Let_def word_less_def not_less)
qed

lemma clamp_int_bounds: "lo \<le> hi \<Longrightarrow> lo \<le> clamp_int v lo hi \<and> clamp_int v lo hi \<le> hi"
  by (simp add: clamp_int_def)

lemma overall_progress_bounds:
  assumes "ed_source_index event \<le> bc_source_count context"
  shows "- 1 \<le> estimated_overall_progress context event p" and "estimated_overall_progress context event p \<le> 100"
proof -
  let ?n = "bc_source_count context" and ?i = "ed_source_index event"
  have n: "x div ?n \<le> 100" "0 \<le> x div ?n" if "0 \<le> x" "x \<le> 100 * ?n" "0 < ?n" for x
    using that zdiv_mono1 [of x "100 * ?n" ?n] by (auto simp: pos_imp_zdiv_nonneg_iff)
  have done_sources: "0 \<le> clamp_int ?i 0 ?n * 100" "clamp_int ?i 0 ?n * 100 \<le> 100 * ?n" if "0 < ?n"
    using clamp_int_bounds [of 0 ?n ?i] that by auto
  have now: "0 \<le> clamp_int (?i - 1) 0 ?n * 100 + q" "clamp_int (?i - 1) 0 ?n * 100 + q \<le> 100 * ?n"
    if "0 < ?i" "0 < ?n" "0 \<le> q" "q \<le> 100" for q
    using that assms by (auto simp: clamp_int_def)
  have q: "0 \<le> (if p \<ge> 0 then clamp_int p 0 100 else 0)" "(if p \<ge> 0 then clamp_int p 0 100 else 0) \<le> 100"
    by (auto simp: clamp_int_def)
  show "estimated_overall_progress context event p \<le> 100"
    unfolding estimated_overall_progress_def using n(1) done_sources now [OF _ _ q] by auto
  have "0 \<le> estimated_overall_progress context event p \<or> estimated_overall_progress context event p = - 1"
    unfolding estimated_overall_progress_def using n(2) done_sources now [OF _ _ q] by auto
  then show "- 1 \<le> estimated_overall_progress context event p" by linarith
qed

lemma status_for_event_valid:
  "validate_run_status (status_for_event digits now context event minimum) = Inr ()
   \<and> rs_can_cancel (status_for_event digits now context event minimum)
       = (\<not> terminal (rs_state (status_for_event digits now context event minimum)))
   \<and> (rs_exit_code (status_for_event digits now context event minimum) = 0
       \<longleftrightarrow> rs_error (status_for_event digits now context event minimum) = None)"
proof -
  have running: "\<not> is_terminal_phase (event_phase event)"
    if "ed_kind event \<notin> {RunFailedKind, RunCompletedKind, TargetValidationCompletedKind, RunCancelledKind}"
    using that by (cases "ed_kind event"; cases "ed_action_kind event"; cases "the (ed_action_kind event)")
      (auto simp: event_phase_def is_terminal_phase_def)
  have failed: "terminal_phase_matches FailedState (event_phase event)" if "ed_kind event = RunFailedKind"
    using that by (cases "ed_action_kind event"; cases "the (ed_action_kind event)") (auto simp: event_phase_def)
  show ?thesis
    unfolding validate_run_status_iff
    using running failed by (cases "ed_kind event")
      (auto simp: status_for_event_def event_outcome_def event_error_def terminal_def Let_def split: prod.splits)
qed

lemma status_for_event_error:
  "rs_error (status_for_event digits now context event minimum) = None
   \<longleftrightarrow> rs_state (status_for_event digits now context event minimum) \<notin> {FailedState, CancelledState}"
  by (cases "ed_kind event") (simp_all add: status_for_event_def event_outcome_def event_error_def case_prod_unfold Let_def)

section \<open>Properties\<close>

text \<open>
  Property C16: every status that is built for an event is well formed. Its state, phase, end time and
  error belong together as the validation before writing demands, whatever the event; it can be
  cancelled exactly while it is active, and its exit code is zero exactly if it has no error.
\<close>

theorem built_status_valid:
  "validate_run_status (status_for_event digits now context event minimum) = Inr ()
   \<and> rs_can_cancel (status_for_event digits now context event minimum)
       = (\<not> terminal (rs_state (status_for_event digits now context event minimum)))
   \<and> (rs_exit_code (status_for_event digits now context event minimum) = 0
       \<longleftrightarrow> rs_error (status_for_event digits now context event minimum) = None)"
  by (rule status_for_event_valid)

end
