(* ===== verification/JsonValue.thy ===== *)
theory JsonValue
  imports RuntimeTime "HOL-Library.Word" "HOL-Library.Countable"
begin

text \<open>
  The JSON library as the code uses it (config/json/Json and JsonIo): values of \<open>ordered_json\<close>, whose
  objects keep the order of their members, and the functions that parse and print them. Parsing and
  printing are third-party code and an argument of the model; the law the code relies on is that a
  printed value is read back, where a number that is not negative becomes an unsigned one.
\<close>

section \<open>Values\<close>

datatype json =
    JNull
  | JBool bool
  | JInt int \<comment> \<open>a signed 64-bit number\<close>
  | JUnsigned "64 word"
  | JFloat "64 word" \<comment> \<open>the bits of a \<open>double\<close>\<close>
  | JString string
  | JArray "json list"
  | JObject "(string \<times> json) list"

instance json :: countable
  by countable_datatype

fun is_number_integer :: "json \<Rightarrow> bool" where
  "is_number_integer (JInt i) = True"
| "is_number_integer (JUnsigned u) = True"
| "is_number_integer _ = False"

fun is_number_unsigned :: "json \<Rightarrow> bool" where
  "is_number_unsigned (JUnsigned u) = True"
| "is_number_unsigned _ = False"

fun get_int64 :: "json \<Rightarrow> int" where
  \<comment> \<open>\<open>get<std::int64_t>\<close> converts without a check\<close>
  "get_int64 (JInt i) = i"
| "get_int64 (JUnsigned u) = wrap_i64 (uint u)"
| "get_int64 _ = 0"

definition wrap_i32 :: "int \<Rightarrow> int" where
  "wrap_i32 x = (x + 2 ^ 31) mod 2 ^ 32 - 2 ^ 31"

definition get_int :: "json \<Rightarrow> int" where
  "get_int j = wrap_i32 (get_int64 j)"

fun member :: "json \<Rightarrow> string \<Rightarrow> json option" where
  \<comment> \<open>\<open>find\<close>\<close>
  "member (JObject kvs) k = map_of kvs k"
| "member _ k = None"

fun set_member :: "json \<Rightarrow> string \<Rightarrow> json \<Rightarrow> json" where
  \<comment> \<open>\<open>operator[]\<close> of an object: a new member goes to the end\<close>
  "set_member (JObject kvs) k v =
     JObject (if map_of kvs k = None then kvs @ [(k, v)] else map (\<lambda>(q, w). (q, if q = k then v else w)) kvs)"
| "set_member j k v = j"

section \<open>Parsing and printing\<close>

record json_library =
  jl_parse :: "string \<Rightarrow> string + json" \<comment> \<open>the text of the exception or the value\<close>
  jl_dump :: "nat \<Rightarrow> json \<Rightarrow> string result" \<comment> \<open>throws for text that is not UTF-8\<close>

definition dump_json :: "json_library \<Rightarrow> json \<Rightarrow> string result" where
  "dump_json lib j = bindE (jl_dump lib 2 j) (\<lambda>t. Inr (t @ [CHR 0x0A]))"

fun reread :: "json \<Rightarrow> json" where
  \<comment> \<open>the value that is read from the text of a value\<close>
  "reread (JInt i) = (if i < 0 then JInt i else JUnsigned (word_of_int i))"
| "reread (JArray js) = JArray (map reread js)"
| "reread (JObject kvs) = JObject (map (\<lambda>(k, v). (k, reread v)) kvs)"
| "reread j = j"

definition faithful_json :: "json_library \<Rightarrow> bool" where
  "faithful_json lib \<longleftrightarrow> (\<forall>n j t. jl_dump lib n j = Inr t \<longrightarrow> jl_parse lib (t @ [CHR 0x0A]) = Inr (reread j))"

lemma faithful_jsonD: "faithful_json lib \<Longrightarrow> dump_json lib j = Inr t \<Longrightarrow> jl_parse lib t = Inr (reread j)"
  by (auto simp: faithful_json_def dump_json_def bindE_eq_Inr_iff)

lemma member_reread: "member (reread j) k = map_option reread (member j k)"
  by (cases j) (simp_all add: map_of_map split: if_splits)

lemma member_set_member:
  "member (set_member (JObject kvs) k v) q = (if q = k then Some v else member (JObject kvs) q)"
proof (cases "map_of kvs k")
  case None
  then show ?thesis by (auto simp: map_add_def split: option.split)
next
  case (Some x)
  have "map_of (map (\<lambda>(a, w). (a, if a = k then v else w)) kvs) q = (if q = k \<and> map_of kvs k \<noteq> None then Some v else map_of kvs q)"
    by (induction kvs) auto
  then show ?thesis using Some by simp
qed

section \<open>A library in the model\<close>

definition numbering_json :: json_library where
  \<comment> \<open>prints the number of a value in an enumeration of all values\<close>
  "numbering_json = \<lparr> jl_parse = \<lambda>t. (case decimal (butlast t) of None \<Rightarrow> Inl ''parse error'' | Some n \<Rightarrow> Inr (reread (from_nat (nat n)))),
     jl_dump = \<lambda>n j. Inr (nat_text (to_nat j)) \<rparr>"

lemma decimal_nat_text: "decimal (nat_text n) = Some (int n)"
proof -
  have append: "decimal_from a (s @ t) = Option.bind (decimal_from a s) (\<lambda>v. decimal_from v t)" for a s t
    by (induction s arbitrary: a) auto
  show ?thesis
    unfolding decimal_def
  proof (induction n rule: nat_text.induct)
    case (1 n)
    then show ?case by (cases "n < 10") (simp_all add: nat_text.simps [of n] append zmod_int zdiv_int)
  qed
qed

lemma faithful_numbering_json: "faithful_json numbering_json"
  by (simp add: faithful_json_def numbering_json_def decimal_nat_text)

end
