(* ===== verification/StatusDocuments.thy ===== *)
theory StatusDocuments
  imports RunStatusModel JsonValue
begin

text \<open>
  The JSON documents of a run, state/document/RunStatusDocumentCodec: the public status other users may
  read and the private history. Both are made from a status, printed, and parsed by the readers.
\<close>

section \<open>Reading members\<close>

definition missing_field :: "string \<Rightarrow> exn" where
  "missing_field field = ValidationError (''status JSON is missing required field: '' @ field)"

definition field_error :: "string \<Rightarrow> string \<Rightarrow> exn" where
  "field_error field text = ValidationError (''status JSON field '' @ field @ text)"

definition required :: "json \<Rightarrow> string \<Rightarrow> json result" where
  "required input field = (case member input field of None \<Rightarrow> Inl (missing_field field) | Some v \<Rightarrow> Inr v)"

definition required_string :: "json \<Rightarrow> string \<Rightarrow> string result" where
  "required_string input field =
     bindE (required input field) (\<lambda>v. case v of JString s \<Rightarrow> Inr s | _ \<Rightarrow> Inl (field_error field '' must be a string''))"

definition required_bool :: "json \<Rightarrow> string \<Rightarrow> bool result" where
  "required_bool input field =
     bindE (required input field) (\<lambda>v. case v of JBool b \<Rightarrow> Inr b | _ \<Rightarrow> Inl (field_error field '' must be a boolean''))"

definition required_integer :: "json \<Rightarrow> string \<Rightarrow> int result" where
  "required_integer input field =
     bindE (required input field) (\<lambda>v.
       if \<not> is_number_integer v \<and> \<not> is_number_unsigned v then Inl (field_error field '' must be an integer'')
       else Inr (get_int64 v))"

definition required_non_negative :: "json \<Rightarrow> string \<Rightarrow> u64 result" where
  "required_non_negative input field =
     bindE (required input field) (\<lambda>raw. case raw of
         JUnsigned u \<Rightarrow> Inr u
       | JInt i \<Rightarrow> if i < 0 then Inl (field_error field '' must be non-negative'') else Inr (word_of_int i)
       | _ \<Rightarrow> Inl (field_error field '' must be an integer''))"

definition required_optional_non_negative :: "json \<Rightarrow> string \<Rightarrow> u64 option result" where
  "required_optional_non_negative input field =
     bindE (required input field) (\<lambda>raw. case raw of
         JUnsigned u \<Rightarrow> Inr (Some u)
       | JInt i \<Rightarrow> if i = - 1 then Inr None
           else if i < 0 then Inl (field_error field '' must be -1 or non-negative'') else Inr (Some (word_of_int i))
       | _ \<Rightarrow> Inl (field_error field '' must be an integer''))"

definition required_percentage :: "json \<Rightarrow> string \<Rightarrow> int option result" where
  "required_percentage input field =
     bindE (required_integer input field) (\<lambda>v.
       if v = - 1 then Inr None
       else if v < 0 \<or> v > 100 then Inl (field_error field '' must be -1 or between 0 and 100'')
       else Inr (Some v))"

definition required_int :: "json \<Rightarrow> string \<Rightarrow> int result" where
  "required_int input field =
     bindE (required_integer input field) (\<lambda>v.
       if v < - (2 ^ 31) \<or> v > 2 ^ 31 - 1 then Inl (field_error field '' is out of range'') else Inr v)"

definition parse_document :: "json_library \<Rightarrow> string \<Rightarrow> int \<Rightarrow> string \<Rightarrow> json result" where
  "parse_document lib content schema_version kind =
     (case jl_parse lib content of
        Inl message \<Rightarrow> Inl (ValidationError (''invalid '' @ kind @ '' JSON: '' @ message))
      | Inr (JObject kvs) \<Rightarrow>
          (case member (JObject kvs) ''schemaVersion'' of
             Some schema \<Rightarrow>
               if is_number_integer schema \<and> get_int schema = schema_version then Inr (JObject kvs)
               else Inl (ValidationError (kind @ '' JSON has unsupported schemaVersion''))
           | None \<Rightarrow> Inl (ValidationError (kind @ '' JSON has unsupported schemaVersion'')))
      | Inr _ \<Rightarrow> Inl (ValidationError (kind @ '' JSON must be an object'')))"

section \<open>Values with names\<close>

datatype PublicRunState =
    PublicIdle | PublicStarting | PublicRunning | PublicValidating | PublicValidated | PublicSkipped | PublicSucceeded
  | PublicFailed | PublicCancelled | PublicExited | PublicUnavailable | PublicUnknown

datatype PublicActivity =
    PreparingActivity | SizingActivity | TransferringActivity | FinalizingActivity | IdleActivity | UnknownActivity

datatype PublicOperationKind = PublicBackup | PublicTargetValidation | PublicUnknownOperation

datatype PublicErrorCode = PublicNoError | PublicFailedError | PublicCancelledError

record ExtensibleValue =
  ev_value :: string
  ev_known :: bool

record DocumentProgress =
  dp_bytes_processed :: u64
  dp_bytes_total_estimated :: "u64 option"
  dp_speed_bps :: u64
  dp_eta_seconds :: "u64 option"
  dp_source_percent :: "int option"
  dp_overall_percent :: "int option"
  dp_accuracy :: ProgressAccuracy

record PublicRunStatusV1 =
  ps_run_id :: "RunId option"
  ps_operation_kind :: PublicOperationKind
  ps_state :: PublicRunState
  ps_phase :: ExtensibleValue
  ps_activity :: PublicActivity
  ps_can_cancel :: bool
  ps_error_code :: PublicErrorCode
  ps_source_name :: string
  ps_target_name :: string
  ps_progress :: DocumentProgress
  ps_unknown_state :: string
  ps_unknown_activity :: string
  ps_unknown_operation_kind :: string

record PrivateRunHistoryV1 =
  ph_profile_id :: ProfileId
  ph_profile_name :: string
  ph_run_id :: RunId
  ph_state :: ExtensibleValue
  ph_phase :: ExtensibleValue
  ph_message :: string
  ph_current_source_name :: string
  ph_target_name :: string
  ph_source_index :: int
  ph_source_count :: int
  ph_started_at :: string
  ph_updated_at :: string
  ph_finished_at :: string
  ph_error_code :: string
  ph_error_message :: string
  ph_details :: RunDetails
  ph_recoverable :: bool
  ph_suggested_action :: string
  ph_can_cancel :: bool
  ph_bytes_processed :: u64
  ph_bytes_total_estimated :: u64
  ph_run_bytes_processed :: u64
  ph_progress :: DocumentProgress
  ph_exit_code :: int

definition parse_accuracy :: "string \<Rightarrow> ProgressAccuracy result" where
  "parse_accuracy v =
     (if v = ''indeterminate'' then Inr Indeterminate else if v = ''estimated'' then Inr Estimated
      else if v = ''exact'' then Inr Exact
      else Inl (ValidationError ''status JSON field progressAccuracy has an unsupported value''))"

definition parse_state :: "string \<Rightarrow> PublicRunState" where
  "parse_state v =
     (if v = ''idle'' then PublicIdle else if v = ''starting'' then PublicStarting else if v = ''running'' then PublicRunning
      else if v = ''validating'' then PublicValidating else if v = ''validated'' then PublicValidated
      else if v = ''skipped'' then PublicSkipped else if v = ''succeeded'' then PublicSucceeded
      else if v = ''failed'' then PublicFailed else if v = ''cancelled'' then PublicCancelled
      else if v = ''exited'' then PublicExited else if v = ''unavailable'' then PublicUnavailable else PublicUnknown)"

definition parse_activity :: "string \<Rightarrow> PublicActivity" where
  "parse_activity v =
     (if v = ''preparing'' then PreparingActivity else if v = ''sizing'' then SizingActivity
      else if v = ''transferring'' then TransferringActivity else if v = ''finalizing'' then FinalizingActivity
      else if v = ''idle'' then IdleActivity else UnknownActivity)"

definition parse_operation_kind :: "string \<Rightarrow> PublicOperationKind" where
  "parse_operation_kind v =
     (if v = ''backup'' then PublicBackup else if v = ''target-validation'' then PublicTargetValidation else PublicUnknownOperation)"

definition parse_public_error :: "string \<Rightarrow> PublicErrorCode result" where
  "parse_public_error v =
     (if v = [] then Inr PublicNoError else if v = ''backup.failed'' then Inr PublicFailedError
      else if v = ''backup.cancelled'' then Inr PublicCancelledError
      else Inl (ValidationError ''status JSON field errorCode has an unsupported value''))"

definition active_state :: "PublicRunState \<Rightarrow> bool" where
  "active_state state \<longleftrightarrow> state = PublicStarting \<or> state = PublicRunning \<or> state = PublicValidating"

definition extensible :: "string \<Rightarrow> bool \<Rightarrow> ExtensibleValue" where
  "extensible v known = \<lparr> ev_value = v, ev_known = known \<rparr>"

definition known_phases :: "string list" where
  "known_phases = [''idle'', ''run-started'', ''source-started'', ''recover-pending'', ''cleanup-incoming'', ''before-snapshot-hook'',
     ''create-snapshot'', ''after-snapshot-hook'', ''send-receive'', ''sizing'', ''transferring'', ''verify-received'',
     ''commit-received'', ''apply-remote-retention'', ''apply-local-retention'', ''cleanup-source'', ''source-completed'',
     ''succeeded'', ''failed'', ''cancelled'', ''skipped'', ''validating-target'', ''validated'', ''completed'']"

definition known_phase :: "string \<Rightarrow> bool" where
  "known_phase v \<longleftrightarrow> list_ex (\<lambda>known. v = known) known_phases"

fun public_run_state_name :: "PublicRunState \<Rightarrow> string \<Rightarrow> string" where
  \<comment> \<open>the second argument is the retained unknown value\<close>
  "public_run_state_name PublicIdle u = ''idle''"
| "public_run_state_name PublicStarting u = ''starting''"
| "public_run_state_name PublicRunning u = ''running''"
| "public_run_state_name PublicValidating u = ''validating''"
| "public_run_state_name PublicValidated u = ''validated''"
| "public_run_state_name PublicSkipped u = ''skipped''"
| "public_run_state_name PublicSucceeded u = ''succeeded''"
| "public_run_state_name PublicFailed u = ''failed''"
| "public_run_state_name PublicCancelled u = ''cancelled''"
| "public_run_state_name PublicExited u = ''exited''"
| "public_run_state_name PublicUnavailable u = ''unavailable''"
| "public_run_state_name PublicUnknown u = u"

fun public_activity_name :: "PublicActivity \<Rightarrow> string \<Rightarrow> string" where
  "public_activity_name PreparingActivity u = ''preparing''"
| "public_activity_name SizingActivity u = ''sizing''"
| "public_activity_name TransferringActivity u = ''transferring''"
| "public_activity_name FinalizingActivity u = ''finalizing''"
| "public_activity_name IdleActivity u = ''idle''"
| "public_activity_name UnknownActivity u = u"

fun public_operation_kind_name :: "PublicOperationKind \<Rightarrow> string \<Rightarrow> string" where
  "public_operation_kind_name PublicBackup u = ''backup''"
| "public_operation_kind_name PublicTargetValidation u = ''target-validation''"
| "public_operation_kind_name PublicUnknownOperation u = u"

fun public_error_code_name :: "PublicErrorCode \<Rightarrow> string" where
  "public_error_code_name PublicNoError = []"
| "public_error_code_name PublicFailedError = ''backup.failed''"
| "public_error_code_name PublicCancelledError = ''backup.cancelled''"

section \<open>Progress and details\<close>

definition parse_progress :: "json \<Rightarrow> DocumentProgress result" where
  "parse_progress input =
     bindE (if member input ''bytesTotalEstimated'' \<noteq> None then required_non_negative input ''bytesTotalEstimated'' else Inr 0) (\<lambda>total.
     bindE (if member input ''bytesProcessed'' \<noteq> None then required_non_negative input ''bytesProcessed'' else Inr 0) (\<lambda>bytes.
     bindE (required_non_negative input ''speedBps'') (\<lambda>speed.
     bindE (required_optional_non_negative input ''etaSeconds'') (\<lambda>eta.
     bindE (required_percentage input ''sourceProgress'') (\<lambda>source_percent.
     bindE (required_percentage input ''overallProgress'') (\<lambda>overall_percent.
     bindE (required_string input ''progressAccuracy'') (\<lambda>name.
     bindE (parse_accuracy name) (\<lambda>accuracy.
       Inr \<lparr> dp_bytes_processed = bytes, dp_bytes_total_estimated = (if total = 0 then None else Some total), dp_speed_bps = speed,
             dp_eta_seconds = eta, dp_source_percent = source_percent, dp_overall_percent = overall_percent,
             dp_accuracy = accuracy \<rparr>))))))))"

fun detail_json :: "RunDetailValue \<Rightarrow> json" where
  "detail_json (DetailBool b) = JBool b"
| "detail_json (DetailInt i) = JInt i"
| "detail_json (DetailUnsigned u) = JUnsigned u"
| "detail_json (DetailString s) = JString s"

definition details_json :: "RunDetails \<Rightarrow> json" where
  "details_json details = JObject (map (\<lambda>(name, v). (name, detail_json v)) details)"

fun insert_detail :: "string \<Rightarrow> RunDetailValue \<Rightarrow> RunDetails \<Rightarrow> RunDetails" where
  \<comment> \<open>assignment to a key of a \<open>std::map\<close>\<close>
  "insert_detail k v [] = [(k, v)]"
| "insert_detail k v ((q, w) # rest) =
     (if k = q then (k, v) # rest else if string_less k q then (k, v) # (q, w) # rest else (q, w) # insert_detail k v rest)"

fun parse_detail :: "json \<Rightarrow> RunDetailValue result" where
  "parse_detail (JBool b) = Inr (DetailBool b)"
| "parse_detail (JUnsigned u) = Inr (DetailUnsigned u)"
| "parse_detail (JInt i) = Inr (DetailInt i)"
| "parse_detail (JString s) = Inr (DetailString s)"
| "parse_detail _ = Inl (ValidationError ''status JSON detail values must be booleans, integers, or strings'')"

fun parse_detail_items :: "RunDetails \<Rightarrow> (string \<times> json) list \<Rightarrow> RunDetails result" where
  "parse_detail_items result [] = Inr result"
| "parse_detail_items result ((name, v) # rest) =
     bindE (parse_detail v) (\<lambda>d. parse_detail_items (insert_detail name d result) rest)"

definition parse_details :: "json \<Rightarrow> RunDetails result" where
  "parse_details input =
     bindE (required input ''details'') (\<lambda>details. case details of
         JObject kvs \<Rightarrow> parse_detail_items [] kvs
       | _ \<Rightarrow> Inl (ValidationError ''status JSON field details must be an object''))"

section \<open>The public status\<close>

definition percent_error :: "int option \<Rightarrow> string \<Rightarrow> unit result" where
  \<comment> \<open>\<open>validate_percent\<close>\<close>
  "percent_error v field =
     (case v of Some p \<Rightarrow> requireE (0 \<le> p \<and> p \<le> 100) (field_error field '' must be between 0 and 100'') | None \<Rightarrow> Inr ())"

definition expected_public_error :: "PublicRunState \<Rightarrow> PublicErrorCode" where
  "expected_public_error state =
     (if state = PublicFailed then PublicFailedError else if state = PublicCancelled then PublicCancelledError else PublicNoError)"

definition validate_public_semantics :: "PublicRunStatusV1 \<Rightarrow> unit result" where
  "validate_public_semantics status =
     bindE (requireE (ev_value (ps_phase status) \<noteq> []) (ValidationError ''status JSON phase must not be empty'')) (\<lambda>_.
     bindE (requireE (\<not> (ps_state status = PublicUnknown \<and> ps_unknown_state status = []))
              (ValidationError ''status JSON unknown state must retain its value'')) (\<lambda>_.
     bindE (requireE (\<not> (ps_activity status = UnknownActivity \<and> ps_unknown_activity status = []))
              (ValidationError ''status JSON unknown activity must retain its value'')) (\<lambda>_.
     bindE (requireE (\<not> (ps_operation_kind status = PublicUnknownOperation \<and> ps_unknown_operation_kind status = []))
              (ValidationError ''status JSON unknown operationKind must retain its value'')) (\<lambda>_.
     bindE (percent_error (dp_source_percent (ps_progress status)) ''sourceProgress'') (\<lambda>_.
     bindE (percent_error (dp_overall_percent (ps_progress status)) ''overallProgress'') (\<lambda>_.
     bindE (requireE (\<not> (ps_can_cancel status \<and> \<not> active_state (ps_state status)))
              (ValidationError ''status JSON canCancel is true for a non-active state'')) (\<lambda>_.
     bindE (requireE (\<not> (ps_can_cancel status \<and> ps_run_id status = None))
              (ValidationError ''status JSON canCancel requires runId'')) (\<lambda>_.
     bindE (requireE (\<not> (active_state (ps_state status) \<and> ps_run_id status = None))
              (ValidationError ''active status JSON requires runId'')) (\<lambda>_.
       requireE (ps_state status = PublicUnknown \<or> ps_error_code status = expected_public_error (ps_state status))
         (ValidationError ''status JSON errorCode does not match state''))))))))))"

definition parse_public :: "json_library \<Rightarrow> string \<Rightarrow> PublicRunStatusV1 result" where
  "parse_public lib content =
     bindE (parse_document lib content 1 ''public status'') (\<lambda>input.
     bindE (required_string input ''state'') (\<lambda>state_value.
     bindE (required_string input ''phase'') (\<lambda>phase_value.
     bindE (required_string input ''activity'') (\<lambda>activity_value.
     bindE (required_string input ''operationKind'') (\<lambda>operation_kind_value.
     bindE (required_string input ''runId'') (\<lambda>run.
     bindE (if run = [] then Inr None else bindE (make_RunId run) (\<lambda>r. Inr (Some r))) (\<lambda>run_id.
     bindE (required_bool input ''canCancel'') (\<lambda>can_cancel.
     bindE (required_string input ''errorCode'') (\<lambda>error_name.
     bindE (parse_public_error error_name) (\<lambda>error_code.
     bindE (required_string input ''sourceName'') (\<lambda>source_name.
     bindE (required_string input ''targetName'') (\<lambda>target_name.
     bindE (parse_progress input) (\<lambda>progress.
       let result = \<lparr> ps_run_id = run_id, ps_operation_kind = parse_operation_kind operation_kind_value,
             ps_state = parse_state state_value, ps_phase = extensible phase_value (known_phase phase_value),
             ps_activity = parse_activity activity_value, ps_can_cancel = can_cancel, ps_error_code = error_code,
             ps_source_name = source_name, ps_target_name = target_name, ps_progress = progress,
             ps_unknown_state = (if parse_state state_value = PublicUnknown then state_value else []),
             ps_unknown_activity = (if parse_activity activity_value = UnknownActivity then activity_value else []),
             ps_unknown_operation_kind =
               (if parse_operation_kind operation_kind_value = PublicUnknownOperation then operation_kind_value else []) \<rparr>
       in bindE (validate_public_semantics result) (\<lambda>_. Inr result))))))))))))))"

definition try_parse_public :: "json_library \<Rightarrow> string \<Rightarrow> PublicRunStatusV1 option" where
  "try_parse_public lib content = (case parse_public lib content of Inr s \<Rightarrow> Some s | Inl e \<Rightarrow> None)"

definition percent_json :: "int option \<Rightarrow> json" where
  "percent_json v = JInt (case v of Some p \<Rightarrow> p | None \<Rightarrow> - 1)"

definition eta_json :: "u64 option \<Rightarrow> json" where
  "eta_json v = (case v of Some s \<Rightarrow> JUnsigned s | None \<Rightarrow> JInt (- 1))"

definition public_members :: "PublicRunStatusV1 \<Rightarrow> (string \<times> json) list" where
  "public_members status =
     (let progress = ps_progress status
      in [(''schemaVersion'', JInt 1), (''runId'', JString (case ps_run_id status of Some r \<Rightarrow> r | None \<Rightarrow> [])),
          (''operationKind'', JString (public_operation_kind_name (ps_operation_kind status) (ps_unknown_operation_kind status))),
          (''state'', JString (public_run_state_name (ps_state status) (ps_unknown_state status))),
          (''phase'', JString (ev_value (ps_phase status))),
          (''activity'', JString (public_activity_name (ps_activity status) (ps_unknown_activity status))),
          (''canCancel'', JBool (ps_can_cancel status)), (''errorCode'', JString (public_error_code_name (ps_error_code status))),
          (''sourceName'', JString (ps_source_name status)), (''targetName'', JString (ps_target_name status)),
          (''bytesProcessed'', JUnsigned (dp_bytes_processed progress)),
          (''bytesTotalEstimated'', JUnsigned (case dp_bytes_total_estimated progress of Some b \<Rightarrow> b | None \<Rightarrow> 0)),
          (''speedBps'', JUnsigned (dp_speed_bps progress)), (''etaSeconds'', eta_json (dp_eta_seconds progress)),
          (''sourceProgress'', percent_json (dp_source_percent progress)),
          (''overallProgress'', percent_json (dp_overall_percent progress)),
          (''progressAccuracy'', JString (progress_accuracy_name (dp_accuracy progress)))])"

definition serialize_public :: "json_library \<Rightarrow> PublicRunStatusV1 \<Rightarrow> string result" where
  "serialize_public lib status =
     bindE (validate_public_semantics status) (\<lambda>_. dump_json lib (JObject (public_members status)))"

section \<open>The private history\<close>

definition source_indexes_inconsistent :: "PrivateRunHistoryV1 \<Rightarrow> bool" where
  "source_indexes_inconsistent history \<longleftrightarrow>
     ph_source_index history < 0 \<or> ph_source_count history < 0 \<or> ph_source_index history > ph_source_count history"

definition parse_private :: "json_library \<Rightarrow> string \<Rightarrow> PrivateRunHistoryV1 result" where
  "parse_private lib content =
     bindE (parse_document lib content 1 ''private history'') (\<lambda>input.
     bindE (required_string input ''state'') (\<lambda>state.
     bindE (required_string input ''phase'') (\<lambda>phase.
     bindE (required_string input ''profileId'') (\<lambda>profile_text.
     bindE (make_ProfileId profile_text) (\<lambda>profile.
     bindE (required_string input ''profileName'') (\<lambda>profile_name.
     bindE (required_string input ''runId'') (\<lambda>run_text.
     bindE (make_RunId run_text) (\<lambda>run.
     bindE (required_string input ''message'') (\<lambda>message.
     bindE (required_string input ''currentSourceName'') (\<lambda>source_name.
     bindE (required_string input ''targetName'') (\<lambda>target_name.
     bindE (required_int input ''sourceIndex'') (\<lambda>source_index.
     bindE (required_int input ''sourceCount'') (\<lambda>source_count.
     bindE (required_string input ''startedAt'') (\<lambda>started_at.
     bindE (required_string input ''updatedAt'') (\<lambda>updated_at.
     bindE (required_string input ''finishedAt'') (\<lambda>finished_at.
     bindE (required_string input ''errorCode'') (\<lambda>error_code.
     bindE (required_string input ''errorMessage'') (\<lambda>error_message.
     bindE (parse_details input) (\<lambda>details.
     bindE (required_bool input ''recoverable'') (\<lambda>recoverable.
     bindE (required_string input ''suggestedAction'') (\<lambda>suggested_action.
     bindE (required_bool input ''canCancel'') (\<lambda>can_cancel.
     bindE (required_non_negative input ''bytesProcessed'') (\<lambda>bytes_processed.
     bindE (required_non_negative input ''bytesTotalEstimated'') (\<lambda>bytes_total.
     bindE (required_non_negative input ''runBytesProcessed'') (\<lambda>run_bytes.
     bindE (parse_progress input) (\<lambda>progress.
     bindE (required_int input ''exitCode'') (\<lambda>exit_code.
       let result = \<lparr> ph_profile_id = profile, ph_profile_name = profile_name, ph_run_id = run,
             ph_state = extensible state (parse_state state \<noteq> PublicUnknown), ph_phase = extensible phase (known_phase phase),
             ph_message = message, ph_current_source_name = source_name, ph_target_name = target_name,
             ph_source_index = source_index, ph_source_count = source_count, ph_started_at = started_at,
             ph_updated_at = updated_at, ph_finished_at = finished_at, ph_error_code = error_code,
             ph_error_message = error_message, ph_details = details, ph_recoverable = recoverable,
             ph_suggested_action = suggested_action, ph_can_cancel = can_cancel, ph_bytes_processed = bytes_processed,
             ph_bytes_total_estimated = bytes_total, ph_run_bytes_processed = run_bytes, ph_progress = progress,
             ph_exit_code = exit_code \<rparr>
       in if source_indexes_inconsistent result
          then Inl (ValidationError ''private history source indexes are inconsistent'') else Inr result)))))))))))))))))))))))))))"

definition private_members :: "PrivateRunHistoryV1 \<Rightarrow> (string \<times> json) list" where
  "private_members history =
     (let progress = ph_progress history
      in [(''schemaVersion'', JInt 1), (''profileId'', JString (ph_profile_id history)),
          (''profileName'', JString (ph_profile_name history)), (''runId'', JString (ph_run_id history)),
          (''state'', JString (ev_value (ph_state history))), (''phase'', JString (ev_value (ph_phase history))),
          (''message'', JString (ph_message history)), (''currentSourceName'', JString (ph_current_source_name history)),
          (''targetName'', JString (ph_target_name history)), (''sourceIndex'', JInt (ph_source_index history)),
          (''sourceCount'', JInt (ph_source_count history)), (''startedAt'', JString (ph_started_at history)),
          (''updatedAt'', JString (ph_updated_at history)), (''finishedAt'', JString (ph_finished_at history)),
          (''errorCode'', JString (ph_error_code history)), (''errorMessage'', JString (ph_error_message history)),
          (''details'', details_json (ph_details history)), (''recoverable'', JBool (ph_recoverable history)),
          (''suggestedAction'', JString (ph_suggested_action history)), (''canCancel'', JBool (ph_can_cancel history)),
          (''bytesProcessed'', JUnsigned (ph_bytes_processed history)),
          (''bytesTotalEstimated'', JUnsigned (ph_bytes_total_estimated history)),
          (''runBytesProcessed'', JUnsigned (ph_run_bytes_processed history)),
          (''speedBps'', JUnsigned (dp_speed_bps progress)), (''etaSeconds'', eta_json (dp_eta_seconds progress)),
          (''sourceProgress'', percent_json (dp_source_percent progress)),
          (''overallProgress'', percent_json (dp_overall_percent progress)),
          (''progressAccuracy'', JString (progress_accuracy_name (dp_accuracy progress))),
          (''exitCode'', JInt (ph_exit_code history))])"

definition serialize_private :: "json_library \<Rightarrow> PrivateRunHistoryV1 \<Rightarrow> string result" where
  "serialize_private lib history =
     (if source_indexes_inconsistent history
      then Inl (ValidationError ''private history source indexes are inconsistent'')
      else dump_json lib (JObject (private_members history)))"

section \<open>Documents of a status\<close>

definition public_eta :: "RunStatus \<Rightarrow> u64 option result" where
  "public_eta status =
     (case pg_eta_seconds (rs_progress status) of
        None \<Rightarrow> Inr None
      | Some s \<Rightarrow> if s < 0 then Inl (ValidationError ''run status etaSeconds must be non-negative'') else Inr (Some (word_of_int s)))"

definition document_progress :: "RunStatus \<Rightarrow> u64 option \<Rightarrow> DocumentProgress" where
  "document_progress status eta =
     (let p = rs_progress status
      in \<lparr> dp_bytes_processed = pg_processed_bytes p, dp_bytes_total_estimated = pg_estimated_bytes p,
           dp_speed_bps = pg_speed_bps p, dp_eta_seconds = eta, dp_source_percent = pg_source_percent p,
           dp_overall_percent = pg_overall_percent p, dp_accuracy = pg_accuracy p \<rparr>)"

definition public_activity :: "RunStatus \<Rightarrow> PublicActivity" where
  "public_activity status =
     (if rs_state status \<noteq> RunningState \<and> rs_state status \<noteq> ValidatingState then IdleActivity
      else if rs_phase status = SizingPhase then SizingActivity
      else if rs_phase status = TransferringPhase then TransferringActivity
      else if rs_phase status \<in> {VerifyReceivedPhase, CommitReceivedPhase, ApplyRemoteRetentionPhase, ApplyLocalRetentionPhase,
                CleanupSourcePhase, SourceCompletedPhase} then FinalizingActivity
      else PreparingActivity)"

definition make_public_status :: "RunStatus \<Rightarrow> PublicRunStatusV1 result" where
  "make_public_status status =
     bindE (public_eta status) (\<lambda>eta.
       Inr \<lparr> ps_run_id = Some (rs_run_id status),
         ps_operation_kind = (if rs_operation_kind status = TargetValidationOperation then PublicTargetValidation else PublicBackup),
         ps_state = parse_state (run_state_name (rs_state status)), ps_phase = extensible (run_phase_name (rs_phase status)) True,
         ps_activity = public_activity status, ps_can_cancel = rs_can_cancel status,
         ps_error_code = (if rs_error status = None then PublicNoError
           else if rs_state status = CancelledState then PublicCancelledError else PublicFailedError),
         ps_source_name = rs_current_source_name status, ps_target_name = rs_target_name status,
         ps_progress = document_progress status eta, ps_unknown_state = [], ps_unknown_activity = [],
         ps_unknown_operation_kind = [] \<rparr>)"

definition make_private_history :: "RunStatus \<Rightarrow> PrivateRunHistoryV1 result" where
  "make_private_history status =
     bindE (public_eta status) (\<lambda>eta.
       let error = rs_error status
       in Inr \<lparr> ph_profile_id = rs_profile_id status, ph_profile_name = rs_profile_name status, ph_run_id = rs_run_id status,
            ph_state = extensible (run_state_name (rs_state status)) True,
            ph_phase = extensible (run_phase_name (rs_phase status)) True, ph_message = rs_message status,
            ph_current_source_name = rs_current_source_name status, ph_target_name = rs_target_name status,
            ph_source_index = rs_source_index status, ph_source_count = rs_source_count status,
            ph_started_at = format_utc_iso_timestamp (rs_started_at status),
            ph_updated_at = format_utc_iso_timestamp (rs_updated_at status),
            ph_finished_at = (case rs_finished_at status of Some t \<Rightarrow> format_utc_iso_timestamp t | None \<Rightarrow> []),
            ph_error_code = (case error of None \<Rightarrow> [] | Some e \<Rightarrow> error_code_name (er_code e)),
            ph_error_message = (case error of None \<Rightarrow> [] | Some e \<Rightarrow> er_message e), ph_details = rs_details status,
            ph_recoverable = (case error of None \<Rightarrow> False | Some e \<Rightarrow> er_recoverable e),
            ph_suggested_action = (case error of None \<Rightarrow> [] | Some e \<Rightarrow> er_suggested_action e),
            ph_can_cancel = rs_can_cancel status, ph_bytes_processed = pg_processed_bytes (rs_progress status),
            ph_bytes_total_estimated = (case pg_estimated_bytes (rs_progress status) of Some b \<Rightarrow> b | None \<Rightarrow> 0),
            ph_run_bytes_processed = pg_run_processed_bytes (rs_progress status),
            ph_progress = document_progress status eta, ph_exit_code = rs_exit_code status \<rparr>)"

end
