(* ===== verification/StatusProjection.thy ===== *)
theory StatusProjection
  imports StatusBuilder StatusDocuments StateFiles Discovery
begin

text \<open>
  From the events of a run to its documents: writing a status (state/persistence/StatusWriter and
  state/query/RunHistory), the policy that thins out progress (state/projection/StatusPublicationPolicy),
  the sink of the events (state/projection/RunStatusProjection), and the documents of
  state/persistence/FileRunStateRepository.
\<close>

section \<open>Writing a status (StatusWriter, RunHistory)\<close>

definition public_status_file_permissions :: nat where
  "public_status_file_permissions = 420" \<comment> \<open>0644\<close>

definition public_status_directory_permissions :: nat where
  "public_status_directory_permissions = 493" \<comment> \<open>0755\<close>

definition validate_status :: "RunStatus \<Rightarrow> unit result" where
  "validate_status status =
     bindE (require_non_empty (rs_profile_name status) ''profileName'') (\<lambda>_. validate_run_status status)"

definition json_parse :: "json_library \<Rightarrow> string \<Rightarrow> json result" where
  \<comment> \<open>\<open>Json::parse\<close> throws an exception of the library\<close>
  "json_parse lib content = (case jl_parse lib content of Inl message \<Rightarrow> Inl (StdException message) | Inr j \<Rightarrow> Inr j)"

definition dump_status_json :: "json_library \<Rightarrow> RunStatus \<Rightarrow> string result" where
  "dump_status_json lib status =
     bindE (validate_status status) (\<lambda>_. bindE (make_private_history status) (serialize_private lib))"

definition build_status_json :: "json_library \<Rightarrow> RunStatus \<Rightarrow> json result" where
  "build_status_json lib status =
     bindE (validate_status status) (\<lambda>_.
     bindE (make_private_history status) (\<lambda>history.
     bindE (serialize_private lib history) (json_parse lib)))"

definition build_public_status_json :: "json_library \<Rightarrow> RunStatus \<Rightarrow> json result" where
  "build_public_status_json lib status =
     bindE (validate_status status) (\<lambda>_.
     bindE (make_public_status status) (\<lambda>public.
     bindE (serialize_public lib public) (\<lambda>text.
     bindE (json_parse lib text) (\<lambda>result.
       Inr (set_member (set_member (set_member (set_member result
         ''sourceIndex'' (JInt (rs_source_index status))) ''sourceCount'' (JInt (rs_source_count status)))
         ''startedAt'' (JString (format_utc_iso_timestamp (rs_started_at status))))
         ''updatedAt'' (JString (format_utc_iso_timestamp (rs_updated_at status))))))))"

definition dump_public_status_json :: "json_library \<Rightarrow> RunStatus \<Rightarrow> string result" where
  "dump_public_status_json lib status = bindE (build_public_status_json lib status) (dump_json lib)"

definition current_status_path :: "path \<Rightarrow> ProfileId \<Rightarrow> path" where
  "current_status_path root profile = path_append (path_append root profile) ''current.json''"

definition write_current_status ::
  "json_library \<Rightarrow> ('w, 'z) DocumentFiles_scheme \<Rightarrow> path \<Rightarrow> RunStatus \<Rightarrow> ('w, exn, unit) run" where
  "write_current_status lib files root status =
     bindS (liftE (dump_public_status_json lib status)) (\<lambda>content.
     bindS (df_ensure_directory files (fs_parent_path (current_status_path root (rs_profile_id status))) public_status_directory_permissions) (\<lambda>_.
       df_write_atomically files (current_status_path root (rs_profile_id status)) content public_status_file_permissions))"

definition write_history_entry ::
  "json_library \<Rightarrow> ('w, 'z) DocumentFiles_scheme \<Rightarrow> path \<Rightarrow> RunStatus \<Rightarrow> ('w, exn, unit) run" where
  "write_history_entry lib files root status =
     (let directory = path_append root (rs_profile_id status);
          run_path = path_append directory (rs_run_id status @ ''.json'');
          last_path = path_append directory ''last.json''
      in bindS (liftE (dump_status_json lib status)) (\<lambda>content.
         bindS (df_ensure_directory files root private_state_directory_permissions) (\<lambda>_.
         bindS (df_ensure_directory files directory private_state_directory_permissions) (\<lambda>_.
         bindS (df_write_atomically files run_path content private_state_file_permissions) (\<lambda>_.
           df_write_atomically files last_path content private_state_file_permissions)))))"

section \<open>Which progress is published (StatusPublicationPolicy)\<close>

record PublishedStatus =
  pu_phase :: RunPhase
  pu_source_name :: string
  pu_source_index :: int
  pu_source_percent :: "int option"
  pu_overall_percent :: "int option"

record StatusPublicationPolicy =
  published_status :: "PublishedStatus option"
  progress_elapsed_ms :: "u64 option"

definition percentage_changed_by_threshold :: "int option \<Rightarrow> int option \<Rightarrow> bool" where
  "percentage_changed_by_threshold current published =
     (case (current, published) of
        (Some c, Some p) \<Rightarrow> \<bar>c - p\<bar> \<ge> 5
      | (None, None) \<Rightarrow> False
      | _ \<Rightarrow> True)"

definition should_publish :: "StatusPublicationPolicy \<Rightarrow> BackupRunEventKind \<Rightarrow> RunStatus \<Rightarrow> u64 \<Rightarrow> bool" where
  "should_publish policy kind status elapsed_ms =
     (if kind \<noteq> TransferProgressKind then True
      else case published_status policy of
        None \<Rightarrow> True
      | Some published \<Rightarrow>
          if rs_phase status \<noteq> pu_phase published \<or> rs_current_source_name status \<noteq> pu_source_name published
             \<or> rs_source_index status \<noteq> pu_source_index published then True
          else if percentage_changed_by_threshold (pg_source_percent (rs_progress status)) (pu_source_percent published)
             \<or> percentage_changed_by_threshold (pg_overall_percent (rs_progress status)) (pu_overall_percent published) then True
          else case progress_elapsed_ms policy of
            None \<Rightarrow> True
          | Some previous \<Rightarrow> if elapsed_ms < previous then True else elapsed_ms - previous \<ge> 1000)"

definition record_publication :: "BackupRunEventKind \<Rightarrow> RunStatus \<Rightarrow> u64 \<Rightarrow> StatusPublicationPolicy \<Rightarrow> StatusPublicationPolicy" where
  "record_publication kind status elapsed_ms policy =
     policy\<lparr> published_status := Some \<lparr> pu_phase = rs_phase status, pu_source_name = rs_current_source_name status,
         pu_source_index = rs_source_index status, pu_source_percent = pg_source_percent (rs_progress status),
         pu_overall_percent = pg_overall_percent (rs_progress status) \<rparr>,
       progress_elapsed_ms := (if kind = TransferProgressKind then Some elapsed_ms else progress_elapsed_ms policy) \<rparr>"

definition reset_policy :: "StatusPublicationPolicy \<Rightarrow> StatusPublicationPolicy" where
  "reset_policy policy = policy\<lparr> published_status := None, progress_elapsed_ms := None \<rparr>"

section \<open>The sink of the events (RunStatusProjection)\<close>

record PendingActionFailure =
  pf_run_id :: RunId
  pf_source_id :: SourceId
  pf_source_index :: int
  pf_action_kind :: BackupRunActionKind

record RunStatusProjection =
  pj_publication_policy :: StatusPublicationPolicy
  pj_run_id :: "RunId option"
  pj_operation_kind :: OperationKind
  pj_pending_action_failure :: "PendingActionFailure option"
  pj_run_started :: bool
  pj_last_overall_progress :: int
  pj_run_bytes_processed :: u64

definition new_projection :: RunStatusProjection where
  "new_projection = \<lparr> pj_publication_policy = \<lparr> published_status = None, progress_elapsed_ms = None \<rparr>, pj_run_id = None,
     pj_operation_kind = Backup, pj_pending_action_failure = None, pj_run_started = False, pj_last_overall_progress = - 1,
     pj_run_bytes_processed = 0 \<rparr>"

definition should_write_status :: "BackupRunEventKind \<Rightarrow> bool" where
  "should_write_status kind \<longleftrightarrow> kind = RunStartedKind \<or> kind = SourceStartedKind \<or> kind = ActionStartedKind
     \<or> kind = TransferProgressKind \<or> kind = ActionCompletedKind \<or> kind = ActionFailedKind \<or> kind = SourceCompletedKind
     \<or> kind = TargetValidationCompletedKind \<or> kind = RunCompletedKind \<or> kind = RunFailedKind \<or> kind = RunCancelledKind"

definition should_write_history :: "BackupRunEventKind \<Rightarrow> OperationKind \<Rightarrow> bool" where
  "should_write_history kind operation_kind \<longleftrightarrow>
     operation_kind = Backup \<and> (kind = RunFailedKind \<or> kind = RunCompletedKind \<or> kind = RunCancelledKind)"

definition is_terminal_event :: "BackupRunEventKind \<Rightarrow> bool" where
  "is_terminal_event kind \<longleftrightarrow> kind = TargetValidationCompletedKind \<or> kind = RunCompletedKind \<or> kind = RunFailedKind
     \<or> kind = RunCancelledKind"

definition begin_event :: "RunStatusProjection \<Rightarrow> RunEventData \<Rightarrow> RunStatusProjection" where
  \<comment> \<open>the resets for a new run\<close>
  "begin_event proj data =
     (let p1 = (if pj_run_id proj \<noteq> Some (ed_run_id data) \<or> ed_kind data = RunStartedKind
          then proj\<lparr> pj_run_id := Some (ed_run_id data), pj_publication_policy := reset_policy (pj_publication_policy proj),
            pj_pending_action_failure := None, pj_run_started := (ed_kind data = RunStartedKind), pj_last_overall_progress := - 1,
            pj_run_bytes_processed := 0, pj_operation_kind := ed_operation_kind data \<rparr>
          else proj)
      in if ed_kind data = TargetValidationCompletedKind then p1\<lparr> pj_operation_kind := TargetValidation \<rparr> else p1)"

definition complete_event :: "RunStatusProjection \<Rightarrow> RunEventData \<Rightarrow> RunStatusProjection \<times> RunEventData" where
  \<comment> \<open>the operation of the run, and the action that made it fail\<close>
  "complete_event proj data0 =
     (let data = data0\<lparr> ed_operation_kind := pj_operation_kind proj \<rparr>
      in if ed_kind data = ActionFailedKind \<and> ed_source_id data \<noteq> None \<and> ed_action_kind data \<noteq> None
         then (proj\<lparr> pj_pending_action_failure := Some \<lparr> pf_run_id = ed_run_id data, pf_source_id = the (ed_source_id data),
                 pf_source_index = ed_source_index data, pf_action_kind = the (ed_action_kind data) \<rparr> \<rparr>, data)
         else case pj_pending_action_failure proj of
           Some failure \<Rightarrow>
             if ed_kind data = RunFailedKind \<and> pf_run_id failure = ed_run_id data
             then (proj, data\<lparr> ed_source_id := Some (pf_source_id failure), ed_source_index := pf_source_index failure,
                    ed_action_kind := Some (pf_action_kind failure) \<rparr>)
             else (proj, data)
         | None \<Rightarrow> (proj, data))"

definition account_event :: "RunStatusProjection \<Rightarrow> RunEventData \<Rightarrow> RunStatus \<Rightarrow> RunStatusProjection \<times> RunStatus" where
  \<comment> \<open>the bytes of the run and the last percentage\<close>
  "account_event proj data status0 =
     (let bytes = max (pj_run_bytes_processed proj) (pg_run_processed_bytes (rs_progress status0));
          status = (if is_terminal_event (ed_kind data)
            then status0\<lparr> rs_progress := (rs_progress status0)\<lparr> pg_run_processed_bytes := bytes \<rparr> \<rparr> else status0)
      in (proj\<lparr> pj_run_bytes_processed := bytes,
            pj_last_overall_progress := (case pg_overall_percent (rs_progress status) of
              Some p \<Rightarrow> p | None \<Rightarrow> pj_last_overall_progress proj) \<rparr>, status))"

definition project_event ::
  "nat \<Rightarrow> RuntimeTimePoint \<Rightarrow> BackupRunStatusContext \<Rightarrow> RunStatusProjection \<Rightarrow> BackupRunEvent
   \<Rightarrow> (RunStatusProjection \<times> RunEventData \<times> RunStatus) option" where
  \<comment> \<open>everything before the first write; None for an event that is not shown\<close>
  "project_event digits now context proj event =
     (let data0 = event_projection_data event
      in if \<not> should_write_status (ed_kind data0) then None
         else let (p1, data) = complete_event (begin_event proj data0) data0;
                  status0 = status_for_event digits now context data (pj_last_overall_progress p1);
                  (p2, status) = account_event p1 data status0
              in Some (p2, data, status))"

record 'w projection_state =
  projection :: RunStatusProjection
  pw_world :: 'w

definition opP :: "('w, exn, 'a) run \<Rightarrow> ('w projection_state, exn, 'a) run" where
  "opP m s = (case m (pw_world s) of (r, w) \<Rightarrow> (r, s\<lparr> pw_world := w \<rparr>))"

definition publish_event ::
  "json_library \<Rightarrow> ('w, 'z) DocumentFiles_scheme \<Rightarrow> BackupRunStatusContext \<Rightarrow> RunEventData \<Rightarrow> RunStatus
   \<Rightarrow> ('w projection_state, exn, unit) run" where
  "publish_event lib files context data status =
     bindS (getsS projection) (\<lambda>proj.
       if (ed_kind data \<noteq> RunFailedKind \<or> pj_run_started proj)
          \<and> should_publish (pj_publication_policy proj) (ed_kind data) status (ed_elapsed_ms data)
       then bindS (opP (write_current_status lib files (bc_status_root context) status)) (\<lambda>_.
              modifyS (\<lambda>s. s\<lparr> projection := proj\<lparr> pj_publication_policy :=
                record_publication (ed_kind data) status (ed_elapsed_ms data) (pj_publication_policy proj) \<rparr> \<rparr>))
       else returnS ())"

definition finish_event ::
  "json_library \<Rightarrow> ('w, 'z) DocumentFiles_scheme \<Rightarrow> BackupRunStatusContext \<Rightarrow> RunEventData \<Rightarrow> RunStatus
   \<Rightarrow> ('w projection_state, exn, unit) run" where
  "finish_event lib files context data status =
     bindS (if should_write_history (ed_kind data) (ed_operation_kind data)
            then opP (write_history_entry lib files (bc_history_root context) status) else returnS ()) (\<lambda>_.
       if is_terminal_event (ed_kind data)
       then modifyS (\<lambda>s. s\<lparr> projection := (projection s)\<lparr> pj_pending_action_failure := None, pj_run_started := False \<rparr> \<rparr>)
       else returnS ())"

definition on_backup_run_event ::
  "nat \<Rightarrow> json_library \<Rightarrow> ('w, 'z) DocumentFiles_scheme \<Rightarrow> RuntimeTimePoint \<Rightarrow> BackupRunStatusContext \<Rightarrow> BackupRunEvent
   \<Rightarrow> ('w projection_state, exn, unit) run" where
  "on_backup_run_event digits lib files now context event s =
     (case project_event digits now context (projection s) event of
        None \<Rightarrow> returnS () s
      | Some (p, data, status) \<Rightarrow>
          bindS (publish_event lib files context data status) (\<lambda>_. finish_event lib files context data status)
            (s\<lparr> projection := p \<rparr>))"

section \<open>Documents without events (FileRunStateRepository)\<close>

definition skipped_status ::
  "Profile \<Rightarrow> RunId \<Rightarrow> RuntimeTimePoint \<Rightarrow> RuntimeTimePoint \<Rightarrow> int \<Rightarrow> RunStatus" where
  "skipped_status profile run started_at finished_at source_count =
     \<lparr> rs_profile_id = profile_id profile, rs_profile_name = profile_name profile, rs_run_id = run,
       rs_operation_kind = BackupOperation, rs_state = SkippedState, rs_phase = SkippedPhase,
       rs_message = ''A successful backup already exists for today; no new snapshot was created.'',
       rs_current_source_name = [], rs_target_name = mapper_name (target profile), rs_source_index = 0,
       rs_source_count = source_count, rs_started_at = started_at, rs_updated_at = finished_at,
       rs_finished_at = Some finished_at, rs_error = None, rs_details = [], rs_can_cancel = False,
       rs_progress = \<lparr> pg_processed_bytes = 0, pg_estimated_bytes = None, pg_run_processed_bytes = 0, pg_speed_bps = 0,
         pg_eta_seconds = None, pg_source_percent = None, pg_overall_percent = None, pg_accuracy = Indeterminate \<rparr>,
       rs_exit_code = 0 \<rparr>"

definition write_skipped ::
  "json_library \<Rightarrow> ('w, 'z) DocumentFiles_scheme \<Rightarrow> ApplicationPaths \<Rightarrow> Profile \<Rightarrow> RunId \<Rightarrow> RuntimeTimePoint \<Rightarrow> RuntimeTimePoint
   \<Rightarrow> nat \<Rightarrow> ('w, exn, unit) run" where
  "write_skipped lib files app_paths profile run started_at finished_at source_count =
     (let status = skipped_status profile run started_at finished_at (wrap_i32 (int source_count))
      in bindS (write_current_status lib files (status_root app_paths) status) (\<lambda>_.
           write_history_entry lib files (history_root app_paths) status))"

definition write_success ::
  "('w, 'z) DocumentFiles_scheme \<Rightarrow> (RuntimeTimePoint \<Rightarrow> string) \<Rightarrow> ApplicationPaths \<Rightarrow> Profile \<Rightarrow> RunId \<Rightarrow> LocalDate
   \<Rightarrow> RuntimeTimePoint \<Rightarrow> string \<Rightarrow> nat \<Rightarrow> ('w, exn, unit) run" where
  "write_success files format_local_timestamp app_paths profile run date timestamp fingerprint source_count =
     write_success_state files format_local_timestamp (application_profile_state_dir app_paths (profile_id profile))
       \<lparr> ss_date = date, ss_timestamp = timestamp, ss_run_id = run, ss_profile_id = profile_id profile,
         ss_profile_name = profile_name profile, ss_source_count = wrap_i32 (int source_count),
         ss_target_luks_uuid = luks_uuid (target profile), ss_config_fingerprint = fingerprint \<rparr>"

definition repository_last_success_matches ::
  "('w, 'z) DocumentFiles_scheme \<Rightarrow> ApplicationPaths \<Rightarrow> Profile \<Rightarrow> LocalDate \<Rightarrow> string \<Rightarrow> 'w \<Rightarrow> bool" where
  "repository_last_success_matches files app_paths profile date fingerprint w =
     last_success_matches files (application_profile_state_dir app_paths (profile_id profile)) date
       (luks_uuid (target profile)) fingerprint w"

end
