(* ===== verification/StatusDocumentLaws.thy ===== *)
theory StatusDocumentLaws
  imports StatusProjection
begin

text \<open>
  The documents of a run are read back as they were written: the public status through both printings
  of the writer, and the private history.
\<close>

section \<open>Members of a document that was printed and parsed\<close>

lemma reread_idem [simp]: "reread (reread j) = reread j"
  by (induction j rule: reread.induct) (auto intro: map_idI)

definition reads :: "json \<Rightarrow> string \<Rightarrow> json \<Rightarrow> bool" where
  \<comment> \<open>reading the printed document finds the value\<close>
  "reads j k v \<longleftrightarrow> map_option reread (member j k) = Some (reread v)"

lemma reads_reread [simp]: "reads (reread j) k v \<longleftrightarrow> reads j k v"
  by (cases "member j k") (simp_all add: reads_def member_reread)

lemma reads_required: "reads j k v \<Longrightarrow> required (reread j) k = Inr (reread v)"
  by (cases "member j k") (simp_all add: reads_def required_def member_reread)

lemma reads_string: "reads j k (JString s) \<Longrightarrow> required_string (reread j) k = Inr s"
  by (simp add: required_string_def reads_required)

lemma reads_bool: "reads j k (JBool b) \<Longrightarrow> required_bool (reread j) k = Inr b"
  by (simp add: required_bool_def reads_required)

lemma reads_unsigned: "reads j k (JUnsigned u) \<Longrightarrow> required_non_negative (reread j) k = Inr u"
  by (simp add: required_non_negative_def reads_required)

lemma reads_eta: "reads j k (eta_json v) \<Longrightarrow> required_optional_non_negative (reread j) k = Inr v"
  by (cases v) (simp_all add: required_optional_non_negative_def reads_required eta_json_def)

lemma get_int64_reread: "- (2 ^ 63) \<le> i \<Longrightarrow> i < 2 ^ 63 \<Longrightarrow> get_int64 (reread (JInt i)) = i"
  by (simp add: wrap_i64_def uint_word_of_int take_bit_eq_mod)

lemma reads_integer:
  "reads j k (JInt i) \<Longrightarrow> - (2 ^ 63) \<le> i \<Longrightarrow> i < 2 ^ 63 \<Longrightarrow> required_integer (reread j) k = Inr i"
  using get_int64_reread [of i] by (simp add: required_integer_def reads_required split: if_splits)

lemma reads_int: "reads j k (JInt i) \<Longrightarrow> - (2 ^ 31) \<le> i \<Longrightarrow> i < 2 ^ 31 \<Longrightarrow> required_int (reread j) k = Inr i"
  by (simp add: required_int_def reads_integer)

definition percent_ok :: "int option \<Rightarrow> bool" where
  "percent_ok v \<longleftrightarrow> (case v of None \<Rightarrow> True | Some p \<Rightarrow> 0 \<le> p \<and> p \<le> 100)"

lemma reads_percent: "reads j k (percent_json v) \<Longrightarrow> percent_ok v \<Longrightarrow> required_percentage (reread j) k = Inr v"
  by (cases v) (auto simp: required_percentage_def percent_json_def percent_ok_def reads_integer)

lemma huge_percentage_accepted:
  \<comment> \<open>the largest unsigned number is read as the mark of an unknown percentage\<close>
  "required_percentage (JObject [(k, JUnsigned 18446744073709551615)]) k = Inr None"
  by (simp add: required_percentage_def required_integer_def required_def wrap_i64_def)

lemma parse_accuracy_name [simp]: "parse_accuracy (progress_accuracy_name a) = Inr a"
  by (cases a) (simp_all add: parse_accuracy_def)

definition reads_progress :: "json \<Rightarrow> DocumentProgress \<Rightarrow> bool" where
  "reads_progress j p \<longleftrightarrow> reads j ''bytesProcessed'' (JUnsigned (dp_bytes_processed p))
     \<and> reads j ''bytesTotalEstimated'' (JUnsigned (case dp_bytes_total_estimated p of Some b \<Rightarrow> b | None \<Rightarrow> 0))
     \<and> reads j ''speedBps'' (JUnsigned (dp_speed_bps p)) \<and> reads j ''etaSeconds'' (eta_json (dp_eta_seconds p))
     \<and> reads j ''sourceProgress'' (percent_json (dp_source_percent p))
     \<and> reads j ''overallProgress'' (percent_json (dp_overall_percent p))
     \<and> reads j ''progressAccuracy'' (JString (progress_accuracy_name (dp_accuracy p)))"

lemma reads_member: "reads j k v \<Longrightarrow> member (reread j) k \<noteq> None"
  by (cases "member j k") (simp_all add: reads_def member_reread)

lemma reads_progress_parse:
  assumes "reads_progress j p" and "percent_ok (dp_source_percent p)" and "percent_ok (dp_overall_percent p)"
    and "dp_bytes_total_estimated p \<noteq> Some 0"
  shows "parse_progress (reread j) = Inr p"
proof -
  have "(if (case dp_bytes_total_estimated p of Some b \<Rightarrow> b | None \<Rightarrow> 0) = 0 then None
      else Some (case dp_bytes_total_estimated p of Some b \<Rightarrow> b | None \<Rightarrow> 0)) = dp_bytes_total_estimated p"
    using assms(4) by (auto split: option.split)
  moreover note r = assms(1) [unfolded reads_progress_def]
  have "required_non_negative (reread j) ''bytesProcessed'' = Inr (dp_bytes_processed p)"
    "required_non_negative (reread j) ''speedBps'' = Inr (dp_speed_bps p)"
    "required_non_negative (reread j) ''bytesTotalEstimated''
      = Inr (case dp_bytes_total_estimated p of Some b \<Rightarrow> b | None \<Rightarrow> 0)"
    "required_optional_non_negative (reread j) ''etaSeconds'' = Inr (dp_eta_seconds p)"
    "required_percentage (reread j) ''sourceProgress'' = Inr (dp_source_percent p)"
    "required_percentage (reread j) ''overallProgress'' = Inr (dp_overall_percent p)"
    "required_string (reread j) ''progressAccuracy'' = Inr (progress_accuracy_name (dp_accuracy p))"
    using r assms(2,3) by (blast intro: reads_unsigned reads_eta reads_percent reads_string)+
  moreover have "member (reread j) ''bytesProcessed'' \<noteq> None" "member (reread j) ''bytesTotalEstimated'' \<noteq> None"
    using reads_member r by blast+
  ultimately show ?thesis
    by (simp add: parse_progress_def)
qed

lemma parse_document_reads:
  assumes "jl_parse lib t = Inr (reread (JObject kvs))" and "reads (JObject kvs) ''schemaVersion'' (JInt 1)"
  shows "parse_document lib t 1 kind = Inr (reread (JObject kvs))"
proof -
  define ms where "ms = map (\<lambda>(k, v). (k, reread v)) kvs"
  have ms: "reread (JObject kvs) = JObject ms" by (simp add: ms_def)
  have v: "member (JObject ms) ''schemaVersion'' = Some (JUnsigned 1)"
    using assms(2) by (simp add: reads_def ms [symmetric] member_reread del: member.simps reread.simps(3))
  have "is_number_integer (JUnsigned 1)" "get_int (JUnsigned 1) = 1"
    using get_int64_reread [of 1] by (simp_all add: get_int_def wrap_i32_def)
  then show ?thesis
    unfolding parse_document_def assms(1) ms by (simp add: v del: member.simps)
qed

section \<open>The public status\<close>

lemma parse_state_name [simp]: "parse_state (run_state_name s) \<noteq> PublicUnknown"
  "public_run_state_name (parse_state (run_state_name s)) u = run_state_name s"
  by (cases s; simp add: parse_state_def)+

lemma known_phase_name [simp]: "known_phase (run_phase_name p)" "run_phase_name p \<noteq> []"
  by (cases p; simp add: known_phase_def known_phases_def)+

lemma parse_operation_kind_name [simp]:
  "k \<noteq> PublicUnknownOperation \<Longrightarrow> parse_operation_kind (public_operation_kind_name k u) = k"
  by (cases k) (simp_all add: parse_operation_kind_def)

lemma parse_activity_name [simp]: "a \<noteq> UnknownActivity \<Longrightarrow> parse_activity (public_activity_name a u) = a"
  by (cases a) (simp_all add: parse_activity_def)

lemma parse_public_error_name [simp]: "parse_public_error (public_error_code_name c) = Inr c"
  by (cases c) (simp_all add: parse_public_error_def)

definition plain_public :: "PublicRunStatusV1 \<Rightarrow> bool" where
  \<comment> \<open>a public status of this version of the program\<close>
  "plain_public p \<longleftrightarrow> (\<exists>r. ps_run_id p = Some r \<and> run_id_re r)
     \<and> ps_operation_kind p \<noteq> PublicUnknownOperation \<and> ps_activity p \<noteq> UnknownActivity
     \<and> (\<exists>s. ps_state p = parse_state (run_state_name s)) \<and> (\<exists>f. ps_phase p = extensible (run_phase_name f) True)
     \<and> ps_unknown_state p = [] \<and> ps_unknown_activity p = [] \<and> ps_unknown_operation_kind p = []
     \<and> dp_bytes_total_estimated (ps_progress p) \<noteq> Some 0"

definition reads_public :: "json \<Rightarrow> PublicRunStatusV1 \<Rightarrow> bool" where
  "reads_public j p \<longleftrightarrow> list_all (\<lambda>(k, v). reads j k v) (public_members p)"

lemma validate_public_percent:
  "validate_public_semantics p = Inr () \<Longrightarrow> percent_ok (dp_source_percent (ps_progress p)) \<and> percent_ok (dp_overall_percent (ps_progress p))"
  by (auto simp: validate_public_semantics_def bindE_eq_Inr_iff percent_error_def percent_ok_def split: option.splits)

lemma reads_public_parse:
  assumes "jl_parse lib t = Inr (reread (JObject kvs))" and "reads_public (JObject kvs) p" and "plain_public p"
    and "validate_public_semantics p = Inr ()"
  shows "parse_public lib t = Inr p"
proof -
  note r = assms(2) [unfolded reads_public_def public_members_def Let_def, simplified]
  obtain run s f where run: "ps_run_id p = Some run" "run_id_re run" "run \<noteq> []" and s: "ps_state p = parse_state (run_state_name s)"
    and f: "ps_phase p = extensible (run_phase_name f) True"
    using assms(3) run_id_re_not_dots by (auto simp: plain_public_def)
  have doc: "parse_document lib t 1 ''public status'' = Inr (reread (JObject kvs))"
    by (rule parse_document_reads [OF assms(1)]) (use r in blast)
  have progress: "parse_progress (reread (JObject kvs)) = Inr (ps_progress p)"
    by (rule reads_progress_parse)
      (use r validate_public_percent [OF assms(4)] assms(3) in \<open>simp_all add: reads_progress_def plain_public_def\<close>)
  have run_id: "make_RunId run = Inr run" using run(2) by (simp add: make_RunId_eq_Inr)
  have names: "public_run_state_name (ps_state p) (ps_unknown_state p) = run_state_name s"
    "ev_value (ps_phase p) = run_phase_name f" "(case ps_run_id p of Some r \<Rightarrow> r | None \<Rightarrow> []) = run"
    "public_activity_name (ps_activity p) (ps_unknown_activity p) = public_activity_name (ps_activity p) []"
    "public_operation_kind_name (ps_operation_kind p) (ps_unknown_operation_kind p) = public_operation_kind_name (ps_operation_kind p) []"
    using run(1) s f assms(3) by (simp_all add: plain_public_def extensible_def)
  note q = r [unfolded names]
  have strings: "required_string (reread (JObject kvs)) ''state'' = Inr (run_state_name s)"
    "required_string (reread (JObject kvs)) ''phase'' = Inr (run_phase_name f)"
    "required_string (reread (JObject kvs)) ''activity'' = Inr (public_activity_name (ps_activity p) [])"
    "required_string (reread (JObject kvs)) ''operationKind'' = Inr (public_operation_kind_name (ps_operation_kind p) [])"
    "required_string (reread (JObject kvs)) ''runId'' = Inr run"
    "required_string (reread (JObject kvs)) ''errorCode'' = Inr (public_error_code_name (ps_error_code p))"
    "required_string (reread (JObject kvs)) ''sourceName'' = Inr (ps_source_name p)"
    "required_string (reread (JObject kvs)) ''targetName'' = Inr (ps_target_name p)"
    "required_bool (reread (JObject kvs)) ''canCancel'' = Inr (ps_can_cancel p)"
    using q by (blast intro: reads_string reads_bool)+
  have "p = \<lparr> ps_run_id = Some run, ps_operation_kind = ps_operation_kind p, ps_state = parse_state (run_state_name s),
      ps_phase = extensible (run_phase_name f) True, ps_activity = ps_activity p, ps_can_cancel = ps_can_cancel p,
      ps_error_code = ps_error_code p, ps_source_name = ps_source_name p, ps_target_name = ps_target_name p,
      ps_progress = ps_progress p, ps_unknown_state = [], ps_unknown_activity = [], ps_unknown_operation_kind = [] \<rparr>" (is "p = ?p")
    using assms(3) run(1) s f by (cases p) (simp add: plain_public_def)
  moreover have "ps_operation_kind p \<noteq> PublicUnknownOperation" "ps_activity p \<noteq> UnknownActivity"
    using assms(3) by (simp_all add: plain_public_def)
  ultimately have "parse_public lib t = bindE (validate_public_semantics ?p) (\<lambda>_. Inr ?p)"
    using run(3) by (simp add: parse_public_def doc strings run_id progress Let_def del: reread.simps)
  with \<open>p = ?p\<close> assms(4) show ?thesis by (metis bindE_Inr)
qed

lemma reads_set_member:
  "reads (set_member (JObject kvs) k v) q w \<longleftrightarrow> (if q = k then reread v = reread w else reads (JObject kvs) q w)"
  unfolding reads_def member_set_member by simp

lemma set_member_object: "\<exists>ms. set_member (JObject kvs) k v = JObject ms"
  by simp

lemma reads_members: "distinct (map fst kvs) \<Longrightarrow> list_all (\<lambda>(k, v). reads (JObject kvs) k v) kvs"
  by (auto simp: list_all_iff reads_def)

lemma public_members_distinct: "distinct (map fst (public_members p))"
  by (simp add: public_members_def Let_def)

lemma public_members_keys:
  "(k, v) \<in> set (public_members p) \<Longrightarrow> k \<notin> {''sourceIndex'', ''sourceCount'', ''startedAt'', ''updatedAt''}"
  unfolding public_members_def Let_def by auto

lemma make_public_status_plain:
  assumes "make_public_status status = Inr p" and "run_id_re (rs_run_id status)"
    and "pg_estimated_bytes (rs_progress status) \<noteq> Some 0"
  shows "plain_public p"
proof -
  have "public_activity status \<noteq> UnknownActivity" by (simp add: public_activity_def)
  moreover from assms(1) obtain eta where eta: "ps_run_id p = Some (rs_run_id status)" "ps_activity p = public_activity status"
    "ps_state p = parse_state (run_state_name (rs_state status))" "ps_phase p = extensible (run_phase_name (rs_phase status)) True"
    "ps_operation_kind p \<noteq> PublicUnknownOperation" "ps_progress p = document_progress status eta"
    "ps_unknown_state p = []" "ps_unknown_activity p = []" "ps_unknown_operation_kind p = []"
    by (auto simp: make_public_status_def bindE_eq_Inr_iff)
  ultimately show ?thesis
    using assms(2,3) unfolding plain_public_def by (auto simp: document_progress_def Let_def)
qed

lemma json_parse_eq_Inr [simp]: "json_parse lib t = Inr j \<longleftrightarrow> jl_parse lib t = Inr j"
  by (simp add: json_parse_def split: sum.split)

lemma public_document_reads:
  assumes "faithful_json lib" and "make_public_status status = Inr p" and "dump_public_status_json lib status = Inr t"
  shows "validate_public_semantics p = Inr ()"
    and "\<exists>kvs. jl_parse lib t = Inr (reread (JObject kvs)) \<and> reads_public (JObject kvs) p"
proof -
  define ms where "ms = map (\<lambda>(k, v). (k, reread v)) (public_members p)"
  have ms: "reread (JObject (public_members p)) = JObject ms" by (simp add: ms_def)
  let ?doc = "\<lambda>j. set_member (set_member (set_member (set_member j
         ''sourceIndex'' (JInt (rs_source_index status))) ''sourceCount'' (JInt (rs_source_count status)))
         ''startedAt'' (JString (format_utc_iso_timestamp (rs_started_at status))))
         ''updatedAt'' (JString (format_utc_iso_timestamp (rs_updated_at status)))"
  from assms(2,3) obtain u j where printed: "validate_public_semantics p = Inr ()" "dump_json lib (JObject (public_members p)) = Inr u"
    and j: "jl_parse lib u = Inr j" "dump_json lib (?doc j) = Inr t"
    unfolding dump_public_status_json_def build_public_status_json_def serialize_public_def
    by (auto simp: bindE_eq_Inr_iff simp del: set_member.simps)
  show "validate_public_semantics p = Inr ()" by (rule printed(1))
  have "j = JObject ms" using faithful_jsonD [OF assms(1) printed(2)] j(1) ms by simp
  then obtain kvs where kvs: "?doc j = JObject kvs" by (metis set_member_object)
  have "reads (JObject kvs) k v" if m: "(k, v) \<in> set (public_members p)" for k v
  proof -
    have "reads (JObject (public_members p)) k v"
      using reads_members [OF public_members_distinct] m by (auto simp: list_all_iff)
    then have "reads (JObject ms) k v" unfolding ms [symmetric] by (simp only: reads_reread)
    then show ?thesis
      unfolding kvs [symmetric] \<open>j = JObject ms\<close> using public_members_keys [OF m]
      by (metis insert_iff reads_set_member set_member_object)
  qed
  then have "reads_public (JObject kvs) p" by (auto simp: reads_public_def list_all_iff)
  then show "\<exists>kvs. jl_parse lib t = Inr (reread (JObject kvs)) \<and> reads_public (JObject kvs) p"
    using faithful_jsonD [OF assms(1) j(2)] kvs by metis
qed

lemma status_document_read_back:
  assumes "faithful_json lib" and "dump_public_status_json lib status = Inr t"
    and "run_id_re (rs_run_id status)" and "pg_estimated_bytes (rs_progress status) \<noteq> Some 0"
  shows "\<exists>p. make_public_status status = Inr p \<and> parse_public lib t = Inr p"
proof -
  obtain p where p: "make_public_status status = Inr p"
    using assms(2) by (auto simp: dump_public_status_json_def build_public_status_json_def bindE_eq_Inr_iff)
  obtain kvs where "jl_parse lib t = Inr (reread (JObject kvs))" "reads_public (JObject kvs) p"
    using public_document_reads(2) [OF assms(1) p assms(2)] by blast
  then show ?thesis
    using reads_public_parse make_public_status_plain [OF p assms(3,4)] public_document_reads(1) [OF assms(1) p assms(2)] p
    by blast
qed

text \<open>
  Property C15: what the service publishes is what a reader sees. The public status document passes two
  printings: the codec's, and the writer's after it added four members. When the writer accepts a status
  and prints it, the reader's parser accepts the text and returns the very public status that was made
  from the run's status. An estimate of zero bytes is excluded: the document has zero for no estimate.
\<close>

theorem published_status_read_back:
  assumes "faithful_json lib" and "dump_public_status_json lib status = Inr t"
    and "run_id_re (rs_run_id status)" and "pg_estimated_bytes (rs_progress status) \<noteq> Some 0"
  shows "\<exists>p. make_public_status status = Inr p \<and> parse_public lib t = Inr p"
  using status_document_read_back [OF assms] .

definition sample_status :: RunStatus where
  "sample_status =
     \<lparr> rs_profile_id = ''home'', rs_profile_name = ''Home'', rs_run_id = ''run-1'', rs_operation_kind = BackupOperation,
       rs_state = RunningState, rs_phase = TransferringPhase, rs_message = ''Transferring'', rs_current_source_name = ''home'',
       rs_target_name = ''backup'', rs_source_index = 1, rs_source_count = 2, rs_started_at = 0, rs_updated_at = 5,
       rs_finished_at = None, rs_error = None, rs_details = [], rs_can_cancel = True,
       rs_progress = \<lparr> pg_processed_bytes = 10, pg_estimated_bytes = Some 40, pg_run_processed_bytes = 10, pg_speed_bps = 2,
         pg_eta_seconds = Some 15, pg_source_percent = Some 25, pg_overall_percent = Some 12, pg_accuracy = Estimated \<rparr>,
       rs_exit_code = 0 \<rparr>"

lemma sample_status_dumps: "\<exists>t. dump_public_status_json numbering_json sample_status = Inr t"
proof -
  have valid: "validate_status sample_status = Inr ()" by code_simp
  obtain p where p: "make_public_status sample_status = Inr p" "validate_public_semantics p = Inr ()"
    by (simp add: make_public_status_def public_eta_def sample_status_def)
      (simp add: validate_public_semantics_def extensible_def parse_state_def document_progress_def percent_error_def
        active_state_def expected_public_error_def public_activity_def requireE_def)
  have dump: "\<exists>t. dump_json numbering_json j = Inr t" for j
    by (simp add: dump_json_def numbering_json_def)
  then obtain t where t: "serialize_public numbering_json p = Inr t"
    using p(2) by (auto simp: serialize_public_def)
  then have "jl_parse numbering_json t = Inr (reread (JObject (public_members p)))"
    using p(2) faithful_jsonD [OF faithful_numbering_json] by (simp add: serialize_public_def)
  then show ?thesis
    using dump valid p(1) t
    by (simp add: dump_public_status_json_def build_public_status_json_def json_parse_def del: set_member.simps)
qed

theorem published_status_read_back_witness:
  "\<exists>t p. dump_public_status_json numbering_json sample_status = Inr t
     \<and> make_public_status sample_status = Inr p \<and> parse_public numbering_json t = Inr p"
proof -
  obtain t where "dump_public_status_json numbering_json sample_status = Inr t"
    using sample_status_dumps by blast
  moreover have "run_id_re (rs_run_id sample_status)" by code_simp
  moreover have "pg_estimated_bytes (rs_progress sample_status) \<noteq> Some 0" by (simp add: sample_status_def)
  ultimately show ?thesis
    using published_status_read_back [OF faithful_numbering_json] by blast
qed

section \<open>The private history\<close>

definition plain_detail :: "RunDetailValue \<Rightarrow> bool" where
  \<comment> \<open>a value the document keeps apart from the other kinds: a signed number that is not negative is read as unsigned\<close>
  "plain_detail v \<longleftrightarrow> (case v of DetailInt i \<Rightarrow> i < 0 | _ \<Rightarrow> True)"

definition plain_details :: "RunDetails \<Rightarrow> bool" where
  \<comment> \<open>the entries of a \<open>std::map\<close>, in its order\<close>
  "plain_details ds \<longleftrightarrow> sorted_wrt (\<lambda>a b. string_less (fst a) (fst b)) ds \<and> list_all (\<lambda>(k, v). plain_detail v) ds"

lemma parse_detail_reread: "plain_detail v \<Longrightarrow> parse_detail (reread (detail_json v)) = Inr v"
  by (cases v) (simp_all add: plain_detail_def)

lemma insert_detail_last:
  "list_all (\<lambda>(q, w). string_less q k) ds \<Longrightarrow> insert_detail k v ds = ds @ [(k, v)]"
proof (induction ds)
  case (Cons d ds)
  obtain q w where d: "d = (q, w)" by (cases d)
  have "string_less q k" using Cons.prems d by simp
  then have "\<not> string_less k q" "k \<noteq> q" using text_order.less_asym by blast+
  then show ?case using Cons d by simp
qed simp

lemma parse_detail_items_reread:
  assumes "sorted_wrt (\<lambda>a b. string_less (fst a) (fst b)) (acc @ ds)" and "list_all (\<lambda>(k, v). plain_detail v) ds"
  shows "parse_detail_items acc (map (\<lambda>(k, v). (k, reread (detail_json v))) ds) = Inr (acc @ ds)"
  using assms
proof (induction ds arbitrary: acc)
  case (Cons d ds)
  obtain k v where d: "d = (k, v)" by (cases d)
  have "insert_detail k v acc = acc @ [(k, v)]"
    by (rule insert_detail_last) (use Cons.prems(1) d in \<open>auto simp: sorted_wrt_append list_all_iff\<close>)
  then show ?case
    using Cons.IH [of "acc @ [(k, v)]"] Cons.prems d by (simp add: parse_detail_reread)
qed simp

lemma reads_details:
  assumes "reads j ''details'' (details_json ds)" and "plain_details ds"
  shows "parse_details (reread j) = Inr ds"
proof -
  have "reread (details_json ds) = JObject (map (\<lambda>(k, v). (k, reread (detail_json v))) ds)"
    by (simp add: details_json_def case_prod_unfold)
  then show ?thesis
    using parse_detail_items_reread [of "[]" ds] assms(2) reads_required [OF assms(1)]
    by (simp add: parse_details_def plain_details_def)
qed

definition i32_ok :: "int \<Rightarrow> bool" where
  "i32_ok i \<longleftrightarrow> - (2 ^ 31) \<le> i \<and> i < 2 ^ 31"

definition plain_status :: "RunStatus \<Rightarrow> bool" where
  \<comment> \<open>the values of the members are in the ranges of their types\<close>
  "plain_status status \<longleftrightarrow> identifier_re (rs_profile_id status) \<and> run_id_re (rs_run_id status)
     \<and> percent_ok (pg_source_percent (rs_progress status)) \<and> percent_ok (pg_overall_percent (rs_progress status))
     \<and> pg_estimated_bytes (rs_progress status) \<noteq> Some 0 \<and> i32_ok (rs_exit_code status)
     \<and> i32_ok (rs_source_index status) \<and> i32_ok (rs_source_count status) \<and> plain_details (rs_details status)"

definition plain_history :: "PrivateRunHistoryV1 \<Rightarrow> bool" where
  "plain_history h \<longleftrightarrow> identifier_re (ph_profile_id h) \<and> run_id_re (ph_run_id h)
     \<and> (\<exists>s. ph_state h = extensible (run_state_name s) True) \<and> (\<exists>f. ph_phase h = extensible (run_phase_name f) True)
     \<and> i32_ok (ph_exit_code h) \<and> i32_ok (ph_source_index h) \<and> i32_ok (ph_source_count h) \<and> plain_details (ph_details h)
     \<and> percent_ok (dp_source_percent (ph_progress h)) \<and> percent_ok (dp_overall_percent (ph_progress h))
     \<and> dp_bytes_total_estimated (ph_progress h) \<noteq> Some 0 \<and> ph_bytes_processed h = dp_bytes_processed (ph_progress h)
     \<and> ph_bytes_total_estimated h = (case dp_bytes_total_estimated (ph_progress h) of Some b \<Rightarrow> b | None \<Rightarrow> 0)"

lemma private_members_distinct: "distinct (map fst (private_members h))"
  by (simp add: private_members_def Let_def)

lemma history_texts:
  shows "required_string (reread (JObject (private_members h))) ''profileId'' = Inr (ph_profile_id h)" "required_string (reread (JObject (private_members h))) ''profileName'' = Inr (ph_profile_name h)"
    "required_string (reread (JObject (private_members h))) ''runId'' = Inr (ph_run_id h)" "required_string (reread (JObject (private_members h))) ''state'' = Inr (ev_value (ph_state h))"
    "required_string (reread (JObject (private_members h))) ''phase'' = Inr (ev_value (ph_phase h))" "required_string (reread (JObject (private_members h))) ''message'' = Inr (ph_message h)"
    "required_string (reread (JObject (private_members h))) ''currentSourceName'' = Inr (ph_current_source_name h)"
    "required_string (reread (JObject (private_members h))) ''targetName'' = Inr (ph_target_name h)" "required_string (reread (JObject (private_members h))) ''startedAt'' = Inr (ph_started_at h)"
    "required_string (reread (JObject (private_members h))) ''updatedAt'' = Inr (ph_updated_at h)" "required_string (reread (JObject (private_members h))) ''finishedAt'' = Inr (ph_finished_at h)"
    "required_string (reread (JObject (private_members h))) ''errorCode'' = Inr (ph_error_code h)" "required_string (reread (JObject (private_members h))) ''errorMessage'' = Inr (ph_error_message h)"
    "required_string (reread (JObject (private_members h))) ''suggestedAction'' = Inr (ph_suggested_action h)"
  by (rule reads_string, use reads_members [OF private_members_distinct [of h]] in \<open>simp add: private_members_def Let_def\<close>)+

lemma reads_private_parse:
  assumes "jl_parse lib t = Inr (reread (JObject (private_members h)))" and "plain_history h"
    and "\<not> source_indexes_inconsistent h"
  shows "parse_private lib t = Inr h"
proof -
  define j where "j = JObject (private_members h)"
  have "list_all (\<lambda>(k, v). reads j k v) (private_members h)"
    unfolding j_def by (rule reads_members [OF private_members_distinct])
  note r = this [unfolded private_members_def Let_def, simplified]
  have doc: "parse_document lib t 1 ''private history'' = Inr (reread j)"
    unfolding j_def by (rule parse_document_reads) (use assms(1) r in \<open>simp_all add: j_def\<close>)
  have progress: "parse_progress (reread j) = Inr (ph_progress h)"
    by (rule reads_progress_parse) (use r assms(2) in \<open>simp_all add: reads_progress_def plain_history_def\<close>)
  have details: "parse_details (reread j) = Inr (ph_details h)"
    using r assms(2) by (auto intro: reads_details simp: plain_history_def)
  obtain s f where s: "ph_state h = extensible (run_state_name s) True" and f: "ph_phase h = extensible (run_phase_name f) True"
    using assms(2) by (auto simp: plain_history_def)
  have ids: "make_ProfileId (ph_profile_id h) = Inr (ph_profile_id h)" "make_RunId (ph_run_id h) = Inr (ph_run_id h)"
    using assms(2) by (simp_all add: plain_history_def make_ProfileId_eq_Inr make_RunId_eq_Inr)
  have bounds: "- (2 ^ 31) \<le> ph_source_index h" "ph_source_index h < 2 ^ 31" "- (2 ^ 31) \<le> ph_source_count h" "ph_source_count h < 2 ^ 31"
    "- (2 ^ 31) \<le> ph_exit_code h" "ph_exit_code h < 2 ^ 31"
    using assms(2) by (simp_all add: plain_history_def i32_ok_def)
  note texts = history_texts [of h, folded j_def]
  have flags: "required_bool (reread j) ''recoverable'' = Inr (ph_recoverable h)" "required_bool (reread j) ''canCancel'' = Inr (ph_can_cancel h)"
    using r by (blast intro: reads_bool)+
  have numbers: "required_non_negative (reread j) ''bytesProcessed'' = Inr (ph_bytes_processed h)"
    "required_non_negative (reread j) ''bytesTotalEstimated'' = Inr (ph_bytes_total_estimated h)"
    "required_non_negative (reread j) ''runBytesProcessed'' = Inr (ph_run_bytes_processed h)"
    using r by (blast intro: reads_unsigned)+
  have ints: "required_int (reread j) ''sourceIndex'' = Inr (ph_source_index h)" "required_int (reread j) ''sourceCount'' = Inr (ph_source_count h)"
    "required_int (reread j) ''exitCode'' = Inr (ph_exit_code h)"
    using r bounds by (blast intro: reads_int)+
  have known: "extensible (ev_value (ph_state h)) (parse_state (ev_value (ph_state h)) \<noteq> PublicUnknown) = ph_state h"
    "extensible (ev_value (ph_phase h)) (known_phase (ev_value (ph_phase h))) = ph_phase h"
    by (simp_all add: s f extensible_def)
  show ?thesis
    using assms(3) by (simp add: parse_private_def doc progress details ids texts flags numbers ints known source_indexes_inconsistent_def Let_def)
qed

lemma make_private_history_plain: "make_private_history status = Inr h \<Longrightarrow> plain_status status \<Longrightarrow> plain_history h"
  by (auto simp: make_private_history_def bindE_eq_Inr_iff plain_status_def plain_history_def document_progress_def Let_def)

text \<open>
  The history of a run is read back. When the writer prints the private history of a status
  whose values are in their ranges, parsing the text gives the history that was made from the status,
  with its details, error and progress.
\<close>

theorem history_read_back:
  assumes "faithful_json lib" and "dump_status_json lib status = Inr t" and "plain_status status"
  shows "\<exists>h. make_private_history status = Inr h \<and> parse_private lib t = Inr h"
proof -
  from assms(2) obtain h where h: "make_private_history status = Inr h" "\<not> source_indexes_inconsistent h"
    "dump_json lib (JObject (private_members h)) = Inr t"
    by (auto simp: dump_status_json_def serialize_private_def bindE_eq_Inr_iff split: if_splits)
  then show ?thesis
    using reads_private_parse faithful_jsonD [OF assms(1)] make_private_history_plain [OF _ assms(3)] by blast
qed

definition failed_status :: RunStatus where
  "failed_status = sample_status\<lparr> rs_state := FailedState, rs_phase := FailedPhase, rs_finished_at := Some 9, rs_can_cancel := False,
     rs_error := Some \<lparr> er_code = TransferFailed, er_message = ''receive failed'', er_recoverable = True, er_suggested_action = ''retry'' \<rparr>,
     rs_details := [(''actionKind'', DetailString ''send-receive''), (''sourceIndex'', DetailUnsigned 1)], rs_exit_code := 1 \<rparr>"

theorem history_read_back_witness:
  "\<exists>t h. dump_status_json numbering_json failed_status = Inr t
     \<and> make_private_history failed_status = Inr h \<and> parse_private numbering_json t = Inr h"
proof -
  have "validate_status failed_status = Inr ()" "plain_status failed_status" by code_simp+
  moreover obtain h where h: "make_private_history failed_status = Inr h" "\<not> source_indexes_inconsistent h"
    by (simp add: make_private_history_def public_eta_def failed_status_def sample_status_def source_indexes_inconsistent_def Let_def)
  moreover obtain t where "dump_json numbering_json (JObject (private_members h)) = Inr t"
    by (simp add: dump_json_def numbering_json_def)
  ultimately show ?thesis
    using history_read_back [OF faithful_numbering_json, of failed_status t]
    by (simp add: dump_status_json_def serialize_private_def)
qed

end
