(* ===== verification/StatusProjectionLaws.thy ===== *)
theory StatusProjectionLaws
  imports StatusDocumentLaws StateFileLaws
begin

text \<open>
  What a reader can rely on while a run reports its events: the percentages only grow, what is not
  published is close to what is, and every status that is built can be written.
\<close>

section \<open>Percentages\<close>

definition preserves :: "('s \<Rightarrow> 'a) \<Rightarrow> ('s, 'e, 'r) run \<Rightarrow> bool" where
  "preserves f m \<longleftrightarrow> (\<forall>s. f (snd (m s)) = f s)"

definition percent_state :: "'w projection_state \<Rightarrow> RunId option \<times> int \<times> PendingActionFailure option" where
  "percent_state s = (pj_run_id (projection s), pj_last_overall_progress (projection s), pj_pending_action_failure (projection s))"

lemma preserves_opP: "preserves (\<lambda>s. g (projection s)) (opP m)"
  by (simp add: preserves_def opP_def split: prod.split)

lemma publish_event_keeps: "preserves percent_state (publish_event lib files context data status)"
proof -
  have "percent_state (snd (publish_event lib files context data status s)) = percent_state s" for s
    using preserves_opP [of "\<lambda>p. p" "write_current_status lib files (bc_status_root context) status"]
    by (auto simp: publish_event_def bindS_def getsS_def returnS_def modifyS_def percent_state_def preserves_def
        split: prod.splits sum.splits) (metis snd_conv)+
  then show ?thesis by (simp add: preserves_def)
qed

definition percent_inv :: "BackupRunStatusContext \<Rightarrow> RunStatusProjection \<Rightarrow> bool" where
  "percent_inv context p \<longleftrightarrow> - 1 \<le> pj_last_overall_progress p \<and> pj_last_overall_progress p \<le> 100
     \<and> (case pj_pending_action_failure p of None \<Rightarrow> True | Some f \<Rightarrow> pf_source_index f \<le> bc_source_count context)"

lemma event_projection_data_simps [simp]:
  "ed_kind (event_projection_data e) = backup_run_event_kind e" "ed_run_id (event_projection_data e) = backup_run_event_run_id e"
  "ed_profile_id (event_projection_data e) = backup_run_event_profile_id e"
  "ed_source_index (event_projection_data e) = backup_run_event_source_index e"
  "ed_operation_kind (event_projection_data e) = backup_run_event_operation_kind e"
  by (cases e; simp add: event_projection_data_def Let_def)+

lemma event_progress_percent:
  assumes "64 \<le> digits" and "ed_source_index data \<le> bc_source_count context" and "minimum \<le> 100"
  shows "case pg_overall_percent (event_progress digits context data minimum) of None \<Rightarrow> True
     | Some q \<Rightarrow> 0 \<le> q \<and> q \<le> 100 \<and> (ed_kind data \<noteq> RunStartedKind \<longrightarrow> minimum \<le> q)"
  using overall_progress_bounds [OF assms(2)] assms(3)
  by (auto simp: event_progress_def Let_def split: option.split if_splits)

lemma project_event_shown:
  "should_write_status (backup_run_event_kind e) \<Longrightarrow> \<exists>p data status. project_event digits now context proj e = Some (p, data, status)"
  by (simp add: project_event_def Let_def case_prod_unfold)

lemma project_event_parts:
  assumes "project_event digits now context proj e = Some (p, data, status)"
  obtains p1 where "complete_event (begin_event proj (event_projection_data e)) (event_projection_data e) = (p1, data)"
    and "pg_overall_percent (rs_progress status) = pg_overall_percent (event_progress digits context data (pj_last_overall_progress p1))"
    and "pj_run_id p = pj_run_id p1" and "pj_pending_action_failure p = pj_pending_action_failure p1"
    and "pj_last_overall_progress p
      = (case pg_overall_percent (rs_progress status) of Some q \<Rightarrow> q | None \<Rightarrow> pj_last_overall_progress p1)"
proof -
  obtain p1 where c: "complete_event (begin_event proj (event_projection_data e)) (event_projection_data e) = (p1, data)"
    and a: "account_event p1 data (status_for_event digits now context data (pj_last_overall_progress p1)) = (p, status)"
    using assms by (auto simp: project_event_def Let_def split: if_splits prod.splits)
  have "pg_overall_percent (rs_progress status) = pg_overall_percent (event_progress digits context data (pj_last_overall_progress p1))"
    using a by (auto simp: account_event_def status_for_event_def Let_def split: prod.splits)
  moreover have "pj_run_id p = pj_run_id p1" "pj_pending_action_failure p = pj_pending_action_failure p1" "pj_last_overall_progress p
      = (case pg_overall_percent (rs_progress status) of Some q \<Rightarrow> q | None \<Rightarrow> pj_last_overall_progress p1)"
    using a by (auto simp: account_event_def Let_def)
  ultimately show thesis using that c by blast
qed

lemma project_event_percent:
  assumes "64 \<le> digits" and "backup_run_event_source_index e \<le> bc_source_count context" and "percent_inv context proj"
    and "project_event digits now context proj e = Some (p, data, status)"
    and "pj_run_id proj = Some (backup_run_event_run_id e)" and "backup_run_event_kind e \<noteq> RunStartedKind"
  shows "percent_inv context p \<and> pj_run_id p = pj_run_id proj
     \<and> (case pg_overall_percent (rs_progress status) of None \<Rightarrow> pj_last_overall_progress p = pj_last_overall_progress proj
        | Some q \<Rightarrow> 0 \<le> q \<and> q \<le> 100 \<and> pj_last_overall_progress proj \<le> q \<and> pj_last_overall_progress p = q)"
  using assms(4)
proof (rule project_event_parts)
  fix p1
  let ?p0 = "begin_event proj (event_projection_data e)"
  assume c: "complete_event ?p0 (event_projection_data e) = (p1, data)"
    and rest: "pg_overall_percent (rs_progress status) = pg_overall_percent (event_progress digits context data (pj_last_overall_progress p1))"
    "pj_run_id p = pj_run_id p1" "pj_pending_action_failure p = pj_pending_action_failure p1"
    "pj_last_overall_progress p = (case pg_overall_percent (rs_progress status) of Some q \<Rightarrow> q | None \<Rightarrow> pj_last_overall_progress p1)"
  have p0: "pj_last_overall_progress ?p0 = pj_last_overall_progress proj" "pj_run_id ?p0 = pj_run_id proj"
    "pj_pending_action_failure ?p0 = pj_pending_action_failure proj"
    using assms(5,6) by (simp_all add: begin_event_def Let_def)
  have p1: "pj_last_overall_progress p1 = pj_last_overall_progress proj" "pj_run_id p1 = pj_run_id proj" "percent_inv context p1"
    "ed_kind data = backup_run_event_kind e" "ed_source_index data \<le> bc_source_count context"
    using c p0 assms(2,3) by (auto simp: complete_event_def percent_inv_def Let_def split: if_splits option.splits)
  show ?thesis
    using event_progress_percent [OF assms(1) p1(5), of "pj_last_overall_progress proj"] p1 rest assms(3,6)
    by (cases "pg_overall_percent (rs_progress status)") (auto simp: percent_inv_def split: option.splits)
qed

lemma project_start_percent:
  assumes "project_event digits now context proj (RunStarted profile run kind) = Some (p, data, status)"
  shows "percent_inv context p \<and> pj_run_id p = Some run
     \<and> (case pg_overall_percent (rs_progress status) of None \<Rightarrow> True | Some q \<Rightarrow> q = 0 \<and> pj_last_overall_progress p = 0)"
  using assms
proof (rule project_event_parts)
  fix p1
  let ?d = "event_projection_data (RunStarted profile run kind)"
  let ?p0 = "begin_event proj ?d"
  assume c: "complete_event ?p0 ?d = (p1, data)"
    and rest: "pg_overall_percent (rs_progress status) = pg_overall_percent (event_progress digits context data (pj_last_overall_progress p1))"
    "pj_run_id p = pj_run_id p1" "pj_pending_action_failure p = pj_pending_action_failure p1"
    "pj_last_overall_progress p = (case pg_overall_percent (rs_progress status) of Some q \<Rightarrow> q | None \<Rightarrow> pj_last_overall_progress p1)"
  have p0: "pj_run_id ?p0 = Some run" "pj_last_overall_progress ?p0 = - 1" "pj_pending_action_failure ?p0 = None"
    by (simp_all add: begin_event_def Let_def)
  then have p1: "p1 = ?p0" "ed_kind data = RunStartedKind" "ed_source_id data = None"
    using c by (auto simp: complete_event_def Let_def) (auto simp: event_projection_data_def Let_def)
  then have "pg_overall_percent (event_progress digits context data (pj_last_overall_progress p1)) \<in> {None, Some 0}"
    using p0(2) by (simp add: event_progress_def estimated_overall_progress_def Let_def)
  then show ?thesis
    using rest p0 p1(1) by (auto simp: percent_inv_def split: option.splits)
qed

lemma finish_event_keeps:
  "let q = projection (snd (finish_event lib files context data status s)); p = projection s
   in pj_run_id q = pj_run_id p \<and> pj_last_overall_progress q = pj_last_overall_progress p
      \<and> pj_pending_action_failure q \<in> {None, pj_pending_action_failure p}"
  using preserves_opP [of "\<lambda>p. p" "write_history_entry lib files (bc_history_root context) status"]
  by (auto simp: finish_event_def bindS_def returnS_def modifyS_def preserves_def Let_def split: prod.splits sum.splits) (metis snd_conv)+

lemma on_event_percent:
  assumes "project_event digits now context (projection s) e = Some (p, data, status)"
    and "s' = snd (on_backup_run_event digits lib files now context e s)" and "percent_inv context p"
  shows "percent_inv context (projection s') \<and> pj_run_id (projection s') = pj_run_id p
     \<and> pj_last_overall_progress (projection s') = pj_last_overall_progress p"
proof -
  let ?s = "s\<lparr> projection := p \<rparr>"
  let ?publish = "publish_event lib files context data status" and ?finish = "finish_event lib files context data status"
  have published: "percent_state (snd (?publish ?s)) = percent_state ?s"
    by (rule publish_event_keeps [unfolded preserves_def, rule_format])
  have "s' = snd (?publish ?s) \<or> s' = snd (?finish (snd (?publish ?s)))"
    using assms(1,2) by (auto simp: on_backup_run_event_def bindS_def split: prod.splits sum.splits)
  then show ?thesis
    using published finish_event_keeps [of lib files "context" data status "snd (?publish ?s)"] assms(3)
    by (auto simp: percent_state_def percent_inv_def Let_def split: option.splits)
qed

fun shown_statuses ::
  "nat \<Rightarrow> json_library \<Rightarrow> ('w, 'z) DocumentFiles_scheme \<Rightarrow> BackupRunStatusContext \<Rightarrow> 'w projection_state
   \<Rightarrow> (RuntimeTimePoint \<times> BackupRunEvent) list \<Rightarrow> RunStatus list" where
  \<comment> \<open>the statuses the sink makes of a sequence of events, whether or not a document could be written\<close>
  "shown_statuses digits lib files context s [] = []"
| "shown_statuses digits lib files context s ((now, e) # rest) =
     (case project_event digits now context (projection s) e of None \<Rightarrow> [] | Some (p, data, status) \<Rightarrow> [status])
     @ shown_statuses digits lib files context (snd (on_backup_run_event digits lib files now context e s)) rest"

definition overall_percents :: "RunStatus list \<Rightarrow> int list" where
  "overall_percents statuses = List.map_filter (\<lambda>st. pg_overall_percent (rs_progress st)) statuses"

lemma overall_percents_simps [simp]: "overall_percents [] = []"
  "overall_percents (st # sts) = (case pg_overall_percent (rs_progress st) of None \<Rightarrow> overall_percents sts | Some q \<Rightarrow> q # overall_percents sts)"
  by (simp_all add: overall_percents_def map_filter_simps split: option.split)

definition within_sources :: "BackupRunStatusContext \<Rightarrow> RunId \<Rightarrow> BackupRunEvent \<Rightarrow> bool" where
  \<comment> \<open>an event after the start of the run, of one of its sources\<close>
  "within_sources context run e \<longleftrightarrow> backup_run_event_run_id e = run \<and> backup_run_event_kind e \<noteq> RunStartedKind
     \<and> backup_run_event_source_index e \<le> bc_source_count context"

lemma shown_percents_sorted:
  assumes "64 \<le> digits" and "list_all (\<lambda>(now, e). within_sources context run e) events"
    and "percent_inv context (projection s)" and "pj_run_id (projection s) = Some run"
  shows "sorted (pj_last_overall_progress (projection s) # overall_percents (shown_statuses digits lib files context s events))
     \<and> set (overall_percents (shown_statuses digits lib files context s events)) \<subseteq> {0..100}"
  using assms(2-4)
proof (induction events arbitrary: s)
  case (Cons ev events)
  obtain now e where ev: "ev = (now, e)" by (cases ev)
  let ?s' = "snd (on_backup_run_event digits lib files now context e s)"
  have e: "backup_run_event_run_id e = run" "backup_run_event_kind e \<noteq> RunStartedKind"
    "backup_run_event_source_index e \<le> bc_source_count context" and rest: "list_all (\<lambda>(now, e). within_sources context run e) events"
    using Cons.prems(1) ev by (simp_all add: within_sources_def)
  show ?case
  proof (cases "project_event digits now context (projection s) e")
    case None
    then have "?s' = s" by (simp add: on_backup_run_event_def returnS_def)
    then show ?thesis using Cons.IH [OF rest Cons.prems(2,3)] ev None by simp
  next
    case (Some r)
    then obtain p data status where r: "project_event digits now context (projection s) e = Some (p, data, status)" by (cases r) auto
    note q = project_event_percent [OF assms(1) e(3) Cons.prems(2) r _ e(2)]
    have s': "percent_inv context (projection ?s') \<and> pj_run_id (projection ?s') = pj_run_id p
        \<and> pj_last_overall_progress (projection ?s') = pj_last_overall_progress p"
      using on_event_percent [OF r refl] q e(1) Cons.prems(3) by simp
    then show ?thesis
      using Cons.IH [of ?s', OF rest] q e(1) Cons.prems(3) r ev by (auto split: option.splits)
  qed
qed simp

text \<open>
  Property C12: the overall progress a reader is shown never goes back within a run and stays between 0 and
  100. For whatever the sink did before, the statuses it makes of the start of a run and of the following
  events of the run have overall percentages in ascending order, also when writing a document fails. The
  computation in extended floating point needs a significand of 64 bits.
\<close>

theorem overall_percent_monotone:
  assumes "64 \<le> digits" and "list_all (\<lambda>(now, e). within_sources context run e) events"
  shows "sorted (overall_percents (shown_statuses digits lib files context s ((now, RunStarted profile run kind) # events)))
     \<and> set (overall_percents (shown_statuses digits lib files context s ((now, RunStarted profile run kind) # events))) \<subseteq> {0..100}"
proof -
  let ?e = "RunStarted profile run kind"
  obtain p data status where r: "project_event digits now context (projection s) ?e = Some (p, data, status)"
    using project_event_shown [of ?e digits now "context" "projection s"] by (auto simp: should_write_status_def)
  note start = project_start_percent [OF r]
  let ?s' = "snd (on_backup_run_event digits lib files now context ?e s)"
  have s': "percent_inv context (projection ?s') \<and> pj_run_id (projection ?s') = Some run
      \<and> pj_last_overall_progress (projection ?s') = pj_last_overall_progress p"
    using on_event_percent [OF r refl] start by simp
  then show ?thesis
    using shown_percents_sorted [OF assms, of ?s' lib files] r start by (auto split: option.splits)
qed

definition sample_context :: BackupRunStatusContext where
  "sample_context = \<lparr> bc_status_root = ''/run/status'', bc_history_root = ''/var/history'', bc_profile_name = ''Home'', bc_source_count = 2,
     bc_started_at = 0, bc_source_names = [''root'' \<mapsto> ''Root''], bc_target_name = ''backup'' \<rparr>"

definition sample_events :: "(RuntimeTimePoint \<times> BackupRunEvent) list" where
  "sample_events = [(1, SourceStarted ''home'' ''run-1'' ''root'' 1), (2, ActionStarted ''home'' ''run-1'' ''root'' 1 SendReceive),
     (3, SourceCompleted ''home'' ''run-1'' ''root'' 1), (4, RunCompleted ''home'' ''run-1'')]"

theorem overall_percent_monotone_witness:
  "sorted (overall_percents (shown_statuses 64 numbering_json memory_files sample_context
       \<lparr> projection = new_projection, pw_world = Map.empty \<rparr> ((0, RunStarted ''home'' ''run-1'' Backup) # sample_events)))
   \<and> set (overall_percents (shown_statuses 64 numbering_json memory_files sample_context
       \<lparr> projection = new_projection, pw_world = Map.empty \<rparr> ((0, RunStarted ''home'' ''run-1'' Backup) # sample_events))) \<subseteq> {0..100}"
proof -
  have "list_all (\<lambda>(now, e). within_sources sample_context ''run-1'' e) sample_events" by code_simp
  then show ?thesis by (intro overall_percent_monotone) simp_all
qed

section \<open>The published document\<close>

definition published_of :: "RunStatus \<Rightarrow> PublishedStatus" where
  "published_of status = \<lparr> pu_phase = rs_phase status, pu_source_name = rs_current_source_name status, pu_source_index = rs_source_index status,
     pu_source_percent = pg_source_percent (rs_progress status), pu_overall_percent = pg_overall_percent (rs_progress status) \<rparr>"

definition percent_near :: "int option \<Rightarrow> int option \<Rightarrow> bool" where
  \<comment> \<open>both unknown, or less than five apart\<close>
  "percent_near a b \<longleftrightarrow> (case (a, b) of (Some x, Some y) \<Rightarrow> \<bar>x - y\<bar> < 5 | (None, None) \<Rightarrow> True | _ \<Rightarrow> False)"

definition near :: "RunStatus \<Rightarrow> PublishedStatus \<Rightarrow> bool" where
  "near status u \<longleftrightarrow> pu_phase u = rs_phase status \<and> pu_source_name u = rs_current_source_name status
     \<and> pu_source_index u = rs_source_index status \<and> percent_near (pg_source_percent (rs_progress status)) (pu_source_percent u)
     \<and> percent_near (pg_overall_percent (rs_progress status)) (pu_overall_percent u)"

lemma near_published_of: "near status (published_of status)"
  by (simp add: near_def published_of_def percent_near_def split: option.split)

lemma percent_near_iff: "percent_near a b \<longleftrightarrow> \<not> percentage_changed_by_threshold a b"
  by (auto simp: percent_near_def percentage_changed_by_threshold_def split: option.split)

lemma unpublished_is_near:
  assumes "\<not> should_publish policy kind status elapsed"
  shows "\<exists>u. published_status policy = Some u \<and> near status u"
  using assms unfolding should_publish_def near_def percent_near_iff by (auto split: if_splits option.splits)

definition on_disk ::
  "json_library \<Rightarrow> ('w, 'z) DocumentFiles_scheme \<Rightarrow> path \<Rightarrow> RunId \<Rightarrow> 'w \<Rightarrow> PublishedStatus \<Rightarrow> bool" where
  \<comment> \<open>the document is the printed form of a status of the run\<close>
  "on_disk lib files at run w u \<longleftrightarrow> (\<exists>status t. file_at files at w = Some t \<and> dump_public_status_json lib status = Inr t
     \<and> u = published_of status \<and> rs_run_id status = run \<and> pg_estimated_bytes (rs_progress status) \<noteq> Some 0)"

definition published_inv ::
  "json_library \<Rightarrow> ('w, 'z) DocumentFiles_scheme \<Rightarrow> path \<Rightarrow> RunId \<Rightarrow> 'w projection_state \<Rightarrow> bool" where
  "published_inv lib files at run s \<longleftrightarrow> (case published_status (pj_publication_policy (projection s)) of
     None \<Rightarrow> True | Some u \<Rightarrow> on_disk lib files at run (pw_world s) u)"

lemma write_current_status_file:
  assumes "faithful_files files" and "write_current_status lib files root status w = (Inr u, w')"
  shows "\<exists>t. dump_public_status_json lib status = Inr t
     \<and> file_at files (current_status_path root (rs_profile_id status)) w' = Some t"
  using assms(2) faithful_write(1) [OF assms(1)]
  by (auto simp: write_current_status_def bindS_def liftE_def split: prod.splits sum.splits)

lemma write_history_entry_files:
  assumes "faithful_files files" and "write_history_entry lib files root status w = (Inr u, w')"
  shows "\<exists>t. dump_status_json lib status = Inr t
       \<and> file_at files (path_append (path_append root (rs_profile_id status)) ''last.json'') w' = Some t"
    and "q \<noteq> path_append (path_append root (rs_profile_id status)) (rs_run_id status @ ''.json'') \<Longrightarrow>
      q \<noteq> path_append (path_append root (rs_profile_id status)) ''last.json'' \<Longrightarrow> file_at files q w' = file_at files q w"
proof -
  let ?dir = "path_append root (rs_profile_id status)"
  obtain t w1 w2 w3 where t: "dump_status_json lib status = Inr t"
    and w1: "df_ensure_directory files root private_state_directory_permissions w = (Inr (), w1)"
    and w2: "df_ensure_directory files ?dir private_state_directory_permissions w1 = (Inr (), w2)"
    and w3: "df_write_atomically files (path_append ?dir (rs_run_id status @ ''.json'')) t private_state_file_permissions w2 = (Inr (), w3)"
    and w': "df_write_atomically files (path_append ?dir ''last.json'') t private_state_file_permissions w3 = (Inr (), w')"
    using assms(2) by (auto simp: write_history_entry_def bindS_def liftE_def Let_def split: prod.splits sum.splits)
  show "\<exists>t. dump_status_json lib status = Inr t \<and> file_at files (path_append ?dir ''last.json'') w' = Some t"
    using t faithful_write(1) [OF assms(1) w'] by blast
  show "file_at files q w' = file_at files q w"
    if "q \<noteq> path_append ?dir (rs_run_id status @ ''.json'')" "q \<noteq> path_append ?dir ''last.json''"
    using faithful_write(2) [OF assms(1) w' that(2)] faithful_write(2) [OF assms(1) w3 that(1)]
      faithful_ensure [OF assms(1) w2] faithful_ensure [OF assms(1) w1] by metis
qed

definition separate_documents :: "BackupRunStatusContext \<Rightarrow> ProfileId \<Rightarrow> RunId \<Rightarrow> bool" where
  \<comment> \<open>the history is not kept in place of the current status\<close>
  "separate_documents context profile run \<longleftrightarrow>
     current_status_path (bc_status_root context) profile
       \<notin> {path_append (path_append (bc_history_root context) profile) (run @ ''.json''),
          path_append (path_append (bc_history_root context) profile) ''last.json''}"

definition of_run :: "ProfileId \<Rightarrow> RunId \<Rightarrow> BackupRunEvent \<Rightarrow> bool" where
  "of_run profile run e \<longleftrightarrow> backup_run_event_profile_id e = profile \<and> backup_run_event_run_id e = run"

lemma status_for_event_fields:
  "rs_profile_id (status_for_event digits now context data m) = ed_profile_id data"
  "rs_run_id (status_for_event digits now context data m) = ed_run_id data"
  "rs_progress (status_for_event digits now context data m) = event_progress digits context data m"
  by (simp_all add: status_for_event_def case_prod_unfold Let_def)

lemma event_progress_estimated: "pg_estimated_bytes (event_progress digits context data m) \<noteq> Some 0"
  unfolding event_progress_def Let_def by simp

lemma account_event_fields:
  assumes "account_event p1 data status0 = (p, status)"
  shows "rs_profile_id status = rs_profile_id status0" and "rs_run_id status = rs_run_id status0"
    and "pg_estimated_bytes (rs_progress status) = pg_estimated_bytes (rs_progress status0)"
    and "pj_publication_policy p = pj_publication_policy p1"
  using assms unfolding account_event_def Let_def by (simp_all split: if_splits) auto

lemma begin_event_published:
  "published_status (pj_publication_policy (begin_event proj data)) \<in> {None, published_status (pj_publication_policy proj)}"
  unfolding begin_event_def Let_def reset_policy_def by simp

lemma complete_event_fields:
  assumes "complete_event p0 d = (p1, data)"
  shows "ed_kind data = ed_kind d" and "ed_profile_id data = ed_profile_id d" and "ed_run_id data = ed_run_id d"
    and "pj_publication_policy p1 = pj_publication_policy p0"
  using assms unfolding complete_event_def Let_def by (auto split: if_splits option.splits)

lemma project_event_status:
  assumes "project_event digits now context proj e = Some (p, data, status)"
  shows "rs_profile_id status = backup_run_event_profile_id e" and "rs_run_id status = backup_run_event_run_id e"
    and "pg_estimated_bytes (rs_progress status) \<noteq> Some 0" and "ed_kind data = backup_run_event_kind e"
    and "published_status (pj_publication_policy p) \<in> {None, published_status (pj_publication_policy proj)}"
proof -
  let ?d = "event_projection_data e"
  obtain p1 where c: "complete_event (begin_event proj ?d) ?d = (p1, data)"
    and a: "account_event p1 data (status_for_event digits now context data (pj_last_overall_progress p1)) = (p, status)"
    using assms by (auto simp: project_event_def Let_def split: if_splits prod.splits)
  note c' = complete_event_fields [OF c] and a' = account_event_fields [OF a, unfolded status_for_event_fields]
  show "ed_kind data = backup_run_event_kind e" using c'(1) by simp
  show "rs_profile_id status = backup_run_event_profile_id e" "rs_run_id status = backup_run_event_run_id e"
    using a'(1,2) c'(2,3) by simp_all
  show "pg_estimated_bytes (rs_progress status) \<noteq> Some 0" using a'(3) event_progress_estimated by simp
  show "published_status (pj_publication_policy p) \<in> {None, published_status (pj_publication_policy proj)}"
    using begin_event_published [of proj ?d] a'(4) c'(4) by simp
qed

lemma publish_event_published:
  assumes "faithful_files files" and "publish_event lib files context data status s = (Inr u, s')"
    and "published_inv lib files (current_status_path (bc_status_root context) (rs_profile_id status)) (rs_run_id status) s"
    and "pg_estimated_bytes (rs_progress status) \<noteq> Some 0"
  shows "published_inv lib files (current_status_path (bc_status_root context) (rs_profile_id status)) (rs_run_id status) s'
     \<and> (ed_kind data \<noteq> RunFailedKind \<longrightarrow> (\<exists>u. published_status (pj_publication_policy (projection s')) = Some u \<and> near status u))"
proof (cases "(ed_kind data \<noteq> RunFailedKind \<or> pj_run_started (projection s))
    \<and> should_publish (pj_publication_policy (projection s)) (ed_kind data) status (ed_elapsed_ms data)")
  case True
  then obtain w' where w': "write_current_status lib files (bc_status_root context) status (pw_world s) = (Inr (), w')"
    and s': "pw_world s' = w'" "published_status (pj_publication_policy (projection s')) = Some (published_of status)"
    using assms(2) by (auto simp: publish_event_def run_defs opP_def record_publication_def published_of_def split: prod.splits sum.splits)
  then show ?thesis
    using write_current_status_file [OF assms(1) w'] assms(4) near_published_of
    by (auto simp: published_inv_def on_disk_def)
next
  case False
  then have "s' = s" using assms(2) by (auto simp: publish_event_def run_defs split: if_splits)
  then show ?thesis using assms(3) False unpublished_is_near by blast
qed

lemma finish_event_published:
  assumes "faithful_files files" and "finish_event lib files context data status s = (Inr u, s')"
    and "separate_documents context (rs_profile_id status) (rs_run_id status)"
    and "published_inv lib files (current_status_path (bc_status_root context) (rs_profile_id status)) run s"
  shows "published_inv lib files (current_status_path (bc_status_root context) (rs_profile_id status)) run s'
     \<and> published_status (pj_publication_policy (projection s')) = published_status (pj_publication_policy (projection s))"
proof -
  let ?at = "current_status_path (bc_status_root context) (rs_profile_id status)"
  have "file_at files ?at (pw_world s') = file_at files ?at (pw_world s)
      \<and> pj_publication_policy (projection s') = pj_publication_policy (projection s)"
  proof (cases "should_write_history (ed_kind data) (ed_operation_kind data)")
    case True
    then obtain w' where w': "write_history_entry lib files (bc_history_root context) status (pw_world s) = (Inr (), w')"
      and s': "pw_world s' = w'" "pj_publication_policy (projection s') = pj_publication_policy (projection s)"
      using assms(2) by (auto simp: finish_event_def run_defs opP_def split: prod.splits sum.splits if_splits)
    then show ?thesis
      using write_history_entry_files(2) [OF assms(1) w'] assms(3) by (simp add: separate_documents_def)
  next
    case False
    then show ?thesis using assms(2) by (auto simp: finish_event_def run_defs split: if_splits)
  qed
  then show ?thesis using assms(4) by (simp add: published_inv_def on_disk_def split: option.splits)
qed

lemma on_event_published:
  assumes "faithful_files files" and "on_backup_run_event digits lib files now context e s = (Inr u, s')" and "of_run profile run e"
    and "separate_documents context profile run"
    and "published_inv lib files (current_status_path (bc_status_root context) profile) run s"
  shows "published_inv lib files (current_status_path (bc_status_root context) profile) run s'"
    and "project_event digits now context (projection s) e = Some (p, data, status) \<Longrightarrow> backup_run_event_kind e \<noteq> RunFailedKind
      \<Longrightarrow> \<exists>u. published_status (pj_publication_policy (projection s')) = Some u \<and> near status u"
proof -
  let ?at = "current_status_path (bc_status_root context) profile"
  have step: "published_inv lib files ?at run s' \<and> (backup_run_event_kind e \<noteq> RunFailedKind
      \<longrightarrow> (\<exists>u. published_status (pj_publication_policy (projection s')) = Some u \<and> near status u))"
    if r: "project_event digits now context (projection s) e = Some (p, data, status)" for p data status
  proof -
    note st = project_event_status [OF r]
    have ids: "rs_profile_id status = profile" "rs_run_id status = run" using st(1,2) assms(3) by (simp_all add: of_run_def)
    obtain u1 s1 where s1: "publish_event lib files context data status (s\<lparr> projection := p \<rparr>) = (Inr u1, s1)"
      and s2: "finish_event lib files context data status s1 = (Inr u, s')"
      using assms(2) r by (auto simp: on_backup_run_event_def bindS_def split: prod.splits sum.splits)
    have "published_inv lib files ?at run (s\<lparr> projection := p \<rparr>)"
      using assms(5) st(5) by (auto simp: published_inv_def split: option.splits)
    then show ?thesis
      using publish_event_published [OF assms(1) s1, unfolded ids] finish_event_published [OF assms(1) s2, unfolded ids] assms(4) st(3,4)
      by (metis (no_types, lifting))
  qed
  show "published_inv lib files ?at run s'"
  proof (cases "project_event digits now context (projection s) e")
    case None
    then show ?thesis using assms(2,5) by (simp add: on_backup_run_event_def returnS_def)
  next
    case (Some r)
    then show ?thesis using step by (cases r) blast
  qed
  show "\<exists>u. published_status (pj_publication_policy (projection s')) = Some u \<and> near status u"
    if "project_event digits now context (projection s) e = Some (p, data, status)" "backup_run_event_kind e \<noteq> RunFailedKind"
    using step that by blast
qed

fun sink_events ::
  "nat \<Rightarrow> json_library \<Rightarrow> ('w, 'z) DocumentFiles_scheme \<Rightarrow> BackupRunStatusContext \<Rightarrow> (RuntimeTimePoint \<times> BackupRunEvent) list
   \<Rightarrow> ('w projection_state, exn, unit) run" where
  \<comment> \<open>the events are given to the sink one after the other\<close>
  "sink_events digits lib files context [] = returnS ()"
| "sink_events digits lib files context ((now, e) # rest) =
     bindS (on_backup_run_event digits lib files now context e) (\<lambda>_. sink_events digits lib files context rest)"

lemma sink_events_published:
  assumes "faithful_files files" and "separate_documents context profile run"
    and "list_all (\<lambda>(now, e). of_run profile run e) (events @ [(now, e)])"
    and "published_inv lib files (current_status_path (bc_status_root context) profile) run s"
    and "sink_events digits lib files context (events @ [(now, e)]) s = (Inr u, s')"
    and "should_write_status (backup_run_event_kind e)" and "backup_run_event_kind e \<noteq> RunFailedKind"
  shows "published_inv lib files (current_status_path (bc_status_root context) profile) run s'
     \<and> shown_statuses digits lib files context s (events @ [(now, e)]) \<noteq> []
     \<and> (\<exists>u. published_status (pj_publication_policy (projection s')) = Some u
          \<and> near (last (shown_statuses digits lib files context s (events @ [(now, e)]))) u)"
  using assms(3-5)
proof (induction events arbitrary: s)
  case Nil
  obtain p data status where r: "project_event digits now context (projection s) e = Some (p, data, status)"
    using project_event_shown [OF assms(6)] by blast
  have s': "on_backup_run_event digits lib files now context e s = (Inr (), s')" and e: "of_run profile run e"
    using Nil by (auto simp: bindS_def returnS_def split: prod.splits sum.splits)
  show ?case
    using on_event_published(1) [OF assms(1) s' e assms(2) Nil(2)] on_event_published(2) [OF assms(1) s' e assms(2) Nil(2) r assms(7)] r by simp
next
  case (Cons ev events)
  obtain now0 e0 where ev: "ev = (now0, e0)" by (cases ev)
  obtain s1 where s1: "on_backup_run_event digits lib files now0 context e0 s = (Inr (), s1)"
    and rest: "sink_events digits lib files context (events @ [(now, e)]) s1 = (Inr u, s')"
    using Cons.prems(3) ev by (auto simp: bindS_def split: prod.splits sum.splits)
  have e0: "of_run profile run e0" and events: "list_all (\<lambda>(now, e). of_run profile run e) (events @ [(now, e)])"
    using Cons.prems(1) ev by simp_all
  show ?case
    using Cons.IH [OF events on_event_published(1) [OF assms(1) s1 e0 assms(2) Cons.prems(2)] rest] ev s1 by simp
qed

section \<open>Every status can be written\<close>

definition publishable :: "RunStatus \<Rightarrow> bool" where
  "publishable status \<longleftrightarrow> validate_status status = Inr ()
     \<and> (\<exists>p. make_public_status status = Inr p \<and> validate_public_semantics p = Inr ())"

lemma public_error_expected:
  assumes "error = None \<longleftrightarrow> state \<notin> {FailedState, CancelledState}"
  shows "(if error = None then PublicNoError else if state = CancelledState then PublicCancelledError else PublicFailedError)
     = expected_public_error (parse_state (run_state_name state))"
  using assms by (cases state) (auto simp: expected_public_error_def parse_state_def)

lemma active_parse_state: "active_state (parse_state (run_state_name state)) \<longleftrightarrow> state \<in> {RunningState, ValidatingState}"
  by (cases state) (simp_all add: active_state_def parse_state_def)

lemma publishable_status:
  assumes "validate_status status = Inr ()" and "rs_error status = None \<longleftrightarrow> rs_state status \<notin> {FailedState, CancelledState}"
    and "rs_can_cancel status \<Longrightarrow> rs_state status \<in> {RunningState, ValidatingState}"
    and "case pg_eta_seconds (rs_progress status) of None \<Rightarrow> True | Some t \<Rightarrow> 0 \<le> t"
    and "percent_ok (pg_source_percent (rs_progress status))" and "percent_ok (pg_overall_percent (rs_progress status))"
  shows "publishable status"
proof -
  obtain eta where eta: "public_eta status = Inr eta"
    using assms(4) by (auto simp: public_eta_def split: option.splits)
  have percents: "percent_error (pg_source_percent (rs_progress status)) f = Inr ()" "percent_error (pg_overall_percent (rs_progress status)) f = Inr ()" for f
    using assms(5,6) by (simp_all add: percent_error_def percent_ok_def split: option.splits)
  have "public_activity status \<noteq> UnknownActivity" by (simp add: public_activity_def)
  then show ?thesis
    using assms(1,3) eta percents unfolding publishable_def make_public_status_def public_error_expected [OF assms(2)]
    by (simp add: validate_public_semantics_def extensible_def document_progress_def active_parse_state Let_def)
qed

lemma validate_status_iff: "validate_status status = Inr () \<longleftrightarrow> rs_profile_name status \<noteq> [] \<and> validate_run_status status = Inr ()"
  by (simp add: validate_status_def require_non_empty_def bindE_eq_Inr_iff)

lemma event_progress_ranges:
  assumes "64 \<le> digits" and "ed_source_index data \<le> bc_source_count context" and "minimum \<le> 100"
  shows "case pg_eta_seconds (event_progress digits context data minimum) of None \<Rightarrow> True | Some t \<Rightarrow> 0 \<le> t"
    and "percent_ok (pg_source_percent (event_progress digits context data minimum))"
    and "percent_ok (pg_overall_percent (event_progress digits context data minimum))"
proof -
  show "case pg_eta_seconds (event_progress digits context data minimum) of None \<Rightarrow> True | Some t \<Rightarrow> 0 \<le> t"
    by (simp add: event_progress_def Let_def)
  show "percent_ok (pg_source_percent (event_progress digits context data minimum))"
    using source_progress_bounds [OF assms(1), of data] by (simp add: event_progress_def percent_ok_def Let_def)
  show "percent_ok (pg_overall_percent (event_progress digits context data minimum))"
    using event_progress_percent [OF assms] by (auto simp: percent_ok_def split: option.splits)
qed

lemma built_status_publishable:
  assumes "64 \<le> digits" and "ed_source_index data \<le> bc_source_count context" and "minimum \<le> 100" and "bc_profile_name context \<noteq> []"
  shows "publishable (status_for_event digits now context data minimum)"
proof (rule publishable_status)
  let ?status = "status_for_event digits now context data minimum"
  note valid = status_for_event_valid [of digits now "context" data minimum]
  have "rs_profile_name ?status = bc_profile_name context" by (simp add: status_for_event_def case_prod_unfold Let_def)
  then show "validate_status ?status = Inr ()" using valid assms(4) by (simp add: validate_status_iff)
  show "rs_error ?status = None \<longleftrightarrow> rs_state ?status \<notin> {FailedState, CancelledState}" by (rule status_for_event_error)
  show "rs_state ?status \<in> {RunningState, ValidatingState}" if "rs_can_cancel ?status"
    using that by (auto simp: status_for_event_def case_prod_unfold Let_def)
qed (use event_progress_ranges [OF assms(1-3)] in \<open>simp_all add: status_for_event_fields\<close>)

end
