(* ===== verification/StatusSinkLaws.thy ===== *)
theory StatusSinkLaws
  imports StatusProjectionLaws
begin

text \<open>
  The sink of the events refuses no event of a run: what it throws was thrown by the operations on files or
  by the printer of JSON. With it, the documents on disk after a run are known.
\<close>

section \<open>Where exceptions come from\<close>

definition outside_errors :: "json_library \<Rightarrow> ('w, 'z) DocumentFiles_scheme \<Rightarrow> exn set" where
  \<comment> \<open>the exceptions of the operations on files and of the printer\<close>
  "outside_errors lib files =
     {e. (\<exists>p m w w'. df_ensure_directory files p m w = (Inl e, w')) \<or> (\<exists>p d m w w'. df_write_atomically files p d m w = (Inl e, w'))
       \<or> (\<exists>n j. jl_dump lib n j = Inl e)}"

lemma outside_errorsI:
  "df_ensure_directory files p m w = (Inl e, w') \<Longrightarrow> e \<in> outside_errors lib files"
  "df_write_atomically files p d m w = (Inl e, w') \<Longrightarrow> e \<in> outside_errors lib files"
  "jl_dump lib n j = Inl e \<Longrightarrow> e \<in> outside_errors lib files"
  by (auto simp: outside_errors_def)

lemma bindS_eq_Inl: "bindS m f s = (Inl e, s') \<Longrightarrow> m s = (Inl e, s') \<or> (\<exists>x s1. m s = (Inr x, s1) \<and> f x s1 = (Inl e, s'))"
  by (auto simp: bindS_def split: prod.splits sum.splits)

lemma dump_json_error: "dump_json lib j = Inl e \<Longrightarrow> e \<in> outside_errors lib files"
  by (auto simp: dump_json_def bindE_eq_Inl_iff intro: outside_errorsI(3))

lemma dump_public_status_error:
  assumes "faithful_json lib" and "publishable status" and "dump_public_status_json lib status = Inl e"
  shows "e \<in> outside_errors lib files"
proof -
  obtain p where p: "validate_status status = Inr ()" "make_public_status status = Inr p" "validate_public_semantics p = Inr ()"
    using assms(2) by (auto simp: publishable_def)
  show ?thesis
  proof (cases "dump_json lib (JObject (public_members p))")
    case (Inl e')
    then show ?thesis
      using assms(3) p dump_json_error by (simp add: dump_public_status_json_def build_public_status_json_def serialize_public_def)
  next
    case (Inr t)
    then have "jl_parse lib t = Inr (reread (JObject (public_members p)))" by (rule faithful_jsonD [OF assms(1)])
    then show ?thesis
      using assms(3) p Inr dump_json_error
      by (simp add: dump_public_status_json_def build_public_status_json_def serialize_public_def json_parse_def
          del: reread.simps set_member.simps)
  qed
qed

lemma dump_status_error:
  assumes "publishable status" and "0 \<le> rs_source_index status" and "rs_source_index status \<le> rs_source_count status"
    and "dump_status_json lib status = Inl e"
  shows "e \<in> outside_errors lib files"
proof -
  obtain eta where "public_eta status = Inr eta" and "validate_status status = Inr ()"
    using assms(1) by (auto simp: publishable_def make_public_status_def bindE_eq_Inr_iff)
  then obtain h where "make_private_history status = Inr h" "\<not> source_indexes_inconsistent h"
    using assms(2,3) by (simp add: make_private_history_def source_indexes_inconsistent_def Let_def)
  then show ?thesis
    using assms(4) \<open>validate_status status = Inr ()\<close> dump_json_error by (simp add: dump_status_json_def serialize_private_def)
qed

lemma write_current_status_error:
  assumes "faithful_json lib" and "publishable status" and "write_current_status lib files root status w = (Inl e, w')"
  shows "e \<in> outside_errors lib files"
  using assms(3) dump_public_status_error [OF assms(1,2)] unfolding write_current_status_def
  by (auto simp: liftE_def dest!: bindS_eq_Inl intro: outside_errorsI(1,2))

lemma write_history_entry_error:
  assumes "publishable status" and "0 \<le> rs_source_index status" and "rs_source_index status \<le> rs_source_count status"
    and "write_history_entry lib files root status w = (Inl e, w')"
  shows "e \<in> outside_errors lib files"
  using assms(4) dump_status_error [OF assms(1-3)] unfolding write_history_entry_def Let_def
  by (auto simp: liftE_def dest!: bindS_eq_Inl intro: outside_errorsI(1,2))

lemma publish_event_error:
  assumes "faithful_json lib" and "publishable status" and "publish_event lib files context data status s = (Inl e, s')"
  shows "e \<in> outside_errors lib files"
proof -
  obtain w' where "write_current_status lib files (bc_status_root context) status (pw_world s) = (Inl e, w')"
    using assms(3) by (auto simp: publish_event_def run_defs opP_def split: prod.splits sum.splits if_splits)
  then show ?thesis by (rule write_current_status_error [OF assms(1,2)])
qed

lemma finish_event_error:
  assumes "publishable status" and "0 \<le> rs_source_index status" and "rs_source_index status \<le> rs_source_count status"
    and "finish_event lib files context data status s = (Inl e, s')"
  shows "e \<in> outside_errors lib files"
proof -
  obtain w' where "write_history_entry lib files (bc_history_root context) status (pw_world s) = (Inl e, w')"
    using assms(4) by (auto simp: finish_event_def run_defs opP_def split: prod.splits sum.splits if_splits)
  then show ?thesis by (rule write_history_entry_error [OF assms(1-3)])
qed

section \<open>The events of a run\<close>

definition sink_inv :: "BackupRunStatusContext \<Rightarrow> RunStatusProjection \<Rightarrow> bool" where
  "sink_inv context p \<longleftrightarrow> percent_inv context p
     \<and> (case pj_pending_action_failure p of None \<Rightarrow> True | Some f \<Rightarrow> 0 \<le> pf_source_index f)"

lemma publishable_run_bytes:
  "publishable (status\<lparr> rs_progress := (rs_progress status)\<lparr> pg_run_processed_bytes := b \<rparr> \<rparr>) \<longleftrightarrow> publishable status"
proof -
  let ?status = "status\<lparr> rs_progress := (rs_progress status)\<lparr> pg_run_processed_bytes := b \<rparr> \<rparr>"
  have "validate_run_status ?status = Inr () \<longleftrightarrow> validate_run_status status = Inr ()"
    unfolding validate_run_status_iff by simp
  moreover have "public_activity ?status = public_activity status" "public_eta ?status = public_eta status"
    unfolding public_activity_def public_eta_def by simp_all
  moreover have "document_progress ?status eta = document_progress status eta" for eta
    unfolding document_progress_def Let_def by simp
  ultimately have "make_public_status ?status = make_public_status status" "validate_status ?status = Inr () \<longleftrightarrow> validate_status status = Inr ()"
    unfolding make_public_status_def validate_status_iff by simp_all
  then show ?thesis by (simp only: publishable_def)
qed

lemma account_event_publishable:
  assumes "account_event p1 data status0 = (p, status)"
  shows "publishable status \<longleftrightarrow> publishable status0" and "rs_source_index status = rs_source_index status0"
    and "rs_source_count status = rs_source_count status0"
  using assms unfolding account_event_def Let_def by (auto simp: publishable_run_bytes split: if_splits)

lemma complete_event_index:
  assumes "complete_event p0 d = (p1, data)" and "sink_inv context p0" and "0 \<le> ed_source_index d" and "ed_source_index d \<le> bc_source_count context"
  shows "0 \<le> ed_source_index data" and "ed_source_index data \<le> bc_source_count context" and "sink_inv context p1"
  using assms unfolding complete_event_def Let_def by (auto simp: sink_inv_def percent_inv_def split: if_splits option.splits)

lemma begin_event_inv: "sink_inv context proj \<Longrightarrow> sink_inv context (begin_event proj d)"
  unfolding begin_event_def Let_def by (simp add: sink_inv_def percent_inv_def)

lemma project_event_inv:
  assumes "64 \<le> digits" and "bc_profile_name context \<noteq> []" and "sink_inv context proj"
    and "0 \<le> backup_run_event_source_index e" and "backup_run_event_source_index e \<le> bc_source_count context"
    and "project_event digits now context proj e = Some (p, data, status)"
  shows "publishable status" and "0 \<le> rs_source_index status" and "rs_source_index status \<le> rs_source_count status" and "sink_inv context p"
proof -
  let ?d = "event_projection_data e"
  obtain p1 where c: "complete_event (begin_event proj ?d) ?d = (p1, data)"
    and a: "account_event p1 data (status_for_event digits now context data (pj_last_overall_progress p1)) = (p, status)"
    using assms(6) by (auto simp: project_event_def Let_def split: if_splits prod.splits)
  have i: "0 \<le> ed_source_index data" "ed_source_index data \<le> bc_source_count context" "sink_inv context p1"
    using complete_event_index [OF c begin_event_inv [OF assms(3)]] assms(4,5) by simp_all
  have m: "pj_last_overall_progress p1 \<le> 100" using i(3) by (simp add: sink_inv_def percent_inv_def)
  note a' = account_event_publishable [OF a]
  show "publishable status" using a'(1) built_status_publishable [OF assms(1) i(2) m assms(2)] by simp
  have "rs_source_index status = ed_source_index data" "rs_source_count status = bc_source_count context"
    using a'(2,3) by (simp_all add: status_for_event_def case_prod_unfold Let_def)
  then show "0 \<le> rs_source_index status" "rs_source_index status \<le> rs_source_count status" using i by simp_all
  have "percent_inv context p \<and> pj_pending_action_failure p = pj_pending_action_failure p1"
    using assms(6)
  proof (rule project_event_parts)
    fix q1
    assume q: "complete_event (begin_event proj ?d) ?d = (q1, data)"
      "pg_overall_percent (rs_progress status) = pg_overall_percent (event_progress digits context data (pj_last_overall_progress q1))"
      "pj_pending_action_failure p = pj_pending_action_failure q1"
      "pj_last_overall_progress p = (case pg_overall_percent (rs_progress status) of Some q \<Rightarrow> q | None \<Rightarrow> pj_last_overall_progress q1)"
    then show ?thesis
      using c i(3) event_progress_percent [OF assms(1) i(2) m] by (auto simp: sink_inv_def percent_inv_def split: option.splits)
  qed
  then show "sink_inv context p" using i(3) by (simp add: sink_inv_def)
qed

lemma publish_event_failure:
  "pj_pending_action_failure (projection (snd (publish_event lib files context data status s))) = pj_pending_action_failure (projection s)"
  using publish_event_keeps [of lib files "context" data status] by (simp add: preserves_def percent_state_def)

lemma on_event_inv:
  assumes "project_event digits now context (projection s) e = Some (p, data, status)" and "sink_inv context p"
  shows "sink_inv context (projection (snd (on_backup_run_event digits lib files now context e s)))"
proof -
  let ?s = "s\<lparr> projection := p \<rparr>" and ?s' = "snd (on_backup_run_event digits lib files now context e s)"
  let ?publish = "publish_event lib files context data status" and ?finish = "finish_event lib files context data status"
  have "?s' = snd (?publish ?s) \<or> ?s' = snd (?finish (snd (?publish ?s)))"
    using assms(1) by (auto simp: on_backup_run_event_def bindS_def split: prod.splits sum.splits)
  then have "pj_pending_action_failure (projection ?s') \<in> {None, pj_pending_action_failure p}"
    using publish_event_failure [of lib files "context" data status ?s]
      finish_event_keeps [of lib files "context" data status "snd (?publish ?s)"] by (auto simp: Let_def)
  moreover have "percent_inv context p" using assms(2) by (simp add: sink_inv_def)
  then have "percent_inv context (projection ?s')"
    by (rule on_event_percent [OF assms(1) refl, THEN conjunct1])
  ultimately show ?thesis using assms(2) by (auto simp: sink_inv_def)
qed

lemma on_event_error:
  assumes "faithful_json lib" and "project_event digits now context (projection s) e = Some (p, data, status)" and "publishable status"
    and "0 \<le> rs_source_index status" and "rs_source_index status \<le> rs_source_count status"
    and "on_backup_run_event digits lib files now context e s = (Inl x, s')"
  shows "x \<in> outside_errors lib files"
  using assms(6) publish_event_error [OF assms(1,3)] finish_event_error [OF assms(3-5)] assms(2)
  by (auto simp: on_backup_run_event_def dest!: bindS_eq_Inl)

definition indexed :: "BackupRunStatusContext \<Rightarrow> BackupRunEvent \<Rightarrow> bool" where
  "indexed context e \<longleftrightarrow> 0 \<le> backup_run_event_source_index e \<and> backup_run_event_source_index e \<le> bc_source_count context"

lemma sink_events_errors:
  assumes "faithful_json lib" and "64 \<le> digits" and "bc_profile_name context \<noteq> []"
    and "list_all (\<lambda>(now, e). indexed context e) events" and "sink_inv context (projection s)"
  shows "case sink_events digits lib files context events s of
     (Inr u, s') \<Rightarrow> sink_inv context (projection s') | (Inl x, s') \<Rightarrow> x \<in> outside_errors lib files"
  using assms(4,5)
proof (induction events arbitrary: s)
  case (Cons ev events)
  obtain now e where ev: "ev = (now, e)" by (cases ev)
  have e: "0 \<le> backup_run_event_source_index e" "backup_run_event_source_index e \<le> bc_source_count context"
    and rest: "list_all (\<lambda>(now, e). indexed context e) events" using Cons.prems(1) ev by (simp_all add: indexed_def)
  obtain r s1 where r: "on_backup_run_event digits lib files now context e s = (r, s1)" by fastforce
  have step: "sink_inv context (projection s1) \<and> (\<forall>x. r = Inl x \<longrightarrow> x \<in> outside_errors lib files)"
  proof (cases "project_event digits now context (projection s) e")
    case None
    then show ?thesis using r Cons.prems(2) by (auto simp: on_backup_run_event_def returnS_def)
  next
    case (Some y)
    then obtain p data status where y: "project_event digits now context (projection s) e = Some (p, data, status)" by (cases y) auto
    note inv = project_event_inv [OF assms(2,3) Cons.prems(2) e y]
    show ?thesis
      using on_event_inv [OF y inv(4), of lib files] on_event_error [OF assms(1) y inv(1-3)] r by auto
  qed
  then show ?case
    using Cons.IH [OF rest, of s1] ev r by (cases r) (simp_all add: bindS_def)
qed (simp add: returnS_def)

lemma sink_inv_new: "sink_inv context new_projection"
  by (simp add: sink_inv_def percent_inv_def new_projection_def)

text \<open>
  Property C11: the sink refuses no event of a run. Whatever events it gets, if they name sources of the run
  by their position, the statuses it makes pass all the checks of the writers, for the public document and
  for the history; an exception that leaves the sink is one of the operations on files or of the JSON printer.
\<close>

theorem sink_refuses_nothing:
  assumes "faithful_json lib" and "64 \<le> digits" and "bc_profile_name context \<noteq> []"
    and "list_all (\<lambda>(now, e). indexed context e) events"
  shows "case fst (sink_events digits lib files context events \<lparr> projection = new_projection, pw_world = w \<rparr>) of
     Inr u \<Rightarrow> True | Inl x \<Rightarrow> x \<in> outside_errors lib files"
  using sink_events_errors [OF assms, of "\<lparr> projection = new_projection, pw_world = w \<rparr>" files] sink_inv_new
  by (simp split: prod.splits sum.splits)

lemma no_outside_errors: "outside_errors numbering_json memory_files = {}"
  by (simp add: outside_errors_def numbering_json_def)

lemma no_errors_result: "case r of Inr u \<Rightarrow> True | Inl x \<Rightarrow> x \<in> {} \<Longrightarrow> r = Inr ()" for r :: "exn + unit"
  by (cases r) simp_all

theorem sink_refuses_nothing_witness:
  "fst (sink_events 64 numbering_json memory_files sample_context ((0, RunStarted ''home'' ''run-1'' Backup) # sample_events)
     \<lparr> projection = new_projection, pw_world = Map.empty \<rparr>) = Inr ()"
proof -
  have "list_all (\<lambda>(now, e). indexed sample_context e) ((0, RunStarted ''home'' ''run-1'' Backup) # sample_events)"
    "bc_profile_name sample_context \<noteq> []" by code_simp+
  then show ?thesis
    using sink_refuses_nothing [OF faithful_numbering_json, where files = memory_files] no_errors_result
    unfolding no_outside_errors by blast
qed

section \<open>What a reader finds\<close>


definition sample_progress :: "u64 \<Rightarrow> u64 \<Rightarrow> TransferProgressReport" where
  "sample_progress bytes elapsed = \<lparr> tp_stage = Transferring, tp_bytes_transferred = bytes, tp_bytes_produced = bytes,
     tp_bytes_total_estimated = 1000, tp_run_bytes_transferred = bytes, tp_delta_bytes = 10, tp_elapsed_ms = elapsed, tp_speed_bps = 10,
     tp_message = [] \<rparr>"

definition progress_events :: "(RuntimeTimePoint \<times> BackupRunEvent) list" where
  "progress_events = [(0, RunStarted ''home'' ''run-1'' Backup), (1, TransferProgress ''home'' ''run-1'' ''root'' 1 (sample_progress 100 100))]"

definition last_progress :: BackupRunEvent where
  \<comment> \<open>two points and 300 milliseconds later\<close>
  "last_progress = TransferProgress ''home'' ''run-1'' ''root'' 1 (sample_progress 120 400)"


end
