(* ===== verification/RunEndLaws.thy ===== *)
theory RunEndLaws
  imports StatusSinkLaws
begin

text \<open>
  The end of a run in its history: from the events of the run over the sink, the writer and the files to
  what the reader of the history parses.
\<close>

definition run_key :: "RunStatusProjection \<Rightarrow> RunId option \<times> OperationKind" where
  "run_key p = (pj_run_id p, pj_operation_kind p)"

lemma publish_event_run_key: "run_key (projection (snd (publish_event lib files context data status s))) = run_key (projection s)"
  using preserves_opP [of "\<lambda>p. p" "write_current_status lib files (bc_status_root context) status"]
  by (auto simp: publish_event_def run_defs run_key_def preserves_def split: prod.splits sum.splits) (metis snd_conv)+

lemma finish_event_run_key: "run_key (projection (snd (finish_event lib files context data status s))) = run_key (projection s)"
  using preserves_opP [of "\<lambda>p. p" "write_history_entry lib files (bc_history_root context) status"]
  by (auto simp: finish_event_def run_defs run_key_def preserves_def split: prod.splits sum.splits) (metis snd_conv)+

lemma complete_event_run_key:
  assumes "complete_event p0 d = (p1, data)"
  shows "run_key p1 = run_key p0" and "ed_operation_kind data = pj_operation_kind p0" and "ed_error_code data = ed_error_code d"
  using assms unfolding complete_event_def Let_def by (auto simp: run_key_def split: if_splits option.splits)

lemma account_event_status:
  assumes "account_event p1 data status0 = (p, status)"
  shows "\<exists>b. status = status0\<lparr> rs_progress := (rs_progress status0)\<lparr> pg_run_processed_bytes := b \<rparr> \<rparr>" and "run_key p = run_key p1"
proof -
  have "status0 = status0\<lparr> rs_progress := (rs_progress status0)\<lparr> pg_run_processed_bytes := pg_run_processed_bytes (rs_progress status0) \<rparr> \<rparr>"
    by (cases status0, cases "rs_progress status0") simp
  then have "\<exists>b. status0 = status0\<lparr> rs_progress := (rs_progress status0)\<lparr> pg_run_processed_bytes := b \<rparr> \<rparr>" by (rule exI)
  then show "\<exists>b. status = status0\<lparr> rs_progress := (rs_progress status0)\<lparr> pg_run_processed_bytes := b \<rparr> \<rparr>"
    using assms unfolding account_event_def Let_def by (auto split: if_splits)
  show "run_key p = run_key p1" using assms by (auto simp: account_event_def run_key_def Let_def)
qed

definition backup_event :: "ProfileId \<Rightarrow> RunId \<Rightarrow> BackupRunEvent \<Rightarrow> bool" where
  \<comment> \<open>an event of a backup run after its start\<close>
  "backup_event profile run e \<longleftrightarrow> of_run profile run e \<and> backup_run_event_kind e \<noteq> RunStartedKind
     \<and> backup_run_event_kind e \<noteq> TargetValidationCompletedKind"

lemma project_event_run_key:
  assumes "project_event digits now context proj e = Some (p, data, status)"
    and "backup_event profile run e \<and> run_key proj = (Some run, Backup) \<or> e = RunStarted profile run Backup"
  shows "run_key p = (Some run, Backup)" and "ed_operation_kind data = Backup" and "ed_error_code data = ed_error_code (event_projection_data e)"
    and "\<exists>m b. status = (let st = status_for_event digits now context data m in st\<lparr> rs_progress := (rs_progress st)\<lparr> pg_run_processed_bytes := b \<rparr> \<rparr>)"
proof -
  let ?d = "event_projection_data e"
  obtain p1 where c: "complete_event (begin_event proj ?d) ?d = (p1, data)"
    and a: "account_event p1 data (status_for_event digits now context data (pj_last_overall_progress p1)) = (p, status)"
    using assms(1) by (auto simp: project_event_def Let_def split: if_splits prod.splits)
  have "run_key (begin_event proj ?d) = (Some run, Backup)"
    using assms(2) by (auto simp: begin_event_def run_key_def backup_event_def of_run_def Let_def)
  moreover note complete_event_run_key [OF c] account_event_status(2) [OF a]
  ultimately show "run_key p = (Some run, Backup)" "ed_operation_kind data = Backup" "ed_error_code data = ed_error_code ?d"
    by (simp_all add: run_key_def)
  show "\<exists>m b. status = (let st = status_for_event digits now context data m in st\<lparr> rs_progress := (rs_progress st)\<lparr> pg_run_processed_bytes := b \<rparr> \<rparr>)"
    using account_event_status(1) [OF a] unfolding Let_def by blast
qed

lemma on_event_run_key:
  assumes "backup_event profile run e \<and> run_key (projection s) = (Some run, Backup) \<or> e = RunStarted profile run Backup"
  shows "run_key (projection (snd (on_backup_run_event digits lib files now context e s))) = (Some run, Backup)"
proof (cases "project_event digits now context (projection s) e")
  case None
  then have "e \<noteq> RunStarted profile run Backup" by (auto simp: project_event_def should_write_status_def Let_def split: prod.splits)
  then show ?thesis using assms None by (simp add: on_backup_run_event_def returnS_def)
next
  case (Some r)
  then obtain p data status where r: "project_event digits now context (projection s) e = Some (p, data, status)" by (cases r) auto
  let ?s = "s\<lparr> projection := p \<rparr>" and ?s' = "snd (on_backup_run_event digits lib files now context e s)"
  let ?publish = "publish_event lib files context data status" and ?finish = "finish_event lib files context data status"
  have "?s' = snd (?publish ?s) \<or> ?s' = snd (?finish (snd (?publish ?s)))"
    using r by (auto simp: on_backup_run_event_def bindS_def split: prod.splits sum.splits)
  then have "run_key (projection ?s') = run_key p"
    using publish_event_run_key [of lib files "context" data status ?s]
      finish_event_run_key [of lib files "context" data status "snd (?publish ?s)"] by auto
  then show ?thesis using project_event_run_key(1) [OF r assms] by simp
qed

fun end_of_run :: "BackupRunEvent \<Rightarrow> (string \<times> int \<times> string) option" where
  \<comment> \<open>state, exit code and error code that belong to the last event of a run\<close>
  "end_of_run (RunCompleted p r) = Some (''succeeded'', 0, [])"
| "end_of_run (RunFailed p r c m k) = Some (''failed'', 1, error_code_name c)"
| "end_of_run (RunCancelled p r s i a c m k) = Some (''cancelled'', 130, error_code_name RunnerCancelled)"
| "end_of_run _ = None"

lemma end_of_run_kind:
  assumes "end_of_run e = Some z"
  shows "backup_run_event_kind e \<in> {RunCompletedKind, RunFailedKind, RunCancelledKind}"
  using assms by (cases e) simp_all

lemma end_status:
  assumes "end_of_run e = Some (state, code, error)" and "ed_kind data = backup_run_event_kind e"
    and "ed_error_code data = ed_error_code (event_projection_data e)" and "st = status_for_event digits now context data m"
  shows "run_state_name (rs_state st) = state" and "rs_exit_code st = code"
    and "(case rs_error st of None \<Rightarrow> [] | Some x \<Rightarrow> error_code_name (er_code x)) = error" and "plain_details (rs_details st)"
    and "i32_ok (rs_exit_code st)"
proof -
  show "run_state_name (rs_state st) = state" "rs_exit_code st = code" "i32_ok (rs_exit_code st)"
    using assms by (cases e; simp add: status_for_event_def event_outcome_def i32_ok_def)+
  show "(case rs_error st of None \<Rightarrow> [] | Some x \<Rightarrow> error_code_name (er_code x)) = error"
    using assms by (cases e) (auto simp: status_for_event_def event_error_def event_projection_data_def case_prod_unfold Let_def)
  have "plain_details (action_details data)"
    by (simp add: action_details_def plain_details_def plain_detail_def)
  then show "plain_details (rs_details st)"
    using assms by (cases e) (simp_all add: status_for_event_def event_details_def plain_details_def case_prod_unfold Let_def)
qed

lemma sink_events_snoc:
  assumes "sink_events digits lib files context (events @ [(now, e)]) s = (Inr u, s')"
  shows "\<exists>s1. sink_events digits lib files context events s = (Inr (), s1) \<and> on_backup_run_event digits lib files now context e s1 = (Inr (), s')"
  using assms
proof (induction events arbitrary: s)
  case Nil
  then show ?case by (auto simp: run_defs split: prod.splits sum.splits)
next
  case (Cons ev events)
  obtain now0 e0 where ev: "ev = (now0, e0)" by (cases ev)
  obtain s0 where s0: "on_backup_run_event digits lib files now0 context e0 s = (Inr (), s0)"
    "sink_events digits lib files context (events @ [(now, e)]) s0 = (Inr u, s')"
    using Cons.prems ev by (auto simp: bindS_def split: prod.splits sum.splits)
  show ?case using Cons.IH [OF s0(2)] s0(1) ev by (simp add: bindS_def)
qed

lemma sink_events_run_key:
  assumes "list_all (\<lambda>(now, e). backup_event profile run e) events" and "run_key (projection s) = (Some run, Backup)"
    and "sink_events digits lib files context events s = (Inr u, s')"
  shows "run_key (projection s') = (Some run, Backup)"
  using assms
proof (induction events arbitrary: s)
  case (Cons ev events)
  obtain now0 e0 where ev: "ev = (now0, e0)" by (cases ev)
  obtain s0 where s0: "on_backup_run_event digits lib files now0 context e0 s = (Inr (), s0)"
    "sink_events digits lib files context events s0 = (Inr u, s')"
    using Cons.prems(3) ev by (auto simp: bindS_def split: prod.splits sum.splits)
  have "run_key (projection s0) = (Some run, Backup)"
    using on_event_run_key [of profile run e0 s digits lib files now0 "context"] Cons.prems(1,2) ev s0(1) by simp
  then show ?case using Cons.IH [OF _ _ s0(2)] Cons.prems(1) ev by simp
qed (simp add: returnS_def)

lemma end_event_recorded:
  assumes "faithful_files files" and "faithful_json lib" and "64 \<le> digits" and "bc_profile_name context \<noteq> []"
    and "identifier_re profile" and "run_id_re run" and "bc_source_count context < 2 ^ 31"
    and "backup_event profile run e" and "indexed context e" and "end_of_run e = Some (state, code, error)"
    and "sink_inv context (projection s)" and "run_key (projection s) = (Some run, Backup)"
    and "on_backup_run_event digits lib files now context e s = (Inr (), s')"
  shows "\<exists>t h. file_at files (path_append (path_append (bc_history_root context) profile) ''last.json'') (pw_world s') = Some t
     \<and> parse_private lib t = Inr h \<and> ph_run_id h = run \<and> ev_value (ph_state h) = state \<and> ph_exit_code h = code \<and> ph_error_code h = error"
proof -
  have kind: "backup_run_event_kind e \<in> {RunCompletedKind, RunFailedKind, RunCancelledKind}" by (rule end_of_run_kind [OF assms(10)])
  then have "should_write_status (backup_run_event_kind e)" by (auto simp: should_write_status_def)
  then obtain p data status where r: "project_event digits now context (projection s) e = Some (p, data, status)"
    using project_event_shown by blast
  have "backup_event profile run e \<and> run_key (projection s) = (Some run, Backup) \<or> e = RunStarted profile run Backup"
    using assms(8,12) by blast
  note k = project_event_run_key [OF r this] and st = project_event_status [OF r]
  obtain m b st0 where st0: "st0 = status_for_event digits now context data m"
    "status = st0\<lparr> rs_progress := (rs_progress st0)\<lparr> pg_run_processed_bytes := b \<rparr> \<rparr>"
    using k(4) unfolding Let_def by blast
  note ends = end_status [OF assms(10) st(4) k(3) st0(1)]
  have ids: "rs_profile_id status = profile" "rs_run_id status = run"
    using st(1,2) assms(8) by (simp_all add: backup_event_def of_run_def)
  have idx: "0 \<le> backup_run_event_source_index e" "backup_run_event_source_index e \<le> bc_source_count context"
    using assms(9) by (simp_all add: indexed_def)
  note inv = project_event_inv [OF assms(3,4,11) idx r]
  have "rs_source_count status = bc_source_count context"
    using st0 by (simp add: status_for_event_def case_prod_unfold Let_def)
  then have index: "i32_ok (rs_source_index status)" "i32_ok (rs_source_count status)"
    using inv(2,3) assms(7) by (simp_all add: i32_ok_def)
  obtain q where q: "make_public_status status = Inr q" "validate_public_semantics q = Inr ()"
    using inv(1) by (auto simp: publishable_def)
  have "percent_ok (pg_source_percent (rs_progress status))" "percent_ok (pg_overall_percent (rs_progress status))"
    using validate_public_percent [OF q(2)] q(1) by (auto simp: make_public_status_def bindE_eq_Inr_iff document_progress_def Let_def)
  then have plain: "plain_status status"
    using ids assms(5,6) st(3) index ends(4,5) st0(2) by (simp add: plain_status_def)
  obtain w1 w' where "write_history_entry lib files (bc_history_root context) status w1 = (Inr (), w')" "pw_world s' = w'"
    using assms(13) r kind st(4) k(2)
    by (auto simp: on_backup_run_event_def finish_event_def run_defs opP_def should_write_history_def split: prod.splits sum.splits if_splits)
  then obtain t where t: "dump_status_json lib status = Inr t"
    "file_at files (path_append (path_append (bc_history_root context) profile) ''last.json'') (pw_world s') = Some t"
    using write_history_entry_files(1) [OF assms(1)] ids by blast
  obtain h where h: "make_private_history status = Inr h" "parse_private lib t = Inr h"
    using history_read_back [OF assms(2) t(1) plain] by blast
  have "ph_run_id h = run" "ev_value (ph_state h) = state" "ph_exit_code h = code" "ph_error_code h = error"
    using h(1) ids ends(1-3) st0(2) by (auto simp: make_private_history_def bindE_eq_Inr_iff extensible_def Let_def)
  then show ?thesis using t(2) h(2) by blast
qed

text \<open>
  Property C9: the history tells how a run ended. The sink gets the start of a backup run, any events of that
  run and then its last event, and returns. Whatever was on disk before, the reader of the last history entry
  parses a history of this run with the state, the exit code and the error code that belong to the last event.
\<close>

theorem run_end_recorded:
  assumes "faithful_files files" and "faithful_json lib" and "64 \<le> digits" and "bc_profile_name context \<noteq> []"
    and "identifier_re profile" and "run_id_re run" and "0 \<le> bc_source_count context" and "bc_source_count context < 2 ^ 31"
    and "list_all (\<lambda>(now, e). backup_event profile run e \<and> indexed context e) (events @ [(now, e)])"
    and "end_of_run e = Some (state, code, error)"
    and "sink_events digits lib files context ((now0, RunStarted profile run Backup) # events @ [(now, e)])
           \<lparr> projection = new_projection, pw_world = w \<rparr> = (Inr (), s')"
  shows "\<exists>t h. file_at files (path_append (path_append (bc_history_root context) profile) ''last.json'') (pw_world s') = Some t
     \<and> parse_private lib t = Inr h \<and> ph_run_id h = run \<and> ev_value (ph_state h) = state \<and> ph_exit_code h = code \<and> ph_error_code h = error"
proof -
  let ?s = "\<lparr> projection = new_projection, pw_world = w \<rparr>" and ?start = "(now0, RunStarted profile run Backup)"
  obtain s1 where s1: "sink_events digits lib files context (?start # events) ?s = (Inr (), s1)"
    and s': "on_backup_run_event digits lib files now context e s1 = (Inr (), s')"
    using sink_events_snoc [of digits lib files "context" "?start # events" now e ?s] assms(11) by auto
  have events: "list_all (\<lambda>(now, e). backup_event profile run e) events" "list_all (\<lambda>(now, e). indexed context e) events"
    "backup_event profile run e" "indexed context e"
    using assms(9) by (auto simp: list_all_iff)
  have "indexed context (RunStarted profile run Backup)" using assms(7) by (simp add: indexed_def)
  then have "sink_inv context (projection s1)"
    using sink_events_errors [OF assms(2-4), of "?start # events" ?s files] events(2) sink_inv_new s1 by simp
  moreover obtain s0 where s0: "on_backup_run_event digits lib files now0 context (RunStarted profile run Backup) ?s = (Inr (), s0)"
    "sink_events digits lib files context events s0 = (Inr (), s1)"
    using s1 by (auto simp: bindS_def split: prod.splits sum.splits)
  then have "run_key (projection s0) = (Some run, Backup)"
    using on_event_run_key [of profile run "RunStarted profile run Backup" ?s digits lib files now0 "context"] by simp
  then have "run_key (projection s1) = (Some run, Backup)" by (rule sink_events_run_key [OF events(1) _ s0(2)])
  ultimately show ?thesis
    by (rule end_event_recorded [OF assms(1-6,8) events(3,4) assms(10) _ _ s'])
qed

definition failing_events :: "(RuntimeTimePoint \<times> BackupRunEvent) list" where
  "failing_events = [(1, SourceStarted ''home'' ''run-1'' ''root'' 1), (2, ActionStarted ''home'' ''run-1'' ''root'' 1 SendReceive),
     (3, ActionFailed ''home'' ''run-1'' ''root'' 1 SendReceive (Some TransferFailed) ''receive failed'')]"

definition failing_end :: BackupRunEvent where
  "failing_end = RunFailed ''home'' ''run-1'' TransferFailed ''receive failed'' Backup"

theorem run_end_recorded_witness:
  "\<exists>s' t h. sink_events 64 numbering_json memory_files sample_context ((0, RunStarted ''home'' ''run-1'' Backup) # failing_events @ [(4, failing_end)])
       \<lparr> projection = new_projection, pw_world = Map.empty \<rparr> = (Inr (), s')
     \<and> pw_world s' ''/var/history/home/last.json'' = Some t \<and> parse_private numbering_json t = Inr h \<and> ph_run_id h = ''run-1''
     \<and> ev_value (ph_state h) = ''failed'' \<and> ph_exit_code h = 1 \<and> ph_error_code h = error_code_name TransferFailed"
proof -
  let ?s = "\<lparr> projection = new_projection, pw_world = Map.empty \<rparr>"
  let ?events = "(0, RunStarted ''home'' ''run-1'' Backup) # failing_events @ [(4, failing_end)]"
  have facts: "list_all (\<lambda>(now, e). indexed sample_context e) ?events" "bc_profile_name sample_context \<noteq> []"
    "identifier_re ''home''" "run_id_re ''run-1''" "0 \<le> bc_source_count sample_context" "bc_source_count sample_context < 2 ^ 31"
    "list_all (\<lambda>(now, e). backup_event ''home'' ''run-1'' e \<and> indexed sample_context e) (failing_events @ [(4, failing_end)])"
    "end_of_run failing_end = Some (''failed'', 1, error_code_name TransferFailed)"
    "path_append (path_append (bc_history_root sample_context) ''home'') ''last.json'' = ''/var/history/home/last.json''"
    by code_simp+
  have "case sink_events 64 numbering_json memory_files sample_context ?events ?s of
     (Inr u, s') \<Rightarrow> sink_inv sample_context (projection s') | (Inl x, s') \<Rightarrow> x \<in> outside_errors numbering_json memory_files"
    by (rule sink_events_errors [OF faithful_numbering_json _ facts(2,1)]) (simp_all add: sink_inv_new)
  then obtain s' where s': "sink_events 64 numbering_json memory_files sample_context ?events ?s = (Inr (), s')"
    unfolding no_outside_errors by (auto split: prod.splits sum.splits)
  then show ?thesis
    using run_end_recorded [OF faithful_memory_files faithful_numbering_json _ facts(2-8) s'] facts(9) by auto
qed

end
