(* ===== verification/Spec2Isabelle.thy ===== *)
theory Spec2Isabelle
  imports ServiceEvents Provisioning RestoreLaws RestorePlanLaws CancellationProtocol RunEndLaws
begin

text \<open>
  A verification library of btrfs-backup, the backup program whose sources are under src/src.

  \<^bold>\<open>The program.\<close> A profile names subvolumes (sources) and an encrypted target. A run of the backup service
  prepares and mounts the target, discovers the snapshots on both sides and the markers of interrupted
  runs, plans the actions of every source, and executes them: recovery, a read-only snapshot, its
  transfer (incremental if a common parent exists), verification, commit, and retention on both sides.
  It reports events, from which the state component makes the status and history documents; other
  processes read these and cancel a run through files. Provisioning prepares devices as targets,
  and restore copies trees out of the snapshots of a repository.

  \<^bold>\<open>Conventions.\<close> Theory Prelude has the two result types: a call that may throw is an \<open>exn + 'a\<close>, and a step
  with side effects is a function from a state to a result and a state, which an exception does not undo.
  Everything behind an interface of the code (file systems, processes, clocks, D-Bus peers) is a record of functions over
  an arbitrary world. What a theorem needs of it is a named predicate: \<open>restore_contract\<close> for the moves
  and removals of trees, \<open>faithful_files\<close> for documents, \<open>faithful_json\<close> for the JSON library. Each has an instance
  in the development, on which the witnesses are evaluated. Machine integers keep their width
  (byte counters, sectors and usage as 64-bit words) or have their range checked as in the code.

  \<^bold>\<open>Theories and sources.\<close>
  \<^item> Foundations: Core and RuntimeTime model core/; FsPath and PathLaws model \<open>std::filesystem::path\<close> and
    config/domain/Validation; ConfigDomain the other types of config/domain.
  \<^item> Planning: SnapshotInventory, Retention, IncrementalParent, PendingRecovery and RunPlan model the files of
    backup/model with these names (RunPlan also planning/BackupPlanBuilder); Discovery models
    planning/BackupDiscovery; Mounts models the mount table and the preflight validation.
  \<^item> Execution: RunEvents, TransferModel and RunState hold the events, the transfer data and the trace of
    interface calls; ActionHandlers models execution/actions and transfer/TransferCoordinator, RunExecutor
    the executor of a plan; TargetStorage the use of the target; RunContext and BackupServiceModel the resources of
    a run and BackupService.
  \<^item> Provisioning: StorageTopology and Provisioning model provisioning/.
  \<^item> Restore: RestoreCatalog and RestoreEngine model restore/ but for repository discovery.
  \<^item> State: StateFiles models query/RunState and the marker store; CancellationProtocol the registration of
    runs and their cancellation in FileRunStateRepository; RunStatusModel, StatusBuilder, StatusDocuments and
    StatusProjection model the status, its builder, its documents and the sink of events. JsonValue has the
    JSON values the documents are made of.

  \<^bold>\<open>What is shown.\<close>
  \<^item> Plans: parent selection, retention and recovery are characterized on every input; planned names are fresh
    and parse back; planned paths stay inside their directories; retention and recovery spare the new snapshot and
    the parent (RunPlanLaws, Discovery and the theories of the model).
  \<^item> Execution: the locale \<open>action_executor\<close> is the contract the executor of a plan relies on; its client lemmas
    give that a run follows the script of its plan, in order, with the right count. RunExecutorLaws interprets it
    with the executor of the model; ActionLaws shows what each handler may call and in which order.
  \<^item> Service: success is recorded only for a completed run, one terminal event belongs to every
    result, and all resources are released on every way out (ServiceLaws, ServiceEvents).
  \<^item> Provisioning: the inspection is equivalent to its specification; it spares mounted and
    configured partitions; a planned layout tiles the free region without wrap-around.
  \<^item> Restore: all or nothing over the contract of the tree operations, by weakest preconditions (RestoreLaws);
    planned working trees lie beside the destination (RestorePlanLaws).
  \<^item> State: documents and markers are read back as written (StateFileLaws, StatusDocumentLaws); the sink
    refuses no event, keeps the published status close to the run, shows ascending percentages and
    records the end of a run in its history (StatusProjectionLaws, StatusSinkLaws, RunEndLaws). Cancellation
    is a step relation over all interleavings of runs and cancellers (CancellationProtocol): nobody is cancelled
    unasked, an accepted request arrives if cancellers are not delayed over a change of runs, and a
    counterexample shows it can be lost otherwise.

  The locale \<open>strict_weak_order\<close> is the requirement of \<open>std::sort\<close> on its comparison; it is interpreted for every
  comparison the code sorts with.

  \<^bold>\<open>Bounds and termination.\<close> No function of the model has fuel. Loops over containers are recursions over lists,
  the reader of lines and the digits of a number recurse on a shrinking text or number with a proved measure, and the search for a free
  snapshot name has the 100 tries of the code. The percentages are computed in \<open>long double\<close>; the number of bits of its
  significand is an argument, and 64 bits are enough for the bounds that are proved, since a byte
  counter fits.

  \<^bold>\<open>Not modelled.\<close> platform/linux implements the interfaces by system calls, ioctls and external
  programs, and daemon and cli adapt D-Bus and the command line to the services: the model has the
  interfaces they stand behind, and no definition could say more than what the kernel or a program answers. The
  threads of the transfer pipeline and of the cancellation watch are represented by their outcome and
  by their polls. Local time reads the time zone database. The JSON documents of profiles, checkpoints, measurements and
  repositories, and the queries over the history directory, are left out; they use the same codec
  technique as the status documents.
\<close>

end
